(* ===== verification/Prelude.thy ===== *)
theory Prelude
  imports Complex_Main "HOL-Library.Word"
begin

text \<open>
  Shared vocabulary of the development: what a Go function hands back (a value, an error, a
  panic, or the end of the process), nil-able values, slice indexing with Go's bounds check, and
  the list lemmas the components share.  The collection \<open>go_defs\<close> gathers the unfolding facts
  of the small helpers, so that a component proof can say \<open>simp add: go_defs\<close>.
\<close>

named_theorems go_defs

section \<open>Errors and outcomes\<close>

text \<open>
  Go errors: a message built by \<open>fmt.Errorf\<close>, a message wrapping another error
  (\<open>fmt.Errorf("...: %v", err)\<close>), gorm's \<open>ErrRecordNotFound\<close> sentinel, or an error
  produced by code outside the repository.
\<close>

datatype error =
    Errorf string
  | Wrapf string error
  | ErrRecordNotFound
  | External string

text \<open>
  \<open>Ok v\<close> is a return with a nil error, \<open>Err e\<close> a return with a non-nil error, \<open>Panic m\<close> a run
  time panic, \<open>Exit e\<close> the end of the process through \<open>setup.Exitf\<close>.
\<close>

datatype 'a res = Ok 'a | Err error | Panic string | Exit error

fun andThen :: "'a res \<Rightarrow> ('a \<Rightarrow> 'b res) \<Rightarrow> 'b res" where
  "andThen (Ok v) f = f v"
| "andThen (Err e) f = Err e"
| "andThen (Panic m) f = Panic m"
| "andThen (Exit e) f = Exit e"

text \<open>Replace the error of a returned error, as \<open>if err != nil { return ... }\<close> does.\<close>

fun mapErr :: "(error \<Rightarrow> 'a res) \<Rightarrow> 'a res \<Rightarrow> 'a res" where
  "mapErr h (Err e) = h e"
| "mapErr h (Ok v) = Ok v"
| "mapErr h (Panic m) = Panic m"
| "mapErr h (Exit e) = Exit e"

fun is_ok :: "'a res \<Rightarrow> bool" where
  "is_ok (Ok _) = True"
| "is_ok _ = False"

fun is_panic :: "'a res \<Rightarrow> bool" where
  "is_panic (Panic _) = True"
| "is_panic _ = False"

lemma andThen_eq_Ok [simp]: "andThen m f = Ok v \<longleftrightarrow> (\<exists>u. m = Ok u \<and> f u = Ok v)"
  by (cases m) auto

lemma andThen_eq_Err: "andThen m f = Err e \<longleftrightarrow> m = Err e \<or> (\<exists>u. m = Ok u \<and> f u = Err e)"
  by (cases m) auto

lemma andThen_assoc: "andThen (andThen m f) g = andThen m (\<lambda>v. andThen (f v) g)"
  by (cases m) auto

lemma andThen_Ok_right [simp]: "andThen m Ok = m"
  by (cases m) auto

lemma mapErr_eq_Ok: "mapErr (\<lambda>e. Err (h e)) m = Ok v \<longleftrightarrow> m = Ok v"
  by (cases m) auto

lemma mapErr_Exit_eq_Ok: "mapErr (\<lambda>e. Exit (h e)) m = Ok v \<longleftrightarrow> m = Ok v"
  by (cases m) auto

lemma is_ok_iff: "is_ok m \<longleftrightarrow> (\<exists>v. m = Ok v)"
  by (cases m) auto

lemma is_panic_andThen:
  "is_panic (andThen m f) \<longleftrightarrow> is_panic m \<or> (\<exists>u. m = Ok u \<and> is_panic (f u))"
  by (cases m) auto

lemma is_panic_mapErr [simp]: "is_panic (mapErr (\<lambda>e. Err (h e)) m) = is_panic m"
  by (cases m) auto

section \<open>Slices\<close>

text \<open>Indexing a slice: Go panics when the index is not below the length.\<close>

definition idx :: "'a list \<Rightarrow> nat \<Rightarrow> 'a res" where
  "idx xs i = (if i < length xs then Ok (xs ! i) else Panic ''index out of range'')"

lemma idx_Ok [simp]: "i < length xs \<Longrightarrow> idx xs i = Ok (xs ! i)"
  by (simp add: idx_def)

lemma idx_Cons_0 [simp]: "idx (x # xs) 0 = Ok x"
  by (simp add: idx_def)

lemma idx_Cons_Suc [simp]: "idx (x # xs) (Suc i) = idx xs i"
  by (simp add: idx_def)

lemma idx_Nil [simp]: "idx [] i = Panic ''index out of range''"
  by (simp add: idx_def)

lemma idx_eq_Ok: "idx xs i = Ok v \<longleftrightarrow> i < length xs \<and> xs ! i = v"
  by (auto simp: idx_def)

text \<open>A loop that may stop at its first failure, threading a state.\<close>

fun foldRes :: "('a \<Rightarrow> 's \<Rightarrow> 's res) \<Rightarrow> 'a list \<Rightarrow> 's \<Rightarrow> 's res" where
  "foldRes f [] s = Ok s"
| "foldRes f (x # xs) s = andThen (f x s) (foldRes f xs)"

lemma foldRes_Nil_fun [simp]: "foldRes f [] = Ok"
  by (simp add: fun_eq_iff)

lemma foldRes_append: "foldRes f (xs @ ys) s = andThen (foldRes f xs s) (foldRes f ys)"
proof (induction xs arbitrary: s)
  case (Cons x xs)
  then have "foldRes f (xs @ ys) = (\<lambda>t. andThen (foldRes f xs t) (foldRes f ys))"
    by (simp add: fun_eq_iff)
  then show ?case by (simp add: andThen_assoc)
qed simp

lemma foldRes_invariant:
  assumes "foldRes f xs s = Ok s'" and "I s"
    and "\<And>x s s'. x \<in> set xs \<Longrightarrow> I s \<Longrightarrow> f x s = Ok s' \<Longrightarrow> I s'"
  shows "I s'"
  using assms
proof (induction xs arbitrary: s)
  case Nil
  then show ?case by simp
next
  case (Cons x xs)
  then obtain t where t: "f x s = Ok t" "foldRes f xs t = Ok s'" by auto
  with Cons.prems have "I t" by (meson list.set_intros(1))
  with t(2) show ?case using Cons.IH Cons.prems(3) by (meson list.set_intros(2))
qed

text \<open>A loop that builds a list and may stop at its first failure.\<close>

fun mapRes :: "('a \<Rightarrow> 'b res) \<Rightarrow> 'a list \<Rightarrow> 'b list res" where
  "mapRes f [] = Ok []"
| "mapRes f (x # xs) = andThen (f x) (\<lambda>y. andThen (mapRes f xs) (\<lambda>ys. Ok (y # ys)))"

lemma mapRes_Ok_map: "(\<And>x. x \<in> set xs \<Longrightarrow> f x = Ok (g x)) \<Longrightarrow> mapRes f xs = Ok (map g xs)"
  by (induction xs) auto

lemma mapRes_Ok_length: "mapRes f xs = Ok ys \<Longrightarrow> length ys = length xs"
  by (induction xs arbitrary: ys) auto

lemma mapRes_Ok_all: "mapRes f xs = Ok ys \<Longrightarrow> x \<in> set xs \<Longrightarrow> \<exists>y. f x = Ok y"
  by (induction xs arbitrary: ys) auto

lemma mapRes_append:
  "mapRes f (xs @ ys) = andThen (mapRes f xs) (\<lambda>us. andThen (mapRes f ys) (\<lambda>vs. Ok (us @ vs)))"
  by (induction xs) (simp_all add: andThen_assoc)

section \<open>List lemmas\<close>

text \<open>A window of a sorted list splits at any point inside it.\<close>

lemma filter_window_split:
  fixes f :: "'a \<Rightarrow> 'k::linorder"
  assumes "sorted (map f xs)" "a \<le> b" "b \<le> c"
  shows "filter (\<lambda>x. a < f x \<and> f x \<le> c \<and> P x) xs =
    filter (\<lambda>x. a < f x \<and> f x \<le> b \<and> P x) xs @ filter (\<lambda>x. b < f x \<and> f x \<le> c \<and> P x) xs"
  using assms(1)
proof (induction xs)
  case (Cons x xs)
  show ?case
  proof (cases "f x \<le> b")
    case True
    with Cons assms show ?thesis by auto
  next
    case False
    then have "filter (\<lambda>y. a < f y \<and> f y \<le> b \<and> P y) xs = []"
      using Cons.prems by (auto simp: filter_empty_conv)
    with False Cons assms show ?thesis by auto
  qed
qed simp

lemma filter_window_last:
  fixes f :: "'a \<Rightarrow> 'k::linorder"
  assumes "sorted (map f xs)" "filter (\<lambda>x. a < f x \<and> f x \<le> c \<and> P x) xs = ys" "ys \<noteq> []"
  shows "filter (\<lambda>x. a < f x \<and> f x \<le> f (last ys) \<and> P x) xs = ys"
proof -
  have srt: "sorted (map f ys)" using sorted_filter [OF assms(1)] assms(2) by auto
  have "f y \<le> f (last ys)" if "y \<in> set ys" for y
  proof -
    obtain zs where "ys = zs @ [last ys]" using assms(3) append_butlast_last_id by metis
    then have "sorted (map f zs @ [f (last ys)])" "y \<in> set zs \<or> y = last ys"
      using srt that by (metis list.simps(8,9) map_append, metis Un_iff set_append set_ConsD
        empty_iff empty_set)
    then show ?thesis by (auto simp: sorted_append)
  qed
  moreover have "last ys \<in> set ys" using assms(3) by simp
  then have "f (last ys) \<le> c" unfolding assms(2) [symmetric] by simp
  ultimately have "a < f x \<and> f x \<le> f (last ys) \<and> P x \<longleftrightarrow> a < f x \<and> f x \<le> c \<and> P x"
    if "x \<in> set xs" for x
    using that assms(2) by fastforce
  then have "filter (\<lambda>x. a < f x \<and> f x \<le> f (last ys) \<and> P x) xs =
      filter (\<lambda>x. a < f x \<and> f x \<le> c \<and> P x) xs"
    by (rule filter_cong [OF refl])
  then show ?thesis unfolding assms(2) .
qed

lemma last_in_set_conv: "xs \<noteq> [] \<Longrightarrow> xs ! (length xs - 1) \<in> set xs"
  by simp

lemma map_eq_concat_map: "concat (map (\<lambda>x. [f x]) xs) = map f xs"
  by (induction xs) auto

text \<open>Replacing one element of a list changes a sum over the list by the difference.\<close>

lemma sum_list_replace:
  fixes f :: "'a \<Rightarrow> 'b::comm_monoid_add"
  assumes "i < length xs"
  shows "sum_list (map f (xs[i := y])) + f (xs ! i) = sum_list (map f xs) + f y"
proof -
  have "sum_list (map f (xs[i := y])) =
      sum_list (map f (take i xs)) + (f y + sum_list (map f (drop (Suc i) xs)))"
    using assms by (simp add: upd_conv_take_nth_drop)
  moreover have "sum_list (map f xs) =
      sum_list (map f (take i xs)) + (f (xs ! i) + sum_list (map f (drop (Suc i) xs)))"
    by (subst id_take_nth_drop [OF assms]) simp
  ultimately show ?thesis by (simp add: ac_simps)
qed

section \<open>Transition systems\<close>

text \<open>The states a step relation reaches from its initial states, and the interface through which
  a component shows that a predicate holds in all of them.\<close>

inductive reach :: "('s \<Rightarrow> bool) \<Rightarrow> ('s \<Rightarrow> 's \<Rightarrow> bool) \<Rightarrow> 's \<Rightarrow> bool" for init step where
  reach_init: "init s \<Longrightarrow> reach init step s"
| reach_step: "reach init step s \<Longrightarrow> step s t \<Longrightarrow> reach init step t"

locale invariant_system =
  fixes init :: "'s \<Rightarrow> bool" and step :: "'s \<Rightarrow> 's \<Rightarrow> bool" and inv :: "'s \<Rightarrow> bool"
  assumes init_inv: "init s \<Longrightarrow> inv s"
    and step_inv: "inv s \<Longrightarrow> step s t \<Longrightarrow> inv t"
begin

lemma reach_inv: "reach init step s \<Longrightarrow> inv s"
  by (induction rule: reach.induct) (auto intro: init_inv step_inv)

lemma steps_inv: "step\<^sup>*\<^sup>* s t \<Longrightarrow> inv s \<Longrightarrow> inv t"
  by (induction rule: rtranclp_induct) (auto intro: step_inv)

end

end
