(* ===== verification/GoText.thy ===== *)
theory GoText
  imports Prelude
begin

text \<open>
  What the repository uses of Go's \<open>strings\<close>, \<open>strconv\<close>, \<open>encoding/hex\<close> and of the text
  conversions of \<open>math/big\<close>.  Strings are byte strings (\<open>char list\<close>); \<open>strings.ToLower\<close> is its
  ASCII part, which is all that hexadecimal addresses, hashes and data ever hold.  Two interfaces are stated as locales: \<open>normaliser\<close>
  (an idempotent canonical form) and \<open>text_codec\<close> (a printer with a parser that inverts it);
  number bases form a locale \<open>radix\<close>, which is a \<open>text_codec\<close> and is interpreted at 10 and 16.
\<close>

type_synonym byte = "8 word"

section \<open>Interfaces\<close>

locale normaliser =
  fixes norm :: "'a \<Rightarrow> 'a"
  assumes norm_idem: "norm (norm x) = norm x"
begin

lemma norm_fixed_iff: "(\<exists>y. x = norm y) \<longleftrightarrow> norm x = x"
  using norm_idem by metis

lemma norm_lookup: "(\<lambda>k. m (norm k)) (norm x) = m (norm x)"
  by (simp add: norm_idem)

end

locale text_codec =
  fixes enc :: "'a \<Rightarrow> string" and dec :: "string \<Rightarrow> 'a option" and ok :: "'a \<Rightarrow> bool"
  assumes dec_enc: "ok x \<Longrightarrow> dec (enc x) = Some x"
begin

lemma enc_inj: "ok x \<Longrightarrow> ok y \<Longrightarrow> enc x = enc y \<Longrightarrow> x = y"
  using dec_enc by (metis option.inject)

end

section \<open>strings\<close>

definition lower_char :: "char \<Rightarrow> char" where
  "lower_char c =
     (let n = (of_char c :: nat) in if 65 \<le> n \<and> n \<le> 90 then char_of (n + 32) else c)"

definition ToLower :: "string \<Rightarrow> string" where
  "ToLower s = map lower_char s"

definition TrimPrefix :: "string \<Rightarrow> string \<Rightarrow> string" where
  "TrimPrefix p s = (if take (length p) s = p then drop (length p) s else s)"

fun Split :: "char \<Rightarrow> string \<Rightarrow> string list" where
  "Split sep [] = [[]]"
| "Split sep (c # cs) =
     (if c = sep then [] # Split sep cs
      else (case Split sep cs of [] \<Rightarrow> [[c]] | w # ws \<Rightarrow> (c # w) # ws))"

fun Join :: "string \<Rightarrow> string list \<Rightarrow> string" where
  "Join sep [] = []"
| "Join sep [w] = w"
| "Join sep (w # v # ws) = w @ sep @ Join sep (v # ws)"

section \<open>Digits\<close>

definition digit_char :: "nat \<Rightarrow> char" where
  "digit_char d = (if d < 10 then char_of (48 + d) else char_of (87 + d))"

definition digit_val :: "char \<Rightarrow> nat option" where
  "digit_val c =
     (let n = (of_char c :: nat) in
      if 48 \<le> n \<and> n \<le> 57 then Some (n - 48)
      else if 97 \<le> n \<and> n \<le> 122 then Some (n - 87)
      else if 65 \<le> n \<and> n \<le> 90 then Some (n - 55)
      else None)"

text \<open>The digits of a natural number, most significant first (\<open>nat.itoa\<close>).\<close>

fun nat_text :: "nat \<Rightarrow> nat \<Rightarrow> string" where
  "nat_text b n =
     (if b < 2 \<or> n < b then [digit_char n] else nat_text b (n div b) @ [digit_char (n mod b)])"

declare nat_text.simps [simp del]

text \<open>\<open>big.Int.Text(base)\<close> and, for base 10, \<open>strconv.Itoa\<close>; \<open>%x\<close> of an int is base 16.\<close>

definition int_text :: "nat \<Rightarrow> int \<Rightarrow> string" where
  "int_text b i = (if i < 0 then CHR ''-'' # nat_text b (nat (- i)) else nat_text b (nat i))"

fun digits_val :: "nat \<Rightarrow> nat \<Rightarrow> string \<Rightarrow> nat option" where
  "digits_val b acc [] = Some acc"
| "digits_val b acc (c # cs) =
     (case digit_val c of
        None \<Rightarrow> None
      | Some d \<Rightarrow> if d < b then digits_val b (acc * b + d) cs else None)"

definition scan_nat :: "nat \<Rightarrow> string \<Rightarrow> nat option" where
  "scan_nat b s = (if s = [] then None else digits_val b 0 s)"

text \<open>\<open>big.Int.SetString(s, base)\<close>: an optional sign, then at least one digit, nothing after.\<close>

definition SetString :: "nat \<Rightarrow> string \<Rightarrow> int option" where
  "SetString b s =
     (case s of
        [] \<Rightarrow> None
      | c # cs \<Rightarrow>
          if c = CHR ''-'' then map_option (\<lambda>n. - int n) (scan_nat b cs)
          else if c = CHR ''+'' then map_option int (scan_nat b cs)
          else map_option int (scan_nat b s))"

definition is_int64 :: "int \<Rightarrow> bool" where
  "is_int64 i \<longleftrightarrow> - (2 ^ 63) \<le> i \<and> i < 2 ^ 63"

text \<open>\<open>strconv.ParseInt(s, base, 64)\<close>; \<open>strconv.Atoi\<close> is base 10 on a 64-bit int.\<close>

definition ParseInt :: "nat \<Rightarrow> string \<Rightarrow> int option" where
  "ParseInt b s =
     (case SetString b s of None \<Rightarrow> None | Some i \<Rightarrow> if is_int64 i then Some i else None)"

abbreviation Itoa :: "int \<Rightarrow> string" where
  "Itoa i \<equiv> int_text 10 i"

abbreviation Atoi :: "string \<Rightarrow> int option" where
  "Atoi s \<equiv> ParseInt 10 s"

section \<open>encoding/hex\<close>

definition hex_byte :: "byte \<Rightarrow> string" where
  "hex_byte w = [digit_char (unat w div 16), digit_char (unat w mod 16)]"

definition EncodeToString :: "byte list \<Rightarrow> string" where
  "EncodeToString bs = concat (map hex_byte bs)"

definition hex_digit :: "char \<Rightarrow> nat option" where
  "hex_digit c = (case digit_val c of None \<Rightarrow> None | Some d \<Rightarrow> if d < 16 then Some d else None)"

fun DecodeString :: "string \<Rightarrow> byte list res" where
  "DecodeString [] = Ok []"
| "DecodeString [c] =
     (case hex_digit c of
        None \<Rightarrow> Err (External ''encoding/hex: invalid byte'')
      | Some _ \<Rightarrow> Err (External ''encoding/hex: odd length hex string''))"
| "DecodeString (c # d # cs) =
     (case hex_digit c of
        None \<Rightarrow> Err (External ''encoding/hex: invalid byte'')
      | Some x \<Rightarrow>
          (case hex_digit d of
             None \<Rightarrow> Err (External ''encoding/hex: invalid byte'')
           | Some y \<Rightarrow> andThen (DecodeString cs) (\<lambda>bs. Ok (of_nat (16 * x + y) # bs))))"

section \<open>Lemmas on case folding\<close>

lemma of_char_char_of [simp]: "n < 256 \<Longrightarrow> (of_char (char_of n) :: nat) = n"
  by simp

lemma lower_char_idem [simp]: "lower_char (lower_char c) = lower_char c"
  by (auto simp: lower_char_def Let_def)

lemma ToLower_idem [simp]: "ToLower (ToLower s) = ToLower s"
  by (simp add: ToLower_def)

lemma ToLower_append [simp]: "ToLower (s @ t) = ToLower s @ ToLower t"
  by (simp add: ToLower_def)

lemma length_ToLower [simp]: "length (ToLower s) = length s"
  by (simp add: ToLower_def)

lemma ToLower_take: "ToLower (take n s) = take n (ToLower s)"
  by (simp add: ToLower_def take_map)

lemma ToLower_Cons [simp]: "ToLower (c # s) = lower_char c # ToLower s"
  by (simp add: ToLower_def)

lemma ToLower_Nil [simp]: "ToLower [] = []"
  by (simp add: ToLower_def)

lemma ToLower_eq_Nil [simp]: "ToLower s = [] \<longleftrightarrow> s = []"
  by (simp add: ToLower_def)

interpretation lower: normaliser ToLower
  by unfold_locales simp

lemma TrimPrefix_append [simp]: "TrimPrefix p (p @ s) = s"
  by (simp add: TrimPrefix_def)

lemma Split_nonempty [simp]: "Split sep s \<noteq> []"
  by (cases s) (auto split: list.splits)

lemma Split_no_sep: "sep \<notin> set s \<Longrightarrow> Split sep s = [s]"
  by (induction s) auto

lemma Split_Join:
  assumes "ws \<noteq> []" and "\<forall>w \<in> set ws. sep \<notin> set w"
  shows "Split sep (Join [sep] ws) = ws"
  using assms
proof (induction "[sep]" ws rule: Join.induct)
  case (3 w v ws)
  have "Split sep (u @ sep # Join [sep] (v # ws)) = u # v # ws" if "sep \<notin> set u" for u
    using that 3 by (induction u) auto
  with 3 show ?case by simp
qed (auto simp: Split_no_sep)

section \<open>Lemmas on digits\<close>

lemma digit_val_char [simp]: "d < 36 \<Longrightarrow> digit_val (digit_char d) = Some d"
  by (auto simp: digit_val_def digit_char_def Let_def)

lemma digit_val_sign [simp]: "digit_val (CHR ''-'') = None" "digit_val (CHR ''+'') = None"
  by (simp_all add: digit_val_def)

lemma digit_char_not_sign [simp]:
  assumes "d < 36"
  shows "digit_char d \<noteq> CHR ''-''" and "digit_char d \<noteq> CHR ''+''"
  using digit_val_char [OF assms] digit_val_sign by (metis option.discI)+

lemma digits_val_append:
  "digits_val b acc (s @ t) =
     (case digits_val b acc s of None \<Rightarrow> None | Some a \<Rightarrow> digits_val b a t)"
  by (induction s arbitrary: acc) (auto split: option.splits)

lemma digits_val_shift:
  "digits_val b acc s = map_option (\<lambda>v. acc * b ^ length s + v) (digits_val b 0 s)"
proof (induction s arbitrary: acc)
  case (Cons c cs)
  have "digits_val b (acc * b + d) cs =
      map_option (\<lambda>v. acc * (b * b ^ length cs) + v) (digits_val b d cs)" for d
    using Cons [of "acc * b + d"] Cons [of d]
    by (simp add: option.map_comp comp_def algebra_simps)
  then show ?case by (auto split: option.splits)
qed simp

lemma digits_val_zeros: "0 < b \<Longrightarrow> digits_val b 0 (replicate k (CHR ''0'') @ s) = digits_val b 0 s"
  by (induction k) (simp_all add: digit_val_def)

lemma nat_text_0 [simp]: "0 < b \<Longrightarrow> nat_text b 0 = ''0''"
  by (subst nat_text.simps) (simp add: digit_char_def; code_simp)

lemma lower_digit_char [simp]: "d < 36 \<Longrightarrow> lower_char (digit_char d) = digit_char d"
  by (auto simp: lower_char_def digit_char_def Let_def)

text \<open>A number base: printing and scanning are inverse, for every integer.\<close>

locale radix =
  fixes b :: nat
  assumes base: "2 \<le> b" "b \<le> 36"
begin

lemma digits_val_nat_text: "digits_val b 0 (nat_text b n) = Some n"
proof (induction n rule: less_induct)
  case (less n)
  show ?case
  proof (cases "n < b")
    case True
    with base show ?thesis by (subst nat_text.simps) simp
  next
    case False
    with base have "n div b < n" by (simp add: div_less_dividend)
    then have IH: "digits_val b 0 (nat_text b (n div b)) = Some (n div b)" by (rule less)
    have "n mod b < b" "n mod b < 36" using base by (simp_all add: less_le_trans [of _ b])
    with False base IH show ?thesis
      by (subst nat_text.simps) (simp add: digits_val_append)
  qed
qed

lemma nat_text_nonempty [simp]: "nat_text b n \<noteq> []"
  by (subst nat_text.simps) simp

lemma nat_text_digits: "c \<in> set (nat_text b n) \<Longrightarrow> \<exists>d < b. c = digit_char d"
proof (induction n rule: less_induct)
  case (less n)
  show ?case
  proof (cases "n < b")
    case True
    with less.prems show ?thesis by (subst (asm) nat_text.simps) auto
  next
    case False
    with base have small: "n div b < n" "n mod b < b" by (simp_all add: div_less_dividend)
    from less.prems False base have "c \<in> set (nat_text b (n div b)) \<or> c = digit_char (n mod b)"
      by (subst (asm) nat_text.simps) auto
    with small less.IH show ?thesis by blast
  qed
qed

lemma scan_nat_text [simp]: "scan_nat b (nat_text b n) = Some n"
  by (simp add: scan_nat_def digits_val_nat_text)

lemma nat_text_no_sign:
  "CHR ''-'' \<notin> set (nat_text b n)" "CHR ''+'' \<notin> set (nat_text b n)"
  using nat_text_digits base digit_char_not_sign by (metis order.strict_trans2)+

lemma SetString_nat_text: "SetString b (nat_text b n) = Some (int n)"
proof -
  obtain c cs where c: "nat_text b n = c # cs" by (cases "nat_text b n") auto
  then have "c \<noteq> CHR ''-''" "c \<noteq> CHR ''+''" using nat_text_no_sign [of n] by auto
  then show ?thesis using scan_nat_text [of n] by (simp add: SetString_def c)
qed

lemma SetString_int_text [simp]: "SetString b (int_text b i) = Some i"
proof (cases "i < 0")
  case True
  then show ?thesis by (simp add: int_text_def SetString_def)
next
  case False
  then show ?thesis by (simp add: int_text_def SetString_nat_text)
qed

lemma ParseInt_int_text: "is_int64 i \<Longrightarrow> ParseInt b (int_text b i) = Some i"
  by (simp add: ParseInt_def)

lemma length_nat_text: "n < b ^ k \<Longrightarrow> 0 < k \<Longrightarrow> length (nat_text b n) \<le> k"
proof (induction k arbitrary: n)
  case (Suc k)
  show ?case
  proof (cases "n < b")
    case True
    then show ?thesis by (subst nat_text.simps) simp
  next
    case False
    with Suc.prems have "0 < k" by (cases k) auto
    moreover have "n div b < b ^ k"
      using Suc.prems by (simp add: less_mult_imp_div_less mult.commute)
    ultimately have "length (nat_text b (n div b)) \<le> k" by (rule Suc.IH [rotated])
    with False base show ?thesis by (subst nat_text.simps) simp
  qed
qed simp

lemma ToLower_nat_text [simp]: "ToLower (nat_text b n) = nat_text b n"
proof -
  have "lower_char c = c" if "c \<in> set (nat_text b n)" for c
    using nat_text_digits [OF that] base by auto
  then show ?thesis by (simp add: ToLower_def map_idI)
qed

end

sublocale radix \<subseteq> text_codec "int_text b" "SetString b" "\<lambda>_. True"
  by unfold_locales simp

interpretation dec: radix 10
  by unfold_locales simp_all

interpretation hex: radix 16
  by unfold_locales simp_all

section \<open>Lemmas on hexadecimal bytes\<close>

lemma unat_byte_less: "unat (w :: byte) < 256"
proof -
  have "unat w < 2 ^ LENGTH(8)" by (rule unsigned_less)
  then show ?thesis by simp
qed

lemma hex_digit_char [simp]: "d < 16 \<Longrightarrow> hex_digit (digit_char d) = Some d"
  by (simp add: hex_digit_def)

lemma EncodeToString_simps [simp]:
  "EncodeToString [] = []"
  "EncodeToString (w # ws) =
     digit_char (unat w div 16) # digit_char (unat w mod 16) # EncodeToString ws"
  by (simp_all add: EncodeToString_def hex_byte_def)

lemma EncodeToString_append: "EncodeToString (xs @ ys) = EncodeToString xs @ EncodeToString ys"
  by (simp add: EncodeToString_def)

lemma length_EncodeToString [simp]: "length (EncodeToString bs) = 2 * length bs"
  by (induction bs) auto

lemma unat_div_16 [simp]: "unat (w :: byte) div 16 < 16"
  using unat_byte_less [of w] by simp

lemma ToLower_EncodeToString [simp]: "ToLower (EncodeToString bs) = EncodeToString bs"
proof (induction bs)
  case (Cons w ws)
  have "unat w div 16 < 36" "unat w mod 16 < 36"
    using unat_div_16 [of w] by (simp_all add: less_trans [of _ 16])
  then show ?case using Cons by (simp add: ToLower_def)
qed simp

lemma DecodeString_EncodeToString [simp]: "DecodeString (EncodeToString bs) = Ok bs"
  by (induction bs) simp_all

end
