(* ===== verification/GoBig.thy ===== *)
theory GoBig
  imports GoText
begin

text \<open>
  What the repository uses of \<open>math/big\<close>.  \<open>big.Int\<close> is \<open>int\<close>, \<open>big.Rat\<close> is \<open>rat\<close>; division by
  zero panics.  A \<open>big.Float\<close> is its precision and its exact rational value; each operation rounds
  the exact result to the precision of its receiver, to nearest, ties to even.  The two
  fixed-point printers, \<open>Rat.FloatString\<close> (half away from zero) and \<open>%.nf\<close> of a \<open>big.Float\<close>
  (half to even), are shown to print the correctly rounded value.
\<close>

section \<open>big.Int\<close>

definition Quo :: "int \<Rightarrow> int \<Rightarrow> int res" where
  "Quo x y = (if y = 0 then Panic ''division by zero'' else Ok (sgn x * sgn y * (\<bar>x\<bar> div \<bar>y\<bar>)))"

definition Exp :: "int \<Rightarrow> int \<Rightarrow> int" where
  "Exp x y = (if y \<le> 0 then 1 else x ^ nat y)"

definition Int64 :: "int \<Rightarrow> int" where
  "Int64 x = signed_take_bit 63 x"

definition Uint64 :: "int \<Rightarrow> 64 word" where
  "Uint64 x = of_int \<bar>x\<bar>"

fun nat_bitlen :: "nat \<Rightarrow> nat" where
  "nat_bitlen n = (if n = 0 then 0 else Suc (nat_bitlen (n div 2)))"

declare nat_bitlen.simps [simp del]

definition BitLen :: "int \<Rightarrow> nat" where
  "BitLen x = nat_bitlen (nat \<bar>x\<bar>)"

section \<open>big.Rat\<close>

definition RatQuo :: "rat \<Rightarrow> rat \<Rightarrow> rat res" where
  "RatQuo x y = (if y = 0 then Panic ''division by zero'' else Ok (x / y))"

definition pad_left :: "nat \<Rightarrow> string \<Rightarrow> string" where
  "pad_left n s = replicate (n - length s) (CHR ''0'') @ s"

text \<open>\<open>Rat.FloatString(prec)\<close>, step by step as the library computes it.\<close>

definition FloatString :: "nat \<Rightarrow> rat \<Rightarrow> string" where
  "FloatString prec x =
     (let (a, b) = quotient_of x in
      if b = 1 then Itoa a @ (if 0 < prec then CHR ''.'' # replicate prec (CHR ''0'') else [])
      else
        let q = \<bar>a\<bar> div b; r = \<bar>a\<bar> mod b; p = 10 ^ prec;
            d = r * p div b; r2 = r * p mod b;
            d1 = (if b \<le> r2 + r2 then d + 1 else d);
            q2 = (if p \<le> d1 then q + 1 else q);
            d2 = (if p \<le> d1 then d1 - p else d1)
        in (if a < 0 then ''-'' else []) @ Itoa q2 @
           (if 0 < prec then CHR ''.'' # pad_left prec (Itoa d2) else []))"

section \<open>big.Float\<close>

datatype BigFloat = BigFloat (fprec: nat) (fval: rat)

definition pow2 :: "int \<Rightarrow> rat" where
  "pow2 e = (if 0 \<le> e then 2 ^ nat e else 1 / 2 ^ nat (- e))"

definition round_even :: "rat \<Rightarrow> int" where
  "round_even x =
     (let f = \<lfloor>x\<rfloor>; d = x - of_int f in
      if d < 1 / 2 then f else if 1 / 2 < d then f + 1 else if even f then f else f + 1)"

text \<open>The binary exponent: \<open>2 ^ (e - 1) \<le> q < 2 ^ e\<close> for a positive \<open>q\<close>.\<close>

definition float_exp :: "rat \<Rightarrow> int" where
  "float_exp q =
     (let (a, b) = quotient_of q; e = int (BitLen a) - int (BitLen b) in
      if q < pow2 e then e else e + 1)"

definition round_prec :: "nat \<Rightarrow> rat \<Rightarrow> rat" where
  "round_prec p q =
     (if q = 0 then 0
      else let e = float_exp \<bar>q\<bar> in
        sgn q * of_int (round_even (\<bar>q\<bar> * pow2 (int p - e))) * pow2 (e - int p))"

text \<open>\<open>new(big.Float).SetInt(x)\<close>: precision \<open>max(x.BitLen(), 64)\<close>, exact value.\<close>

definition FloatSetInt :: "int \<Rightarrow> BigFloat" where
  "FloatSetInt x = BigFloat (max (BitLen x) 64) (of_int x)"

text \<open>\<open>z.Quo(x, y)\<close> and \<open>z.Mul(x, y)\<close> for a receiver of precision \<open>p\<close>; \<open>y\<close> of a Quo is nonzero
  at every call in the repository (a power of ten, or a constant).\<close>

definition FloatQuo :: "nat \<Rightarrow> BigFloat \<Rightarrow> BigFloat \<Rightarrow> BigFloat" where
  "FloatQuo p x y = BigFloat p (round_prec p (fval x / fval y))"

definition FloatMul :: "nat \<Rightarrow> BigFloat \<Rightarrow> BigFloat \<Rightarrow> BigFloat" where
  "FloatMul p x y = BigFloat p (round_prec p (fval x * fval y))"

text \<open>A decimal fraction with sign, \<open>m / 10 ^ prec\<close> written with \<open>prec\<close> places.\<close>

definition fixed_text :: "bool \<Rightarrow> nat \<Rightarrow> nat \<Rightarrow> string" where
  "fixed_text neg prec m =
     (if neg then ''-'' else []) @ nat_text 10 (m div 10 ^ prec) @
     (if 0 < prec then CHR ''.'' # pad_left prec (nat_text 10 (m mod 10 ^ prec)) else [])"

text \<open>\<open>fmt.Sprintf("%.<prec>f", x)\<close> of a \<open>big.Float\<close>.\<close>

definition SprintfF :: "nat \<Rightarrow> BigFloat \<Rightarrow> string" where
  "SprintfF prec x = fixed_text (fval x < 0) prec (nat (round_even (\<bar>fval x\<bar> * 10 ^ prec)))"

text \<open>The value a plain decimal text stands for.\<close>

definition decimal_body :: "string \<Rightarrow> rat option" where
  "decimal_body s =
     (let ip = takeWhile (\<lambda>c. c \<noteq> CHR ''.'') s; fp = drop (Suc (length ip)) s in
      map_option (\<lambda>n. of_nat n / 10 ^ length fp) (scan_nat 10 (ip @ fp)))"

definition decimal_val :: "string \<Rightarrow> rat option" where
  "decimal_val s =
     (case s of
        [] \<Rightarrow> None
      | c # cs \<Rightarrow>
          if c = CHR ''-'' then map_option uminus (decimal_body cs)
          else if c = CHR ''+'' then decimal_body cs
          else decimal_body s)"

text \<open>
  \<open>new(big.Float).SetString(s)\<close> on plain decimals: precision 64, the decimal value rounded once.
  (The strings it is given come from \<open>FloatString\<close>; exponents and base prefixes never occur.)
\<close>

definition FloatSetString :: "string \<Rightarrow> BigFloat option" where
  "FloatSetString s = map_option (\<lambda>v. BigFloat 64 (round_prec 64 v)) (decimal_val s)"

section \<open>Lemmas on integers\<close>

lemma Quo_nonneg: "0 \<le> x \<Longrightarrow> 0 < y \<Longrightarrow> Quo x y = Ok (x div y)"
  by (cases "x = 0") (simp_all add: Quo_def)

lemma Quo_panic_iff: "is_panic (Quo x y) \<longleftrightarrow> y = 0"
  by (simp add: Quo_def)

lemma Exp_pos: "0 \<le> y \<Longrightarrow> Exp 10 y = 10 ^ nat y"
  by (auto simp: Exp_def)

lemma Exp_nonpos [simp]: "y \<le> 0 \<Longrightarrow> Exp x y = 1"
  by (simp add: Exp_def)

lemma Exp_10_gt_0 [simp]: "0 < Exp 10 y"
  by (simp add: Exp_def)

lemma Int64_id: "is_int64 i \<Longrightarrow> Int64 i = i"
  by (simp add: Int64_def is_int64_def signed_take_bit_int_eq_self)

lemma Int64_range: "is_int64 (Int64 i)"
  unfolding Int64_def is_int64_def
  using signed_take_bit_int_greater_eq_minus_exp [of 63 i] signed_take_bit_int_less_exp [of 63 i]
  by simp

lemma nat_bitlen_bounds: "0 < n \<Longrightarrow> 2 ^ (nat_bitlen n - 1) \<le> n \<and> n < 2 ^ nat_bitlen n"
proof (induction n rule: less_induct)
  case (less n)
  show ?case
  proof (cases "n = 1")
    case True
    then show ?thesis by (simp add: nat_bitlen.simps)
  next
    case False
    with less.prems have half: "n div 2 < n" "0 < n div 2" by auto
    define k where "k = nat_bitlen (n div 2)"
    have k: "2 ^ (k - 1) \<le> n div 2" "n div 2 < 2 ^ k"
      using less.IH [OF half] by (simp_all add: k_def)
    with half have "0 < k" by (cases k) auto
    then have "2 ^ k = 2 * (2 :: nat) ^ (k - 1)" by (cases k) auto
    with k have "2 ^ k \<le> n" "n < 2 ^ Suc k" by auto
    moreover have "nat_bitlen n = Suc k" using less.prems by (subst nat_bitlen.simps) (simp add: k_def)
    ultimately show ?thesis by simp
  qed
qed

section \<open>The fixed-point printers\<close>

lemma digit_val_dot [simp]: "digit_val (CHR ''.'') = None"
  by (simp add: digit_val_def)

lemma nat_text_no_dot: "CHR ''.'' \<notin> set (nat_text 10 n)"
proof
  assume "CHR ''.'' \<in> set (nat_text 10 n)"
  then obtain d where "d < 10" "CHR ''.'' = digit_char d" using dec.nat_text_digits by blast
  then have "digit_val (CHR ''.'') = Some d" by simp
  then show False by simp
qed

lemma length_pad_left: "length s \<le> n \<Longrightarrow> length (pad_left n s) = n"
  by (simp add: pad_left_def)

lemma pad_left_zero: "0 < n \<Longrightarrow> pad_left n ''0'' = replicate n (CHR ''0'')"
  by (cases n) (simp_all add: pad_left_def replicate_append_same)

lemma decimal_body_fixed:
  assumes "0 < prec"
  shows "decimal_body (nat_text 10 (m div 10 ^ prec) @
           CHR ''.'' # pad_left prec (nat_text 10 (m mod 10 ^ prec))) = Some (of_nat m / 10 ^ prec)"
proof -
  define ip where "ip = nat_text 10 (m div 10 ^ prec)"
  define fp where "fp = pad_left prec (nat_text 10 (m mod 10 ^ prec))"
  have len: "length fp = prec"
    using assms by (simp add: fp_def length_pad_left dec.length_nat_text)
  have "digits_val 10 0 fp = Some (m mod 10 ^ prec)"
    by (simp add: fp_def pad_left_def digits_val_zeros dec.digits_val_nat_text)
  then have "scan_nat 10 (ip @ fp) = Some (m div 10 ^ prec * 10 ^ prec + m mod 10 ^ prec)"
    using dec.digits_val_nat_text [of "m div 10 ^ prec"] dec.nat_text_nonempty
    by (simp add: scan_nat_def digits_val_append ip_def digits_val_shift [of 10 "m div 10 ^ prec"] len)
  moreover have "takeWhile (\<lambda>c. c \<noteq> CHR ''.'') (ip @ CHR ''.'' # fp) = ip"
    using nat_text_no_dot by (simp add: ip_def takeWhile_append2 takeWhile_tail) (metis takeWhile_eq_all_conv)
  moreover have "m div 10 ^ prec * 10 ^ prec + m mod 10 ^ prec = m" by (rule div_mult_mod_eq)
  ultimately show ?thesis
    unfolding decimal_body_def ip_def [symmetric] fp_def [symmetric] by (simp add: Let_def len del: div_mult_mod_eq)
qed

lemma decimal_val_fixed_text:
  assumes "0 < prec"
  shows "decimal_val (fixed_text neg prec m) =
           Some ((if neg then - 1 else 1) * (of_nat m / 10 ^ prec))"
proof -
  obtain c cs where c: "nat_text 10 (m div 10 ^ prec) = c # cs"
    by (cases "nat_text 10 (m div 10 ^ prec)") (auto dest: dec.nat_text_nonempty [THEN notE])
  then have "c \<noteq> CHR ''-''" "c \<noteq> CHR ''+''"
    using dec.nat_text_no_sign [of "m div 10 ^ prec"] by auto
  then show ?thesis
    using decimal_body_fixed [OF assms, of m] assms by (simp add: fixed_text_def decimal_val_def c)
qed

lemma fixed_carry:
  assumes "0 \<le> q" "0 \<le> d" "d \<le> 10 ^ prec"
  shows "nat (q * 10 ^ prec + d) div 10 ^ prec = nat (if 10 ^ prec \<le> d then q + 1 else q)"
    and "nat (q * 10 ^ prec + d) mod 10 ^ prec = nat (if 10 ^ prec \<le> d then d - 10 ^ prec else d)"
proof -
  define p :: int where "p = 10 ^ prec"
  have p: "0 < p" by (simp add: p_def)
  have "(q * p + d) div p = (if p \<le> d then q + 1 else q)"
    "(q * p + d) mod p = (if p \<le> d then d - p else d)"
    using assms p by (auto simp: p_def [symmetric] div_eq_0_iff not_le)
  moreover have nn: "0 \<le> q * p + d" using assms p by simp
  moreover have "nat (q * p + d) div nat p = nat ((q * p + d) div p)"
    by (rule nat_div_distrib [OF nn, symmetric])
  moreover have "nat (q * p + d) mod nat p = nat ((q * p + d) mod p)"
    using p by (intro nat_mod_distrib [OF nn, symmetric]) simp
  moreover have "nat p = 10 ^ prec" by (simp add: p_def nat_power_eq)
  ultimately show "nat (q * 10 ^ prec + d) div 10 ^ prec = nat (if 10 ^ prec \<le> d then q + 1 else q)"
    and "nat (q * 10 ^ prec + d) mod 10 ^ prec = nat (if 10 ^ prec \<le> d then d - 10 ^ prec else d)"
    by (simp_all only: p_def)
qed

text \<open>The library's digit-by-digit algorithm prints \<open>\<lfloor>\<bar>x\<bar> * 10 ^ prec + 1/2\<rfloor>\<close> hundred-thousandths
  (for \<open>prec = 5\<close>), with the sign of \<open>x\<close>.\<close>

lemma FloatString_fixed_text:
  "FloatString prec x = fixed_text (x < 0) prec (nat \<lfloor>\<bar>x\<bar> * 10 ^ prec + 1 / 2\<rfloor>)"
proof -
  obtain a b where ab: "quotient_of x = (a, b)" by (cases "quotient_of x") auto
  then have b: "0 < b" by (simp add: quotient_of_denom_pos)
  have x: "x = of_int a / of_int b" using ab by (simp add: quotient_of_div)
  define p :: int where "p = 10 ^ prec"
  have p: "0 < p" by (simp add: p_def)
  define q r where "q = \<bar>a\<bar> div b" and "r = \<bar>a\<bar> mod b"
  define d r2 where "d = r * p div b" and "r2 = r * p mod b"
  define d1 where "d1 = (if b \<le> r2 + r2 then d + 1 else d)"
  have "\<bar>a\<bar> = q * b + r" by (simp add: q_def r_def)
  then have "\<bar>a\<bar> * p = (q * p + d) * b + r2"
    by (simp add: d_def r2_def algebra_simps)
  moreover have "\<bar>x\<bar> * of_int p = of_int (\<bar>a\<bar> * p) / of_int b"
    using b by (simp add: x abs_divide)
  ultimately have val: "\<bar>x\<bar> * of_int p = of_int (q * p + d) + of_int r2 / of_int b"
    using b by (simp add: field_simps)
  have r2: "0 \<le> r2" "r2 < b" using b by (simp_all add: r2_def)
  define t :: rat where "t = of_int r2 / of_int b"
  have "1 / 2 \<le> t \<longleftrightarrow> (of_int b :: rat) \<le> of_int (r2 + r2)"
    using b by (simp add: t_def field_simps)
  then have half: "1 / 2 \<le> t \<longleftrightarrow> b \<le> r2 + r2" by (simp only: of_int_le_iff)
  have t: "0 \<le> t" "t < 1" using b r2 by (simp_all add: t_def)
  have fl: "\<lfloor>\<bar>x\<bar> * of_int p + 1 / 2\<rfloor> = q * p + d1"
    by (rule floor_unique) (use t half in \<open>auto simp: val t_def [symmetric] d1_def\<close>)
  have q0: "0 \<le> q" using b by (simp add: q_def pos_imp_zdiv_nonneg_iff)
  have "r * p < b * p" using b p by (simp add: r_def)
  moreover have "r * p = d * b + r2" by (simp add: d_def r2_def)
  ultimately have "d * b < p * b" using r2 mult.commute [of b p] by linarith
  then have "d < p" using b by simp
  moreover have "0 \<le> d" using b p by (simp add: d_def r_def pos_imp_zdiv_nonneg_iff)
  ultimately have d1: "0 \<le> d1" "d1 \<le> p" by (auto simp: d1_def)
  have neg: "x < 0 \<longleftrightarrow> a < 0" using b by (simp add: x divide_less_0_iff)
  have fl': "nat \<lfloor>\<bar>x\<bar> * 10 ^ prec + 1 / 2\<rfloor> = nat (q * p + d1)"
    using fl by (simp add: p_def)
  show ?thesis
  proof (cases "b = 1")
    case True
    then have q: "q = \<bar>a\<bar>" "d1 = 0" by (simp_all add: q_def r_def d1_def r2_def d_def)
    have np: "\<not> (10 :: int) ^ prec \<le> 0" by (simp only: not_le) simp
    have "nat (q * p + d1) div 10 ^ prec = nat \<bar>a\<bar>" "nat (q * p + d1) mod 10 ^ prec = 0"
      using fixed_carry [OF q0 d1 [unfolded p_def]] q np by (simp_all add: p_def)
    then show ?thesis
      using True by (auto simp: FloatString_def ab Let_def fixed_text_def fl' neg int_text_def
          pad_left_zero)
  next
    case False
    then have fs: "FloatString prec x = (if a < 0 then ''-'' else []) @
        Itoa (if p \<le> d1 then q + 1 else q) @
        (if 0 < prec then CHR ''.'' # pad_left prec (Itoa (if p \<le> d1 then d1 - p else d1)) else [])"
      unfolding FloatString_def ab Let_def prod.case p_def d1_def d_def r2_def q_def r_def by simp
    have "nat (q * p + d1) div 10 ^ prec = nat (if p \<le> d1 then q + 1 else q)"
      "nat (q * p + d1) mod 10 ^ prec = nat (if p \<le> d1 then d1 - p else d1)"
      using fixed_carry [OF q0 d1 [unfolded p_def]] by (simp_all only: p_def)
    then show ?thesis
      unfolding fs fixed_text_def fl' neg using q0 d1 by (simp add: int_text_def)
  qed
qed

lemma abs_diff_scale:
  assumes "\<bar>m - t * 10 ^ prec\<bar> \<le> 1 / 2"
  shows "\<bar>m / 10 ^ prec - t\<bar> \<le> 1 / (2 * (10 :: rat) ^ prec)"
proof -
  have "m / 10 ^ prec - t = (m - t * 10 ^ prec) / 10 ^ prec" by (simp add: field_simps)
  then have "\<bar>m / 10 ^ prec - t\<bar> = \<bar>m - t * 10 ^ prec\<bar> / 10 ^ prec" by (simp add: abs_divide)
  also have "\<dots> \<le> (1 / 2) / 10 ^ prec" using assms by (intro divide_right_mono) simp_all
  finally show ?thesis by simp
qed

lemma FloatString_accuracy:
  assumes "0 < prec"
  shows "\<exists>v. decimal_val (FloatString prec x) = Some v \<and> \<bar>v - x\<bar> \<le> 1 / (2 * 10 ^ prec)"
proof -
  define y where "y = \<bar>x\<bar> * 10 ^ prec"
  define m where "m = nat \<lfloor>y + 1 / 2\<rfloor>"
  have y: "0 \<le> y" by (simp add: y_def)
  then have "of_nat m = (of_int \<lfloor>y + 1 / 2\<rfloor> :: rat)" by (simp add: m_def)
  then have "\<bar>of_nat m - y\<bar> \<le> 1 / 2" by linarith
  then have near: "\<bar>of_nat m / 10 ^ prec - \<bar>x\<bar>\<bar> \<le> 1 / (2 * 10 ^ prec)"
    by (simp add: y_def abs_diff_scale)
  have "decimal_val (FloatString prec x) =
      Some ((if x < 0 then - 1 else 1) * (of_nat m / 10 ^ prec))"
    using assms by (simp add: FloatString_fixed_text decimal_val_fixed_text m_def y_def)
  moreover have "\<bar>(if x < 0 then - 1 else 1) * (of_nat m / 10 ^ prec) - x\<bar>
      = \<bar>of_nat m / 10 ^ prec - \<bar>x\<bar>\<bar>"
    by (auto simp: abs_if)
  ultimately show ?thesis using near by auto
qed

section \<open>Rounding of floats\<close>

lemma round_even_error: "\<bar>of_int (round_even x) - x\<bar> \<le> 1 / 2"
proof -
  define f where "f = \<lfloor>x\<rfloor>"
  have "of_int f \<le> x" "x < of_int f + 1" unfolding f_def by linarith+
  then show ?thesis
    unfolding round_even_def Let_def f_def [symmetric] by (auto simp: abs_if)
qed

lemma round_even_nonneg: "0 \<le> x \<Longrightarrow> 0 \<le> round_even x"
  unfolding round_even_def Let_def by (auto intro: order_trans [of 0 "\<lfloor>x\<rfloor>"])

lemma round_even_of_int [simp]: "round_even (of_int i) = i"
  by (simp add: round_even_def)

lemma pow2_powi: "pow2 e = 2 powi e"
  by (simp add: pow2_def power_int_def power_inverse divide_simps)

lemma float_exp_lower:
  assumes "0 < q"
  shows "pow2 (float_exp q - 1) \<le> q"
proof -
  obtain a b where ab: "quotient_of q = (a, b)" by (cases "quotient_of q") auto
  have b: "0 < b" using ab by (simp add: quotient_of_denom_pos)
  have q: "q = of_int a / of_int b" using ab by (simp add: quotient_of_div)
  with assms b have a: "0 < a" by (simp add: zero_less_divide_iff)
  define A B where "A = BitLen a" and "B = BitLen b"
  have "0 < A" using a by (simp add: A_def BitLen_def nat_bitlen.simps [of "nat a"])
  have "(2 ^ (A - 1) :: int) \<le> a"
    using nat_bitlen_bounds [of "nat a"] a by (simp add: A_def BitLen_def le_nat_iff)
  then have la: "(2 :: rat) ^ (A - 1) \<le> of_int a" by (metis of_int_le_iff of_int_numeral of_int_power)
  have "b < 2 ^ B"
    using nat_bitlen_bounds [of "nat b"] b by (simp add: B_def BitLen_def nat_less_iff)
  then have ub: "of_int b < (2 :: rat) ^ B" by (metis of_int_less_iff of_int_numeral of_int_power)
  have eq: "int A - int B - 1 = int (A - 1) - int B" using \<open>0 < A\<close> by simp
  have "pow2 (int (A - 1) - int B) = 2 ^ (A - 1) / 2 ^ B"
    unfolding pow2_powi by (subst power_int_diff) (simp_all del: of_nat_diff)
  then have "pow2 (int A - int B - 1) = 2 ^ (A - 1) / 2 ^ B" unfolding eq .
  also have "\<dots> \<le> of_int a / of_int b"
    using la ub a b by (intro frac_le) auto
  finally have low: "pow2 (int A - int B - 1) \<le> q" by (simp add: q)
  show ?thesis
    using low by (auto simp: float_exp_def ab Let_def A_def [symmetric] B_def [symmetric])
qed

lemma round_prec_error: "\<bar>round_prec p q - q\<bar> \<le> \<bar>q\<bar> / 2 ^ p"
proof (cases "q = 0")
  case True
  then show ?thesis by (simp add: round_prec_def)
next
  case False
  define e where "e = float_exp \<bar>q\<bar>"
  define u where "u = pow2 (e - int p)"
  define m where "m = round_even (\<bar>q\<bar> * pow2 (int p - e))"
  have u: "0 < u" by (simp add: u_def pow2_def)
  have inv: "pow2 (int p - e) = 1 / u"
    by (simp add: u_def pow2_powi power_int_minus_divide [symmetric])
  have "pow2 (e - 1) \<le> \<bar>q\<bar>" using False by (simp add: e_def float_exp_lower)
  moreover have "u / 2 = pow2 (e - 1) / 2 ^ p"
    by (simp add: u_def pow2_powi power_int_diff)
  ultimately have half: "u / 2 \<le> \<bar>q\<bar> / 2 ^ p" by (simp add: divide_right_mono)
  have "\<bar>of_int m - \<bar>q\<bar> / u\<bar> \<le> 1 / 2"
    using round_even_error [of "\<bar>q\<bar> / u"] by (simp add: m_def inv)
  then have "\<bar>of_int m * u - \<bar>q\<bar>\<bar> \<le> u / 2" using u by (simp add: abs_if field_simps split: if_splits)
  moreover have "round_prec p q - q = sgn q * (of_int m * u - \<bar>q\<bar>)"
    using False by (simp add: round_prec_def Let_def e_def [symmetric] m_def [symmetric]
        u_def [symmetric] algebra_simps abs_mult_sgn)
  ultimately have "\<bar>round_prec p q - q\<bar> \<le> u / 2" using False by (simp add: abs_mult)
  with half show ?thesis by (rule order_trans [rotated])
qed

lemma SprintfF_accuracy:
  assumes "0 < prec"
  shows "\<exists>v. decimal_val (SprintfF prec x) = Some v \<and> \<bar>v - fval x\<bar> \<le> 1 / (2 * 10 ^ prec)"
proof -
  define y where "y = \<bar>fval x\<bar> * 10 ^ prec"
  define m where "m = nat (round_even y)"
  have "of_nat m = (of_int (round_even y) :: rat)" by (simp add: m_def y_def round_even_nonneg)
  then have "\<bar>of_nat m - y\<bar> \<le> 1 / 2" using round_even_error [of y] by simp
  then have near: "\<bar>of_nat m / 10 ^ prec - \<bar>fval x\<bar>\<bar> \<le> 1 / (2 * 10 ^ prec)"
    by (simp add: y_def abs_diff_scale)
  have "decimal_val (SprintfF prec x) =
      Some ((if fval x < 0 then - 1 else 1) * (of_nat m / 10 ^ prec))"
    using assms by (simp add: SprintfF_def decimal_val_fixed_text m_def y_def)
  moreover have "\<bar>(if fval x < 0 then - 1 else 1) * (of_nat m / 10 ^ prec) - fval x\<bar>
      = \<bar>of_nat m / 10 ^ prec - \<bar>fval x\<bar>\<bar>"
    by (auto simp: abs_if)
  ultimately show ?thesis using near by auto
qed

end
