(* ===== verification/Types.thy ===== *)
theory Types
  imports GoBig
begin

text \<open>
  The types shared by every service: src/lib/types/types.go (numbers, hashes, addresses, data and
  their SQL conversions), src/lib/types/seawater (rows of the pools, positions and groups tables)
  and src/lib/types/erc20.  A struct holding a \<open>*big.Int\<close> is a datatype over \<open>int option\<close>,
  \<open>None\<close> being the nil pointer.  A \<open>time.Time\<close> is a count of nanoseconds since the Unix epoch.
\<close>

section \<open>Strings with a canonical lower-case form\<close>

type_synonym Hash = string
type_synonym Address = string
type_synonym Data = string

definition HashFromString :: "string \<Rightarrow> Hash" where
  "HashFromString s = ToLower s"

definition Hash_String :: "Hash \<Rightarrow> string" where
  "Hash_String h = ToLower h"

definition AddressFromString :: "string \<Rightarrow> Address" where
  "AddressFromString s = ToLower s"

definition Address_String :: "Address \<Rightarrow> string" where
  "Address_String a = ToLower a"

text \<open>\<open>Address.UnmarshalJSON\<close>, over the decoding of a JSON string literal.\<close>

definition Address_UnmarshalJSON :: "(byte list \<Rightarrow> string res) \<Rightarrow> byte list \<Rightarrow> Address res" where
  "Address_UnmarshalJSON unmarshal b = andThen (unmarshal b) (\<lambda>s. Ok (AddressFromString s))"

definition DataFromString :: "string \<Rightarrow> Data" where
  "DataFromString s = ToLower s"

definition DataFromBytes :: "byte list \<Rightarrow> Data" where
  "DataFromBytes b = ''0x'' @ EncodeToString b"

definition Data_String :: "Data \<Rightarrow> string" where
  "Data_String a = ToLower a"

definition Data_Bytes :: "Data \<Rightarrow> byte list res" where
  "Data_Bytes d = DecodeString (TrimPrefix ''0x'' d)"

section \<open>Numbers\<close>

datatype Number = Number (num_Int: "int option")
datatype UnscaledNumber = UnscaledNumber (un_Int: "int option")
datatype UsdNumber = UsdNumber (usd_Rat: "rat option")

text \<open>Values exchanged with \<open>database/sql\<close>: nil, strings, the two integer types the scanner knows,
  and anything else (its Go type and its printed content).\<close>

datatype sql_value =
    SqlNull
  | SqlString string
  | SqlInt64 "64 word"
  | SqlUint64 "64 word"
  | SqlOther string string

definition EmptyNumber :: Number where
  "EmptyNumber = Number (Some 0)"

definition NumberFromBig :: "int \<Rightarrow> Number" where
  "NumberFromBig v = Number (Some v)"

definition NumberFromInt32 :: "32 word \<Rightarrow> Number" where
  "NumberFromInt32 v = Number (Some (sint v))"

definition NumberFromInt64 :: "64 word \<Rightarrow> Number" where
  "NumberFromInt64 v = Number (Some (sint v))"

definition NumberFromUint64 :: "64 word \<Rightarrow> Number" where
  "NumberFromUint64 v = Number (Some (uint v))"

definition NumberFromBase10 :: "string \<Rightarrow> Number res" where
  "NumberFromBase10 v =
     (case SetString 10 v of None \<Rightarrow> Err (Errorf ''bad string'') | Some i \<Rightarrow> Ok (NumberFromBig i))"

definition NumberFromHex :: "string \<Rightarrow> Number res" where
  "NumberFromHex v =
     (case SetString 16 v of None \<Rightarrow> Err (Errorf ''bad string'') | Some i \<Rightarrow> Ok (NumberFromBig i))"

definition Number_Hex :: "Number \<Rightarrow> string" where
  "Number_Hex u = (case num_Int u of None \<Rightarrow> ''0'' | Some i \<Rightarrow> int_text 16 i)"

definition Number_String :: "Number \<Rightarrow> string" where
  "Number_String u = (case num_Int u of None \<Rightarrow> ''0'' | Some i \<Rightarrow> int_text 10 i)"

definition Number_Big :: "Number \<Rightarrow> int" where
  "Number_Big u = (case num_Int u of None \<Rightarrow> 0 | Some i \<Rightarrow> i)"

definition Number_Value :: "Number \<Rightarrow> sql_value" where
  "Number_Value u = (case num_Int u of None \<Rightarrow> SqlNull | Some i \<Rightarrow> SqlString (int_text 10 i))"

text \<open>\<open>Scan\<close> writes through its receiver: the model returns the receiver's new value.\<close>

fun Number_Scan :: "Number \<Rightarrow> sql_value \<Rightarrow> Number res" where
  "Number_Scan old SqlNull = Ok old"
| "Number_Scan old (SqlString v) =
     (case NumberFromBase10 v of
        Err e \<Rightarrow> Err (Wrapf ''failed to scan string! '' e)
      | r \<Rightarrow> r)"
| "Number_Scan old (SqlInt64 c) = Ok (NumberFromInt64 c)"
| "Number_Scan old (SqlUint64 c) = Ok (NumberFromUint64 c)"
| "Number_Scan old (SqlOther t v) =
     Err (Errorf (''failed to scan type '' @ t @ '' content '' @ v @ '' into the Number type!''))"

definition EmptyUnscaledNumber :: UnscaledNumber where
  "EmptyUnscaledNumber = UnscaledNumber (Some 0)"

definition UnscaledNumberFromBig :: "int \<Rightarrow> UnscaledNumber" where
  "UnscaledNumberFromBig v = UnscaledNumber (Some v)"

definition UnscaledNumberFromInt64 :: "64 word \<Rightarrow> UnscaledNumber" where
  "UnscaledNumberFromInt64 v = UnscaledNumber (Some (sint v))"

definition UnscaledNumberFromBase10 :: "string \<Rightarrow> UnscaledNumber res" where
  "UnscaledNumberFromBase10 v =
     (case SetString 10 v of
        None \<Rightarrow> Err (Errorf ''bad string'') | Some i \<Rightarrow> Ok (UnscaledNumberFromBig i))"

definition UnscaledNumberFromHex :: "string \<Rightarrow> UnscaledNumber res" where
  "UnscaledNumberFromHex v =
     (case SetString 16 v of
        None \<Rightarrow> Err (Errorf ''bad string'') | Some i \<Rightarrow> Ok (UnscaledNumberFromBig i))"

text \<open>The methods of \<open>UnscaledNumber\<close> have no nil check: \<open>Text\<close> of a nil \<open>*big.Int\<close> is
  \<open><nil>\<close>, and reading its value panics.\<close>

definition UnscaledNumber_Hex :: "UnscaledNumber \<Rightarrow> string" where
  "UnscaledNumber_Hex u = (case un_Int u of None \<Rightarrow> ''<nil>'' | Some i \<Rightarrow> int_text 16 i)"

definition UnscaledNumber_String :: "UnscaledNumber \<Rightarrow> string" where
  "UnscaledNumber_String u = (case un_Int u of None \<Rightarrow> ''<nil>'' | Some i \<Rightarrow> int_text 10 i)"

definition UnscaledNumber_Big :: "UnscaledNumber \<Rightarrow> int res" where
  "UnscaledNumber_Big u =
     (case un_Int u of None \<Rightarrow> Panic ''nil pointer dereference'' | Some i \<Rightarrow> Ok i)"

definition UnscaledNumber_Value :: "UnscaledNumber \<Rightarrow> sql_value" where
  "UnscaledNumber_Value u = SqlString (UnscaledNumber_String u)"

definition UnscaledNumber_Scan :: "UnscaledNumber \<Rightarrow> sql_value \<Rightarrow> UnscaledNumber res" where
  "UnscaledNumber_Scan u v =
     (if v = SqlNull then Ok u
      else andThen (Number_Scan (Number None) v) (\<lambda>n. Ok (UnscaledNumberFromBig (Number_Big n))))"

definition Scale :: "UnscaledNumber \<Rightarrow> int \<Rightarrow> BigFloat res" where
  "Scale u decimals =
     (case un_Int u of
        None \<Rightarrow> Panic ''nil pointer dereference''
      | Some x \<Rightarrow>
          let f = FloatSetInt x; i = Exp 10 decimals in Ok (FloatQuo (fprec f) f (FloatSetInt i)))"

definition ScaleStr :: "UnscaledNumber \<Rightarrow> int \<Rightarrow> string res" where
  "ScaleStr u d =
     (if d = 0 then Ok (UnscaledNumber_String u)
      else andThen (Scale u d) (\<lambda>f. Ok (SprintfF 8 f)))"

section \<open>Strings in the database\<close>

text \<open>The \<open>driver.Valuer\<close> of the three string types: every address, hash and data string
  reaches a query in lower case.\<close>

definition Hash_Value :: "Hash \<Rightarrow> sql_value" where
  "Hash_Value h = SqlString (Hash_String h)"

definition Address_Value :: "Address \<Rightarrow> sql_value" where
  "Address_Value a = SqlString (Address_String a)"

definition Data_Value :: "Data \<Rightarrow> sql_value" where
  "Data_Value d = SqlString (Data_String d)"

section \<open>Times\<close>

type_synonym time = int

definition Unix :: "time \<Rightarrow> int" where
  "Unix t = t div 10 ^ 9"

definition time_Unix :: "int \<Rightarrow> time" where
  "time_Unix s = s * 10 ^ 9"

text \<open>The zero \<open>time.Time\<close>, 1 January of year 1.\<close>

definition zero_time :: time where
  "zero_time = - 62135596800 * 10 ^ 9"

section \<open>Rows\<close>

type_synonym Classification = string

definition ClassificationStablecoin :: Classification where
  "ClassificationStablecoin = ''STABLECOIN''"

definition ClassificationVolatile :: Classification where
  "ClassificationVolatile = ''VOLATILE''"

definition ClassificationUnknown :: Classification where
  "ClassificationUnknown = ''UNKNOWN''"

record Pool =
  pool_CreatedBy :: time
  pool_BlockHash :: Hash
  pool_TransactionHash :: Hash
  pool_BlockNumber :: Number
  pool_Token :: Address
  pool_Fee :: Number
  pool_Decimals :: int
  pool_TickSpacing :: "8 word"

record Position =
  pos_CreatedBy :: time
  pos_BlockHash :: Hash
  pos_TransactionHash :: Hash
  pos_BlockNumber :: Number
  pos_Id :: int
  pos_Owner :: Address
  pos_Pool :: Address
  pos_Lower :: Number
  pos_Upper :: Number

record PositionSnapshot =
  snap_PosId :: int
  snap_UpdatedBy :: time
  snap_Owner :: Address
  snap_Pool :: Address
  snap_Lower :: Number
  snap_Upper :: Number
  snap_Amount0 :: UnscaledNumber
  snap_Amount1 :: UnscaledNumber

record LiquidityGroup =
  lg_Pool :: Address
  lg_Decimals :: "8 word"
  lg_Tick :: Number
  lg_NextTick :: Number
  lg_CumulativeAmount0 :: UnscaledNumber
  lg_CumulativeAmount1 :: UnscaledNumber

text \<open>\<open>SnapshotPositionsLatestDecimalsGroup\<close> and \<open>SwapsDecimalsGroup\<close> have the same fields.\<close>

record DecimalsGroup =
  dg_Pool :: Address
  dg_Decimals :: "8 word"
  dg_CumulativeAmount0 :: UnscaledNumber
  dg_CumulativeAmount1 :: UnscaledNumber

type_synonym SnapshotPositionsLatestDecimalsGroup = DecimalsGroup
type_synonym SwapsDecimalsGroup = DecimalsGroup

record Erc20 =
  erc_Address :: Address
  erc_Name :: string
  erc_Symbol :: string
  erc_TotalSupply :: UnscaledNumber
  erc_Decimals :: int

section \<open>Canonical forms\<close>

interpretation address: normaliser AddressFromString
  by unfold_locales (simp add: AddressFromString_def)

interpretation hash: normaliser HashFromString
  by unfold_locales (simp add: HashFromString_def)

interpretation data: normaliser DataFromString
  by unfold_locales (simp add: DataFromString_def)

lemma Address_String_FromString [simp]: "Address_String (AddressFromString s) = AddressFromString s"
  by (simp add: Address_String_def AddressFromString_def)

lemma length_Address_String [simp]: "length (Address_String a) = length a"
  by (simp add: Address_String_def)

lemma Data_String_DataFromBytes [simp]: "Data_String (DataFromBytes b) = DataFromBytes b"
  by (simp add: Data_String_def DataFromBytes_def lower_char_def)

section \<open>Numbers and the database\<close>

lemma Number_Big_Some [simp]: "Number_Big (Number (Some i)) = i"
  by (simp add: Number_Big_def)

lemma Number_Big_FromBig [simp]: "Number_Big (NumberFromBig i) = i"
  by (simp add: NumberFromBig_def)

lemma NumberFromBase10_text [simp]: "NumberFromBase10 (int_text 10 i) = Ok (NumberFromBig i)"
  by (simp add: NumberFromBase10_def)

lemma NumberFromHex_text [simp]: "NumberFromHex (int_text 16 i) = Ok (NumberFromBig i)"
  by (simp add: NumberFromHex_def)

lemma UnscaledNumber_Scan_Value [simp]:
  "UnscaledNumber_Scan u (UnscaledNumber_Value (UnscaledNumber (Some i))) = Ok (UnscaledNumber (Some i))"
  by (simp add: UnscaledNumber_Scan_def UnscaledNumber_Value_def UnscaledNumber_String_def
      UnscaledNumberFromBig_def)

text \<open>What a number writes to the database is what it reads back: scanning the SQL value of a
  \<open>Number\<close> into a fresh one gives the same number, the nil number included, and an
  \<open>UnscaledNumber\<close> that holds an integer survives the same trip into any receiver.\<close>

theorem number_sql_roundtrip:
  "Number_Scan (Number None) (Number_Value n) = Ok n \<and>
   UnscaledNumber_Scan u (UnscaledNumber_Value (UnscaledNumber (Some i))) =
     Ok (UnscaledNumber (Some i))"
  by (cases n; cases "num_Int n") (simp_all add: Number_Value_def NumberFromBig_def)

text \<open>A nil \<open>UnscaledNumber\<close> is not a SQL NULL: it is written as the text \<open><nil>\<close>, which no
  receiver can scan back.\<close>

theorem unscaled_nil_value_unscannable:
  "UnscaledNumber_Value (UnscaledNumber None) = SqlString ''<nil>'' \<and>
   UnscaledNumber_Scan u (UnscaledNumber_Value (UnscaledNumber None)) =
     Err (Wrapf ''failed to scan string! '' (Errorf ''bad string''))"
  by (simp add: UnscaledNumber_Value_def UnscaledNumber_String_def UnscaledNumber_Scan_def
      NumberFromBase10_def SetString_def scan_nat_def digit_val_def)

text \<open>The hexadecimal text of a number and the bytes of a data string parse back to what they
  were printed from, and the printed data is already in its canonical lower-case form.\<close>

theorem hex_and_data_roundtrip:
  "NumberFromHex (Number_Hex (Number (Some i))) = Ok (Number (Some i)) \<and>
   Data_Bytes (DataFromBytes b) = Ok b \<and> DataFromString (DataFromBytes b) = DataFromBytes b"
proof (intro conjI)
  show "NumberFromHex (Number_Hex (Number (Some i))) = Ok (Number (Some i))"
    by (simp add: Number_Hex_def NumberFromBig_def)
  show "Data_Bytes (DataFromBytes b) = Ok b"
    by (simp only: Data_Bytes_def DataFromBytes_def TrimPrefix_append DecodeString_EncodeToString)
  show "DataFromString (DataFromBytes b) = DataFromBytes b"
    using Data_String_DataFromBytes [of b] by (simp add: DataFromString_def Data_String_def)
qed

lemma ScaleStr_error:
  assumes "0 < d"
  shows "\<exists>s v. ScaleStr (UnscaledNumber (Some x)) d = Ok s \<and> decimal_val s = Some v \<and>
    \<bar>v - of_int x / 10 ^ nat d\<bar> \<le> 1 / (2 * 10 ^ 8) + \<bar>of_int x / 10 ^ nat d\<bar> / 2 ^ 64"
proof -
  define q :: rat where "q = of_int x / 10 ^ nat d"
  define p where "p = max (BitLen x) 64"
  define f where "f = BigFloat p (round_prec p q)"
  have s: "ScaleStr (UnscaledNumber (Some x)) d = Ok (SprintfF 8 f)"
    using assms by (simp add: ScaleStr_def Scale_def f_def FloatQuo_def FloatSetInt_def
        p_def q_def Exp_def Let_def)
  obtain v where v: "decimal_val (SprintfF 8 f) = Some v" "\<bar>v - fval f\<bar> \<le> 1 / (2 * 10 ^ 8)"
    using SprintfF_accuracy [of 8 f] by auto
  have "\<bar>fval f - q\<bar> \<le> \<bar>q\<bar> / 2 ^ p" using round_prec_error [of p q] by (simp add: f_def)
  also have "\<dots> \<le> \<bar>q\<bar> / 2 ^ 64"
    by (intro divide_left_mono power_increasing) (simp_all add: p_def)
  finally have "\<bar>v - q\<bar> \<le> 1 / (2 * 10 ^ 8) + \<bar>q\<bar> / 2 ^ 64" using v(2) by linarith
  with s v(1) show ?thesis by (auto simp: q_def)
qed

text \<open>C40. Scaling for display is accurate: for a positive number of decimals, the text of
  \<open>ScaleStr\<close> denotes a value within half a unit of the eighth place of \<open>x / 10 ^ d\<close>, up to the
  relative error \<open>2 ^ (- 64)\<close> of the float division.\<close>

theorem ScaleStr_accuracy:
  assumes "0 < d"
  shows "\<exists>s v. ScaleStr (UnscaledNumber (Some x)) d = Ok s \<and> decimal_val s = Some v \<and>
    \<bar>v - of_int x / 10 ^ nat d\<bar> \<le> 1 / (2 * 10 ^ 8) + \<bar>of_int x / 10 ^ nat d\<bar> / 2 ^ 64"
  using assms by (rule ScaleStr_error)

theorem ScaleStr_accuracy_witness:
  "(0 :: int) < 6 \<and>
   (\<exists>s v. ScaleStr (UnscaledNumber (Some 1234567)) 6 = Ok s \<and> decimal_val s = Some v \<and>
      \<bar>v - of_int 1234567 / 10 ^ nat 6\<bar>
        \<le> 1 / (2 * 10 ^ 8) + \<bar>of_int 1234567 / 10 ^ nat 6\<bar> / 2 ^ 64)"
  using ScaleStr_accuracy [of 6 1234567] by simp

end
