(* ===== verification/Ethereum.thy ===== *)
theory Ethereum
  imports Types
begin

text \<open>
  What the services use of go-ethereum (\<open>common\<close>, \<open>accounts/abi\<close>), which is not part of this
  repository: the functions are the fields of the record \<open>eth\<close>, an argument of every definition
  that calls them, and the documented behaviour the code relies on is the predicate
  \<open>eth_lawful\<close>.  A hash is a 256 bit word, an address a 160 bit word.  \<open>abi_args\<close> transcribes the
  non-indexed arguments of the four embedded \<open>abi.json\<close> files under src/lib/events.  The last
  section builds one concrete instance, \<open>ref_eth\<close>, that satisfies the laws.
\<close>

section \<open>Values the ABI decoder hands back\<close>

type_synonym ethHash = "256 word"
type_synonym ethAddress = "160 word"

text \<open>The dynamic types of the elements of the \<open>[]any\<close> that \<open>abi.Unpack\<close> returns.\<close>

datatype any =
    AnyInt32 "32 word"
  | AnyUint8 byte
  | AnyBool bool
  | AnyBigInt int
  | AnyOther string

text \<open>The type name printed by \<open>%T\<close>.\<close>

fun go_type :: "any \<Rightarrow> string" where
  "go_type (AnyInt32 _) = ''int32''"
| "go_type (AnyUint8 _) = ''uint8''"
| "go_type (AnyBool _) = ''bool''"
| "go_type (AnyBigInt _) = ''*big.Int''"
| "go_type (AnyOther t) = t"

fun as_int32 :: "any \<Rightarrow> 32 word option" where
  "as_int32 (AnyInt32 w) = Some w"
| "as_int32 _ = None"

fun as_uint8 :: "any \<Rightarrow> byte option" where
  "as_uint8 (AnyUint8 w) = Some w"
| "as_uint8 _ = None"

fun as_bool :: "any \<Rightarrow> bool option" where
  "as_bool (AnyBool b) = Some b"
| "as_bool _ = None"

fun as_BigInt :: "any \<Rightarrow> int option" where
  "as_BigInt (AnyBigInt i) = Some i"
| "as_BigInt _ = None"

text \<open>\<open>v, ok := i[k].(T)\<close> followed by \<open>if !ok { return nil, fmt.Errorf(msg, i[k']) }\<close>: both
  indexings are checked by the run time.\<close>

definition type_assert :: "(any \<Rightarrow> 'a option) \<Rightarrow> any list \<Rightarrow> nat \<Rightarrow> string \<Rightarrow> nat \<Rightarrow> 'a res" where
  "type_assert conv i k msg k' =
     andThen (idx i k) (\<lambda>v.
       case conv v of
         Some x \<Rightarrow> Ok x
       | None \<Rightarrow> andThen (idx i k') (\<lambda>w. Err (Errorf (msg @ go_type w))))"

section \<open>The embedded ABIs\<close>

datatype abi_file = AbiErc20 | AbiThirdweb | AbiLeo | AbiSeawater

datatype abi_type = TInt32 | TUint8 | TBool | TUint128 | TInt256 | TUint256

definition abi_args :: "abi_file \<Rightarrow> string \<Rightarrow> abi_type list option" where
  "abi_args f name =
     map_of (case f of
         AbiErc20 \<Rightarrow> [(''Transfer'', [TUint256])]
       | AbiThirdweb \<Rightarrow> [(''AccountCreated'', [])]
       | AbiLeo \<Rightarrow>
           [(''CampaignBalanceUpdated'', []),
            (''CampaignCreated'', [TUint256, TUint256]),
            (''CampaignUpdated'', [TUint256])]
       | AbiSeawater \<Rightarrow>
           [(''MintPosition'', [TInt32, TInt32]),
            (''BurnPosition'', []),
            (''TransferPosition'', []),
            (''UpdatePositionLiquidity'', [TInt256, TInt256]),
            (''CollectFees'', [TUint128, TUint128]),
            (''NewPool'', [TUint8, TUint8]),
            (''CollectProtocolFees'', [TUint128, TUint128]),
            (''Swap2'', [TUint256, TUint256, TUint256, TInt32, TInt32]),
            (''Swap1'', [TBool, TUint256, TUint256, TInt32])]) name"

fun of_type :: "abi_type \<Rightarrow> any \<Rightarrow> bool" where
  "of_type TInt32 (AnyInt32 _) = True"
| "of_type TUint8 (AnyUint8 _) = True"
| "of_type TBool (AnyBool _) = True"
| "of_type TUint128 (AnyBigInt _) = True"
| "of_type TInt256 (AnyBigInt _) = True"
| "of_type TUint256 (AnyBigInt _) = True"
| "of_type _ _ = False"

fun in_range :: "abi_type \<Rightarrow> any \<Rightarrow> bool" where
  "in_range TUint128 (AnyBigInt i) = (0 \<le> i \<and> i < 2 ^ 128)"
| "in_range TInt256 (AnyBigInt i) = (- (2 ^ 255) \<le> i \<and> i < 2 ^ 255)"
| "in_range TUint256 (AnyBigInt i) = (0 \<le> i \<and> i < 2 ^ 256)"
| "in_range t v = of_type t v"

section \<open>Big-endian bytes and the ABI encoding\<close>

text \<open>The low \<open>n\<close> bytes of an integer, most significant first, and the number they spell.\<close>

primrec be_bytes :: "nat \<Rightarrow> int \<Rightarrow> byte list" where
  "be_bytes 0 x = []"
| "be_bytes (Suc n) x = be_bytes n (x div 256) @ [word_of_int x]"

definition be_value :: "byte list \<Rightarrow> int" where
  "be_value bs = foldl (\<lambda>a b. 256 * a + uint b) 0 bs"

text \<open>The 32 byte word that encodes a value, in two's complement when it is signed.\<close>

fun abi_word :: "any \<Rightarrow> int" where
  "abi_word (AnyInt32 w) = sint w mod 2 ^ 256"
| "abi_word (AnyUint8 w) = uint w"
| "abi_word (AnyBool b) = (if b then 1 else 0)"
| "abi_word (AnyBigInt i) = i mod 2 ^ 256"
| "abi_word (AnyOther _) = 0"

definition abi_encode :: "any list \<Rightarrow> byte list" where
  "abi_encode vs = concat (map (\<lambda>v. be_bytes 32 (abi_word v)) vs)"

lemma length_be_bytes [simp]: "length (be_bytes n x) = n"
  by (induction n arbitrary: x) auto

lemma be_value_snoc [simp]: "be_value (bs @ [b]) = 256 * be_value bs + uint b"
  by (simp add: be_value_def)

lemma be_value_be_bytes: "be_value (be_bytes n x) = x mod 256 ^ n"
proof (induction n arbitrary: x)
  case 0
  then show ?case by (simp add: be_value_def)
next
  case (Suc n)
  have "x mod (256 * 256 ^ n) = 256 * (x div 256 mod 256 ^ n) + x mod 256"
    by (rule zmod_zmult2_eq) simp
  then show ?case by (simp add: Suc.IH take_bit_eq_mod unsigned_of_int)
qed

lemma be_value_bytes32 [simp]: "be_value (be_bytes 32 x) = x mod 2 ^ 256"
  by (simp add: be_value_be_bytes)

lemma length_abi_encode [simp]: "length (abi_encode vs) = 32 * length vs"
  by (induction vs) (simp_all add: abi_encode_def)

lemma abi_encode_simps [simp]:
  "abi_encode [] = []"
  "abi_encode (v # vs) = be_bytes 32 (abi_word v) @ abi_encode vs"
  by (simp_all add: abi_encode_def)

lemma uint_drop_bit_div: "uint (drop_bit n w) = uint (w :: 'a::len word) div 2 ^ n"
proof -
  have "uint (drop_bit n w) = drop_bit n (uint w)"
    by (rule bit_eqI) (auto simp: bit_simps dest: bit_imp_le_length)
  then show ?thesis by (simp only: drop_bit_eq_div)
qed

lemma hash_bound: "uint (h :: ethHash) < 2 ^ 256"
  using uint_lt2p [of h] by simp

lemma take_be_bytes: "k \<le> n \<Longrightarrow> take k (be_bytes n x) = be_bytes k (x div 256 ^ (n - k))"
proof (induction n arbitrary: x)
  case (Suc n)
  then show ?case
    by (cases "k = Suc n") (simp_all add: Suc_diff_le zdiv_zmult2_eq power_add)
qed simp

lemma be_bytes_eq_iff: "be_bytes n x = be_bytes n y \<longleftrightarrow> x mod 256 ^ n = y mod 256 ^ n"
proof
  assume "x mod 256 ^ n = y mod 256 ^ n"
  then show "be_bytes n x = be_bytes n y"
  proof (induction n arbitrary: x y)
    case (Suc n)
    have split: "z mod 256 ^ Suc n = 256 * (z div 256 mod 256 ^ n) + z mod 256" for z :: int
      using zmod_zmult2_eq [of "256 ^ n" z 256] by simp
    have "x mod 256 = y mod 256"
      using arg_cong [OF Suc.prems, of "\<lambda>z. z mod 256"] by (simp add: mod_mod_cancel)
    moreover from this have "x div 256 mod 256 ^ n = y div 256 mod 256 ^ n"
      using Suc.prems unfolding split by simp
    ultimately show ?case
      using Suc.IH [of "x div 256" "y div 256"] by (simp add: word_of_int_eq_iff take_bit_eq_mod)
  qed simp
qed (metis be_value_be_bytes)

section \<open>The functions of go-ethereum the services call\<close>

record eth =
  Hash_Bytes :: "ethHash \<Rightarrow> byte list"
  Hash_Big :: "ethHash \<Rightarrow> int"
  HashText :: "ethHash \<Rightarrow> string"
  BytesToAddress :: "byte list \<Rightarrow> ethAddress"
  BigToAddress :: "int \<Rightarrow> ethAddress"
  HexToAddress :: "string \<Rightarrow> ethAddress"
  AddressText :: "ethAddress \<Rightarrow> string"
  EventID :: "abi_file \<Rightarrow> string \<Rightarrow> ethHash"
  Unpack :: "abi_file \<Rightarrow> string \<Rightarrow> byte list \<Rightarrow> any list res"

text \<open>The lower-case texts of an address and of a hash.\<close>

definition addr_text :: "ethAddress \<Rightarrow> string" where
  "addr_text a = ''0x'' @ EncodeToString (be_bytes 20 (uint a))"

definition hash_text :: "ethHash \<Rightarrow> string" where
  "hash_text h = ''0x'' @ EncodeToString (be_bytes 32 (uint h))"

text \<open>Hashes are 32 big-endian bytes; conversions to an address crop on the left and pad on the
  left; \<open>Address.String\<close> is the EIP-55 text, which differs from the lower-case one in letter case
  only.\<close>

definition common_lawful :: "eth \<Rightarrow> bool" where
  "common_lawful E \<longleftrightarrow>
     (\<forall>h. Hash_Bytes E h = be_bytes 32 (uint h)) \<and>
     (\<forall>h. Hash_Big E h = uint h) \<and>
     (\<forall>h. HashText E h = hash_text h) \<and>
     (\<forall>b. BytesToAddress E b = word_of_int (be_value b)) \<and>
     (\<forall>i\<ge>0. BigToAddress E i = word_of_int i) \<and>
     (\<forall>a. HexToAddress E (addr_text a) = a) \<and>
     (\<forall>a. ToLower (AddressText E a) = addr_text a)"

text \<open>\<open>abi.Unpack\<close> of a declared event: an error when the data is too short, otherwise (when it
  succeeds) one value of the declared type per non-indexed argument, and exactly the encoded
  values when the data is an ABI encoding.\<close>

definition abi_lawful :: "eth \<Rightarrow> bool" where
  "abi_lawful E \<longleftrightarrow>
     (\<forall>f name ts d. abi_args f name = Some ts \<longrightarrow>
        (length d < 32 * length ts \<longrightarrow> (\<exists>e. Unpack E f name d = Err e)) \<and>
        ((\<exists>e. Unpack E f name d = Err e) \<or>
         (\<exists>vs. Unpack E f name d = Ok vs \<and> list_all2 of_type ts vs))) \<and>
     (\<forall>f name ts vs. abi_args f name = Some ts \<longrightarrow> list_all2 in_range ts vs \<longrightarrow>
        Unpack E f name (abi_encode vs) = Ok vs)"

definition eth_lawful :: "eth \<Rightarrow> bool" where
  "eth_lawful E \<longleftrightarrow> common_lawful E \<and> abi_lawful E"

lemma eth_lawfulD [dest]: "eth_lawful E \<Longrightarrow> common_lawful E" "eth_lawful E \<Longrightarrow> abi_lawful E"
  by (simp_all add: eth_lawful_def)

lemma Unpack_short:
  "abi_lawful E \<Longrightarrow> abi_args f name = Some ts \<Longrightarrow> length d < 32 * length ts \<Longrightarrow>
     \<exists>e. Unpack E f name d = Err e"
  by (simp add: abi_lawful_def)

lemma Unpack_cases:
  assumes "abi_lawful E" "abi_args f name = Some ts"
  obtains e where "Unpack E f name d = Err e"
    | vs where "Unpack E f name d = Ok vs" "list_all2 of_type ts vs"
  using assms unfolding abi_lawful_def by metis

lemma Unpack_encoded:
  "abi_lawful E \<Longrightarrow>
     (case abi_args f name of None \<Rightarrow> False | Some ts \<Rightarrow> list_all2 in_range ts vs) \<Longrightarrow>
     Unpack E f name (abi_encode vs) = Ok vs"
  by (simp add: abi_lawful_def split: option.splits)

text \<open>The values of each declared type.\<close>

lemma of_type_cases:
  "of_type TInt32 v \<longleftrightarrow> (\<exists>w. v = AnyInt32 w)"
  "of_type TUint8 v \<longleftrightarrow> (\<exists>b. v = AnyUint8 b)"
  "of_type TBool v \<longleftrightarrow> (\<exists>b. v = AnyBool b)"
  "of_type TUint128 v \<longleftrightarrow> (\<exists>i. v = AnyBigInt i)"
  "of_type TInt256 v \<longleftrightarrow> (\<exists>i. v = AnyBigInt i)"
  "of_type TUint256 v \<longleftrightarrow> (\<exists>i. v = AnyBigInt i)"
  by (cases v; simp)+

lemma type_assert_Ok [simp]:
  "k < length i \<Longrightarrow> conv (i ! k) = Some x \<Longrightarrow> type_assert conv i k msg k' = Ok x"
  by (simp add: type_assert_def)

lemma lower_addr_text [simp]: "ToLower (addr_text a) = addr_text a"
  by (simp add: addr_text_def lower_char_def)

lemma length_addr_text [simp]: "length (addr_text a) = 42"
  by (simp add: addr_text_def)

section \<open>A concrete instance\<close>

fun ref_value :: "abi_type \<Rightarrow> int \<Rightarrow> any" where
  "ref_value TInt32 x = AnyInt32 (word_of_int x)"
| "ref_value TUint8 x = AnyUint8 (word_of_int x)"
| "ref_value TBool x = AnyBool (x = 1)"
| "ref_value TUint128 x = AnyBigInt x"
| "ref_value TInt256 x = AnyBigInt (if x < 2 ^ 255 then x else x - 2 ^ 256)"
| "ref_value TUint256 x = AnyBigInt x"

primrec ref_decode :: "abi_type list \<Rightarrow> byte list \<Rightarrow> any list" where
  "ref_decode [] d = []"
| "ref_decode (t # ts) d = ref_value t (be_value (take 32 d)) # ref_decode ts (drop 32 d)"

definition ref_Unpack :: "abi_file \<Rightarrow> string \<Rightarrow> byte list \<Rightarrow> any list res" where
  "ref_Unpack f name d =
     (case abi_args f name of
        None \<Rightarrow> Err (External ''abi: could not locate named method or event'')
      | Some ts \<Rightarrow>
          if length d < 32 * length ts
          then Err (External ''abi: cannot marshal in to go type: length insufficient'')
          else Ok (ref_decode ts d))"

definition ref_topics :: "(string \<times> ethHash) list" where
  "ref_topics =
     [(''Transfer'', 1), (''AccountCreated'', 2), (''CampaignBalanceUpdated'', 3),
      (''CampaignCreated'', 4), (''CampaignUpdated'', 5), (''MintPosition'', 6),
      (''BurnPosition'', 7), (''TransferPosition'', 8), (''UpdatePositionLiquidity'', 9),
      (''CollectFees'', 10), (''NewPool'', 11), (''CollectProtocolFees'', 12), (''Swap2'', 13),
      (''Swap1'', 14)]"

definition ref_eth :: eth where
  "ref_eth = \<lparr>
     Hash_Bytes = (\<lambda>h. be_bytes 32 (uint h)),
     Hash_Big = uint,
     HashText = hash_text,
     BytesToAddress = (\<lambda>b. word_of_int (be_value b)),
     BigToAddress = word_of_int,
     HexToAddress = (\<lambda>s. case DecodeString (TrimPrefix ''0x'' s) of
         Ok b \<Rightarrow> word_of_int (be_value b) | _ \<Rightarrow> 0),
     AddressText = addr_text,
     EventID = (\<lambda>f name. case map_of ref_topics name of None \<Rightarrow> 0 | Some h \<Rightarrow> h),
     Unpack = ref_Unpack\<rparr>"

lemma ref_decode_of_type: "list_all2 of_type ts (ref_decode ts d)"
proof (induction ts arbitrary: d)
  case (Cons t ts)
  have "of_type t (ref_value t x)" for x by (cases t) simp_all
  with Cons show ?case by simp
qed simp

lemma word_of_int_mod:
  assumes "LENGTH('a::len) \<le> n"
  shows "(word_of_int (i mod 2 ^ n) :: 'a word) = word_of_int i"
  using assms by (simp add: word_of_int_eq_iff take_bit_take_bit min_def flip: take_bit_eq_mod)

lemmas word_of_int_mod_widths =
  word_of_int_mod [where n = 256 and 'a = 32, simplified]
  word_of_int_mod [where n = 256 and 'a = 8, simplified]
  word_of_int_mod [where n = 160 and 'a = 160, simplified]

lemma ref_value_abi_word: "in_range t v \<Longrightarrow> ref_value t (abi_word v mod 2 ^ 256) = v"
proof (cases t; cases v)
  fix i assume "in_range t v" "t = TInt256" "v = AnyBigInt i"
  moreover have "i mod 2 ^ 256 = i + 2 ^ 256" if "- (2 ^ 255) \<le> i" "i < 0"
    using that by (subst mod_add_self2 [symmetric]) (rule mod_pos_pos_trivial; simp)
  ultimately show ?thesis by (cases "i < 0") (auto simp: mod_pos_pos_trivial)
qed (auto simp: mod_pos_pos_trivial word_of_int_mod_widths)

lemma ref_decode_encode: "list_all2 in_range ts vs \<Longrightarrow> ref_decode ts (abi_encode vs) = vs"
  by (induction rule: list_all2_induct) (simp_all add: ref_value_abi_word [simplified])

lemma ref_eth_common: "common_lawful ref_eth"
proof -
  have "DecodeString (TrimPrefix ''0x'' (addr_text a)) = Ok (be_bytes 20 (uint a))" for a
    by (simp only: addr_text_def TrimPrefix_append DecodeString_EncodeToString)
  then show ?thesis
    by (simp add: common_lawful_def ref_eth_def be_value_be_bytes word_of_int_mod_widths)
qed

lemma ref_eth_abi: "abi_lawful ref_eth"
  unfolding abi_lawful_def
  by (auto simp: ref_eth_def ref_Unpack_def ref_decode_of_type ref_decode_encode
      dest: list_all2_lengthD)

lemma ref_eth_lawful: "eth_lawful ref_eth"
  by (simp add: eth_lawful_def ref_eth_common ref_eth_abi)

end
