(* ===== verification/Events.thy ===== *)
theory Events
  imports Ethereum
begin

text \<open>
  src/lib/events: the event structs (\<open>events.go\<close> and the four \<open>types.go\<close>, each a record that
  extends \<open>Event\<close>, as the Go structs embed it) and the unpackers of the erc20, thirdweb, leo and
  seawater packages, which turn the topics and the data of a log into such a struct.  Every
  unpacker takes the go-ethereum functions as its first argument.
\<close>

section \<open>The event structs\<close>

record Event =
  ev_CreatedBy :: time
  ev_BlockHash :: Hash
  ev_TransactionHash :: Hash
  ev_BlockNumber :: "64 word"
  ev_EmitterAddr :: Address

text \<open>The zero value of the embedded struct, around the fields of the outer one.\<close>

definition zero_event :: "'a \<Rightarrow> 'a Event_scheme" where
  "zero_event m = \<lparr>ev_CreatedBy = zero_time, ev_BlockHash = [], ev_TransactionHash = [],
     ev_BlockNumber = 0, ev_EmitterAddr = [], \<dots> = m\<rparr>"

record Transfer = Event +
  tr_Sender :: Address
  tr_Recipient :: Address
  tr_Value :: UnscaledNumber

record AccountCreated = Event +
  ac_Account :: Address
  ac_AccountAdmin :: Address

record CampaignBalanceUpdated = Event +
  cbu_Identifier :: Data
  cbu_NewMaximum :: UnscaledNumber

record CampaignCreated = Event +
  cc_Identifier :: Data
  cc_Pool :: Address
  cc_Token :: Address
  cc_TickLower :: "32 word"
  cc_TickUpper :: "32 word"
  cc_Owner :: Address
  cc_Starting :: time
  cc_Ending :: time

record CampaignUpdated = Event +
  cu_Identifier :: Data
  cu_Pool :: Address
  cu_PerSecond :: Number
  cu_Token :: Address
  cu_TickLower :: "32 word"
  cu_TickUpper :: "32 word"
  cu_Starting :: time
  cu_Ending :: time

record MintPosition = Event +
  mp_PosId :: int
  mp_Owner :: Address
  mp_Pool :: Address
  mp_Lower :: Number
  mp_Upper :: Number

record BurnPosition = Event +
  bp_PosId :: int
  bp_Owner :: Address

record TransferPosition = Event +
  tp_From :: Address
  tp_To :: Address
  tp_PosId :: int

record UpdatePositionLiquidity = Event +
  upl_PosId :: int
  upl_Token0 :: UnscaledNumber
  upl_Token1 :: UnscaledNumber

record CollectFees = Event +
  cf_PosId :: int
  cf_Pool :: Address
  cf_To :: Address
  cf_Amount0 :: UnscaledNumber
  cf_Amount1 :: UnscaledNumber

record NewPool = Event +
  np_Token :: Address
  np_Fee :: "32 word"
  np_Decimals :: byte
  np_TickSpacing :: byte

record CollectProtocolFees = Event +
  cpf_Pool :: Address
  cpf_To :: Address
  cpf_Amount0 :: UnscaledNumber
  cpf_Amount1 :: UnscaledNumber

record Swap1 = Event +
  s1_User :: Address
  s1_Pool :: Address
  s1_ZeroForOne :: bool
  s1_Amount0 :: UnscaledNumber
  s1_Amount1 :: UnscaledNumber
  s1_FinalTick :: Number

record Swap2 = Event +
  s2_User :: Address
  s2_From :: Address
  s2_To :: Address
  s2_AmountIn :: UnscaledNumber
  s2_AmountOut :: UnscaledNumber
  s2_FluidVolume :: UnscaledNumber
  s2_FinalTick0 :: Number
  s2_FinalTick1 :: Number

section \<open>ERC20\<close>

definition TopicTransfer :: "eth \<Rightarrow> ethHash" where
  "TopicTransfer E = EventID E AbiErc20 ''Transfer''"

text \<open>This package keeps the mixed-case text of the address.\<close>

definition erc20_hashToAddr :: "eth \<Rightarrow> ethHash \<Rightarrow> Address" where
  "erc20_hashToAddr E h = (let v = BytesToAddress E (Hash_Bytes E h) in AddressText E v)"

definition UnpackTransfer :: "eth \<Rightarrow> ethHash \<Rightarrow> ethHash \<Rightarrow> byte list \<Rightarrow> Transfer res" where
  "UnpackTransfer E topic1 topic2 d =
     andThen
       (if 0 < length d
        then andThen (Unpack E AbiErc20 ''Transfer'' d) (\<lambda>i.
          type_assert as_BigInt i 0 ''bad amount: '' 0)
        else Ok 0) (\<lambda>amount.
     Ok (zero_event (Transfer.fields
       (erc20_hashToAddr E topic1)
       (erc20_hashToAddr E topic2)
       (UnscaledNumberFromBig amount))))"

section \<open>Thirdweb\<close>

definition TopicAccountCreated :: "eth \<Rightarrow> ethHash" where
  "TopicAccountCreated E = EventID E AbiThirdweb ''AccountCreated''"

definition thirdweb_hashToAddr :: "eth \<Rightarrow> ethHash \<Rightarrow> Address" where
  "thirdweb_hashToAddr E h =
     (let v = BytesToAddress E (Hash_Bytes E h) in AddressFromString (AddressText E v))"

definition UnpackAccountCreated ::
    "eth \<Rightarrow> ethHash \<Rightarrow> ethHash \<Rightarrow> byte list \<Rightarrow> AccountCreated res" where
  "UnpackAccountCreated E topic1 topic2 d =
     (let account = thirdweb_hashToAddr E topic1; accountAdmin = thirdweb_hashToAddr E topic2
      in Ok (zero_event (AccountCreated.fields account accountAdmin)))"

section \<open>Leo\<close>

definition TopicCampaignBalanceUpdated :: "eth \<Rightarrow> ethHash" where
  "TopicCampaignBalanceUpdated E = EventID E AbiLeo ''CampaignBalanceUpdated''"

definition TopicCampaignCreated :: "eth \<Rightarrow> ethHash" where
  "TopicCampaignCreated E = EventID E AbiLeo ''CampaignCreated''"

definition TopicCampaignUpdated :: "eth \<Rightarrow> ethHash" where
  "TopicCampaignUpdated E = EventID E AbiLeo ''CampaignUpdated''"

definition hashToUnscaledNumber :: "eth \<Rightarrow> ethHash \<Rightarrow> UnscaledNumber" where
  "hashToUnscaledNumber E h = UnscaledNumberFromBig (Hash_Big E h)"

definition hashToBytes8Data :: "eth \<Rightarrow> ethHash \<Rightarrow> Data" where
  "hashToBytes8Data E t = (let b = take 5 (Hash_Bytes E t) in DataFromBytes b)"

definition leo_hashToAddr :: "eth \<Rightarrow> ethHash \<Rightarrow> Address" where
  "leo_hashToAddr E h =
     (let v = BytesToAddress E (Hash_Bytes E h) in AddressFromString (AddressText E v))"

definition leo_hashToNumber :: "eth \<Rightarrow> ethHash \<Rightarrow> Number" where
  "leo_hashToNumber E h = NumberFromBig (Hash_Big E h)"

definition unpackDetails :: "eth \<Rightarrow> int \<Rightarrow> 32 word \<times> 32 word \<times> Address" where
  "unpackDetails E i =
     (let tickLower = word_of_int (Int64 (drop_bit (32 + 160) i));
          tickUpper = word_of_int (Int64 (drop_bit 160 i));
          owner = AddressFromString (AddressText E (BigToAddress E i))
      in (tickLower, tickUpper, owner))"

definition unpackTimes :: "int \<Rightarrow> 64 word \<times> 64 word" where
  "unpackTimes i =
     (let starting = Uint64 (drop_bit 64 i); ending = Uint64 i in (starting, ending))"

definition unpackExtras :: "int \<Rightarrow> 32 word \<times> 32 word \<times> 64 word \<times> 64 word" where
  "unpackExtras i =
     (let tickLower = word_of_int (Int64 (drop_bit (32 + 64 + 64) i));
          tickUpper = word_of_int (Int64 (drop_bit (64 + 64) i));
          starting = Uint64 (drop_bit 64 i);
          ending = Uint64 i
      in (tickLower, tickUpper, starting, ending))"

definition UnpackCampaignBalanceUpdated ::
    "eth \<Rightarrow> ethHash \<Rightarrow> ethHash \<Rightarrow> ethHash \<Rightarrow> byte list \<Rightarrow> CampaignBalanceUpdated res" where
  "UnpackCampaignBalanceUpdated E topic1 topic2 topic3 d =
     Ok (zero_event (CampaignBalanceUpdated.fields
       (hashToBytes8Data E topic1)
       (hashToUnscaledNumber E topic2)))"

definition UnpackCampaignCreated ::
    "eth \<Rightarrow> ethHash \<Rightarrow> ethHash \<Rightarrow> ethHash \<Rightarrow> byte list \<Rightarrow> CampaignCreated res" where
  "UnpackCampaignCreated E topic1 topic2 topic3 d =
     andThen (Unpack E AbiLeo ''CampaignCreated'' d) (\<lambda>i.
     andThen (type_assert as_BigInt i 0 ''bad details: '' 0) (\<lambda>details.
     andThen (type_assert as_BigInt i 1 ''bad times: '' 1) (\<lambda>times.
     let (tickLower, tickUpper, owner) = unpackDetails E details;
         (starting, ending) = unpackTimes times
     in Ok (zero_event (CampaignCreated.fields
       (hashToBytes8Data E topic1)
       (leo_hashToAddr E topic2)
       (leo_hashToAddr E topic3)
       tickLower
       tickUpper
       owner
       (time_Unix (sint starting))
       (time_Unix (sint ending)))))))"

text \<open>The data is decoded with the arguments of \<open>CampaignCreated\<close>, and \<open>Token\<close> is left empty.\<close>

definition UnpackCampaignUpdated ::
    "eth \<Rightarrow> ethHash \<Rightarrow> ethHash \<Rightarrow> ethHash \<Rightarrow> byte list \<Rightarrow> CampaignUpdated res" where
  "UnpackCampaignUpdated E topic1 topic2 topic3 d =
     andThen (Unpack E AbiLeo ''CampaignCreated'' d) (\<lambda>i.
     andThen (type_assert as_BigInt i 0 ''bad extras: '' 0) (\<lambda>extras.
     let (tickLower, tickUpper, starting, ending) = unpackExtras extras
     in Ok (zero_event (CampaignUpdated.fields
       (hashToBytes8Data E topic1)
       (leo_hashToAddr E topic2)
       (leo_hashToNumber E topic3)
       []
       tickLower
       tickUpper
       (time_Unix (sint starting))
       (time_Unix (sint ending))))))"

section \<open>Seawater\<close>

definition TopicMintPosition :: "eth \<Rightarrow> ethHash" where
  "TopicMintPosition E = EventID E AbiSeawater ''MintPosition''"

definition TopicBurnPosition :: "eth \<Rightarrow> ethHash" where
  "TopicBurnPosition E = EventID E AbiSeawater ''BurnPosition''"

definition TopicTransferPosition :: "eth \<Rightarrow> ethHash" where
  "TopicTransferPosition E = EventID E AbiSeawater ''TransferPosition''"

definition TopicUpdatePositionLiquidity :: "eth \<Rightarrow> ethHash" where
  "TopicUpdatePositionLiquidity E = EventID E AbiSeawater ''UpdatePositionLiquidity''"

definition TopicCollectFees :: "eth \<Rightarrow> ethHash" where
  "TopicCollectFees E = EventID E AbiSeawater ''CollectFees''"

definition TopicNewPool :: "eth \<Rightarrow> ethHash" where
  "TopicNewPool E = EventID E AbiSeawater ''NewPool''"

definition TopicCollectProtocolFees :: "eth \<Rightarrow> ethHash" where
  "TopicCollectProtocolFees E = EventID E AbiSeawater ''CollectProtocolFees''"

definition TopicSwap2 :: "eth \<Rightarrow> ethHash" where
  "TopicSwap2 E = EventID E AbiSeawater ''Swap2''"

definition TopicSwap1 :: "eth \<Rightarrow> ethHash" where
  "TopicSwap1 E = EventID E AbiSeawater ''Swap1''"

definition seawater_hashToNumber :: "eth \<Rightarrow> ethHash \<Rightarrow> Number" where
  "seawater_hashToNumber E h = NumberFromBig (Hash_Big E h)"

text \<open>\<open>%#v\<close> prints a string with its quotes.\<close>

definition hashToInt :: "eth \<Rightarrow> ethHash \<Rightarrow> int res" where
  "hashToInt E h =
     (let i = seawater_hashToNumber E h in
      if \<not> is_int64 (Number_Big i)
      then Err (Errorf (''too large: '' @ [CHR 0x22] @ Number_String i @ [CHR 0x22]))
      else Ok (Int64 (Number_Big i)))"

definition seawater_hashToAddr :: "eth \<Rightarrow> ethHash \<Rightarrow> Address" where
  "seawater_hashToAddr E h =
     (let v = BytesToAddress E (Hash_Bytes E h) in AddressFromString (AddressText E v))"

definition ethAddrToAddr :: "eth \<Rightarrow> ethAddress \<Rightarrow> Address" where
  "ethAddrToAddr E a = AddressFromString (AddressText E a)"

definition UnpackMintPosition ::
    "eth \<Rightarrow> ethHash \<Rightarrow> ethHash \<Rightarrow> ethHash \<Rightarrow> byte list \<Rightarrow> MintPosition res" where
  "UnpackMintPosition E topic1 topic2 topic3 d =
     andThen (Unpack E AbiSeawater ''MintPosition'' d) (\<lambda>i.
     andThen (type_assert as_int32 i 0 ''bad lower: '' 0) (\<lambda>lower.
     andThen (type_assert as_int32 i 1 ''bad upper: '' 1) (\<lambda>upper.
     andThen (hashToInt E topic1) (\<lambda>posId.
     Ok (zero_event (MintPosition.fields
       posId
       (seawater_hashToAddr E topic2)
       (seawater_hashToAddr E topic3)
       (NumberFromInt32 lower)
       (NumberFromInt32 upper)))))))"

definition UnpackBurnPosition ::
    "eth \<Rightarrow> ethHash \<Rightarrow> ethHash \<Rightarrow> byte list \<Rightarrow> BurnPosition res" where
  "UnpackBurnPosition E topic1 topic2 d =
     andThen (hashToInt E topic1) (\<lambda>posId.
     Ok (zero_event (BurnPosition.fields posId (seawater_hashToAddr E topic2))))"

definition UnpackTransferPosition ::
    "eth \<Rightarrow> ethHash \<Rightarrow> ethHash \<Rightarrow> ethHash \<Rightarrow> byte list \<Rightarrow> TransferPosition res" where
  "UnpackTransferPosition E topic1 topic2 topic3 d =
     andThen (hashToInt E topic3) (\<lambda>posId.
     Ok (zero_event (TransferPosition.fields
       (seawater_hashToAddr E topic1)
       (seawater_hashToAddr E topic2)
       posId)))"

text \<open>The error paths of the next two unpackers, and of \<open>UnpackSwap2\<close>, print the element after
  the one they tested.\<close>

definition UnpackUpdatePositionLiquidity ::
    "eth \<Rightarrow> ethHash \<Rightarrow> ethHash \<Rightarrow> byte list \<Rightarrow> UpdatePositionLiquidity res" where
  "UnpackUpdatePositionLiquidity E topic1 topic2 d =
     andThen (hashToInt E topic1) (\<lambda>posId.
     andThen (Unpack E AbiSeawater ''UpdatePositionLiquidity'' d) (\<lambda>i.
     andThen (type_assert as_BigInt i 0 ''bad token0: '' 1) (\<lambda>token0.
     andThen (type_assert as_BigInt i 1 ''bad token1: '' 2) (\<lambda>token1.
     Ok (zero_event (UpdatePositionLiquidity.fields
       posId
       (UnscaledNumberFromBig token0)
       (UnscaledNumberFromBig token1)))))))"

definition UnpackCollectFees ::
    "eth \<Rightarrow> ethHash \<Rightarrow> ethHash \<Rightarrow> ethHash \<Rightarrow> byte list \<Rightarrow> CollectFees res" where
  "UnpackCollectFees E topic1 topic2 topic3 d =
     andThen (Unpack E AbiSeawater ''CollectFees'' d) (\<lambda>i.
     andThen (type_assert as_BigInt i 0 ''bad amount0: '' 1) (\<lambda>amount0.
     andThen (type_assert as_BigInt i 1 ''bad amount1: '' 2) (\<lambda>amount1.
     andThen (hashToInt E topic1) (\<lambda>posId.
     Ok (zero_event (CollectFees.fields
       posId
       (seawater_hashToAddr E topic2)
       (seawater_hashToAddr E topic3)
       (UnscaledNumberFromBig amount0)
       (UnscaledNumberFromBig amount1)))))))"

definition UnpackNewPool ::
    "eth \<Rightarrow> ethHash \<Rightarrow> ethHash \<Rightarrow> ethHash \<Rightarrow> byte list \<Rightarrow> NewPool res" where
  "UnpackNewPool E topic1 topic2 topic3 d =
     (let fee = word_of_int (Int64 (Hash_Big E topic2)) in
      andThen (Unpack E AbiSeawater ''NewPool'' d) (\<lambda>i.
      andThen (type_assert as_uint8 i 0 ''bad amount0: '' 0) (\<lambda>decimals.
      andThen (type_assert as_uint8 i 1 ''bad tickSpacing: '' 1) (\<lambda>tickSpacing.
      Ok (zero_event (NewPool.fields
        (seawater_hashToAddr E topic1)
        fee
        decimals
        tickSpacing))))))"

definition UnpackCollectProtocolFees ::
    "eth \<Rightarrow> ethHash \<Rightarrow> ethHash \<Rightarrow> byte list \<Rightarrow> CollectProtocolFees res" where
  "UnpackCollectProtocolFees E topic1 topic2 d =
     andThen (Unpack E AbiSeawater ''CollectProtocolFees'' d) (\<lambda>i.
     andThen (type_assert as_BigInt i 0 ''bad amount0: '' 0) (\<lambda>amount0.
     andThen (type_assert as_BigInt i 1 ''bad amount1: '' 1) (\<lambda>amount1.
     Ok (zero_event (CollectProtocolFees.fields
       (seawater_hashToAddr E topic1)
       (seawater_hashToAddr E topic2)
       (UnscaledNumberFromBig amount0)
       (UnscaledNumberFromBig amount1))))))"

definition UnpackSwap2 ::
    "eth \<Rightarrow> ethHash \<Rightarrow> ethHash \<Rightarrow> ethHash \<Rightarrow> byte list \<Rightarrow> Swap2 res" where
  "UnpackSwap2 E topic1 topic2 topic3 d =
     andThen (Unpack E AbiSeawater ''Swap2'' d) (\<lambda>i.
     andThen (type_assert as_BigInt i 0 ''bad amountIn: '' 1) (\<lambda>amountIn.
     andThen (type_assert as_BigInt i 1 ''bad amountOut: '' 2) (\<lambda>amountOut.
     andThen (type_assert as_BigInt i 2 ''bad fluidVolume: '' 3) (\<lambda>fluidVolume.
     andThen (type_assert as_int32 i 3 ''bad finalTick0: '' 4) (\<lambda>finalTick0.
     andThen (type_assert as_int32 i 4 ''bad finalTick1: '' 5) (\<lambda>finalTick1.
     Ok (zero_event (Swap2.fields
       (seawater_hashToAddr E topic1)
       (seawater_hashToAddr E topic2)
       (seawater_hashToAddr E topic3)
       (UnscaledNumberFromBig amountIn)
       (UnscaledNumberFromBig amountOut)
       (UnscaledNumberFromBig fluidVolume)
       (NumberFromInt64 (scast finalTick0))
       (NumberFromInt64 (scast finalTick1))))))))))"

definition UnpackSwap1 ::
    "eth \<Rightarrow> ethHash \<Rightarrow> ethHash \<Rightarrow> byte list \<Rightarrow> Swap1 res" where
  "UnpackSwap1 E topic1 topic2 d =
     andThen (Unpack E AbiSeawater ''Swap1'' d) (\<lambda>i.
     andThen (type_assert as_bool i 0 ''bad zeroForOne: '' 0) (\<lambda>zeroForOne.
     andThen (type_assert as_BigInt i 1 ''bad amount0: '' 1) (\<lambda>amount0.
     andThen (type_assert as_BigInt i 2 ''bad amount1: '' 2) (\<lambda>amount1.
     andThen (type_assert as_int32 i 3 ''bad finalTick: '' 3) (\<lambda>finalTick'.
     let finalTick = sint finalTick' in
     Ok (zero_event (Swap1.fields
       (seawater_hashToAddr E topic1)
       (seawater_hashToAddr E topic2)
       zeroForOne
       (UnscaledNumberFromBig amount0)
       (UnscaledNumberFromBig amount1)
       (NumberFromBig finalTick))))))))"

section \<open>Topics\<close>

text \<open>An address and a small integer as the topics that carry them.\<close>

definition addr_topic :: "ethAddress \<Rightarrow> ethHash" where
  "addr_topic a = ucast a"

text \<open>A \<open>bytes8\<close> topic is left-aligned in its word.\<close>

definition bytes8_topic :: "64 word \<Rightarrow> ethHash" where
  "bytes8_topic w = push_bit 192 (ucast w)"

lemma hashToAddr_topic:
  assumes "common_lawful E"
  shows "seawater_hashToAddr E h = addr_text (ucast h)"
    and "leo_hashToAddr E h = addr_text (ucast h)"
    and "thirdweb_hashToAddr E h = addr_text (ucast h)"
    and "Address_String (erc20_hashToAddr E h) = addr_text (ucast h)"
proof -
  have "BytesToAddress E (Hash_Bytes E h) = ucast h"
    using assms word_of_int_mod [where n = 256 and 'a = 160 and i = "uint h"]
    by (simp add: common_lawful_def unsigned_eq_0_iff flip: word_of_int_uint)
  then show "seawater_hashToAddr E h = addr_text (ucast h)"
    "leo_hashToAddr E h = addr_text (ucast h)"
    "thirdweb_hashToAddr E h = addr_text (ucast h)"
    "Address_String (erc20_hashToAddr E h) = addr_text (ucast h)"
    using assms
    by (simp_all add: seawater_hashToAddr_def leo_hashToAddr_def thirdweb_hashToAddr_def
        erc20_hashToAddr_def AddressFromString_def Address_String_def common_lawful_def)
qed

lemma ucast_addr_topic [simp]: "ucast (addr_topic a) = a"
  by (simp add: addr_topic_def unsigned_ucast_eq take_bit_word_eq_self flip: word_of_int_uint)

lemma hashToInt_cases:
  assumes "common_lawful E"
  shows "hashToInt E h =
    (if uint h < 2 ^ 63 then Ok (uint h)
     else Err (Errorf (''too large: '' @ [CHR 0x22] @ int_text 10 (uint h) @ [CHR 0x22])))"
proof -
  have "- (2 ^ 63) \<le> uint h" by (rule order_trans [of _ 0]) simp_all
  then show ?thesis using assms
    by (simp add: hashToInt_def seawater_hashToNumber_def common_lawful_def Int64_id is_int64_def
        Let_def Number_String_def NumberFromBig_def)
qed

lemma hashToInt_no_panic: "\<not> is_panic (hashToInt E h)"
  by (simp add: hashToInt_def Let_def)

section \<open>Packed fields of the Leo events\<close>

text \<open>How the Leo contract packs the fields that \<open>unpackDetails\<close>, \<open>unpackTimes\<close> and
  \<open>unpackExtras\<close> take apart (src/pkg/leo/src/events.rs).\<close>

unbundle bit_operations_syntax

definition pack_details :: "32 word \<Rightarrow> 32 word \<Rightarrow> ethAddress \<Rightarrow> 256 word" where
  "pack_details tick_lower tick_upper owner =
     push_bit (32 + 160) (ucast tick_lower) OR push_bit 160 (ucast tick_upper) OR ucast owner"

definition pack_times :: "64 word \<Rightarrow> 64 word \<Rightarrow> 256 word" where
  "pack_times starting ending = push_bit 64 (ucast starting) OR ucast ending"

definition pack_extras :: "32 word \<Rightarrow> 32 word \<Rightarrow> 64 word \<Rightarrow> 64 word \<Rightarrow> 256 word" where
  "pack_extras tick_lower tick_upper starting ending =
     push_bit (32 + 64 + 64) (ucast tick_lower) OR push_bit (64 + 64) (ucast tick_upper) OR
     push_bit 64 (ucast starting) OR ucast ending"

lemma word_of_Int64: "(word_of_int (Int64 i) :: 32 word) = word_of_int i"
  by (rule bit_word_eqI) (auto simp: Int64_def bit_simps min_def)

lemma Uint64_uint: "Uint64 (uint (w :: 256 word)) = ucast w"
  by (rule bit_word_eqI) (simp add: Uint64_def bit_simps)

lemma field_of_word:
  "(word_of_int (drop_bit n (uint (w :: 256 word))) :: 'a::len word) = ucast (drop_bit n w)"
  by (rule bit_word_eqI) (auto simp: bit_simps dest: bit_imp_le_length)

lemma Uint64_field: "Uint64 (drop_bit n (uint (w :: 256 word))) = ucast (drop_bit n w)"
  by (simp add: Uint64_def field_of_word drop_bit_nonnegative_int_iff)

lemma unpackTimes_pack: "unpackTimes (uint (pack_times s e)) = (s, e)"
proof -
  have "ucast (drop_bit 64 (pack_times s e)) = s"
    by (rule bit_word_eqI) (auto simp: pack_times_def bit_simps dest: bit_imp_le_length)
  moreover have "ucast (pack_times s e) = e"
    by (rule bit_word_eqI) (auto simp: pack_times_def bit_simps dest: bit_imp_le_length)
  ultimately show ?thesis by (simp add: unpackTimes_def Uint64_field Uint64_uint)
qed

lemma unpackExtras_pack: "unpackExtras (uint (pack_extras l u s e)) = (l, u, s, e)"
proof -
  let ?p = "pack_extras l u s e"
  have "ucast (drop_bit 160 ?p) = l" "ucast (drop_bit 128 ?p) = u"
    "ucast (drop_bit 64 ?p) = s" "ucast ?p = e"
    by (rule bit_word_eqI; auto simp: pack_extras_def bit_simps dest: bit_imp_le_length)+
  then show ?thesis
    by (simp add: unpackExtras_def Uint64_field Uint64_uint word_of_Int64 field_of_word)
qed

lemma unpackDetails_pack:
  assumes "common_lawful E"
  shows "unpackDetails E (uint (pack_details l u a)) = (l, u, addr_text a)"
proof -
  let ?p = "pack_details l u a"
  have f: "ucast (drop_bit 192 ?p) = l" "ucast (drop_bit 160 ?p) = u" "ucast ?p = a"
    by (rule bit_word_eqI; auto simp: pack_details_def bit_simps dest: bit_imp_le_length)+
  have "BigToAddress E (uint ?p) = a"
    using assms f(3) by (simp add: common_lawful_def flip: word_of_int_uint)
  then show ?thesis using assms
    by (simp add: unpackDetails_def word_of_Int64 field_of_word f AddressFromString_def
        common_lawful_def)
qed


section \<open>Unpacking never panics\<close>

lemmas unpacker_defs =
  UnpackTransfer_def UnpackAccountCreated_def UnpackCampaignBalanceUpdated_def
  UnpackCampaignCreated_def UnpackCampaignUpdated_def UnpackMintPosition_def
  UnpackBurnPosition_def UnpackTransferPosition_def UnpackUpdatePositionLiquidity_def
  UnpackCollectFees_def UnpackNewPool_def UnpackCollectProtocolFees_def UnpackSwap2_def
  UnpackSwap1_def

text \<open>The values \<open>Unpack\<close> hands back for a declared event have the declared types, position by
  position, so a continuation only has to be safe on those.\<close>

lemma Unpack_andThen_no_panic:
  assumes "abi_lawful E" "abi_args f name = Some ts"
    and "\<And>vs. list_all2 of_type ts vs \<Longrightarrow> \<not> is_panic (k vs)"
  shows "\<not> is_panic (andThen (Unpack E f name d) k)"
  using assms by (cases rule: Unpack_cases [OF assms(1,2), of d]) auto

lemmas typed_args = list_all2_Cons1 of_type_cases abi_args_def hashToInt_no_panic
  is_panic_andThen split_beta Let_def

lemma unpacker_safe:
  assumes "abi_lawful E"
  shows "\<not> is_panic (UnpackTransfer E t1 t2 d)"
    and "\<not> is_panic (UnpackAccountCreated E t1 t2 d)"
    and "\<not> is_panic (UnpackCampaignBalanceUpdated E t1 t2 t3 d)"
    and "\<not> is_panic (UnpackCampaignCreated E t1 t2 t3 d)"
    and "\<not> is_panic (UnpackCampaignUpdated E t1 t2 t3 d)"
    and "\<not> is_panic (UnpackMintPosition E t1 t2 t3 d)"
    and "\<not> is_panic (UnpackBurnPosition E t1 t2 d)"
    and "\<not> is_panic (UnpackTransferPosition E t1 t2 t3 d)"
    and "\<not> is_panic (UnpackUpdatePositionLiquidity E t1 t2 d)"
    and "\<not> is_panic (UnpackCollectFees E t1 t2 t3 d)"
    and "\<not> is_panic (UnpackNewPool E t1 t2 t3 d)"
    and "\<not> is_panic (UnpackCollectProtocolFees E t1 t2 d)"
    and "\<not> is_panic (UnpackSwap2 E t1 t2 t3 d)"
    and "\<not> is_panic (UnpackSwap1 E t1 t2 d)"
proof -
  note safe = Unpack_andThen_no_panic [OF assms]
  have "\<not> is_panic (andThen (Unpack E AbiErc20 ''Transfer'' d) (\<lambda>i.
      type_assert as_BigInt i 0 ''bad amount: '' 0))"
    by (rule safe) (auto simp: typed_args)
  then show "\<not> is_panic (UnpackTransfer E t1 t2 d)"
    by (simp add: UnpackTransfer_def is_panic_andThen [where f = "\<lambda>i. Ok (g i)" for g])
  show "\<not> is_panic (UnpackCampaignCreated E t1 t2 t3 d)"
    unfolding UnpackCampaignCreated_def by (rule safe) (auto simp: typed_args)
  show "\<not> is_panic (UnpackCampaignUpdated E t1 t2 t3 d)"
    unfolding UnpackCampaignUpdated_def by (rule safe) (auto simp: typed_args)
  show "\<not> is_panic (UnpackMintPosition E t1 t2 t3 d)"
    unfolding UnpackMintPosition_def by (rule safe) (auto simp: typed_args)
  have "\<not> is_panic (andThen (Unpack E AbiSeawater ''UpdatePositionLiquidity'' d) (\<lambda>i.
     andThen (type_assert as_BigInt i 0 ''bad token0: '' 1) (\<lambda>token0.
     andThen (type_assert as_BigInt i 1 ''bad token1: '' 2) (\<lambda>token1. Ok (f token0 token1)))))"
    for f :: "int \<Rightarrow> int \<Rightarrow> UpdatePositionLiquidity"
    by (rule safe) (auto simp: typed_args)
  then show "\<not> is_panic (UnpackUpdatePositionLiquidity E t1 t2 d)"
    by (simp only: UnpackUpdatePositionLiquidity_def is_panic_andThen [of "hashToInt E t1"]
        hashToInt_no_panic) simp
  show "\<not> is_panic (UnpackCollectFees E t1 t2 t3 d)"
    unfolding UnpackCollectFees_def by (rule safe) (auto simp: typed_args)
  show "\<not> is_panic (UnpackNewPool E t1 t2 t3 d)"
    unfolding UnpackNewPool_def Let_def by (rule safe) (auto simp: typed_args)
  show "\<not> is_panic (UnpackCollectProtocolFees E t1 t2 d)"
    unfolding UnpackCollectProtocolFees_def by (rule safe) (auto simp: typed_args)
  show "\<not> is_panic (UnpackSwap2 E t1 t2 t3 d)"
    unfolding UnpackSwap2_def by (rule safe) (auto simp: typed_args)
  show "\<not> is_panic (UnpackSwap1 E t1 t2 d)"
    unfolding UnpackSwap1_def by (rule safe) (auto simp: typed_args)
qed (simp_all add: UnpackAccountCreated_def UnpackCampaignBalanceUpdated_def
    UnpackBurnPosition_def UnpackTransferPosition_def is_panic_andThen hashToInt_no_panic)

text \<open>C37. The unpackers are safe on whatever a chain delivers: as long as the ABI decoder keeps to
  the declared argument types, none of the fourteen panics, for any topics and any data, although
  several of their error paths index past the decoded values.\<close>

theorem unpack_no_panic:
  assumes "abi_lawful E"
  shows "\<forall>t1 t2 t3 d.
    \<not> is_panic (UnpackTransfer E t1 t2 d) \<and>
    \<not> is_panic (UnpackAccountCreated E t1 t2 d) \<and>
    \<not> is_panic (UnpackCampaignBalanceUpdated E t1 t2 t3 d) \<and>
    \<not> is_panic (UnpackCampaignCreated E t1 t2 t3 d) \<and>
    \<not> is_panic (UnpackCampaignUpdated E t1 t2 t3 d) \<and>
    \<not> is_panic (UnpackMintPosition E t1 t2 t3 d) \<and>
    \<not> is_panic (UnpackBurnPosition E t1 t2 d) \<and>
    \<not> is_panic (UnpackTransferPosition E t1 t2 t3 d) \<and>
    \<not> is_panic (UnpackUpdatePositionLiquidity E t1 t2 d) \<and>
    \<not> is_panic (UnpackCollectFees E t1 t2 t3 d) \<and>
    \<not> is_panic (UnpackNewPool E t1 t2 t3 d) \<and>
    \<not> is_panic (UnpackCollectProtocolFees E t1 t2 d) \<and>
    \<not> is_panic (UnpackSwap2 E t1 t2 t3 d) \<and>
    \<not> is_panic (UnpackSwap1 E t1 t2 d)"
  by (intro allI conjI unpacker_safe assms)

theorem unpack_no_panic_witness:
  "abi_lawful ref_eth \<and> \<not> is_panic (UnpackSwap2 ref_eth 1 2 3 [7])"
  using unpack_no_panic [OF ref_eth_abi] ref_eth_abi by blast

section \<open>Decoding what the contracts emit\<close>

lemmas decode_simps = abi_args_def hashToAddr_topic hashToInt_cases UnscaledNumberFromBig_def
  NumberFromInt32_def NumberFromInt64_def NumberFromBig_def

text \<open>C33. The position events of Seawater are decoded to exactly what the contract emitted: the
  identifier, the addresses (in lower case) and the amounts or ticks with their signs, as long as
  the identifier is below \<open>2 ^ 63\<close>.\<close>

theorem position_events_decode:
  assumes "eth_lawful E" and "uint pid < 2 ^ 63"
    and "- (2 ^ 255) \<le> x0" "x0 < 2 ^ 255" "- (2 ^ 255) \<le> x1" "x1 < 2 ^ 255"
    and "0 \<le> y0" "y0 < 2 ^ 128" "0 \<le> y1" "y1 < 2 ^ 128"
  shows
   "UnpackMintPosition E pid (addr_topic owner) (addr_topic pool)
        (abi_encode [AnyInt32 lower, AnyInt32 upper]) =
      Ok (zero_event (MintPosition.fields (uint pid) (addr_text owner) (addr_text pool)
        (Number (Some (sint lower))) (Number (Some (sint upper))))) \<and>
    UnpackBurnPosition E pid (addr_topic owner) d =
      Ok (zero_event (BurnPosition.fields (uint pid) (addr_text owner))) \<and>
    UnpackTransferPosition E (addr_topic owner) (addr_topic to) pid d =
      Ok (zero_event (TransferPosition.fields (addr_text owner) (addr_text to) (uint pid))) \<and>
    UnpackUpdatePositionLiquidity E pid t2 (abi_encode [AnyBigInt x0, AnyBigInt x1]) =
      Ok (zero_event (UpdatePositionLiquidity.fields (uint pid)
        (UnscaledNumber (Some x0)) (UnscaledNumber (Some x1)))) \<and>
    UnpackCollectFees E pid (addr_topic pool) (addr_topic to)
        (abi_encode [AnyBigInt y0, AnyBigInt y1]) =
      Ok (zero_event (CollectFees.fields (uint pid) (addr_text pool) (addr_text to)
        (UnscaledNumber (Some y0)) (UnscaledNumber (Some y1))))"
proof -
  note laws = eth_lawfulD [OF assms(1)]
  note enc = Unpack_encoded [OF laws(2)]
  have "Unpack E AbiSeawater ''MintPosition'' (abi_encode [AnyInt32 lower, AnyInt32 upper]) =
      Ok [AnyInt32 lower, AnyInt32 upper]"
    by (rule enc) (simp_all add: abi_args_def)
  moreover have "Unpack E AbiSeawater ''UpdatePositionLiquidity''
      (abi_encode [AnyBigInt x0, AnyBigInt x1]) = Ok [AnyBigInt x0, AnyBigInt x1]"
    using assms by (intro enc) (simp_all add: abi_args_def)
  moreover have "Unpack E AbiSeawater ''CollectFees''
      (abi_encode [AnyBigInt y0, AnyBigInt y1]) = Ok [AnyBigInt y0, AnyBigInt y1]"
    using assms by (intro enc) (simp_all add: abi_args_def)
  ultimately show ?thesis using assms(2) laws(1)
    by (simp add: UnpackMintPosition_def UnpackBurnPosition_def UnpackTransferPosition_def
        UnpackUpdatePositionLiquidity_def UnpackCollectFees_def decode_simps
        del: abi_encode_simps)
qed

theorem position_events_decode_witness:
  "eth_lawful ref_eth \<and>
   UnpackMintPosition ref_eth 5 (addr_topic 1) (addr_topic 2)
       (abi_encode [AnyInt32 (- 20), AnyInt32 100]) =
     Ok (zero_event (MintPosition.fields 5 (addr_text 1) (addr_text 2)
       (Number (Some (- 20))) (Number (Some 100))))"
  using position_events_decode [OF ref_eth_lawful, where pid = 5 and ?x0.0 = 0 and ?x1.0 = 0
      and ?y0.0 = 0 and ?y1.0 = 0 and owner = 1 and pool = 2 and lower = "- 20" and upper = 100]
    ref_eth_lawful
  by (simp del: abi_encode_simps)

text \<open>A position identifier that does not fit a signed 64 bit integer makes each of the five
  position events an error, whatever else the log carries; the identifier is never truncated.\<close>

theorem position_id_too_large:
  assumes "eth_lawful E" and "2 ^ 63 \<le> uint pid"
  shows
   "\<not> is_ok (UnpackMintPosition E pid t2 t3 d) \<and>
    \<not> is_ok (UnpackBurnPosition E pid t2 d) \<and>
    \<not> is_ok (UnpackTransferPosition E t1 t2 pid d) \<and>
    \<not> is_ok (UnpackUpdatePositionLiquidity E pid t2 d) \<and>
    \<not> is_ok (UnpackCollectFees E pid t2 t3 d)"
proof -
  have "hashToInt E pid \<noteq> Ok v" for v
    using assms by (simp add: hashToInt_cases eth_lawfulD)
  then show ?thesis
    by (auto simp: is_ok_iff UnpackMintPosition_def UnpackBurnPosition_def
        UnpackTransferPosition_def UnpackUpdatePositionLiquidity_def UnpackCollectFees_def)
qed

theorem position_id_too_large_witness:
  "eth_lawful ref_eth \<and> \<not> is_ok (UnpackBurnPosition ref_eth (2 ^ 63) 0 [])"
proof -
  have "(2 :: int) ^ 63 \<le> uint (2 ^ 63 :: 256 word)" by simp
  from position_id_too_large [OF ref_eth_lawful this] ref_eth_lawful show ?thesis by blast
qed

text \<open>C34. The pool and swap events of Seawater are decoded to exactly what the contract emitted:
  fee, decimals and tick spacing at their widths, amounts as unsigned integers, final ticks with
  their signs, addresses in lower case.\<close>

theorem pool_events_decode:
  assumes "eth_lawful E"
    and "0 \<le> x" "x < 2 ^ 256" "0 \<le> y" "y < 2 ^ 256" "0 \<le> z" "z < 2 ^ 256"
    and "0 \<le> y0" "y0 < 2 ^ 128" "0 \<le> y1" "y1 < 2 ^ 128"
  shows
   "UnpackNewPool E (addr_topic pool) (ucast (fee :: 32 word)) t3
        (abi_encode [AnyUint8 decimals, AnyUint8 tickSpacing]) =
      Ok (zero_event (NewPool.fields (addr_text pool) fee decimals tickSpacing)) \<and>
    UnpackCollectProtocolFees E (addr_topic pool) (addr_topic to)
        (abi_encode [AnyBigInt y0, AnyBigInt y1]) =
      Ok (zero_event (CollectProtocolFees.fields (addr_text pool) (addr_text to)
        (UnscaledNumber (Some y0)) (UnscaledNumber (Some y1)))) \<and>
    UnpackSwap1 E (addr_topic user) (addr_topic pool)
        (abi_encode [AnyBool zeroForOne, AnyBigInt x, AnyBigInt y, AnyInt32 tick]) =
      Ok (zero_event (Swap1.fields (addr_text user) (addr_text pool) zeroForOne
        (UnscaledNumber (Some x)) (UnscaledNumber (Some y)) (Number (Some (sint tick))))) \<and>
    UnpackSwap2 E (addr_topic user) (addr_topic pool) (addr_topic to)
        (abi_encode [AnyBigInt x, AnyBigInt y, AnyBigInt z, AnyInt32 tick, AnyInt32 tick']) =
      Ok (zero_event (Swap2.fields (addr_text user) (addr_text pool) (addr_text to)
        (UnscaledNumber (Some x)) (UnscaledNumber (Some y)) (UnscaledNumber (Some z))
        (Number (Some (sint tick))) (Number (Some (sint tick')))))"
proof -
  note laws = eth_lawfulD [OF assms(1)]
  note enc = Unpack_encoded [OF laws(2)]
  have fee: "(word_of_int (Int64 (uint (ucast fee :: 256 word))) :: 32 word) = fee"
    unfolding word_of_Int64 by (rule bit_word_eqI) (auto simp: bit_simps)
  have ticks: "sint (scast t :: 64 word) = sint t" for t :: "32 word"
    by (rule bit_eqI) (simp add: bit_simps min_def)
  have "Unpack E AbiSeawater ''NewPool'' (abi_encode [AnyUint8 decimals, AnyUint8 tickSpacing]) =
      Ok [AnyUint8 decimals, AnyUint8 tickSpacing]"
    by (rule enc) (simp_all add: abi_args_def)
  moreover have "Unpack E AbiSeawater ''CollectProtocolFees''
      (abi_encode [AnyBigInt y0, AnyBigInt y1]) = Ok [AnyBigInt y0, AnyBigInt y1]"
    using assms by (intro enc) (simp_all add: abi_args_def)
  moreover have "Unpack E AbiSeawater ''Swap1''
      (abi_encode [AnyBool zeroForOne, AnyBigInt x, AnyBigInt y, AnyInt32 tick]) =
      Ok [AnyBool zeroForOne, AnyBigInt x, AnyBigInt y, AnyInt32 tick]"
    using assms by (intro enc) (simp_all add: abi_args_def)
  moreover have "Unpack E AbiSeawater ''Swap2''
      (abi_encode [AnyBigInt x, AnyBigInt y, AnyBigInt z, AnyInt32 tick, AnyInt32 tick']) =
      Ok [AnyBigInt x, AnyBigInt y, AnyBigInt z, AnyInt32 tick, AnyInt32 tick']"
    using assms by (intro enc) (simp_all add: abi_args_def)
  moreover have "Hash_Big E h = uint h" for h using laws(1) by (simp add: common_lawful_def)
  ultimately show ?thesis using laws(1)
    by (simp add: UnpackNewPool_def UnpackCollectProtocolFees_def UnpackSwap1_def UnpackSwap2_def
        decode_simps fee ticks del: abi_encode_simps)
qed

theorem pool_events_decode_witness:
  "eth_lawful ref_eth \<and>
   UnpackSwap1 ref_eth (addr_topic 1) (addr_topic 2)
       (abi_encode [AnyBool False, AnyBigInt 1, AnyBigInt 100, AnyInt32 43518]) =
     Ok (zero_event (Swap1.fields (addr_text 1) (addr_text 2) False
       (UnscaledNumber (Some 1)) (UnscaledNumber (Some 100)) (Number (Some 43518))))"
  using pool_events_decode [OF ref_eth_lawful, where x = 1 and y = 100 and z = 0 and ?y0.0 = 0
      and ?y1.0 = 0 and user = 1 and pool = 2 and zeroForOne = False and tick = 43518]
    ref_eth_lawful
  by (simp del: abi_encode_simps)

text \<open>C35. A campaign survives the trip from the Leo contract to its event: the ticks, the owner and
  the two times that the contract packs into two words (\<open>pack_details\<close>, \<open>pack_times\<close>) come out
  of \<open>UnpackCampaignCreated\<close> unchanged, negative ticks included.\<close>

theorem campaign_created_roundtrip:
  assumes "eth_lawful E"
  shows "UnpackCampaignCreated E ident (addr_topic pool) (addr_topic token)
      (abi_encode [AnyBigInt (uint (pack_details lower upper owner)),
        AnyBigInt (uint (pack_times starting ending))]) =
    Ok (zero_event (CampaignCreated.fields (hashToBytes8Data E ident) (addr_text pool)
      (addr_text token) lower upper (addr_text owner)
      (time_Unix (sint starting)) (time_Unix (sint ending))))"
proof -
  note laws = eth_lawfulD [OF assms]
  let ?vs = "[AnyBigInt (uint (pack_details lower upper owner)),
    AnyBigInt (uint (pack_times starting ending))]"
  have "Unpack E AbiLeo ''CampaignCreated'' (abi_encode ?vs) = Ok ?vs"
    by (rule Unpack_encoded [OF laws(2)]) (simp add: abi_args_def hash_bound [simplified])
  then show ?thesis
    by (simp add: UnpackCampaignCreated_def hashToAddr_topic [OF laws(1)] unpackTimes_pack
        unpackDetails_pack [OF laws(1)] del: abi_encode_simps)
qed

theorem campaign_created_roundtrip_witness:
  "eth_lawful ref_eth \<and>
   UnpackCampaignCreated ref_eth 7 (addr_topic 1) (addr_topic 2)
      (abi_encode [AnyBigInt (uint (pack_details (- 20) 100 9)),
        AnyBigInt (uint (pack_times 5000 545464))]) =
    Ok (zero_event (CampaignCreated.fields (hashToBytes8Data ref_eth 7) (addr_text 1)
      (addr_text 2) (- 20) 100 (addr_text 9) (time_Unix 5000) (time_Unix 545464)))"
  using campaign_created_roundtrip [OF ref_eth_lawful, of 7 1 2 "- 20" 100 9 5000 545464]
    ref_eth_lawful
  by (simp del: abi_encode_simps)

text \<open>C36. The \<open>CampaignUpdated\<close> event the contract emits, whose data is one word, is never decoded:
  \<open>UnpackCampaignUpdated\<close> asks for the two words of \<open>CampaignCreated\<close> and returns the decoder's
  error.  It would decode the packed word correctly if a second word followed it.\<close>

theorem campaign_updated_rejected:
  assumes "eth_lawful E" "0 \<le> junk" "junk < 2 ^ 256"
  shows "(\<exists>e. UnpackCampaignUpdated E ident (addr_topic pool) perSecond
        (abi_encode [AnyBigInt (uint (pack_extras lower upper starting ending))]) = Err e) \<and>
    UnpackCampaignUpdated E ident (addr_topic pool) perSecond
        (abi_encode [AnyBigInt (uint (pack_extras lower upper starting ending)), AnyBigInt junk]) =
      Ok (zero_event (CampaignUpdated.fields (hashToBytes8Data E ident) (addr_text pool)
        (Number (Some (uint perSecond))) [] lower upper
        (time_Unix (sint starting)) (time_Unix (sint ending))))"
proof
  note laws = eth_lawfulD [OF assms(1)]
  let ?w = "AnyBigInt (uint (pack_extras lower upper starting ending))"
  have "\<exists>e. Unpack E AbiLeo ''CampaignCreated'' (abi_encode [?w]) = Err e"
    by (rule Unpack_short [OF laws(2), of _ _ "[TUint256, TUint256]"]) (simp_all add: abi_args_def)
  then show "\<exists>e. UnpackCampaignUpdated E ident (addr_topic pool) perSecond (abi_encode [?w]) = Err e"
    by (auto simp: UnpackCampaignUpdated_def simp del: abi_encode_simps)
  have "Unpack E AbiLeo ''CampaignCreated'' (abi_encode [?w, AnyBigInt junk]) =
      Ok [?w, AnyBigInt junk]"
    using assms by (intro Unpack_encoded [OF laws(2)])
      (simp add: abi_args_def hash_bound [simplified])
  moreover have "Hash_Big E perSecond = uint perSecond"
    using laws(1) by (simp add: common_lawful_def)
  ultimately show "UnpackCampaignUpdated E ident (addr_topic pool) perSecond
      (abi_encode [?w, AnyBigInt junk]) =
    Ok (zero_event (CampaignUpdated.fields (hashToBytes8Data E ident) (addr_text pool)
      (Number (Some (uint perSecond))) [] lower upper
      (time_Unix (sint starting)) (time_Unix (sint ending))))"
    by (simp add: UnpackCampaignUpdated_def hashToAddr_topic [OF laws(1)] unpackExtras_pack
        leo_hashToNumber_def NumberFromBig_def del: abi_encode_simps)
qed

theorem campaign_updated_rejected_witness:
  "eth_lawful ref_eth \<and>
   (\<exists>e. UnpackCampaignUpdated ref_eth 7 (addr_topic 1) 3
      (abi_encode [AnyBigInt (uint (pack_extras (- 20) 100 1888 2889))]) = Err e)"
  using campaign_updated_rejected [OF ref_eth_lawful, of 0 7 1 3 "- 20" 100 1888 2889]
    ref_eth_lawful
  by (simp del: abi_encode_simps)

lemma DataFromBytes_inj [simp]: "DataFromBytes b = DataFromBytes c \<longleftrightarrow> b = c"
  using DecodeString_EncodeToString [of b] DecodeString_EncodeToString [of c]
  by (metis DataFromBytes_def append_same_eq res.inject(1) same_append_eq)

lemma hashToBytes8Data_topic:
  assumes "common_lawful E"
  shows "hashToBytes8Data E (bytes8_topic w) = DataFromBytes (be_bytes 5 (uint (drop_bit 24 w)))"
proof -
  have "uint (bytes8_topic w) div 256 ^ 27 = uint (drop_bit 24 w)"
  proof -
    have "drop_bit 216 (bytes8_topic w) = ucast (drop_bit 24 w)"
      by (rule bit_word_eqI) (auto simp: bytes8_topic_def bit_simps dest: bit_imp_le_length)
    then have "uint (drop_bit 216 (bytes8_topic w)) = uint (drop_bit 24 w)"
      by (simp add: uint_up_ucast is_up)
    then show ?thesis by (simp add: uint_drop_bit_div [of 216])
  qed
  then show ?thesis using assms
    by (simp add: hashToBytes8Data_def common_lawful_def take_be_bytes)
qed

text \<open>Campaign identifiers are eight bytes, but the event keeps the first five: two identifiers
  give the same event identifier exactly when they agree on their upper forty bits.\<close>

theorem campaign_identifier_truncated:
  assumes "common_lawful E"
  shows "hashToBytes8Data E (bytes8_topic v) = hashToBytes8Data E (bytes8_topic w) \<longleftrightarrow>
    drop_bit 24 v = drop_bit 24 w"
proof -
  have "uint (drop_bit 24 x) mod 256 ^ 5 = uint (drop_bit 24 x)" for x :: "64 word"
  proof -
    have "uint x div 16777216 < 1099511627776" using uint_lt2p [of x] by simp
    moreover have "0 \<le> uint x div 16777216" by (simp add: pos_imp_zdiv_nonneg_iff)
    ultimately show ?thesis
      using mod_pos_pos_trivial [of "uint x div 16777216" 1099511627776]
      by (simp add: uint_drop_bit_div)
  qed
  then show ?thesis
    by (simp add: hashToBytes8Data_topic [OF assms] be_bytes_eq_iff word_uint_eq_iff)
qed

theorem campaign_identifier_truncated_witness:
  "common_lawful ref_eth \<and>
   hashToBytes8Data ref_eth (bytes8_topic 0x1999784708000001) =
     hashToBytes8Data ref_eth (bytes8_topic 0x1999784708000002)"
  using campaign_identifier_truncated [OF ref_eth_common, of "0x1999784708000001"
      "0x1999784708000002"]
    ref_eth_common
  by simp

end
