(* ===== verification/Runtime.thy ===== *)
theory Runtime
  imports Types
begin

text \<open>
  The process-wide libraries: src/lib/config (environment and defaults), src/lib/features (feature
  flags), src/lib/setup (the two-way log handler and the fatal exit) and src/lib/heartbeat.  The
  environment is an argument \<open>getenv\<close>, the random generator's answer an argument of the one
  function that draws it, and what a remote server replies is a value of its own type.
\<close>

type_synonym getenv = "string \<Rightarrow> string"

text \<open>The headers of an HTTP message: the first value of each.\<close>

type_synonym headers = "string \<rightharpoonup> string"

section \<open>setup\<close>

text \<open>\<open>Exitf\<close> prints and ends the process: nothing after it runs.\<close>

definition Exitf :: "string \<Rightarrow> error \<Rightarrow> 'a res" where
  "Exitf s e = Exit (Wrapf s e)"

definition Exitf0 :: "string \<Rightarrow> 'a res" where
  "Exitf0 s = Exit (Errorf s)"

text \<open>A \<open>slog.Handler\<close> is an implementation of four operations; \<open>'h\<close> is its state, \<open>'s\<close> where its
  output goes.\<close>

record ('h, 's) slog_handler =
  slog_Enabled :: "'h \<Rightarrow> int \<Rightarrow> bool"
  slog_WithAttrs :: "'h \<Rightarrow> string list \<Rightarrow> 'h"
  slog_WithGroup :: "'h \<Rightarrow> string \<Rightarrow> 'h"
  slog_Handle :: "'h \<Rightarrow> string \<Rightarrow> 's \<Rightarrow> error option \<times> 's"

record 'h Multihandler =
  mh_sentry :: "'h option"
  mh_json :: 'h

definition Multihandler_Enabled :: "('h, 's) slog_handler \<Rightarrow> 'h Multihandler \<Rightarrow> int \<Rightarrow> bool" where
  "Multihandler_Enabled I h level = slog_Enabled I (mh_json h) level"

definition Multihandler_WithAttrs ::
    "('h, 's) slog_handler \<Rightarrow> 'h Multihandler \<Rightarrow> string list \<Rightarrow> 'h Multihandler" where
  "Multihandler_WithAttrs I h attrs =
     (let s = (case mh_sentry h of None \<Rightarrow> None | Some x \<Rightarrow> Some (slog_WithAttrs I x attrs))
      in \<lparr>mh_sentry = s, mh_json = slog_WithAttrs I (mh_json h) attrs\<rparr>)"

definition Multihandler_WithGroup ::
    "('h, 's) slog_handler \<Rightarrow> 'h Multihandler \<Rightarrow> string \<Rightarrow> 'h Multihandler" where
  "Multihandler_WithGroup I h name =
     (let s = (case mh_sentry h of None \<Rightarrow> None | Some x \<Rightarrow> Some (slog_WithGroup I x name))
      in \<lparr>mh_sentry = s, mh_json = slog_WithGroup I (mh_json h) name\<rparr>)"

definition Multihandler_Handle ::
    "('h, 's) slog_handler \<Rightarrow> 'h Multihandler \<Rightarrow> string \<Rightarrow> 's \<Rightarrow> error option \<times> 's" where
  "Multihandler_Handle I h r out =
     (case mh_sentry h of
        None \<Rightarrow> slog_Handle I (mh_json h) r out
      | Some s \<Rightarrow>
          (case slog_Handle I s r out of
             (Some err, out') \<Rightarrow> (Some err, out')
           | (None, out') \<Rightarrow> slog_Handle I (mh_json h) r out'))"

text \<open>\<open>init\<close>: the level of the JSON log (\<open>slog.LevelDebug\<close> is -4, \<open>slog.LevelInfo\<close> 0,
  \<open>slog.LevelError\<close> 8), the revision found in the build information, and the logger, whose handler
  the model returns.  Starting Sentry and making the two handlers are arguments.\<close>

definition setup_level :: "getenv \<Rightarrow> int" where
  "setup_level getenv = (if getenv ''SPN_DEBUG'' \<noteq> [] then -4 else 0)"

definition setup_revision :: "(string \<times> string) list option \<Rightarrow> string" where
  "setup_revision info =
     (case info of
        None \<Rightarrow> []
      | Some settings \<Rightarrow>
          (case find (\<lambda>(key, value). key = ''vcs.revision'') settings of
             None \<Rightarrow> [] | Some (key, value) \<Rightarrow> value))"

text \<open>\<open>logger.With\<close>: a new logger over the handler with one more attribute.\<close>

definition logger_With ::
    "('h, 's) slog_handler \<Rightarrow> string \<Rightarrow> string \<Rightarrow> 'h Multihandler \<Rightarrow> 'h Multihandler" where
  "logger_With I key value h = Multihandler_WithAttrs I h [key @ ''='' @ value]"

definition setup_init ::
    "('h, 's) slog_handler \<Rightarrow> getenv \<Rightarrow> (string \<Rightarrow> unit res) \<Rightarrow> (int \<Rightarrow> 'h) \<Rightarrow> (int \<Rightarrow> 'h) \<Rightarrow>
      (string \<times> string) list option \<Rightarrow> string list \<Rightarrow> 'h Multihandler res" where
  "setup_init I getenv sentry_Init NewSentryHandler NewJSONHandler info os_Args =
     (let logLevel = setup_level getenv; dsn = getenv ''SPN_SENTRY_DSN'' in
      andThen (if dsn \<noteq> []
          then (case sentry_Init dsn of Err err \<Rightarrow> Panic ''failed to set up sentry'' | x \<Rightarrow> x)
          else Ok ()) (\<lambda>_.
      let logger =
            \<lparr>mh_sentry = (if dsn \<noteq> [] then Some (NewSentryHandler 8) else None),
             mh_json = NewJSONHandler logLevel\<rparr>;
          revision = setup_revision info;
          discarded =
            logger_With I ''is debug'' (if logLevel = -4 then ''true'' else ''false'')
            (logger_With I ''command line'' (Join '','' os_Args)
            (logger_With I ''environment'' ''backend''
            (logger_With I ''revision'' revision logger)))
      in Ok logger))"

section \<open>config\<close>

record C =
  GethUrl :: string
  TimescaleUrls :: "string list"
  SeawaterAddr :: Address
  FusdcAddr :: Address
  FusdcDecimals :: int
  FusdcTotalSupply :: UnscaledNumber
  FusdcSymbol :: string
  FusdcName :: string

record PoolConfig =
  pc_Displayed :: bool
  pc_Classification :: Classification

definition DefaultFusdcDecimals :: int where
  "DefaultFusdcDecimals = 6"

definition DefaultFusdcSymbol :: string where
  "DefaultFusdcSymbol = ''fUSDC''"

definition DefaultFusdcName :: string where
  "DefaultFusdcName = ''Fluid USDC''"

definition DefaultPoolConfiguration :: PoolConfig where
  "DefaultPoolConfiguration =
     \<lparr>pc_Displayed = True, pc_Classification = ClassificationUnknown\<rparr>"

definition mustUnscaled :: "string \<Rightarrow> UnscaledNumber res" where
  "mustUnscaled s =
     (case UnscaledNumberFromBase10 s of Err e \<Rightarrow> Panic ''bad string'' | r \<Rightarrow> r)"

definition DefaultFusdcTotalSupply :: "UnscaledNumber res" where
  "DefaultFusdcTotalSupply = mustUnscaled ''999999999999999999900750000''"

definition config_Get :: "getenv \<Rightarrow> C res" where
  "config_Get getenv =
     andThen DefaultFusdcTotalSupply (\<lambda>totalSupply.
     let gethUrl = getenv ''SPN_GETH_URL'' in
     if gethUrl = [] then Exitf0 ''SPN_GETH_URL not set''
     else let timescaleUrl = getenv ''SPN_TIMESCALE'' in
     if timescaleUrl = [] then Exitf0 ''SPN_TIMESCALE not set''
     else let timescaleUrls = Split (CHR '','') timescaleUrl;
              seawaterAddr = ToLower (getenv ''SPN_SEAWATER_ADDR'') in
     if seawaterAddr = [] then Exitf0 ''SPN_SEAWATER_ADDR not set''
     else let fusdcAddr = ToLower (getenv ''SPN_FUSDC_ADDR'') in
     if fusdcAddr = [] then Exitf0 ''SPN_FUSDC_ADDR not set''
     else Ok \<lparr>
       GethUrl = gethUrl,
       TimescaleUrls = timescaleUrls,
       SeawaterAddr = AddressFromString seawaterAddr,
       FusdcAddr = AddressFromString fusdcAddr,
       FusdcDecimals = DefaultFusdcDecimals,
       FusdcTotalSupply = totalSupply,
       FusdcSymbol = DefaultFusdcSymbol,
       FusdcName = DefaultFusdcName\<rparr>)"

text \<open>\<open>rand.Intn n\<close> panics for \<open>n \<le> 0\<close> and otherwise draws below \<open>n\<close>: the draw is reduced
  from an arbitrary seed.\<close>

definition Intn :: "nat \<Rightarrow> nat \<Rightarrow> nat res" where
  "Intn seed n = (if n = 0 then Panic ''invalid argument to Intn'' else Ok (seed mod n))"

definition PickTimescaleUrl :: "nat \<Rightarrow> C \<Rightarrow> string res" where
  "PickTimescaleUrl seed c =
     andThen (Intn seed (length (TimescaleUrls c))) (\<lambda>i. idx (TimescaleUrls c) i)"

section \<open>features\<close>

record F =
  f_everything :: bool
  f_enabled :: "string \<rightharpoonup> bool"

text \<open>What the bucket answers: no connection, a body that cannot be read, or a body, with the map
  the JSON decoder makes of it.\<close>

datatype bucket_reply =
    GetFailed error
  | ReadFailed error
  | Body string "(string \<rightharpoonup> bool) res"

fun getFromBucket :: "bucket_reply \<Rightarrow> F res" where
  "getFromBucket (GetFailed err) = Exitf ''features bucket: get: '' err"
| "getFromBucket (ReadFailed err) = Exitf ''features bucket: draining: '' err"
| "getFromBucket (Body buf decoded) =
     (case decoded of
        Err err \<Rightarrow> Exitf (''features bucket: decoding '' @ buf @ '': '') err
      | Ok enabled \<Rightarrow> Ok \<lparr>f_everything = False, f_enabled = enabled\<rparr>
      | Panic m \<Rightarrow> Panic m
      | Exit e \<Rightarrow> Exit e)"

definition features_get :: "getenv \<Rightarrow> bucket_reply \<Rightarrow> F res" where
  "features_get getenv bucket =
     (let v = getenv ''SPN_FEATURES'' in
      if v = [] then getFromBucket bucket
      else if v = ''*'' then Ok \<lparr>f_everything = True, f_enabled = Map.empty\<rparr>
      else if v = ''none'' then Ok \<lparr>f_everything = False, f_enabled = Map.empty\<rparr>
      else
        let keys = Split (CHR '','') v;
            enabled = foldl (\<lambda>m key. m(key \<mapsto> True)) Map.empty keys
        in Ok \<lparr>f_everything = False, f_enabled = enabled\<rparr>)"

text \<open>A missing key of a Go map reads as \<open>false\<close>.\<close>

definition Is :: "F \<Rightarrow> string \<Rightarrow> bool" where
  "Is f name = (f_everything f \<or> f_enabled f name = Some True)"

definition On :: "F \<Rightarrow> string \<Rightarrow> ('s \<Rightarrow> error option \<times> 's) \<Rightarrow> 's \<Rightarrow> error option \<times> 's" where
  "On f name k s = (if Is f name then k s else (None, s))"

definition FeatureGraphqlMockGraph :: string where
  "FeatureGraphqlMockGraph = ''graphql mock demo data''"

definition FeatureGraphqlMockGraphDataDelay :: string where
  "FeatureGraphqlMockGraphDataDelay = ''graphql mock demo data delay''"

definition FeatureIngestorPollRpc :: string where
  "FeatureIngestorPollRpc = ''ingestor poll rpc''"

definition FeatureFaucetStakersOnly :: string where
  "FeatureFaucetStakersOnly = ''faucet stakers only''"

definition FeatureFaucetEnabled :: string where
  "FeatureFaucetEnabled = ''faucet enabled''"

section \<open>heartbeat\<close>

text \<open>\<open>Pulse\<close> receives the configured url from the package's channel, whose goroutine sends nothing
  else, and requests it; the model collects the requests and the logged failures.\<close>

definition Pulse :: "getenv \<Rightarrow> (string \<Rightarrow> unit res) \<Rightarrow> string list \<times> error list" where
  "Pulse getenv http_Get =
     (let u = getenv ''SPN_HEARTBEAT_URL'' in
      if u = [] then ([], [])
      else case http_Get u of Err err \<Rightarrow> ([u], [err]) | _ \<Rightarrow> ([u], []))"

section \<open>Lemmas\<close>

text \<open>The default logger carries none of the attributes: it is the same whatever the revision and the
  command line are.\<close>

theorem logger_attributes_dropped:
  "setup_init I getenv sentry json_handler h info args = setup_init I getenv sentry json_handler h info' args'"
  by (simp add: setup_init_def Let_def)

lemma DefaultFusdcTotalSupply_Ok:
  "DefaultFusdcTotalSupply = Ok (UnscaledNumber (Some 999999999999999999900750000))"
proof -
  have "SetString 10 ''999999999999999999900750000'' = Some 999999999999999999900750000"
    by (simp add: SetString_def scan_nat_def digit_val_def)
  then show ?thesis
    by (simp add: DefaultFusdcTotalSupply_def mustUnscaled_def UnscaledNumberFromBase10_def
        UnscaledNumberFromBig_def)
qed

lemma enabled_keys:
  "foldl (\<lambda>m key. m(key \<mapsto> True)) m0 keys name =
     (if name \<in> set keys then Some True else m0 name)"
  by (induction keys arbitrary: m0) auto

lemma features_env_Is:
  assumes "getenv ''SPN_FEATURES'' \<notin> {[], ''*'', ''none''}"
    and "features_get getenv bucket = Ok f"
  shows "Is f name \<longleftrightarrow> name \<in> set (Split (CHR '','') (getenv ''SPN_FEATURES''))"
  using assms by (auto simp: features_get_def Is_def enabled_keys Let_def split: if_splits)

text \<open>Configuration is all or nothing: \<open>config.Get\<close> returns exactly when the four variables
  are set, the process exits otherwise, and what it returns is usable: both addresses are in
  canonical form and picking a database url never panics and gives one of the configured ones.\<close>

theorem config_complete:
  "(if \<forall>v \<in> {''SPN_GETH_URL'', ''SPN_TIMESCALE'', ''SPN_SEAWATER_ADDR'', ''SPN_FUSDC_ADDR''}.
         getenv v \<noteq> []
    then \<exists>c. config_Get getenv = Ok c \<and>
      SeawaterAddr c = AddressFromString (getenv ''SPN_SEAWATER_ADDR'') \<and>
      FusdcAddr c = AddressFromString (getenv ''SPN_FUSDC_ADDR'') \<and>
      (\<forall>seed. \<exists>u \<in> set (TimescaleUrls c). PickTimescaleUrl seed c = Ok u) \<and>
      FusdcTotalSupply c = UnscaledNumber (Some 999999999999999999900750000)
    else \<exists>e. config_Get getenv = Exit e)"
proof -
  have pick: "\<exists>u \<in> set us. andThen (Intn seed (length us)) (\<lambda>i. idx us i) = Ok u"
    if "us \<noteq> []" for us :: "string list" and seed
  proof -
    have "seed mod length us < length us" using that by simp
    then show ?thesis using that by (auto simp: Intn_def intro: bexI [OF _ nth_mem])
  qed
  show ?thesis
    by (auto simp: config_Get_def DefaultFusdcTotalSupply_Ok Let_def AddressFromString_def
        PickTimescaleUrl_def pick Exitf0_def simp del: andThen_eq_Ok)
qed

theorem config_complete_witness:
  "\<exists>c. config_Get (\<lambda>v. ''0xAB,b'') = Ok c \<and> SeawaterAddr c = AddressFromString ''0xAB,b''"
  using config_complete [of "\<lambda>v. ''0xAB,b''"] by auto

text \<open>Feature flags given in the environment are exactly the comma-separated names, compared as
  they stand: \<open>*\<close> enables every feature and \<open>none\<close> enables none, and the bucket is not
  consulted.\<close>

theorem features_functional:
  assumes "getenv ''SPN_FEATURES'' \<noteq> []"
  shows "\<exists>f. features_get getenv bucket = Ok f \<and>
    (\<forall>name. Is f name \<longleftrightarrow> getenv ''SPN_FEATURES'' = ''*'' \<or>
      getenv ''SPN_FEATURES'' \<noteq> ''none'' \<and>
      name \<in> set (Split (CHR '','') (getenv ''SPN_FEATURES'')))"
proof (cases "getenv ''SPN_FEATURES'' \<in> {''*'', ''none''}")
  case True
  then show ?thesis by (auto simp: features_get_def Is_def Let_def)
next
  case False
  then obtain f where "features_get getenv bucket = Ok f"
    using assms by (simp add: features_get_def Let_def)
  with False assms show ?thesis by (auto simp: features_env_Is)
qed

theorem features_functional_witness:
  "\<exists>f. features_get (\<lambda>v. ''faucet enabled,x'') (GetFailed (Errorf [])) = Ok f \<and>
     Is f FeatureFaucetEnabled \<and> \<not> Is f FeatureFaucetStakersOnly"
proof -
  have "Split (CHR '','') ''faucet enabled,x'' = [''faucet enabled'', ''x'']" by simp
  with features_functional [of "\<lambda>v. ''faucet enabled,x''" "GetFailed (Errorf [])"]
  obtain f where "features_get (\<lambda>v. ''faucet enabled,x'') (GetFailed (Errorf [])) = Ok f"
    "\<And>name. Is f name \<longleftrightarrow> name = ''faucet enabled'' \<or> name = ''x''" by auto
  then show ?thesis by (simp add: FeatureFaucetEnabled_def FeatureFaucetStakersOnly_def)
qed

end
