(* ===== verification/Ingestor.thy ===== *)
theory Ingestor
  imports Events Runtime
begin

text \<open>
  src/cmd/ingestor.logs.ethereum: the service that polls the chain for logs and writes them to the
  database (\<open>func.go\<close>, \<open>polling-db.go\<close>, \<open>reflect.go\<close>, \<open>main.go\<close>).  The database is a parameter:
  the record \<open>gorm\<close> holds the four gorm calls the service makes over a database state \<open>'db\<close>, and
  \<open>gorm_lawful\<close> says what they do to the two things the service relies on, the rows inserted and
  the checkpoint.  An insertion threads the database state; a failed one only carries its error,
  since the enclosing transaction is rolled back.  The RPC client is the function \<open>FilterLogs\<close>.
\<close>

section \<open>Logs and rows\<close>

record Log =
  log_Address :: ethAddress
  log_Topics :: "ethHash list"
  log_Data :: "byte list"
  log_BlockNumber :: "64 word"
  log_TxHash :: ethHash
  log_BlockHash :: ethHash

text \<open>The \<open>any\<close> that \<open>handleLogCallback\<close> hands to its callback: a pointer to one of the structs.\<close>

datatype row =
    RTransfer Transfer
  | RAccountCreated AccountCreated
  | RCampaignBalanceUpdated CampaignBalanceUpdated
  | RCampaignCreated CampaignCreated
  | RCampaignUpdated CampaignUpdated
  | RMintPosition MintPosition
  | RBurnPosition BurnPosition
  | RTransferPosition TransferPosition
  | RUpdatePositionLiquidity UpdatePositionLiquidity
  | RCollectFees CollectFees
  | RNewPool NewPool
  | RCollectProtocolFees CollectProtocolFees
  | RSwap2 Swap2
  | RSwap1 Swap1

text \<open>\<open>setEventFields\<close> writes through reflection the four fields every struct embeds.\<close>

definition set_fields ::
    "string \<Rightarrow> string \<Rightarrow> 64 word \<Rightarrow> string \<Rightarrow> 'a Event_scheme \<Rightarrow> 'a Event_scheme" where
  "set_fields blockHash transactionHash blockNo emitterAddr v =
     v\<lparr>ev_BlockHash := blockHash, ev_TransactionHash := transactionHash,
       ev_BlockNumber := blockNo, ev_EmitterAddr := emitterAddr\<rparr>"

fun setEventFields :: "row \<Rightarrow> string \<Rightarrow> string \<Rightarrow> 64 word \<Rightarrow> string \<Rightarrow> row" where
  "setEventFields (RTransfer v) h t n e = RTransfer (set_fields h t n e v)"
| "setEventFields (RAccountCreated v) h t n e = RAccountCreated (set_fields h t n e v)"
| "setEventFields (RCampaignBalanceUpdated v) h t n e =
     RCampaignBalanceUpdated (set_fields h t n e v)"
| "setEventFields (RCampaignCreated v) h t n e = RCampaignCreated (set_fields h t n e v)"
| "setEventFields (RCampaignUpdated v) h t n e = RCampaignUpdated (set_fields h t n e v)"
| "setEventFields (RMintPosition v) h t n e = RMintPosition (set_fields h t n e v)"
| "setEventFields (RBurnPosition v) h t n e = RBurnPosition (set_fields h t n e v)"
| "setEventFields (RTransferPosition v) h t n e = RTransferPosition (set_fields h t n e v)"
| "setEventFields (RUpdatePositionLiquidity v) h t n e =
     RUpdatePositionLiquidity (set_fields h t n e v)"
| "setEventFields (RCollectFees v) h t n e = RCollectFees (set_fields h t n e v)"
| "setEventFields (RNewPool v) h t n e = RNewPool (set_fields h t n e v)"
| "setEventFields (RCollectProtocolFees v) h t n e = RCollectProtocolFees (set_fields h t n e v)"
| "setEventFields (RSwap2 v) h t n e = RSwap2 (set_fields h t n e v)"
| "setEventFields (RSwap1 v) h t n e = RSwap1 (set_fields h t n e v)"

text \<open>The embedded struct of a row.\<close>

fun row_event :: "row \<Rightarrow> Event" where
  "row_event (RTransfer v) = Event.truncate v"
| "row_event (RAccountCreated v) = Event.truncate v"
| "row_event (RCampaignBalanceUpdated v) = Event.truncate v"
| "row_event (RCampaignCreated v) = Event.truncate v"
| "row_event (RCampaignUpdated v) = Event.truncate v"
| "row_event (RMintPosition v) = Event.truncate v"
| "row_event (RBurnPosition v) = Event.truncate v"
| "row_event (RTransferPosition v) = Event.truncate v"
| "row_event (RUpdatePositionLiquidity v) = Event.truncate v"
| "row_event (RCollectFees v) = Event.truncate v"
| "row_event (RNewPool v) = Event.truncate v"
| "row_event (RCollectProtocolFees v) = Event.truncate v"
| "row_event (RSwap2 v) = Event.truncate v"
| "row_event (RSwap1 v) = Event.truncate v"

section \<open>Handling one log\<close>

definition FilterTopics :: "eth \<Rightarrow> ethHash list" where
  "FilterTopics E =
     [TopicTransfer E, TopicAccountCreated E, TopicCampaignBalanceUpdated E,
      TopicCampaignCreated E, TopicCampaignUpdated E, TopicMintPosition E, TopicBurnPosition E,
      TopicTransferPosition E, TopicUpdatePositionLiquidity E, TopicCollectFees E,
      TopicNewPool E, TopicCollectProtocolFees E, TopicSwap2 E, TopicSwap1 E]"

text \<open>Whose log a case of the switch takes the event for: the three booleans \<open>isSeawater\<close>,
  \<open>isThirdweb\<close> and \<open>isLeo\<close>, of which at most one is ever set.\<close>

datatype source = FromAnyone | FromThirdweb | FromLeo | FromSeawater

definition as_row :: "('a \<Rightarrow> row) \<Rightarrow> string \<Rightarrow> source \<Rightarrow> 'a res \<Rightarrow> (row \<times> string \<times> source) res" where
  "as_row con table who r =
     mapErr (\<lambda>err. Err (Wrapf (''failed to process topic for table '' @ [CHR 0x22] @ table @
         [CHR 0x22] @ '': '') err))
       (andThen r (\<lambda>v. Ok (con v, table, who)))"

text \<open>The switch on the first topic, and the error return after it.\<close>

definition unpackLog ::
    "eth \<Rightarrow> ethHash \<Rightarrow> ethHash \<Rightarrow> ethHash \<Rightarrow> ethHash \<Rightarrow> byte list \<Rightarrow>
      (row \<times> string \<times> source) res" where
  "unpackLog E topic0 topic1 topic2 topic3 d =
     (if topic0 = TopicTransfer E then
        as_row RTransfer ''events_erc20_transfer'' FromAnyone (UnpackTransfer E topic1 topic2 d)
      else if topic0 = TopicAccountCreated E then
        as_row RAccountCreated ''events_thirdweb_accountcreated'' FromThirdweb
          (UnpackAccountCreated E topic1 topic2 d)
      else if topic0 = TopicCampaignBalanceUpdated E then
        as_row RCampaignBalanceUpdated ''events_leo_campaignbalancecreated'' FromLeo
          (UnpackCampaignBalanceUpdated E topic1 topic2 topic3 d)
      else if topic0 = TopicCampaignCreated E then
        as_row RCampaignCreated ''events_leo_campaigncreated'' FromLeo
          (UnpackCampaignCreated E topic1 topic2 topic3 d)
      else if topic0 = TopicCampaignUpdated E then
        as_row RCampaignUpdated ''events_leo_campaignupdated'' FromLeo
          (UnpackCampaignUpdated E topic1 topic2 topic3 d)
      else if topic0 = TopicMintPosition E then
        as_row RMintPosition ''events_seawater_mintposition'' FromSeawater
          (UnpackMintPosition E topic1 topic2 topic3 d)
      else if topic0 = TopicBurnPosition E then
        as_row RBurnPosition ''events_seawater_burnposition'' FromSeawater
          (UnpackBurnPosition E topic1 topic2 d)
      else if topic0 = TopicTransferPosition E then
        as_row RTransferPosition ''events_seawater_transferposition'' FromSeawater
          (UnpackTransferPosition E topic1 topic2 topic3 d)
      else if topic0 = TopicUpdatePositionLiquidity E then
        as_row RUpdatePositionLiquidity ''events_seawater_updatepositionliquidity'' FromSeawater
          (UnpackUpdatePositionLiquidity E topic1 topic2 d)
      else if topic0 = TopicCollectFees E then
        as_row RCollectFees ''events_seawater_collectfees'' FromSeawater
          (UnpackCollectFees E topic1 topic2 topic3 d)
      else if topic0 = TopicNewPool E then
        as_row RNewPool ''events_seawater_newpool'' FromSeawater
          (UnpackNewPool E topic1 topic2 topic3 d)
      else if topic0 = TopicCollectProtocolFees E then
        as_row RCollectProtocolFees ''events_seawater_collectprotocolfees'' FromSeawater
          (UnpackCollectProtocolFees E topic1 topic2 d)
      else if topic0 = TopicSwap2 E then
        as_row RSwap2 ''events_seawater_swap2'' FromSeawater
          (UnpackSwap2 E topic1 topic2 topic3 d)
      else if topic0 = TopicSwap1 E then
        as_row RSwap1 ''events_seawater_swap1'' FromSeawater (UnpackSwap1 E topic1 topic2 d)
      else Err (Errorf (''unexpected topic: '' @ HashText E topic0)))"

text \<open>A topic that the log does not have is the zero hash.\<close>

definition topic_or_zero :: "ethHash list \<Rightarrow> nat \<Rightarrow> ethHash" where
  "topic_or_zero ts k = (if k < length ts then ts ! k else 0)"

record addrs =
  seawaterAddr :: ethAddress
  thirdwebAddr :: ethAddress
  leoAddr :: ethAddress

definition handleLogCallback ::
    "eth \<Rightarrow> addrs \<Rightarrow> Log \<Rightarrow> (string \<Rightarrow> row \<Rightarrow> 's \<Rightarrow> 's res) \<Rightarrow> 's \<Rightarrow> 's res" where
  "handleLogCallback E A l cb s =
     andThen (idx (log_Topics l) 0) (\<lambda>topic0.
     let topic1 = topic_or_zero (log_Topics l) 1;
         topic2 = topic_or_zero (log_Topics l) 2;
         topic3 = topic_or_zero (log_Topics l) 3;
         blockHash = HashText E (log_BlockHash l);
         transactionHash = HashText E (log_TxHash l);
         blockNumber = log_BlockNumber l;
         emitterAddr = log_Address l in
     andThen (unpackLog E topic0 topic1 topic2 topic3 (log_Data l)) (\<lambda>(a, table, who).
     if who = FromThirdweb \<and> thirdwebAddr A \<noteq> emitterAddr then Ok s
     else if who = FromLeo \<and> leoAddr A \<noteq> emitterAddr then Ok s
     else if who = FromSeawater \<and> seawaterAddr A \<noteq> emitterAddr then Ok s
     else cb table
       (setEventFields a blockHash transactionHash blockNumber (AddressText E emitterAddr)) s))"

section \<open>The database\<close>

record BlockCheckpoint =
  bc_ID :: int
  bc_LastUpdated :: time
  bc_BlockNumber :: "64 word"

text \<open>\<open>db.Table(t).Omit("CreatedBy").Create(a)\<close>, \<open>db.Table(t).Find(&c)\<close>, \<open>db.Table(t).Save(&c)\<close>
  and \<open>db.Transaction(f)\<close>.\<close>

record 'db gorm =
  gorm_Create :: "string \<Rightarrow> row \<Rightarrow> 'db \<Rightarrow> 'db res"
  gorm_Find :: "string \<Rightarrow> 'db \<Rightarrow> BlockCheckpoint res"
  gorm_Save :: "string \<Rightarrow> BlockCheckpoint \<Rightarrow> 'db \<Rightarrow> 'db res"
  gorm_Transaction :: "('db \<Rightarrow> 'db res) \<Rightarrow> 'db \<Rightarrow> 'db res"

text \<open>Encoding to JSON fails on a time whose year is not between 0 and 9999 (taken in UTC), and on
  nothing else in the event structs.\<close>

definition json_time_ok :: "time \<Rightarrow> bool" where
  "json_time_ok t \<longleftrightarrow> - 62167219200 \<le> Unix t \<and> Unix t \<le> 253402300799"

fun row_times :: "row \<Rightarrow> time list" where
  "row_times (RCampaignCreated v) = [ev_CreatedBy v, cc_Starting v, cc_Ending v]"
| "row_times (RCampaignUpdated v) = [ev_CreatedBy v, cu_Starting v, cu_Ending v]"
| "row_times a = [ev_CreatedBy (row_event a)]"

definition json_Encode :: "row \<Rightarrow> unit res" where
  "json_Encode a =
     (if list_all json_time_ok (row_times a) then Ok ()
      else Err (External ''Time.MarshalJSON: year outside of range [0,9999]''))"

definition databaseInsertLog :: "'db gorm \<Rightarrow> string \<Rightarrow> row \<Rightarrow> 'db \<Rightarrow> 'db res" where
  "databaseInsertLog G table a db =
     andThen (mapErr (\<lambda>err. Err (Wrapf ''encoding block header: '' err)) (json_Encode a)) (\<lambda>_.
     mapErr (\<lambda>err. Err (Wrapf ''inserting log: '' err)) (gorm_Create G table a db))"

definition handleLog :: "eth \<Rightarrow> addrs \<Rightarrow> 'db gorm \<Rightarrow> 'db \<Rightarrow> Log \<Rightarrow> 'db res" where
  "handleLog E A G db l = handleLogCallback E A l (databaseInsertLog G) db"

definition getLastBlockCheckpointed :: "'db gorm \<Rightarrow> 'db \<Rightarrow> (64 word) res" where
  "getLastBlockCheckpointed G db =
     andThen (gorm_Find G ''ingestor_checkpointing_1'' db) (\<lambda>c. Ok (bc_BlockNumber c))"

definition updateCheckpoint :: "'db gorm \<Rightarrow> time \<Rightarrow> 'db \<Rightarrow> 64 word \<Rightarrow> 'db res" where
  "updateCheckpoint G now db blockNo =
     gorm_Save G ''ingestor_checkpointing_1''
       \<lparr>bc_ID = 1, bc_LastUpdated = now, bc_BlockNumber = blockNo\<rparr> db"

section \<open>Polling\<close>

text \<open>\<open>c.FilterLogs\<close> with the bounds and the alternatives for the first topic.\<close>

type_synonym client = "int \<Rightarrow> int \<Rightarrow> ethHash list \<Rightarrow> Log list res"

text \<open>One turn of the loop over the logs: the database, \<open>wasChanged\<close> and \<open>biggestBlockNo\<close>.\<close>

definition ingest_log ::
    "eth \<Rightarrow> addrs \<Rightarrow> 'db gorm \<Rightarrow> Log \<Rightarrow> 'db \<times> bool \<times> 64 word \<Rightarrow> ('db \<times> bool \<times> 64 word) res" where
  "ingest_log E A G l = (\<lambda>(db, wasChanged, biggestBlockNo).
     andThen (mapErr (\<lambda>err. Err (Wrapf ''failed to unpack log: '' err)) (handleLog E A G db l))
       (\<lambda>db'.
          if biggestBlockNo \<le> log_BlockNumber l then Ok (db', True, log_BlockNumber l)
          else Ok (db', wasChanged, biggestBlockNo)))"

text \<open>The function given to \<open>db.Transaction\<close>.\<close>

definition ingest_transaction ::
    "eth \<Rightarrow> addrs \<Rightarrow> 'db gorm \<Rightarrow> time \<Rightarrow> Log list \<Rightarrow> 64 word \<Rightarrow> 'db \<Rightarrow> 'db res" where
  "ingest_transaction E A G now logs start db =
     andThen (foldRes (ingest_log E A G) logs (db, False, start))
       (\<lambda>(db', wasChanged, biggestBlockNo).
          if wasChanged then
            mapErr (\<lambda>err. Err (Wrapf ''failed to update a checkpoint: '' err))
              (updateCheckpoint G now db' biggestBlockNo)
          else Ok db')"

definition IngestBlockRange ::
    "eth \<Rightarrow> addrs \<Rightarrow> 'db gorm \<Rightarrow> time \<Rightarrow> client \<Rightarrow> 64 word \<Rightarrow> 64 word \<Rightarrow> 'db \<Rightarrow> 'db res" where
  "IngestBlockRange E A G now c start to db =
     andThen (mapErr (\<lambda>err. Exitf ''failed to filter logs: '' err)
         (c (uint start) (uint to) (FilterTopics E))) (\<lambda>logs.
     mapErr (\<lambda>err. Exitf ''failed to ingest logs into db: '' err)
       (gorm_Transaction G (ingest_transaction E A G now logs start) db))"

text \<open>One iteration of the polling loop (the heartbeat and the sleep at its end change no state).\<close>

definition poll_once ::
    "eth \<Rightarrow> addrs \<Rightarrow> 'db gorm \<Rightarrow> int \<Rightarrow> time \<Rightarrow> client \<Rightarrow> 'db \<Rightarrow> 'db res" where
  "poll_once E A G ingestorPagination now c db =
     andThen (mapErr (\<lambda>err. Exitf ''failed to get the last block checkpoint: '' err)
         (getLastBlockCheckpointed G db)) (\<lambda>start.
     let to = start + word_of_int ingestorPagination;
         start' = start + 1
     in IngestBlockRange E A G now c start' to db)"

text \<open>The loop never returns of itself: \<open>rounds\<close> lists the clock and the client of each iteration
  that runs.\<close>

definition IngestPolling ::
    "eth \<Rightarrow> addrs \<Rightarrow> 'db gorm \<Rightarrow> int \<Rightarrow> (time \<times> client) list \<Rightarrow> 'db \<Rightarrow> 'db res" where
  "IngestPolling E A G ingestorPagination rounds db =
     (if ingestorPagination \<le> 0 then Panic ''bad ingestor pagination''
      else foldRes (\<lambda>(now, c). poll_once E A G ingestorPagination now c) rounds db)"

definition Entry ::
    "eth \<Rightarrow> C \<Rightarrow> Address \<Rightarrow> Address \<Rightarrow> int \<Rightarrow> 'db gorm \<Rightarrow> (time \<times> client) list \<Rightarrow> 'db \<Rightarrow>
      'db res" where
  "Entry E config thirdwebFactoryAddr leoAddr' ingestorPagination G rounds db =
     IngestPolling E
       \<lparr>seawaterAddr = HexToAddress E (Address_String (SeawaterAddr config)),
        thirdwebAddr = HexToAddress E (Address_String thirdwebFactoryAddr),
        leoAddr = HexToAddress E (Address_String leoAddr')\<rparr>
       G ingestorPagination rounds db"

definition DefaultPaginationBlockCountMin :: nat where
  "DefaultPaginationBlockCountMin = 1000"

definition DefaultPaginationBlockCountMax :: nat where
  "DefaultPaginationBlockCountMax = 5000"

text \<open>\<open>main\<close>, over what the environment answers: the connection to the database (\<open>gorm.Open\<close>), the
  dialled client (both only matter for their error), and the random draw.\<close>

definition ingestor_main ::
    "eth \<Rightarrow> getenv \<Rightarrow> (string \<Rightarrow> 'db res) \<Rightarrow> (string \<Rightarrow> unit res) \<Rightarrow> nat \<Rightarrow> nat \<Rightarrow> 'db gorm \<Rightarrow>
      (time \<times> client) list \<Rightarrow> bucket_reply \<Rightarrow> 'db res" where
  "ingestor_main E getenv gorm_Open Dial seed1 seed2 G rounds bucket =
     andThen (config_Get getenv) (\<lambda>config.
     andThen (PickTimescaleUrl seed1 config) (\<lambda>url.
     andThen (mapErr (\<lambda>err. Exitf ''opening postgres: '' err) (gorm_Open url)) (\<lambda>db.
     andThen (mapErr (\<lambda>err. Exitf ''websocket dial: '' err) (Dial (GethUrl config))) (\<lambda>_.
     andThen (Intn seed2 (DefaultPaginationBlockCountMax - DefaultPaginationBlockCountMin)) (\<lambda>r.
     let ingestorPagination = int (r + DefaultPaginationBlockCountMin);
         thirdwebFactoryAddr' = getenv ''SPN_THIRDWEB_ACCOUNT_FACTORY_ADDR'' in
     if thirdwebFactoryAddr' = [] then Exitf0 ''SPN_THIRDWEB_ACCOUNT_FACTORY_ADDR not set''
     else let thirdwebFactoryAddr = AddressFromString thirdwebFactoryAddr';
              leoAddr' = getenv ''SPN_LEO_ADDR'' in
     if leoAddr' = [] then Exitf0 ''SPN_LEO_ADDR not set''
     else andThen (features_get getenv bucket) (\<lambda>f.
       Entry E config thirdwebFactoryAddr (AddressFromString leoAddr') ingestorPagination G
         rounds db))))))"

end
