(* ===== verification/Ingestion.thy ===== *)
theory Ingestion
  imports Ingestor
begin

text \<open>
  What the ingestor guarantees.  First the handling of one log: which table it may reach, from
  which emitter, and with which metadata.  Then the whole service as a transition system in which
  the chain grows block by block and polls interleave with it: in every reachable state the
  database holds exactly the rows of the logs up to its checkpoint, each once and in chain order.
  Last, the two ways in which the service stops making progress.
\<close>

section \<open>The rows of a log\<close>

text \<open>The specification of \<open>handleLog\<close>: the rows a log contributes, at most one.\<close>

definition log_rows :: "eth \<Rightarrow> addrs \<Rightarrow> Log \<Rightarrow> (string \<times> row) list res" where
  "log_rows E A l = handleLogCallback E A l (\<lambda>t a rs. Ok (rs @ [(t, a)])) []"

text \<open>Which contract may write to a table.\<close>

definition may_write :: "addrs \<Rightarrow> string \<Rightarrow> ethAddress \<Rightarrow> bool" where
  "may_write A table a \<longleftrightarrow>
     (table = ''events_erc20_transfer'' \<or>
      table = ''events_thirdweb_accountcreated'' \<and> a = thirdwebAddr A \<or>
      take 11 table = ''events_leo_'' \<and> a = leoAddr A \<or>
      take 16 table = ''events_seawater_'' \<and> a = seawaterAddr A)"

lemma handleLogCallback_rows:
  "handleLogCallback E A l cb s =
     andThen (log_rows E A l) (\<lambda>rs. foldRes (\<lambda>(t, a). cb t a) rs s)"
  unfolding log_rows_def handleLogCallback_def Let_def
  by (cases "idx (log_Topics l) 0"; simp)
    (cases "unpackLog E (log_Topics l ! 0) (topic_or_zero (log_Topics l) 1)
      (topic_or_zero (log_Topics l) 2) (topic_or_zero (log_Topics l) 3) (log_Data l)";
     auto simp: idx_eq_Ok split: prod.splits)

lemma as_row_eq_Ok:
  "as_row con table who r = Ok (a, t, w) \<longleftrightarrow> (\<exists>v. r = Ok v \<and> a = con v \<and> t = table \<and> w = who)"
  by (cases r) (auto simp: as_row_def)

text \<open>The table of each case of the switch agrees with the contract it is taken for.\<close>

lemma unpackLog_source:
  assumes "unpackLog E t0 t1 t2 t3 d = Ok (a, table, who)"
  shows "case who of
      FromAnyone \<Rightarrow> table = ''events_erc20_transfer''
    | FromThirdweb \<Rightarrow> table = ''events_thirdweb_accountcreated''
    | FromLeo \<Rightarrow> take 11 table = ''events_leo_''
    | FromSeawater \<Rightarrow> take 16 table = ''events_seawater_''"
  using assms unfolding unpackLog_def by (auto simp: as_row_eq_Ok split: if_splits)

lemma row_event_setEventFields [simp]:
  "row_event (setEventFields a h t n e) = set_fields h t n e (row_event a)"
  by (cases a) (simp_all add: set_fields_def Event.defs)

lemma log_rows_cases:
  assumes "log_rows E A l = Ok rs"
  obtains "rs = []"
    | table a where
      "rs = [(table, setEventFields a (HashText E (log_BlockHash l)) (HashText E (log_TxHash l))
         (log_BlockNumber l) (AddressText E (log_Address l)))]"
      "may_write A table (log_Address l)"
  using assms unfolding log_rows_def handleLogCallback_def Let_def
  by (auto split: if_splits source.splits dest!: unpackLog_source simp: may_write_def)

text \<open>C2. A log only reaches the tables of the contract that emitted it: handling a log either
  changes nothing or makes one insertion, into a Seawater, Leo or Thirdweb table only when the
  emitter is the configured contract (ERC20 transfers are taken from anyone), of a row that
  carries the log's own block number, hashes and emitter.\<close>

theorem handleLog_authentic:
  assumes "handleLog E A G db l = Ok db'"
  shows "db' = db \<or>
    (\<exists>table a. databaseInsertLog G table a db = Ok db' \<and> may_write A table (log_Address l) \<and>
       ev_BlockNumber (row_event a) = log_BlockNumber l \<and>
       ev_BlockHash (row_event a) = HashText E (log_BlockHash l) \<and>
       ev_TransactionHash (row_event a) = HashText E (log_TxHash l) \<and>
       ev_EmitterAddr (row_event a) = AddressText E (log_Address l))"
proof -
  obtain rs where rs: "log_rows E A l = Ok rs"
    "foldRes (\<lambda>(t, a). databaseInsertLog G t a) rs db = Ok db'"
    using assms by (auto simp: handleLog_def handleLogCallback_rows)
  from rs(1) show ?thesis
  proof (cases rule: log_rows_cases)
    case 1
    then show ?thesis using rs(2) by simp
  next
    case (2 table a)
    then show ?thesis using rs(2)
      by (intro disjI2 exI [of _ table]
          exI [of _ "setEventFields a (HashText E (log_BlockHash l)) (HashText E (log_TxHash l))
            (log_BlockNumber l) (AddressText E (log_Address l))"])
        (simp add: set_fields_def)
  qed
qed

section \<open>What the service relies on\<close>

text \<open>The database, through the rows inserted so far and the stored checkpoint: a successful
  insertion appends its row, a successful save replaces the checkpoint, a read returns it, and a
  transaction that returns did what its body does.\<close>

definition gorm_lawful ::
    "'db gorm \<Rightarrow> ('db \<Rightarrow> (string \<times> row) list) \<Rightarrow> ('db \<Rightarrow> 64 word) \<Rightarrow> bool" where
  "gorm_lawful G rows ckpt \<longleftrightarrow>
     (\<forall>t a db db'. gorm_Create G t a db = Ok db' \<longrightarrow>
        rows db' = rows db @ [(t, a)] \<and> ckpt db' = ckpt db) \<and>
     (\<forall>db c. gorm_Find G ''ingestor_checkpointing_1'' db = Ok c \<longrightarrow> bc_BlockNumber c = ckpt db) \<and>
     (\<forall>c db db'. gorm_Save G ''ingestor_checkpointing_1'' c db = Ok db' \<longrightarrow>
        rows db' = rows db \<and> ckpt db' = bc_BlockNumber c) \<and>
     (\<forall>f db db'. gorm_Transaction G f db = Ok db' \<longrightarrow> f db = Ok db')"

lemma gorm_lawfulD:
  assumes "gorm_lawful G rows ckpt"
  shows gorm_CreateD: "gorm_Create G t a db = Ok db' \<Longrightarrow> rows db' = rows db @ [(t, a)]"
    "gorm_Create G t a db = Ok db' \<Longrightarrow> ckpt db' = ckpt db"
    and gorm_FindD: "gorm_Find G ''ingestor_checkpointing_1'' db = Ok c \<Longrightarrow> bc_BlockNumber c = ckpt db"
    and gorm_SaveD: "gorm_Save G ''ingestor_checkpointing_1'' c db = Ok db' \<Longrightarrow> rows db' = rows db"
    "gorm_Save G ''ingestor_checkpointing_1'' c db = Ok db' \<Longrightarrow> ckpt db' = bc_BlockNumber c"
    and gorm_TransactionD: "gorm_Transaction G f db = Ok db' \<Longrightarrow> f db = Ok db'"
  using assms unfolding gorm_lawful_def by iprover+

text \<open>The logs a query selects, and a client that answers from a given chain.\<close>

definition wanted :: "ethHash list \<Rightarrow> Log \<Rightarrow> bool" where
  "wanted topics l \<longleftrightarrow> (case log_Topics l of [] \<Rightarrow> False | t # ts \<Rightarrow> t \<in> set topics)"

definition serves :: "client \<Rightarrow> Log list \<Rightarrow> bool" where
  "serves c chain \<longleftrightarrow>
     (\<forall>start to topics logs. c start to topics = Ok logs \<longrightarrow>
        logs = filter (\<lambda>l. start \<le> uint (log_BlockNumber l) \<and> uint (log_BlockNumber l) \<le> to \<and>
          wanted topics l) chain)"

section \<open>One transaction\<close>

lemma databaseInsertLog_rows:
  assumes "gorm_lawful G rows ckpt" "databaseInsertLog G t a db = Ok db'"
  shows "rows db' = rows db @ [(t, a)] \<and> ckpt db' = ckpt db"
proof -
  from assms(2) have "gorm_Create G t a db = Ok db'"
    by (auto simp: databaseInsertLog_def mapErr_eq_Ok)
  then show ?thesis using gorm_CreateD [OF assms(1)] by blast
qed

lemma insert_rows:
  assumes "gorm_lawful G rows ckpt" "foldRes (\<lambda>(t, a). databaseInsertLog G t a) rs db = Ok db'"
  shows "rows db' = rows db @ rs \<and> ckpt db' = ckpt db"
  using assms(2)
proof (induction rs arbitrary: db)
  case (Cons r rs)
  obtain t a where r: "r = (t, a)" by (cases r)
  with Cons.prems obtain db1 where "databaseInsertLog G t a db = Ok db1"
    "foldRes (\<lambda>(t, a). databaseInsertLog G t a) rs db1 = Ok db'" by auto
  with Cons.IH [of db1] databaseInsertLog_rows [OF assms(1)] show ?case by (simp add: r)
qed simp

lemma handleLog_rows:
  assumes "gorm_lawful G rows ckpt" "handleLog E A G db l = Ok db'"
  shows "\<exists>rs. log_rows E A l = Ok rs \<and> rows db' = rows db @ rs \<and> ckpt db' = ckpt db"
  using assms by (auto simp: handleLog_def handleLogCallback_rows dest: insert_rows)

lemma ingest_log_Ok:
  "ingest_log E A G l (db, changed, big) = Ok s \<longleftrightarrow>
     (\<exists>db'. handleLog E A G db l = Ok db' \<and>
       s = (if big \<le> log_BlockNumber l then (db', True, log_BlockNumber l) else (db', changed, big)))"
  by (auto simp: ingest_log_def mapErr_eq_Ok)

text \<open>The loop over the logs: on logs in block order, not below the first block of the range, it
  appends their rows and ends with the block of the last one.\<close>

lemma ingest_loop:
  assumes lawful: "gorm_lawful G rows ckpt"
    and "foldRes (ingest_log E A G) logs (db, changed, big) = Ok (db', changed', big')"
    and "sorted (map log_BlockNumber logs)" "\<forall>l \<in> set logs. big \<le> log_BlockNumber l"
  shows "(\<exists>rss. mapRes (log_rows E A) logs = Ok rss \<and> rows db' = rows db @ concat rss) \<and>
    ckpt db' = ckpt db \<and> changed' = (changed \<or> logs \<noteq> []) \<and>
    big' = (if logs = [] then big else log_BlockNumber (last logs))"
  using assms(2-)
proof (induction logs arbitrary: db changed big)
  case (Cons l logs)
  from Cons.prems obtain db1 where db1: "handleLog E A G db l = Ok db1"
    and rest: "foldRes (ingest_log E A G) logs (db1, True, log_BlockNumber l) =
      Ok (db', changed', big')"
    by (auto simp: ingest_log_Ok)
  obtain rs where "log_rows E A l = Ok rs" "rows db1 = rows db @ rs" "ckpt db1 = ckpt db"
    using handleLog_rows [OF lawful db1] by blast
  moreover have "sorted (map log_BlockNumber logs)"
    "\<forall>l' \<in> set logs. log_BlockNumber l \<le> log_BlockNumber l'"
    using Cons.prems by auto
  ultimately show ?case using Cons.IH [OF rest] by auto
qed simp

lemma ingest_transaction_rows:
  assumes lawful: "gorm_lawful G rows ckpt"
    and "ingest_transaction E A G now logs start db = Ok db'"
    and "sorted (map log_BlockNumber logs)" "\<forall>l \<in> set logs. start \<le> log_BlockNumber l"
  shows "(\<exists>rss. mapRes (log_rows E A) logs = Ok rss \<and> rows db' = rows db @ concat rss) \<and>
    ckpt db' = (if logs = [] then ckpt db else log_BlockNumber (last logs))"
proof -
  obtain db1 changed big where
    loop: "foldRes (ingest_log E A G) logs (db, False, start) = Ok (db1, changed, big)"
    and fin: "(if changed then updateCheckpoint G now db1 big else Ok db1) = Ok db'"
    using assms(2) by (auto simp: ingest_transaction_def mapErr_eq_Ok split: if_splits)
  note l = ingest_loop [OF lawful loop assms(3,4)]
  show ?thesis
  proof (cases "logs = []")
    case True
    with l fin show ?thesis by auto
  next
    case False
    with l fin have "updateCheckpoint G now db1 (log_BlockNumber (last logs)) = Ok db'" by simp
    then have "rows db' = rows db1 \<and> ckpt db' = log_BlockNumber (last logs)"
      unfolding updateCheckpoint_def using gorm_SaveD [OF lawful] by fastforce
    with l False show ?thesis by auto
  qed
qed

section \<open>One poll\<close>

text \<open>The logs of a chain after block \<open>lo\<close> up to block \<open>hi\<close> that the service asks for.\<close>

definition window :: "eth \<Rightarrow> 64 word \<Rightarrow> 64 word \<Rightarrow> Log list \<Rightarrow> Log list" where
  "window E lo hi chain =
     filter (\<lambda>l. lo < log_BlockNumber l \<and> log_BlockNumber l \<le> hi \<and>
       wanted (FilterTopics E) l) chain"

lemma succ_le_iff:
  assumes "(x :: 64 word) \<noteq> - 1"
  shows "uint (x + 1) \<le> uint y \<longleftrightarrow> x < y"
proof -
  have "uint x \<noteq> uint (- 1 :: 64 word)" using assms word_uint_eqI by blast
  moreover have "uint (- 1 :: 64 word) = 2 ^ 64 - 1" by (simp add: unsigned_minus_1_eq_mask mask_eq_exp_minus_1)
  ultimately have "uint x < 2 ^ 64 - 1" using uint_lt2p [of x] by simp
  then have "uint (x + 1) = uint x + 1"
    by (simp add: uint_word_ariths mod_pos_pos_trivial)
  then show ?thesis by (simp add: word_less_def add1_zle_eq)
qed

lemma serves_window:
  assumes "serves c chain" "lo \<noteq> - 1" "c (uint (lo + 1)) (uint hi) (FilterTopics E) = Ok logs"
  shows "logs = window E lo hi chain"
proof -
  have "logs = filter (\<lambda>l. uint (lo + 1) \<le> uint (log_BlockNumber l) \<and>
      uint (log_BlockNumber l) \<le> uint hi \<and> wanted (FilterTopics E) l) chain"
    using assms(1,3) unfolding serves_def by blast
  then show ?thesis
    by (simp add: window_def succ_le_iff [OF assms(2)] word_le_def)
qed

lemma poll_once_Ok:
  assumes lawful: "gorm_lawful G rows ckpt"
    and "serves c chain" "ckpt db \<noteq> - 1" "poll_once E A G p now c db = Ok db'"
  shows "ingest_transaction E A G now (window E (ckpt db) (ckpt db + word_of_int p) chain)
      (ckpt db + 1) db = Ok db'"
proof -
  from assms(4) obtain start where st: "getLastBlockCheckpointed G db = Ok start"
    and rng: "IngestBlockRange E A G now c (start + 1) (start + word_of_int p) db = Ok db'"
    by (auto simp: poll_once_def Exitf_def mapErr_Exit_eq_Ok Let_def)
  from st have "start = ckpt db"
    using gorm_FindD [OF lawful] by (auto simp: getLastBlockCheckpointed_def)
  with rng obtain logs where
    "c (uint (ckpt db + 1)) (uint (ckpt db + word_of_int p)) (FilterTopics E) = Ok logs"
    "gorm_Transaction G (ingest_transaction E A G now logs (ckpt db + 1)) db = Ok db'"
    by (auto simp: IngestBlockRange_def Exitf_def mapErr_Exit_eq_Ok)
  then show ?thesis
    using serves_window [OF assms(2,3)] gorm_TransactionD [OF lawful] by blast
qed

text \<open>A poll that returns moves the checkpoint to the block of the last log it saw and appends
  exactly the rows of the logs in between.\<close>

lemma poll_once_rows:
  assumes lawful: "gorm_lawful G rows ckpt" and "serves c chain" "ckpt db \<noteq> - 1"
    and sorted: "sorted (map log_BlockNumber chain)"
    and "poll_once E A G p now c db = Ok db'"
  shows "ckpt db \<le> ckpt db'" (is ?mono)
    and "ckpt db' = ckpt db \<or> (\<exists>l \<in> set chain. ckpt db' = log_BlockNumber l)" (is ?at)
    and "\<exists>rss. mapRes (log_rows E A) (window E (ckpt db) (ckpt db') chain) = Ok rss \<and>
      rows db' = rows db @ concat rss" (is ?rows)
proof -
  let ?w = "window E (ckpt db) (ckpt db + word_of_int p) chain"
  have w: "sorted (map log_BlockNumber ?w)" "\<forall>l \<in> set ?w. ckpt db + 1 \<le> log_BlockNumber l"
    using sorted sorted_filter by (auto simp: window_def word_le_def succ_le_iff [OF assms(3)])
  note t = ingest_transaction_rows [OF lawful poll_once_Ok [OF lawful assms(2,3,5)] w]
  have "?mono \<and> ?at \<and> ?rows"
  proof (cases "?w = []")
    case True
    moreover have "window E (ckpt db) (ckpt db) chain = []"
      by (auto simp: window_def filter_empty_conv)
    ultimately show ?thesis using t by auto
  next
    case False
    then have last: "last ?w \<in> set ?w" by simp
    have "window E (ckpt db) (log_BlockNumber (last ?w)) chain = ?w"
      using filter_window_last [OF sorted, of "ckpt db" _ "wanted (FilterTopics E)"] False
      unfolding window_def by blast
    moreover have "ckpt db < log_BlockNumber (last ?w)" "last ?w \<in> set chain"
      using last by (auto simp: window_def)
    ultimately show ?thesis using t False by auto
  qed
  then show ?mono ?at ?rows by blast+
qed

section \<open>The service and the chain as a transition system\<close>

record 'db system =
  sys_head :: "64 word"
  sys_chain :: "Log list"
  sys_db :: 'db
  sys_page :: int

text \<open>The page sizes a start of the service can draw.\<close>

definition ingestor_pages :: "int set" where
  "ingestor_pages = int ` {DefaultPaginationBlockCountMin..<DefaultPaginationBlockCountMax}"

text \<open>A block (or several) is appended, with its logs in order; a poll returns; or the process ends, as
  it does when a poll fails (its transaction is rolled back), and is started again, with a page size
  drawn anew from \<open>P\<close>.\<close>

inductive ingest_step ::
    "eth \<Rightarrow> addrs \<Rightarrow> 'db gorm \<Rightarrow> int set \<Rightarrow> 'db system \<Rightarrow> 'db system \<Rightarrow> bool" for E A G P where
  grow: "sys_head w < head' \<Longrightarrow> head' < - 1 \<Longrightarrow> sorted (map log_BlockNumber new) \<Longrightarrow>
    \<forall>l \<in> set new. sys_head w < log_BlockNumber l \<and> log_BlockNumber l \<le> head' \<Longrightarrow>
    ingest_step E A G P w (w\<lparr>sys_head := head', sys_chain := sys_chain w @ new\<rparr>)"
| poll: "serves c (sys_chain w) \<Longrightarrow> poll_once E A G (sys_page w) now c (sys_db w) = Ok db' \<Longrightarrow>
    ingest_step E A G P w (w\<lparr>sys_db := db'\<rparr>)"
| restart: "p \<in> P \<Longrightarrow> ingest_step E A G P w (w\<lparr>sys_page := p\<rparr>)"

definition ingest_init ::
    "'db gorm \<Rightarrow> ('db \<Rightarrow> (string \<times> row) list) \<Rightarrow> ('db \<Rightarrow> 64 word) \<Rightarrow> (string \<times> row) list \<Rightarrow>
      64 word \<Rightarrow> 'db system \<Rightarrow> bool" where
  "ingest_init G rows ckpt r0 c0 w \<longleftrightarrow>
     gorm_lawful G rows ckpt \<and> rows (sys_db w) = r0 \<and> ckpt (sys_db w) = c0 \<and>
     c0 \<le> sys_head w \<and> sys_head w < - 1 \<and> sorted (map log_BlockNumber (sys_chain w)) \<and>
     (\<forall>l \<in> set (sys_chain w). log_BlockNumber l \<le> sys_head w)"

text \<open>The rows are those of the logs from the first checkpoint to the present one.\<close>

definition ingested ::
    "eth \<Rightarrow> addrs \<Rightarrow> (string \<times> row) list \<Rightarrow> 64 word \<Rightarrow> 64 word \<Rightarrow> Log list \<Rightarrow>
      (string \<times> row) list \<Rightarrow> bool" where
  "ingested E A r0 c0 c chain rs \<longleftrightarrow>
     (\<exists>rss. mapRes (log_rows E A) (window E c0 c chain) = Ok rss \<and> rs = r0 @ concat rss)"

definition ingest_inv ::
    "eth \<Rightarrow> addrs \<Rightarrow> 'db gorm \<Rightarrow> ('db \<Rightarrow> (string \<times> row) list) \<Rightarrow> ('db \<Rightarrow> 64 word) \<Rightarrow>
      (string \<times> row) list \<Rightarrow> 64 word \<Rightarrow> 'db system \<Rightarrow> bool" where
  "ingest_inv E A G rows ckpt r0 c0 w \<longleftrightarrow>
     gorm_lawful G rows ckpt \<and> c0 \<le> ckpt (sys_db w) \<and> ckpt (sys_db w) \<le> sys_head w \<and>
     sys_head w < - 1 \<and> sorted (map log_BlockNumber (sys_chain w)) \<and>
     (\<forall>l \<in> set (sys_chain w). log_BlockNumber l \<le> sys_head w) \<and>
     ingested E A r0 c0 (ckpt (sys_db w)) (sys_chain w) (rows (sys_db w))"

lemma window_append: "window E a b (xs @ ys) = window E a b xs @ window E a b ys"
  by (simp add: window_def)

lemma ingested_grow:
  assumes "\<forall>l \<in> set new. c < log_BlockNumber l"
  shows "ingested E A r0 c0 c (chain @ new) rs = ingested E A r0 c0 c chain rs"
proof -
  have "window E c0 c new = []" using assms by (auto simp: window_def filter_empty_conv)
  then show ?thesis by (simp add: ingested_def window_append)
qed

lemma ingested_extend:
  assumes "ingested E A r0 c0 c chain rs" "sorted (map log_BlockNumber chain)"
    and "c0 \<le> c" "c \<le> c'" "mapRes (log_rows E A) (window E c c' chain) = Ok rss"
  shows "ingested E A r0 c0 c' chain (rs @ concat rss)"
proof -
  have "window E c0 c' chain = window E c0 c chain @ window E c c' chain"
    unfolding window_def by (rule filter_window_split [OF assms(2-4)])
  with assms(1,5) show ?thesis by (auto simp: ingested_def mapRes_append)
qed

lemma ingest_inv_poll:
  assumes inv: "ingest_inv E A G rows ckpt r0 c0 w"
    and "serves c (sys_chain w)" "poll_once E A G p now c (sys_db w) = Ok db'"
  shows "ingest_inv E A G rows ckpt r0 c0 (w\<lparr>sys_db := db'\<rparr>)"
proof -
  have lawful: "gorm_lawful G rows ckpt" and neq: "ckpt (sys_db w) \<noteq> - 1"
    and srt: "sorted (map log_BlockNumber (sys_chain w))"
    using inv by (auto simp: ingest_inv_def)
  note p = poll_once_rows [OF lawful assms(2) neq srt assms(3)]
  from p(3) obtain rss where
    "mapRes (log_rows E A) (window E (ckpt (sys_db w)) (ckpt db') (sys_chain w)) = Ok rss"
    "rows db' = rows (sys_db w) @ concat rss" by blast
  with ingested_extend [OF _ srt _ p(1)] inv
  have "ingested E A r0 c0 (ckpt db') (sys_chain w) (rows db')" by (simp add: ingest_inv_def)
  moreover have "ckpt db' \<le> sys_head w" using p(2) inv by (auto simp: ingest_inv_def)
  ultimately show ?thesis using inv p(1) by (auto simp: ingest_inv_def)
qed

interpretation ingestor: invariant_system
  "ingest_init G rows ckpt r0 c0" "ingest_step E A G P" "ingest_inv E A G rows ckpt r0 c0"
  for E :: eth and A :: addrs and G :: "'db gorm" and P :: "int set" and rows ckpt r0 c0
proof
  fix w assume init: "ingest_init G rows ckpt r0 c0 w"
  have "window E c0 c0 (sys_chain w) = []" by (auto simp: window_def filter_empty_conv)
  with init show "ingest_inv E A G rows ckpt r0 c0 w"
    by (simp add: ingest_init_def ingest_inv_def ingested_def)
next
  fix w w' assume inv: "ingest_inv E A G rows ckpt r0 c0 w" and "ingest_step E A G P w w'"
  from this(2) show "ingest_inv E A G rows ckpt r0 c0 w'"
  proof (cases rule: ingest_step.cases)
    case (grow head' new)
    then have "\<forall>l \<in> set new. ckpt (sys_db w) < log_BlockNumber l"
      using inv by (auto simp: ingest_inv_def)
    with grow inv show ?thesis
      by (fastforce simp: ingest_inv_def sorted_append ingested_grow)
  next
    case (poll c now db')
    show ?thesis using ingest_inv_poll [OF inv poll(2,3)] poll(1) by simp
  next
    case (restart p)
    with inv show ?thesis by (simp add: ingest_inv_def)
  qed
qed

text \<open>An in-memory database, with the logs it was given and the checkpoint.\<close>

type_synonym mem_db = "(string \<times> row) list \<times> 64 word"

definition mem_gorm :: "mem_db gorm" where
  "mem_gorm = \<lparr>
     gorm_Create = (\<lambda>t a (rs, c). Ok (rs @ [(t, a)], c)),
     gorm_Find = (\<lambda>t (rs, c). Ok \<lparr>bc_ID = 1, bc_LastUpdated = 0, bc_BlockNumber = c\<rparr>),
     gorm_Save = (\<lambda>t cp (rs, c). Ok (rs, bc_BlockNumber cp)),
     gorm_Transaction = (\<lambda>f db. f db)\<rparr>"

lemma mem_gorm_lawful: "gorm_lawful mem_gorm fst snd"
  by (auto simp: gorm_lawful_def mem_gorm_def)

text \<open>A client that answers from its chain, and a chain with one log.\<close>

definition chain_client :: "Log list \<Rightarrow> client" where
  "chain_client chain start to topics =
     Ok (filter (\<lambda>l. start \<le> uint (log_BlockNumber l) \<and> uint (log_BlockNumber l) \<le> to \<and>
       wanted topics l) chain)"

lemma chain_client_serves: "serves (chain_client chain) chain"
  by (simp add: serves_def chain_client_def)

definition burn_log :: "64 word \<Rightarrow> ethAddress \<Rightarrow> ethHash \<Rightarrow> Log" where
  "burn_log n a i = \<lparr>log_Address = a, log_Topics = [TopicBurnPosition ref_eth, i, 9],
     log_Data = [], log_BlockNumber = n, log_TxHash = 1, log_BlockHash = 2\<rparr>"

definition demo_addrs :: addrs where
  "demo_addrs = \<lparr>seawaterAddr = 3, thirdwebAddr = 4, leoAddr = 5\<rparr>"

lemmas topic_defs = TopicTransfer_def TopicAccountCreated_def TopicCampaignBalanceUpdated_def
  TopicCampaignCreated_def TopicCampaignUpdated_def TopicMintPosition_def TopicBurnPosition_def
  TopicTransferPosition_def TopicUpdatePositionLiquidity_def TopicCollectFees_def
  TopicNewPool_def TopicCollectProtocolFees_def TopicSwap2_def TopicSwap1_def

lemma ref_EventID [simp]: "EventID ref_eth f name = (case map_of ref_topics name of None \<Rightarrow> 0 | Some h \<Rightarrow> h)"
  by (simp add: ref_eth_def)

definition burn_row :: "64 word \<Rightarrow> ethAddress \<Rightarrow> ethHash \<Rightarrow> row" where
  "burn_row n a i = setEventFields
     (RBurnPosition (zero_event (BurnPosition.fields (uint i) (addr_text 9))))
     (hash_text 2) (hash_text 1) n (addr_text a)"

lemma burn_log_rows:
  assumes "uint i < 2 ^ 63"
  shows "log_rows ref_eth demo_addrs (burn_log n 3 i) =
    Ok [(''events_seawater_burnposition'', burn_row n 3 i)]"
proof -
  have "UnpackBurnPosition ref_eth i 9 [] =
      Ok (zero_event (BurnPosition.fields (uint i) (addr_text 9)))"
    using assms ref_eth_common
    by (simp add: UnpackBurnPosition_def hashToInt_cases hashToAddr_topic)
  moreover have "HashText ref_eth = hash_text" "AddressText ref_eth = addr_text"
    by (simp_all add: ref_eth_def)
  ultimately show ?thesis
    by (simp add: log_rows_def handleLogCallback_def burn_log_def unpackLog_def topic_defs
        ref_topics_def topic_or_zero_def as_row_def demo_addrs_def burn_row_def Let_def)
qed

lemma burn_row_encodes: "json_Encode (burn_row n a i) = Ok ()"
  by (simp add: json_Encode_def burn_row_def set_fields_def zero_event_def json_time_ok_def
      zero_time_def Unix_def Event.defs)

text \<open>C1. Exactly-once ingestion: however polls, restarts and new blocks interleave, the rows of the
  database are at every moment those it started with, followed by the rows of the relevant logs of
  the chain between the first and the present checkpoint, each log once and in chain order; the
  checkpoint never moves back and never passes the head of the chain.\<close>

theorem ingestion_exactly_once:
  assumes "reach (ingest_init G rows ckpt r0 c0) (ingest_step E A G P) w"
  shows "(\<exists>rss. mapRes (log_rows E A) (window E c0 (ckpt (sys_db w)) (sys_chain w)) = Ok rss \<and>
      rows (sys_db w) = r0 @ concat rss) \<and>
    c0 \<le> ckpt (sys_db w) \<and> ckpt (sys_db w) \<le> sys_head w"
  using ingestor.reach_inv [OF assms] by (auto simp: ingest_inv_def ingested_def)

lemma demo_poll:
  "poll_once ref_eth demo_addrs mem_gorm 1000 0 (chain_client [burn_log 5 3 7]) ([], 0) =
     Ok ([(''events_seawater_burnposition'', burn_row 5 3 7)], 5)"
proof -
  have "chain_client [burn_log 5 3 7] 1 1000 (FilterTopics ref_eth) = Ok [burn_log 5 3 7]"
    by (simp add: chain_client_def burn_log_def wanted_def FilterTopics_def)
  then show ?thesis
    by (simp add: burn_row_encodes poll_once_def getLastBlockCheckpointed_def IngestBlockRange_def
        ingest_transaction_def ingest_log_def handleLog_def handleLogCallback_rows burn_log_rows
        databaseInsertLog_def updateCheckpoint_def mem_gorm_def Let_def)
       (simp add: burn_log_def)
qed

theorem ingestion_exactly_once_witness:
  "\<exists>w. reach (ingest_init mem_gorm fst snd [] 0) (ingest_step ref_eth demo_addrs mem_gorm ingestor_pages) w \<and>
     snd (sys_db w) = 5 \<and>
     (\<exists>rss. mapRes (log_rows ref_eth demo_addrs)
          (window ref_eth 0 (snd (sys_db w)) (sys_chain w)) = Ok rss \<and>
        fst (sys_db w) = [] @ concat rss) \<and> length (fst (sys_db w)) = 1"
proof -
  let ?w = "\<lparr>sys_head = 6, sys_chain = [burn_log 5 3 7], sys_db = ([], 0), sys_page = 1000\<rparr> :: mem_db system"
  let ?w' = "?w\<lparr>sys_db := ([(''events_seawater_burnposition'', burn_row 5 3 7)], 5)\<rparr>"
  have "ingest_init mem_gorm fst snd [] 0 ?w"
    by (simp add: ingest_init_def mem_gorm_lawful burn_log_def)
  moreover have "ingest_step ref_eth demo_addrs mem_gorm ingestor_pages ?w ?w'"
    using ingest_step.poll [of "chain_client [burn_log 5 3 7]" ?w] demo_poll chain_client_serves
    by simp
  ultimately have r: "reach (ingest_init mem_gorm fst snd [] 0)
      (ingest_step ref_eth demo_addrs mem_gorm ingestor_pages) ?w'"
    by (blast intro: reach.intros)
  from r ingestion_exactly_once [OF r] show ?thesis by (intro exI [of _ ?w']) simp
qed

theorem handleLog_authentic_witness:
  "\<exists>db'. handleLog ref_eth demo_addrs mem_gorm ([], 0) (burn_log 5 3 7) = Ok db' \<and> db' \<noteq> ([], 0) \<and>
     (\<exists>table a. databaseInsertLog mem_gorm table a ([], 0) = Ok db' \<and>
        may_write demo_addrs table 3 \<and> ev_BlockNumber (row_event a) = 5)"
proof -
  have h: "handleLog ref_eth demo_addrs mem_gorm ([], 0) (burn_log 5 3 7) =
      Ok ([(''events_seawater_burnposition'', burn_row 5 3 7)], 0)"
    by (simp add: handleLog_def handleLogCallback_rows burn_log_rows databaseInsertLog_def
        burn_row_encodes mem_gorm_def)
  have "log_Address (burn_log 5 3 7) = 3" "log_BlockNumber (burn_log 5 3 7) = 5"
    by (simp_all add: burn_log_def)
  with handleLog_authentic [OF h] h show ?thesis by auto
qed

section \<open>Progress\<close>

text \<open>A database that is up: reads and writes succeed and a transaction runs its body.\<close>

definition gorm_available :: "'db gorm \<Rightarrow> bool" where
  "gorm_available G \<longleftrightarrow>
     (\<forall>t a db. is_ok (gorm_Create G t a db)) \<and> (\<forall>t db. is_ok (gorm_Find G t db)) \<and>
     (\<forall>t c db. is_ok (gorm_Save G t c db)) \<and> (\<forall>f db. gorm_Transaction G f db = f db)"

text \<open>A log whose rows exist and can be encoded.\<close>

definition ingestible :: "eth \<Rightarrow> addrs \<Rightarrow> Log \<Rightarrow> bool" where
  "ingestible E A l \<longleftrightarrow>
     (\<exists>rs. log_rows E A l = Ok rs \<and> (\<forall>(t, a) \<in> set rs. is_ok (json_Encode a)))"

lemma insert_available:
  assumes "gorm_available G" "\<forall>(t, a) \<in> set rs. is_ok (json_Encode a)"
  shows "is_ok (foldRes (\<lambda>(t, a). databaseInsertLog G t a) rs db)"
  using assms(2)
proof (induction rs arbitrary: db)
  case (Cons r rs)
  obtain t a where r: "r = (t, a)" by (cases r)
  have "is_ok (databaseInsertLog G t a db)"
    using assms(1) Cons.prems
    by (auto simp: r databaseInsertLog_def gorm_available_def is_ok_iff mapErr_eq_Ok)
  with Cons show ?case by (auto simp: r is_ok_iff)
qed simp

lemma ingest_loop_available:
  assumes "gorm_available G" "\<forall>l \<in> set logs. ingestible E A l"
  shows "is_ok (foldRes (ingest_log E A G) logs s)"
  using assms(2)
proof (induction logs arbitrary: s)
  case (Cons l logs)
  obtain db changed big where s: "s = (db, changed, big)" by (cases s)
  from Cons.prems obtain rs where "log_rows E A l = Ok rs" "\<forall>(t, a) \<in> set rs. is_ok (json_Encode a)"
    by (auto simp: ingestible_def)
  then have "is_ok (handleLog E A G db l)"
    using insert_available [OF assms(1)] by (simp add: handleLog_def handleLogCallback_rows)
  then have "is_ok (ingest_log E A G l s)" 
    by (cases "big \<le> log_BlockNumber l") (auto simp: s is_ok_iff ingest_log_Ok)
  with Cons show ?case by (auto simp: is_ok_iff)
qed simp

lemma ingest_transaction_available:
  assumes "gorm_available G" "\<forall>l \<in> set logs. ingestible E A l"
  shows "is_ok (ingest_transaction E A G now logs start db)"
proof -
  obtain db' changed big where "foldRes (ingest_log E A G) logs (db, False, start) = Ok (db', changed, big)"
    using ingest_loop_available [OF assms] by (metis is_ok_iff prod.exhaust)
  moreover have "is_ok (updateCheckpoint G now db' big)"
    using assms(1) by (simp add: updateCheckpoint_def gorm_available_def)
  ultimately show ?thesis by (auto simp: ingest_transaction_def is_ok_iff)
qed

text \<open>With the database and the node answering, a poll over logs that can all be decoded and encoded
  returns, with the checkpoint at the last relevant log of its page.\<close>

lemma poll_once_returns:
  assumes lawful: "gorm_lawful G rows ckpt" "gorm_available G"
    and "serves c chain" "\<forall>a b ts. is_ok (c a b ts)" "ckpt db \<noteq> - 1"
    and "sorted (map log_BlockNumber chain)"
    and "\<forall>l \<in> set (window E (ckpt db) (ckpt db + word_of_int p) chain). ingestible E A l"
  shows "\<exists>db'. poll_once E A G p now c db = Ok db' \<and>
    ckpt db' = (let w = window E (ckpt db) (ckpt db + word_of_int p) chain in
      if w = [] then ckpt db else log_BlockNumber (last w))"
proof -
  let ?w = "window E (ckpt db) (ckpt db + word_of_int p) chain"
  obtain cp where cp: "gorm_Find G ''ingestor_checkpointing_1'' db = Ok cp"
    using lawful(2) unfolding gorm_available_def is_ok_iff by blast
  then have cpb: "bc_BlockNumber cp = ckpt db" using gorm_FindD [OF lawful(1)] by blast
  have c: "c (uint (ckpt db + 1)) (uint (ckpt db + word_of_int p)) (FilterTopics E) = Ok ?w"
    using assms(4) serves_window [OF assms(3,5)] unfolding is_ok_iff by metis
  obtain db' where db': "ingest_transaction E A G now ?w (ckpt db + 1) db = Ok db'"
    using ingest_transaction_available [OF lawful(2) assms(7)] unfolding is_ok_iff by blast
  then have poll: "poll_once E A G p now c db = Ok db'"
    using lawful(2)
    by (simp add: poll_once_def getLastBlockCheckpointed_def IngestBlockRange_def cp cpb c
        gorm_available_def Let_def)
  have w: "sorted (map log_BlockNumber ?w)" "\<forall>l \<in> set ?w. ckpt db + 1 \<le> log_BlockNumber l"
    using assms(6) sorted_filter by (auto simp: window_def word_le_def succ_le_iff [OF assms(5)])
  show ?thesis using ingest_transaction_rows [OF lawful(1) db' w] poll by simp
qed

lemma mem_gorm_available: "gorm_available mem_gorm"
  by (auto simp: gorm_available_def mem_gorm_def)

lemma burn_window:
  "lo < n \<Longrightarrow> n \<le> hi \<Longrightarrow> window ref_eth lo hi [burn_log n a i] = [burn_log n a i]"
  by (simp add: window_def burn_log_def wanted_def FilterTopics_def)

section \<open>Where progress stops\<close>

text \<open>The next page of blocks is complete and has no relevant log, whether the size of a page is that of
  this run or one of those drawn at a later start.\<close>

definition stalled ::
    "eth \<Rightarrow> addrs \<Rightarrow> 'db gorm \<Rightarrow> ('db \<Rightarrow> (string \<times> row) list) \<Rightarrow> ('db \<Rightarrow> 64 word) \<Rightarrow>
      int set \<Rightarrow> 'db \<Rightarrow> 'db system \<Rightarrow> bool" where
  "stalled E A G rows ckpt P db w \<longleftrightarrow>
     gorm_lawful G rows ckpt \<and> sys_db w = db \<and> ckpt db \<noteq> - 1 \<and>
     (\<forall>p \<in> insert (sys_page w) P. ckpt db + word_of_int p \<le> sys_head w \<and>
       window E (ckpt db) (ckpt db + word_of_int p) (sys_chain w) = [])"

interpretation stall: invariant_system
  "stalled E A G rows ckpt P db" "ingest_step E A G P" "stalled E A G rows ckpt P db"
  for E :: eth and A :: addrs and G :: "'db gorm" and rows ckpt and P :: "int set" and db
proof
  fix w w' assume st: "stalled E A G rows ckpt P db w" and "ingest_step E A G P w w'"
  from this(2) show "stalled E A G rows ckpt P db w'"
  proof (cases rule: ingest_step.cases)
    case (grow head' new)
    then have "window E (ckpt db) (ckpt db + word_of_int p) new = []" if "p \<in> insert (sys_page w) P" for p
      using st that by (fastforce simp: stalled_def window_def filter_empty_conv)
    with grow st show ?thesis by (fastforce simp: stalled_def window_append)
  next
    case (poll c now db')
    have "ingest_transaction E A G now [] (ckpt db + 1) db = Ok db'"
      using st poll poll_once_Ok [of G rows ckpt c "sys_chain w" db E A "sys_page w" now db']
      by (simp add: stalled_def)
    then show ?thesis using st poll(1) by (simp add: stalled_def ingest_transaction_def)
  next
    case (restart p)
    with st show ?thesis by (simp add: stalled_def)
  qed
qed

text \<open>C15. A gap stops the service for good: once the next page holds no relevant log and the head of
  the chain is at or past its end, for the page size of this run and for every size a later start
  can draw, no poll, no block and no restart ever changes the database or the checkpoint again.
  With \<open>P\<close> empty this is one run of the service, and the gap one page; with the sizes \<open>main\<close> draws
  (\<open>ingestor_pages\<close>) it is for good, and the gap 4999 blocks.\<close>

theorem empty_page_stalls:
  assumes "gorm_lawful G rows ckpt" "ckpt (sys_db w) \<noteq> - 1"
    and "\<And>p. p \<in> insert (sys_page w) P \<Longrightarrow> ckpt (sys_db w) + word_of_int p \<le> sys_head w"
    and "\<And>p. p \<in> insert (sys_page w) P \<Longrightarrow>
      window E (ckpt (sys_db w)) (ckpt (sys_db w) + word_of_int p) (sys_chain w) = []"
    and "(ingest_step E A G P)\<^sup>*\<^sup>* w w'"
  shows "sys_db w' = sys_db w"
  using stall.steps_inv [OF assms(5), of rows ckpt "sys_db w"] assms(1-4)
  by (simp add: stalled_def)

lemma word_of_int_mono: "0 \<le> p \<Longrightarrow> p \<le> n \<Longrightarrow> n < 2 ^ 64 \<Longrightarrow> (word_of_int p :: 64 word) \<le> word_of_int n"
  by (simp add: word_le_def uint_word_of_int)

theorem empty_page_stalls_witness:
  "\<exists>w w'. (ingest_step ref_eth demo_addrs mem_gorm ingestor_pages)\<^sup>*\<^sup>* w w' \<and> sys_page w' \<noteq> sys_page w \<and>
     burn_log 6000 3 7 \<in> set (sys_chain w') \<and> sys_db w = ([], 0) \<and> sys_db w' = sys_db w"
proof -
  let ?w = "\<lparr>sys_head = 4999, sys_chain = [], sys_db = ([], 0), sys_page = 1000\<rparr> :: mem_db system"
  let ?u = "?w\<lparr>sys_page := 4000\<rparr>"
  let ?w' = "?u\<lparr>sys_head := 6000, sys_chain := sys_chain ?u @ [burn_log 6000 3 7]\<rparr>"
  have pages: "1000 \<le> p \<and> p \<le> 4999" if "p \<in> insert (sys_page ?w) ingestor_pages" for p
    using that by (auto simp: ingestor_pages_def DefaultPaginationBlockCountMin_def DefaultPaginationBlockCountMax_def)
  have "4000 \<in> ingestor_pages"
    unfolding ingestor_pages_def DefaultPaginationBlockCountMin_def DefaultPaginationBlockCountMax_def
    by (rule image_eqI [of _ _ 4000]) simp_all
  then have "ingest_step ref_eth demo_addrs mem_gorm ingestor_pages ?w ?u" by (rule ingest_step.restart)
  moreover have "ingest_step ref_eth demo_addrs mem_gorm ingestor_pages ?u ?w'"
    by (rule ingest_step.grow) (simp_all add: burn_log_def)
  ultimately have st: "(ingest_step ref_eth demo_addrs mem_gorm ingestor_pages)\<^sup>*\<^sup>* ?w ?w'"
    by (meson converse_rtranclp_into_rtranclp r_into_rtranclp)
  have "sys_db ?w' = sys_db ?w"
  proof (rule empty_page_stalls [OF mem_gorm_lawful _ _ _ st])
    fix p assume "p \<in> insert (sys_page ?w) ingestor_pages"
    then show "snd (sys_db ?w) + word_of_int p \<le> sys_head ?w"
      using word_of_int_mono [of p 4999] pages [of p] by simp
  qed (simp_all add: window_def)
  with st show ?thesis by (intro exI [of _ ?w] exI [of _ ?w']) simp
qed

text \<open>The identifiers of the fourteen events are different hashes.\<close>

definition topics_distinct :: "eth \<Rightarrow> bool" where
  "topics_distinct E \<longleftrightarrow> distinct (FilterTopics E)"

lemma unpackLog_cases_distinct:
  assumes "topics_distinct E"
  shows "unpackLog E (TopicMintPosition E) t1 t2 t3 d =
      as_row RMintPosition ''events_seawater_mintposition'' FromSeawater
        (UnpackMintPosition E t1 t2 t3 d)"
    and "unpackLog E (TopicCampaignUpdated E) t1 t2 t3 d =
      as_row RCampaignUpdated ''events_leo_campaignupdated'' FromLeo
        (UnpackCampaignUpdated E t1 t2 t3 d)"
proof -
  have "TopicMintPosition E \<notin> {TopicTransfer E, TopicAccountCreated E,
      TopicCampaignBalanceUpdated E, TopicCampaignCreated E, TopicCampaignUpdated E}"
    "TopicCampaignUpdated E \<notin> {TopicTransfer E, TopicAccountCreated E,
      TopicCampaignBalanceUpdated E, TopicCampaignCreated E}"
    using assms by (auto simp: topics_distinct_def FilterTopics_def)
  then show "unpackLog E (TopicMintPosition E) t1 t2 t3 d =
      as_row RMintPosition ''events_seawater_mintposition'' FromSeawater
        (UnpackMintPosition E t1 t2 t3 d)"
    "unpackLog E (TopicCampaignUpdated E) t1 t2 t3 d =
      as_row RCampaignUpdated ''events_leo_campaignupdated'' FromLeo
        (UnpackCampaignUpdated E t1 t2 t3 d)"
    by (simp_all add: unpackLog_def)
qed

lemma undecodable_rows:
  assumes "abi_lawful E" "topics_distinct E"
    and "log_Topics l = TopicMintPosition E # ts \<or> log_Topics l = TopicCampaignUpdated E # ts"
    and "length (log_Data l) < 64"
  shows "\<exists>e. log_rows E A l = Err e"
proof -
  have "\<exists>e. Unpack E AbiSeawater ''MintPosition'' (log_Data l) = Err e"
    "\<exists>e. Unpack E AbiLeo ''CampaignCreated'' (log_Data l) = Err e"
    using assms(4) by (auto intro!: Unpack_short [OF assms(1)] simp: abi_args_def)
  then have "\<exists>e. unpackLog E (hd (log_Topics l)) t1 t2 t3 (log_Data l) = Err e" for t1 t2 t3
    using assms(3)
    by (auto simp: unpackLog_cases_distinct [OF assms(2)] UnpackMintPosition_def
        UnpackCampaignUpdated_def as_row_def)
  then obtain e where "unpackLog E (hd (log_Topics l)) (topic_or_zero (log_Topics l) 1)
      (topic_or_zero (log_Topics l) 2) (topic_or_zero (log_Topics l) 3) (log_Data l) = Err e"
    by blast
  moreover have "idx (log_Topics l) 0 = Ok (hd (log_Topics l))" using assms(3) by auto
  ultimately show ?thesis by (simp add: log_rows_def handleLogCallback_def Let_def)
qed

text \<open>C16. Undecodable logs halt the service, whoever emitted them: if the next page holds a log with
  the first topic of \<open>MintPosition\<close> or \<open>CampaignUpdated\<close> and less than two words of data (any
  contract can emit the former, and every genuine \<open>CampaignUpdated\<close> is of this form), no poll of
  that page returns, so the checkpoint never passes it.\<close>

theorem undecodable_log_halts:
  assumes "gorm_lawful G rows ckpt" "abi_lawful E" "topics_distinct E"
    and "serves c chain" "sorted (map log_BlockNumber chain)" "ckpt db \<noteq> - 1"
    and "l \<in> set (window E (ckpt db) (ckpt db + word_of_int p) chain)"
    and "log_Topics l = TopicMintPosition E # ts \<or> log_Topics l = TopicCampaignUpdated E # ts"
    and "length (log_Data l) < 64"
  shows "\<not> is_ok (poll_once E A G p now c db)"
proof
  assume "is_ok (poll_once E A G p now c db)"
  then obtain db' where "poll_once E A G p now c db = Ok db'" by (auto simp: is_ok_iff)
  note t = poll_once_Ok [OF assms(1,4,6) this]
  let ?w = "window E (ckpt db) (ckpt db + word_of_int p) chain"
  have w: "sorted (map log_BlockNumber ?w)" "\<forall>l \<in> set ?w. ckpt db + 1 \<le> log_BlockNumber l"
    using assms(5) sorted_filter by (auto simp: window_def word_le_def succ_le_iff [OF assms(6)])
  obtain rss where "mapRes (log_rows E A) ?w = Ok rss"
    using ingest_transaction_rows [OF assms(1) t w] by blast
  from mapRes_Ok_all [OF this assms(7)] obtain rs where "log_rows E A l = Ok rs" ..
  with undecodable_rows [OF assms(2,3,8,9), of A] show False by simp
qed

lemma ref_topics_distinct: "topics_distinct ref_eth"
  by (simp add: topics_distinct_def FilterTopics_def topic_defs ref_topics_def)

definition stray_mint :: Log where
  "stray_mint = \<lparr>log_Address = 77, log_Topics = [TopicMintPosition ref_eth], log_Data = [],
     log_BlockNumber = 5, log_TxHash = 1, log_BlockHash = 2\<rparr>"

theorem undecodable_log_halts_witness:
  "log_Address stray_mint \<noteq> seawaterAddr demo_addrs \<and>
   \<not> is_ok (poll_once ref_eth demo_addrs mem_gorm 1000 0 (chain_client [stray_mint]) ([], 0))"
proof
  show "\<not> is_ok (poll_once ref_eth demo_addrs mem_gorm 1000 0 (chain_client [stray_mint]) ([], 0))"
    by (rule undecodable_log_halts [OF mem_gorm_lawful ref_eth_abi ref_topics_distinct
          chain_client_serves, where l = stray_mint and ts = "[]"])
      (simp_all add: stray_mint_def window_def wanted_def FilterTopics_def)
qed (simp add: stray_mint_def demo_addrs_def)

end
