(* ===== verification/CatchUp.thy ===== *)
theory CatchUp
  imports Ingestion
begin

text \<open>
  The polling loop as a whole: where relevant logs are never further apart than a page, polling
  catches up with the chain, in at most one round for each log that is left.
\<close>

section \<open>Chains without a gap of a page\<close>

text \<open>The relevant logs after a block.\<close>

abbreviation pending :: "eth \<Rightarrow> 64 word \<Rightarrow> Log list \<Rightarrow> Log list" where
  "pending E c chain \<equiv> window E c (- 1) chain"

text \<open>From \<open>c\<close>, and from every relevant log after it, the next relevant log is at most a page away.\<close>

definition dense :: "eth \<Rightarrow> int \<Rightarrow> 64 word \<Rightarrow> Log list \<Rightarrow> bool" where
  "dense E p c chain \<longleftrightarrow>
     (\<forall>m \<in> insert c (log_BlockNumber ` set (pending E c chain)).
        pending E m chain \<noteq> [] \<longrightarrow> window E m (m + word_of_int p) chain \<noteq> [])"

lemma pending_split:
  "sorted (map log_BlockNumber chain) \<Longrightarrow> c \<le> c' \<Longrightarrow>
    pending E c chain = window E c c' chain @ pending E c' chain"
  unfolding window_def by (rule filter_window_split) simp_all

lemma dense_later:
  assumes "dense E p c chain" "sorted (map log_BlockNumber chain)" "l \<in> set (pending E c chain)"
  shows "dense E p (log_BlockNumber l) chain"
proof -
  have "c \<le> log_BlockNumber l" using assms(3) by (auto simp: window_def)
  from pending_split [OF assms(2) this]
  have "set (pending E (log_BlockNumber l) chain) \<subseteq> set (pending E c chain)" by auto
  with assms(1,3) show ?thesis unfolding dense_def by blast
qed

section \<open>Catching up\<close>

text \<open>One round either has nothing left to do or leaves fewer relevant logs.\<close>

lemma poll_round:
  assumes lawful: "gorm_lawful G rows ckpt" "gorm_available G"
    and c: "serves c chain" "\<forall>a b ts. is_ok (c a b ts)"
    and chain: "sorted (map log_BlockNumber chain)" "\<forall>l \<in> set chain. log_BlockNumber l \<noteq> - 1"
      "\<forall>l \<in> set (pending E (ckpt db) chain). ingestible E A l"
    and "ckpt db \<noteq> - 1" "dense E p (ckpt db) chain"
  shows "\<exists>db' rss. poll_once E A G p now c db = Ok db' \<and>
    mapRes (log_rows E A) (window E (ckpt db) (ckpt db') chain) = Ok rss \<and>
    rows db' = rows db @ concat rss \<and> ckpt db \<le> ckpt db' \<and> ckpt db' \<noteq> - 1 \<and>
    dense E p (ckpt db') chain \<and>
    (pending E (ckpt db) chain = [] \<and> ckpt db' = ckpt db \<or> window E (ckpt db) (ckpt db') chain \<noteq> [])"
proof -
  let ?w = "window E (ckpt db) (ckpt db + word_of_int p) chain"
  have sub: "set ?w \<subseteq> set (pending E (ckpt db) chain)" by (auto simp: window_def)
  with chain(3) have "\<forall>l \<in> set ?w. ingestible E A l" by blast
  from poll_once_returns [OF lawful c assms(8) chain(1) this, of now]
  obtain db' where db': "poll_once E A G p now c db = Ok db'"
    and at: "ckpt db' = (if ?w = [] then ckpt db else log_BlockNumber (last ?w))"
    unfolding Let_def by blast
  note r = poll_once_rows [OF lawful(1) c(1) assms(8) chain(1) db']
  show ?thesis
  proof (cases "?w = []")
    case True
    then have "pending E (ckpt db) chain = []" using assms(9) by (auto simp: dense_def)
    with True at db' r assms(8,9) show ?thesis by auto
  next
    case False
    then have last: "last ?w \<in> set ?w" by simp
    then have "last ?w \<in> set (window E (ckpt db) (ckpt db') chain)"
      using at False by (simp add: window_def)
    moreover have "dense E p (ckpt db') chain"
      using dense_later [OF assms(9) chain(1) subsetD [OF sub last]] at False by simp
    moreover have "ckpt db' \<noteq> - 1" using at False last chain(2) by (auto simp: window_def)
    ultimately show ?thesis using db' r(1,3) by (metis empty_iff list.set(1))
  qed
qed

text \<open>C3. The ingestor catches up: over a chain whose relevant logs are decodable and never more than a
  page apart, with the database and the node answering, the polling loop returns from every round,
  and after as many rounds as there are relevant logs beyond the checkpoint (or more) the
  database holds the rows of all of them, in chain order, and none is left beyond the
  checkpoint.\<close>

theorem polling_catches_up:
  assumes lawful: "gorm_lawful G rows ckpt" "gorm_available G"
    and rounds: "\<forall>(now, c) \<in> set rounds. serves c chain \<and> (\<forall>a b ts. is_ok (c a b ts))"
    and chain: "sorted (map log_BlockNumber chain)" "\<forall>l \<in> set chain. log_BlockNumber l \<noteq> - 1"
      "\<forall>l \<in> set (pending E (ckpt db) chain). ingestible E A l"
    and "ckpt db \<noteq> - 1" "dense E p (ckpt db) chain" "0 < p"
    and "length (pending E (ckpt db) chain) \<le> length rounds"
  shows "\<exists>db' rss. IngestPolling E A G p rounds db = Ok db' \<and>
    mapRes (log_rows E A) (pending E (ckpt db) chain) = Ok rss \<and>
    rows db' = rows db @ concat rss \<and> pending E (ckpt db') chain = []"
proof -
  have "\<exists>db' rss. foldRes (\<lambda>(now, c). poll_once E A G p now c) rounds db = Ok db' \<and>
    mapRes (log_rows E A) (pending E (ckpt db) chain) = Ok rss \<and>
    rows db' = rows db @ concat rss \<and> pending E (ckpt db') chain = []"
    using rounds chain(3) assms(7,8,10)
  proof (induction rounds arbitrary: db)
    case Nil
    then show ?case by simp
  next
    case (Cons nc rounds)
    obtain now c where nc: "nc = (now, c)" by (cases nc)
    have srv: "serves c chain" "\<forall>a b ts. is_ok (c a b ts)" using Cons.prems(1) by (simp_all add: nc)
    obtain db1 rss1 where p: "poll_once E A G p now c db = Ok db1"
      and r: "mapRes (log_rows E A) (window E (ckpt db) (ckpt db1) chain) = Ok rss1"
        "rows db1 = rows db @ concat rss1"
      and le: "ckpt db \<le> ckpt db1" and ok: "ckpt db1 \<noteq> - 1" "dense E p (ckpt db1) chain"
      and less: "pending E (ckpt db) chain = [] \<and> ckpt db1 = ckpt db \<or>
        window E (ckpt db) (ckpt db1) chain \<noteq> []"
      using poll_round [OF lawful srv chain(1,2) Cons.prems(2-4), of now] by blast
    note split = pending_split [OF chain(1) le]
    have "length (pending E (ckpt db) chain) =
        length (window E (ckpt db) (ckpt db1) chain) + length (pending E (ckpt db1) chain)"
      by (simp only: split length_append)
    then have "length (pending E (ckpt db1) chain) \<le> length rounds"
      using less Cons.prems(5) by (cases "window E (ckpt db) (ckpt db1) chain") auto
    moreover have "\<forall>l \<in> set (pending E (ckpt db1) chain). ingestible E A l"
      using Cons.prems(2) unfolding split [of E] by simp
    ultimately obtain db' rss2 where
      "foldRes (\<lambda>(now, c). poll_once E A G p now c) rounds db1 = Ok db'"
      "mapRes (log_rows E A) (pending E (ckpt db1) chain) = Ok rss2"
      "rows db' = rows db1 @ concat rss2" "pending E (ckpt db') chain = []"
      using Cons.IH [of db1] Cons.prems(1) ok by auto
    then show ?case using p r unfolding split [of E] by (simp add: nc mapRes_append)
  qed
  then show ?thesis using \<open>0 < p\<close> by (simp add: IngestPolling_def)
qed

theorem polling_catches_up_witness:
  "\<exists>db'. IngestPolling ref_eth demo_addrs mem_gorm 1000
       [(0, chain_client [burn_log 5 3 7, burn_log 900 3 8]), (0, chain_client [burn_log 5 3 7, burn_log 900 3 8])]
       ([], 0) = Ok db' \<and>
     fst db' = [(''events_seawater_burnposition'', burn_row 5 3 7),
       (''events_seawater_burnposition'', burn_row 900 3 8)]"
proof -
  let ?chain = "[burn_log 5 3 7, burn_log 900 3 8]"
  let ?rounds = "[(0, chain_client ?chain), (0, chain_client ?chain)]"
  have pend: "pending ref_eth 0 ?chain = ?chain" "pending ref_eth 5 ?chain = [burn_log 900 3 8]"
    "pending ref_eth 900 ?chain = []" "window ref_eth 0 1000 ?chain = ?chain"
    "window ref_eth 5 1005 ?chain = [burn_log 900 3 8]"
    by (simp_all add: window_def wanted_def FilterTopics_def burn_log_def)
  have blocks: "log_BlockNumber (burn_log n a i) = n" for n a i by (simp add: burn_log_def)
  have rows: "log_rows ref_eth demo_addrs (burn_log 5 3 7) =
      Ok [(''events_seawater_burnposition'', burn_row 5 3 7)]"
    "log_rows ref_eth demo_addrs (burn_log 900 3 8) =
      Ok [(''events_seawater_burnposition'', burn_row 900 3 8)]"
    by (simp_all add: burn_log_rows)
  have "dense ref_eth 1000 0 ?chain" by (simp add: dense_def pend blocks)
  then show ?thesis
    using polling_catches_up [OF mem_gorm_lawful mem_gorm_available, of ?rounds ?chain ref_eth
        "([], 0)" demo_addrs 1000]
    by (auto simp: pend blocks rows ingestible_def burn_row_encodes chain_client_serves chain_client_def)
qed

end
