(* ===== verification/ConcLiq.thy ===== *)
theory ConcLiq
  imports Types
begin

unbundle bit_operations_syntax

text \<open>
  The concentrated-liquidity arithmetic of src/lib/math: the square-root price of a tick, the
  price of a square-root ratio, and the two token amounts that a liquidity position holds
  (concentrated-liq.go), and the decimal scale factor (decimals.go).  Sources of nil and of
  division by zero are kept: a nil argument gives zero amounts, a zero divisor panics.
\<close>

section \<open>Constants\<close>

text \<open>\<open>big.Int.SetBits\<close>: 64-bit words, least significant first.\<close>

definition SetBits :: "int list \<Rightarrow> int" where
  "SetBits ws = foldr (\<lambda>w acc. w + 2 ^ 64 * acc) ws 0"

definition Two192 :: rat where
  "Two192 = of_int (SetBits [0, 0, 0, 1])"

definition MinTick :: int where
  "MinTick = - 887272"

definition MaxTick :: int where
  "MaxTick = 887272"

definition MinSqrtRatio :: int where
  "MinSqrtRatio = 4295128739"

definition MaxSqrtRatio :: int where
  "MaxSqrtRatio = SetBits [0x5d951d5263988d26, 0xefd1fc6a50648849, 0xfffd8963]"

definition Q96 :: int where
  "Q96 = SetBits [0, 0x100000000]"

section \<open>Amounts of a position\<close>

definition GetAmount0ForLiq :: "int option \<Rightarrow> int option \<Rightarrow> int option \<Rightarrow> rat res" where
  "GetAmount0ForLiq sqrtRatioAX96 sqrtRatioBX96 liq =
     (case (sqrtRatioAX96, sqrtRatioBX96, liq) of
        (Some a, Some b, Some l) \<Rightarrow>
          let sqrtRatio0X96 = (if a > b then b else a);
              sqrtRatio1X96 = (if a > b then a else b);
              lsl = push_bit 96 l;
              sqrtDiff = sqrtRatio1X96 - sqrtRatio0X96
          in andThen (Quo (lsl * sqrtDiff) sqrtRatio1X96)
               (\<lambda>num. RatQuo (of_int num) (of_int sqrtRatio0X96))
      | _ \<Rightarrow> Ok 0)"

definition GetAmount1ForLiq :: "int option \<Rightarrow> int option \<Rightarrow> int option \<Rightarrow> rat res" where
  "GetAmount1ForLiq sqrtRatioAX96 sqrtRatioBX96 liq =
     (case (sqrtRatioAX96, sqrtRatioBX96, liq) of
        (Some a, Some b, Some l) \<Rightarrow>
          let sqrtRatio0X96 = (if a > b then b else a);
              sqrtRatio1X96 = (if a > b then a else b);
              sqrtDiff = (of_int sqrtRatio1X96 - of_int sqrtRatio0X96 :: rat)
          in RatQuo (of_int l * sqrtDiff) (of_int Q96)
      | _ \<Rightarrow> Ok 0)"

definition GetAmountsForLiq ::
  "int option \<Rightarrow> int option \<Rightarrow> int option \<Rightarrow> int option \<Rightarrow> (rat \<times> rat) res" where
  "GetAmountsForLiq sqrtRatioX96 sqrtRatioAX96 sqrtRatioBX96 liq =
     (case (sqrtRatioX96, sqrtRatioAX96, sqrtRatioBX96, liq) of
        (Some x, Some a, Some b, Some l) \<Rightarrow>
          let sqrtRatio0X96 = (if a > b then b else a);
              sqrtRatio1X96 = (if a > b then a else b)
          in
          if x \<le> sqrtRatio0X96 then
            andThen (GetAmount0ForLiq (Some sqrtRatio0X96) (Some sqrtRatio1X96) liq)
              (\<lambda>amount0. Ok (amount0, 0))
          else if x < sqrtRatio1X96 then
            andThen (GetAmount0ForLiq (Some x) (Some sqrtRatio1X96) liq) (\<lambda>amount0.
            andThen (GetAmount1ForLiq (Some sqrtRatio0X96) (Some x) liq) (\<lambda>amount1.
              Ok (amount0, amount1)))
          else
            andThen (GetAmount1ForLiq (Some sqrtRatio0X96) (Some sqrtRatio1X96) liq)
              (\<lambda>amount1. Ok (0, amount1))
      | _ \<Rightarrow> Ok (0, 0))"

section \<open>Ticks and prices\<close>

definition tick_ratio :: int where
  "tick_ratio = SetBits [0x59a46990580e213a, 0xfff97272373d4132]"

definition odd_tick_ratio :: int where
  "odd_tick_ratio = SetBits [0xaa2d162d1a594001, 0xfffcb933bd6fad37]"

text \<open>The \<open>for absTick.Cmp(Zero) != 0\<close> loop.\<close>

function sqrt_ratio_loop :: "nat \<Rightarrow> int \<Rightarrow> int \<Rightarrow> int" where
  "sqrt_ratio_loop absTick ratio res =
     (if absTick = 0 then res
      else sqrt_ratio_loop (drop_bit 1 absTick) (drop_bit 128 (ratio * ratio))
             (if absTick AND 1 \<noteq> 0 then drop_bit 128 (res * ratio) else res))"
  by pat_completeness auto
termination
  by (relation "measure (\<lambda>(n, _, _). n)") (auto simp: drop_bit_eq_div)

declare sqrt_ratio_loop.simps [simp del]

text \<open>The ratio before the reciprocal and the shift, \<open>2 ^ 128 * 1.0001 ^ (- |t| / 2)\<close> rounded.\<close>

definition sqrt_ratio_abs :: "nat \<Rightarrow> int" where
  "sqrt_ratio_abs absTick =
     sqrt_ratio_loop (drop_bit 1 absTick) tick_ratio
       (if absTick AND 1 \<noteq> 0 then odd_tick_ratio else push_bit 128 1)"

definition GetSqrtRatioAtTick :: "int \<Rightarrow> int res" where
  "GetSqrtRatioAtTick t =
     andThen
       (if t > 0 then Quo (push_bit 256 1 - 1) (sqrt_ratio_abs (nat \<bar>t\<bar>))
        else Ok (sqrt_ratio_abs (nat \<bar>t\<bar>)))
       (\<lambda>res.
          let res2 = drop_bit 32 res in
          Ok (if res2 mod push_bit 32 1 \<noteq> 0 then res2 + 1 else res2))"

definition GetPriceAtSqrtRatio :: "int \<Rightarrow> rat" where
  "GetPriceAtSqrtRatio x = of_int x * of_int x / Two192"

definition ExponentiateDecimals :: "int \<Rightarrow> rat" where
  "ExponentiateDecimals decimals = of_int (Exp 10 decimals)"

section \<open>The constants evaluated\<close>

lemma Q96_eq: "Q96 = 2 ^ 96"
  by (simp add: Q96_def SetBits_def)

lemma Two192_eq: "Two192 = 2 ^ 192"
  by (simp add: Two192_def SetBits_def)

lemma MaxSqrtRatio_eq: "MaxSqrtRatio = 1461446703485210103287273052203988822378723970342"
  by (simp add: MaxSqrtRatio_def SetBits_def)

lemma tick_ratio_eq: "tick_ratio = 340248342086729790484326174814286782778"
  by (simp add: tick_ratio_def SetBits_def)

lemma odd_tick_ratio_eq: "odd_tick_ratio = 340265354078544963557816517032075149313"
  by (simp add: odd_tick_ratio_def SetBits_def)

section \<open>The tick loop: fewer bits, larger ratio\<close>

lemma shift_mult_le: "0 \<le> res \<Longrightarrow> 0 \<le> ratio \<Longrightarrow> ratio \<le> 2 ^ 128 \<Longrightarrow> drop_bit 128 (res * ratio) \<le> (res :: int)"
proof -
  assume "0 \<le> res" "0 \<le> ratio" "ratio \<le> 2 ^ 128"
  then have "res * ratio \<le> res * 2 ^ 128" by (intro mult_left_mono)
  then have "res * ratio div 2 ^ 128 \<le> res * 2 ^ 128 div 2 ^ 128" by (intro zdiv_mono1) simp_all
  then show ?thesis by (simp add: drop_bit_eq_div)
qed

lemma shift_mult_nonneg: "0 \<le> res \<Longrightarrow> 0 \<le> ratio \<Longrightarrow> 0 \<le> drop_bit 128 (res * ratio :: int)"
  by simp

lemma shift_mult_mono:
  "res' \<le> res \<Longrightarrow> 0 \<le> ratio \<Longrightarrow> drop_bit 128 (res' * ratio) \<le> drop_bit 128 (res * ratio :: int)"
  by (simp add: drop_bit_eq_div zdiv_mono1 mult_right_mono)

lemma square_bound: "0 \<le> ratio \<Longrightarrow> ratio \<le> 2 ^ 128 \<Longrightarrow> drop_bit 128 (ratio * ratio) \<le> (2 ^ 128 :: int)"
  using shift_mult_le [of ratio ratio] by simp

lemma sqrt_ratio_loop_0 [simp]: "sqrt_ratio_loop 0 ratio res = res"
  by (subst sqrt_ratio_loop.simps) simp

lemma sqrt_ratio_loop_step:
  "n \<noteq> 0 \<Longrightarrow> sqrt_ratio_loop n ratio res =
     sqrt_ratio_loop (drop_bit 1 n) (drop_bit 128 (ratio * ratio))
       (if n AND 1 \<noteq> 0 then drop_bit 128 (res * ratio) else res)"
  by (subst sqrt_ratio_loop.simps) (simp only: if_False)

lemma sqrt_ratio_loop_le:
  "0 \<le> ratio \<Longrightarrow> ratio \<le> 2 ^ 128 \<Longrightarrow> 0 \<le> res \<Longrightarrow>
   0 \<le> sqrt_ratio_loop n ratio res \<and> sqrt_ratio_loop n ratio res \<le> res"
proof (induction n ratio res rule: sqrt_ratio_loop.induct)
  case (1 n ratio res)
  show ?case
  proof (cases "n = 0")
    case True
    then show ?thesis using 1 by simp
  next
    case False
    define res' where "res' = (if n AND 1 \<noteq> 0 then drop_bit 128 (res * ratio) else res)"
    have res': "0 \<le> res'" "res' \<le> res"
      using "1.prems" by (auto simp: res'_def intro: shift_mult_le)
    have "0 \<le> sqrt_ratio_loop (drop_bit 1 n) (drop_bit 128 (ratio * ratio)) res' \<and>
        sqrt_ratio_loop (drop_bit 1 n) (drop_bit 128 (ratio * ratio)) res' \<le> res'"
      using "1.IH" [OF False] "1.prems" square_bound res' unfolding res'_def by simp
    moreover have "sqrt_ratio_loop n ratio res =
        sqrt_ratio_loop (drop_bit 1 n) (drop_bit 128 (ratio * ratio)) res'"
      unfolding res'_def by (rule sqrt_ratio_loop_step [OF False])
    ultimately show ?thesis using res' by simp
  qed
qed

lemma sqrt_ratio_loop_antimono:
  "0 \<le> ratio \<Longrightarrow> ratio \<le> 2 ^ 128 \<Longrightarrow> 0 \<le> res' \<Longrightarrow> res' \<le> res \<Longrightarrow> n AND m = n \<Longrightarrow>
   sqrt_ratio_loop m ratio res' \<le> sqrt_ratio_loop n ratio res"
proof (induction m ratio res' arbitrary: n res rule: sqrt_ratio_loop.induct)
  case (1 m ratio res')
  show ?case
  proof (cases "n = 0")
    case True
    then show ?thesis
      using sqrt_ratio_loop_le [of ratio res' m] "1.prems" by simp
  next
    case False
    then have m: "m \<noteq> 0" using "1.prems"(5) by (metis and_zero_eq)
    define u where "u = (if m AND 1 \<noteq> 0 then drop_bit 128 (res' * ratio) else res')"
    define v where "v = (if n AND 1 \<noteq> 0 then drop_bit 128 (res * ratio) else res)"
    have "n AND 1 \<noteq> 0 \<Longrightarrow> m AND 1 \<noteq> 0" using "1.prems"(5) by (metis and.assoc and_zero_eq and.commute)
    then have uv: "0 \<le> u" "u \<le> v"
      using "1.prems" shift_mult_le [of res' ratio] shift_mult_mono [of res' res ratio]
      by (auto simp: u_def v_def intro: order_trans)
    have "drop_bit 1 n AND drop_bit 1 m = drop_bit 1 n"
      using "1.prems"(5) by (metis drop_bit_and)
    then have "sqrt_ratio_loop (drop_bit 1 m) (drop_bit 128 (ratio * ratio)) u
        \<le> sqrt_ratio_loop (drop_bit 1 n) (drop_bit 128 (ratio * ratio)) v"
      using "1.IH" [OF m] "1.prems" square_bound uv unfolding u_def by simp
    then show ?thesis
      unfolding u_def v_def sqrt_ratio_loop_step [OF False] sqrt_ratio_loop_step [OF m] .
  qed
qed

lemma and_prefix:
  fixes n A :: nat
  assumes "2 ^ j dvd A" "A \<le> n" "n < A + 2 ^ j"
  shows "n AND (A + (2 ^ j - 1)) = n"
proof (rule bit_eqI)
  fix k
  obtain c where c: "A = 2 ^ j * c" using assms(1) by (elim dvdE)
  have "n div 2 ^ j = c" using assms(2,3) by (intro div_nat_eqI) (simp_all add: c algebra_simps)
  moreover have "(A + (2 ^ j - 1)) div 2 ^ j = c"
  proof (rule div_nat_eqI)
    show "2 ^ j * c \<le> A + (2 ^ j - 1)" unfolding c by (rule le_add1)
    have "2 ^ j * c + (2 ^ j - 1) < 2 ^ j * c + 2 ^ j" by (intro add_strict_left_mono) simp
    then show "A + (2 ^ j - 1) < 2 ^ j * Suc c" unfolding c mult_Suc_right by linarith
  qed
  ultimately have high: "bit n k \<longleftrightarrow> bit (A + (2 ^ j - 1)) k" if "j \<le> k"
    using that by (metis bit_drop_bit_eq comp_apply drop_bit_eq_div le_add_diff_inverse)
  have "take_bit j (A + (2 ^ j - 1)) = mask j"
    unfolding take_bit_eq_mod c mod_mult_self4 mask_eq_exp_minus_1 by simp
  then have "bit (A + (2 ^ j - 1)) k" if "k < j"
    using that by (metis bit_mask_iff bit_take_bit_iff possible_bit_nat)
  with high show "bit (n AND (A + (2 ^ j - 1))) k \<longleftrightarrow> bit n k"
    by (cases "j \<le> k") (auto simp: bit_and_iff not_le)
qed

lemma tick_ratio_range: "0 \<le> tick_ratio" "tick_ratio \<le> 2 ^ 128"
  by (simp_all add: tick_ratio_eq)

lemma sqrt_ratio_abs_range: "0 \<le> sqrt_ratio_abs n \<and> sqrt_ratio_abs n \<le> 2 ^ 128"
proof -
  define r where "r = (if n AND 1 \<noteq> 0 then odd_tick_ratio else push_bit 128 1)"
  have "0 \<le> r" "r \<le> 2 ^ 128" by (simp_all add: r_def odd_tick_ratio_eq push_bit_eq_mult)
  then show ?thesis
    using sqrt_ratio_loop_le [OF tick_ratio_range, of r "drop_bit 1 n"]
    unfolding sqrt_ratio_abs_def r_def [symmetric] by auto
qed

lemma sqrt_ratio_abs_antimono:
  assumes "n AND m = n"
  shows "sqrt_ratio_abs m \<le> sqrt_ratio_abs n"
  unfolding sqrt_ratio_abs_def
proof (rule sqrt_ratio_loop_antimono [OF tick_ratio_range])
  show "drop_bit 1 n AND drop_bit 1 m = drop_bit 1 n" using assms by (metis drop_bit_and)
  have "n AND 1 \<noteq> 0 \<Longrightarrow> m AND 1 \<noteq> 0" using assms by (metis and.assoc and_zero_eq and.commute)
  then show "(if m AND 1 \<noteq> 0 then odd_tick_ratio else push_bit 128 1)
      \<le> (if n AND 1 \<noteq> 0 then odd_tick_ratio else push_bit 128 1)"
    by (auto simp: odd_tick_ratio_eq push_bit_eq_mult)
qed (simp add: odd_tick_ratio_eq push_bit_eq_mult)

lemma sqrt_ratio_abs_block:
  assumes "2 ^ j dvd A" "A \<le> n" "n < A + 2 ^ j"
  shows "sqrt_ratio_abs (A + (2 ^ j - 1)) \<le> sqrt_ratio_abs n"
  using assms by (intro sqrt_ratio_abs_antimono and_prefix)

section \<open>Ticks beyond the range\<close>

text \<open>Once the squared ratio has vanished, any further tick bit makes the product vanish.\<close>

lemma sqrt_ratio_loop_zero_ratio: "0 < n \<Longrightarrow> sqrt_ratio_loop n 0 res = 0"
proof (induction n "0 :: int" res rule: sqrt_ratio_loop.induct)
  case (1 n res)
  show ?case
  proof (cases "drop_bit 1 n = 0")
    case True
    with \<open>0 < n\<close> have "n = 1" by (auto simp: drop_bit_eq_div)
    then show ?thesis by (simp add: sqrt_ratio_loop_step)
  next
    case False
    then show ?thesis using 1 by (simp add: sqrt_ratio_loop_step)
  qed
qed

fun sq_iter :: "nat \<Rightarrow> int \<Rightarrow> int" where
  "sq_iter 0 r = r"
| "sq_iter (Suc k) r = sq_iter k (drop_bit 128 (r * r))"

lemma sq_iter_numeral [simp]: "sq_iter (numeral v) r = sq_iter (pred_numeral v) (drop_bit 128 (r * r))"
  by (simp add: numeral_eq_Suc)

lemma sqrt_ratio_loop_vanishes:
  "sq_iter k ratio = 0 \<Longrightarrow> 2 ^ k \<le> n \<Longrightarrow> sqrt_ratio_loop n ratio res = 0"
proof (induction k arbitrary: n ratio res)
  case 0
  then show ?case by (simp add: sqrt_ratio_loop_zero_ratio)
next
  case (Suc k)
  have n: "n \<noteq> 0" using Suc.prems by (metis not_exp_less_eq_0_int power_eq_0_iff le_0_eq
        zero_neq_numeral)
  have "2 ^ k \<le> drop_bit 1 n" using Suc.prems(2) by (simp add: drop_bit_eq_div)
  moreover have "sq_iter k (drop_bit 128 (ratio * ratio)) = 0" using Suc.prems(1) by simp
  ultimately show ?case unfolding sqrt_ratio_loop_step [OF n] by (intro Suc.IH)
qed

section \<open>Amounts\<close>

lemma GetAmount0ForLiq_commute: "GetAmount0ForLiq a b l = GetAmount0ForLiq b a l"
  by (cases a; cases b; cases l) (auto simp: GetAmount0ForLiq_def Let_def)

lemma GetAmount1ForLiq_commute: "GetAmount1ForLiq a b l = GetAmount1ForLiq b a l"
  by (cases a; cases b; cases l) (auto simp: GetAmount1ForLiq_def Let_def)

lemma GetAmount0ForLiq_eq:
  assumes "0 < a" "a \<le> b" "0 \<le> l"
  shows "GetAmount0ForLiq (Some a) (Some b) (Some l) =
           Ok (of_int (l * 2 ^ 96 * (b - a) div b) / of_int a)"
  using assms by (simp add: GetAmount0ForLiq_def RatQuo_def Quo_nonneg push_bit_eq_mult)

lemma GetAmount1ForLiq_eq:
  assumes "a \<le> b"
  shows "GetAmount1ForLiq (Some a) (Some b) (Some l) =
           Ok (of_int l * (of_int b - of_int a) / 2 ^ 96)"
  using assms by (simp add: GetAmount1ForLiq_def RatQuo_def Q96_eq)

end
