(* ===== verification/Snapshot.thy ===== *)
theory Snapshot
  imports ConcLiq Ethereum Runtime
begin

text \<open>
  src/cmd/snapshot.ethereum: the job that asks the node for the liquidity of every active position
  and stores the token amounts (\<open>main.go\<close>, \<open>rpc.go\<close>, \<open>database.go\<close>).  The concurrent part,
  \<open>reqPositions\<close>, is a step relation over the request producer, the workers and the collecting
  loop, each channel operation being one step.  A Go map is a map; the order in which a \<open>range\<close>
  visits it is an argument.  The node's answer to a batch is an argument of type \<open>http_reply\<close>.
\<close>

section \<open>Identifiers and call data\<close>

definition encodeId :: "Address \<Rightarrow> int \<Rightarrow> string" where
  "encodeId pool i = Address_String pool @ int_text 16 i"

text \<open>Slicing past the end of a string panics.\<close>

definition decodeId :: "string \<Rightarrow> (Address \<times> int \<times> bool) res" where
  "decodeId x =
     (if length x < 40 then Ok ([], 0, False)
      else if length x < 42 then Panic ''slice bounds out of range''
      else
        let pool = AddressFromString (take 42 x) in
        case ParseInt 16 (drop 42 x) of
          None \<Rightarrow> Ok ([], 0, False)
        | Some i \<Rightarrow> Ok (pool, i, True))"

text \<open>\<open>big.Int.Bytes\<close>: the absolute value, big-endian, without leading zeros.\<close>

definition big_Bytes :: "int \<Rightarrow> byte list" where
  "big_Bytes x = be_bytes ((BitLen x + 7) div 8) \<bar>x\<bar>"

definition getCalldata :: "eth \<Rightarrow> (byte list \<Rightarrow> nat \<Rightarrow> byte list) \<Rightarrow> Address \<Rightarrow> int \<Rightarrow> string" where
  "getCalldata E LeftPadBytes pool posId =
     (let posIdB = big_Bytes posId;
          x = [0, 0, 0x02, 0x5b] @
            LeftPadBytes (be_bytes 20 (uint (HexToAddress E (Address_String pool)))) 32 @
            LeftPadBytes posIdB 32
      in ''0x'' @ EncodeToString x)"

section \<open>Requests\<close>

text \<open>The two parameters of an \<open>eth_call\<close>: the call object and the block.\<close>

record rpcReq =
  rq_JsonRpc :: string
  rq_Id :: string
  rq_Method :: string
  rq_To :: string
  rq_Data :: string
  rq_Block :: string

record rpcResp =
  rr_Id :: string
  rr_Result :: string
  rr_Error :: "string option"

record posResp =
  pr_Key :: string
  pr_Delta :: Number

definition packRpcPosData ::
    "eth \<Rightarrow> (byte list \<Rightarrow> nat \<Rightarrow> byte list) \<Rightarrow> string \<Rightarrow> (string \<times> Position) list \<Rightarrow> rpcReq list" where
  "packRpcPosData E LeftPadBytes ammAddr positions =
     map (\<lambda>(k, p).
       let s = getCalldata E LeftPadBytes (pos_Pool p) (pos_Id p) in
       \<lparr>rq_JsonRpc = ''2.0'', rq_Id = k, rq_Method = ''eth_call'', rq_To = ammAddr,
        rq_Data = s, rq_Block = ''latest''\<rparr>) positions"

definition MinBatchLimit :: nat where
  "MinBatchLimit = 100"

definition MaxBatchLimit :: nat where
  "MaxBatchLimit = 200"

definition WorkerCount :: nat where
  "WorkerCount = 100"

text \<open>The goroutine that groups the requests: \<open>b\<close> is its buffer of \<open>batchLimit\<close> requests, \<open>x\<close> the
  number filled.  The result is the sequence of slices it sends.\<close>

fun batch_loop :: "nat \<Rightarrow> rpcReq list \<Rightarrow> rpcReq list \<Rightarrow> nat \<Rightarrow> rpcReq list list" where
  "batch_loop batchLimit [] b x = (if x > 0 then [take x b] else [])"
| "batch_loop batchLimit (p # reqs) b x =
     (let b' = b[x := p]; x' = x + 1 in
      if x' \<noteq> batchLimit then batch_loop batchLimit reqs b' x'
      else take batchLimit b' # batch_loop batchLimit reqs b' 0)"

definition empty_req :: rpcReq where
  "empty_req = \<lparr>rq_JsonRpc = [], rq_Id = [], rq_Method = [], rq_To = [], rq_Data = [],
     rq_Block = []\<rparr>"

definition batches :: "nat \<Rightarrow> rpcReq list \<Rightarrow> rpcReq list list" where
  "batches batchLimit reqs = batch_loop batchLimit reqs (replicate batchLimit empty_req) 0"

text \<open>What a worker gets for a batch: a failed request, no body, a body that is not a list of
  responses, or the responses.\<close>

datatype http_reply =
    ReqFailed error
  | NilBody
  | NotDecoded error
  | Resps "rpcResp list"

text \<open>The responses a worker sends for a body, in order, and the error it stops with, if any.\<close>

fun unpack_resps :: "rpcResp list \<Rightarrow> posResp list \<times> error option" where
  "unpack_resps [] = ([], None)"
| "unpack_resps (p # ps) =
     (case rr_Error p of
        Some err \<Rightarrow> ([], Some (Errorf (''error reported: '' @ err)))
      | None \<Rightarrow>
          (case NumberFromHex (TrimPrefix ''0x'' (rr_Result p)) of
             Ok delta \<Rightarrow>
               (case unpack_resps ps of
                  (rs, e) \<Rightarrow> (\<lparr>pr_Key = rr_Id p, pr_Delta = delta\<rparr> # rs, e))
           | Err err \<Rightarrow> ([], Some (Wrapf ''unpacking delta: '' err))
           | _ \<Rightarrow> ([], Some (Errorf ''unpacking delta''))))"

fun handle_batch :: "http_reply \<Rightarrow> posResp list \<times> error option" where
  "handle_batch (ReqFailed err) = ([], Some (Wrapf ''request: '' err))"
| "handle_batch NilBody = ([], Some (Errorf ''empty rpc resp: <nil>''))"
| "handle_batch (NotDecoded err) = ([], Some (Wrapf ''decoding: '' err))"
| "handle_batch (Resps resps) = unpack_resps resps"

section \<open>The concurrent requests\<close>

text \<open>A worker waits for a batch, holds what is left to send of one, or has returned.\<close>

datatype worker = Waiting | Sending "posResp list" "error option" | Stopped

record req_state =
  rs_batches :: "rpcReq list list"
  rs_workers :: "worker list"
  rs_resps :: "posResp list"
  rs_result :: "posResp list res option"

definition worker_count :: "nat \<Rightarrow> rpcReq list \<Rightarrow> nat" where
  "worker_count batchLimit reqs = max (length reqs div batchLimit) WorkerCount"

definition req_init :: "nat \<Rightarrow> rpcReq list \<Rightarrow> req_state \<Rightarrow> bool" where
  "req_init seed reqs s \<longleftrightarrow>
     (\<exists>batchLimit r. Intn seed (MaxBatchLimit - MinBatchLimit) = Ok r \<and>
        batchLimit = r + MinBatchLimit \<and>
        s = \<lparr>rs_batches = batches batchLimit reqs,
             rs_workers = replicate (worker_count batchLimit reqs) Waiting,
             rs_resps = [], rs_result = None\<rparr>)"

text \<open>The steps: the producer hands the next batch to a waiting worker, which makes the request; a
  worker hands its next response to the collecting loop; a worker that has sent everything waits
  again; the loop receives a worker's error and returns it; the context is cancelled; the loop has
  received as many responses as there were requests; after an error, the done messages stop
  workers and the producer.\<close>

inductive req_step ::
    "(rpcReq list \<Rightarrow> http_reply) \<Rightarrow> error option \<Rightarrow> nat \<Rightarrow> req_state \<Rightarrow> req_state \<Rightarrow> bool"
  for makeReq ctx n where
  dispatch: "rs_batches s = b # bs \<Longrightarrow> i < length (rs_workers s) \<Longrightarrow> rs_workers s ! i = Waiting \<Longrightarrow>
    handle_batch (makeReq b) = (rs, e) \<Longrightarrow>
    req_step makeReq ctx n s
      (s\<lparr>rs_batches := bs, rs_workers := (rs_workers s)[i := Sending rs e]\<rparr>)"
| respond: "rs_result s = None \<Longrightarrow> length (rs_resps s) < n \<Longrightarrow> i < length (rs_workers s) \<Longrightarrow>
    rs_workers s ! i = Sending (r # rs) e \<Longrightarrow>
    req_step makeReq ctx n s
      (s\<lparr>rs_resps := rs_resps s @ [r], rs_workers := (rs_workers s)[i := Sending rs e]\<rparr>)"
| again: "i < length (rs_workers s) \<Longrightarrow> rs_workers s ! i = Sending [] None \<Longrightarrow>
    req_step makeReq ctx n s (s\<lparr>rs_workers := (rs_workers s)[i := Waiting]\<rparr>)"
| failed: "rs_result s = None \<Longrightarrow> length (rs_resps s) < n \<Longrightarrow> i < length (rs_workers s) \<Longrightarrow>
    rs_workers s ! i = Sending [] (Some err) \<Longrightarrow>
    req_step makeReq ctx n s
      (s\<lparr>rs_result := Some (Err err), rs_workers := (rs_workers s)[i := Stopped]\<rparr>)"
| cancelled: "rs_result s = None \<Longrightarrow> length (rs_resps s) < n \<Longrightarrow> ctx = Some err \<Longrightarrow>
    req_step makeReq ctx n s (s\<lparr>rs_result := Some (Err err)\<rparr>)"
| complete: "rs_result s = None \<Longrightarrow> \<not> length (rs_resps s) < n \<Longrightarrow>
    req_step makeReq ctx n s (s\<lparr>rs_result := Some (Ok (rs_resps s))\<rparr>)"
| stop_worker: "rs_result s = Some (Err err) \<Longrightarrow> i < length (rs_workers s) \<Longrightarrow>
    rs_workers s ! i = Waiting \<or> (\<exists>r rs e. rs_workers s ! i = Sending (r # rs) e) \<Longrightarrow>
    req_step makeReq ctx n s (s\<lparr>rs_workers := (rs_workers s)[i := Stopped]\<rparr>)"
| stop_producer: "rs_result s = Some (Err err) \<Longrightarrow>
    req_step makeReq ctx n s (s\<lparr>rs_batches := []\<rparr>)"

section \<open>Storing\<close>

text \<open>The loop that quotes the pool addresses, \<open>i\<close> being the index of the next one.\<close>

fun quoted_pools :: "nat \<Rightarrow> nat \<Rightarrow> string list \<Rightarrow> string" where
  "quoted_pools n i [] = []"
| "quoted_pools n i (addr # pools) =
     [CHR 0x27] @ addr @ [CHR 0x27] @
     (if int i \<noteq> int n - 1 then '','' else []) @ quoted_pools n (i + 1) pools"

definition store_sql :: "string list \<Rightarrow> int list \<Rightarrow> string list \<Rightarrow> string list \<Rightarrow> string" where
  "store_sql pools ids amount0s amount1s =
     (let idsS = map Itoa ids; bu = quoted_pools (length pools) 0 pools in
      ''SELECT snapshot_create_positions_1(ARRAY['' @ bu @ ''], ARRAY['' @ Join '','' idsS @
      ''], ARRAY['' @ Join '','' amount0s @ ''], ARRAY['' @ Join '','' amount1s @ ''])'')"

definition storePositions ::
    "(string \<Rightarrow> 'db \<Rightarrow> 'db res) \<Rightarrow> 'db \<Rightarrow> string list \<Rightarrow> int list \<Rightarrow> string list \<Rightarrow> string list \<Rightarrow>
      'db res" where
  "storePositions db_Exec db pools ids amount0s amount1s =
     db_Exec (store_sql pools ids amount0s amount1s) db"

section \<open>The job\<close>

record PoolDetails =
  pd_Pool :: Address
  pd_FinalTick :: Number
  pd_Decimals :: "8 word"
  pd_curPrice :: "int option"

text \<open>Reading a missing key of a map gives the zero value.\<close>

definition zero_details :: PoolDetails where
  "zero_details = \<lparr>pd_Pool = [], pd_FinalTick = Number None, pd_Decimals = 0, pd_curPrice = None\<rparr>"

definition pool_at :: "(string \<rightharpoonup> PoolDetails) \<Rightarrow> string \<Rightarrow> PoolDetails" where
  "pool_at m k = (case m k of None \<Rightarrow> zero_details | Some p \<Rightarrow> p)"

definition pool_map :: "PoolDetails list \<Rightarrow> (string \<rightharpoonup> PoolDetails) res" where
  "pool_map poolDetails =
     foldRes (\<lambda>p m.
       andThen (GetSqrtRatioAtTick (Number_Big (pd_FinalTick p))) (\<lambda>cur.
       Ok (m(Address_String (pd_Pool p) \<mapsto> p\<lparr>pd_curPrice := Some cur\<rparr>))))
     poolDetails Map.empty"

definition position_map :: "Position list \<Rightarrow> (string \<rightharpoonup> Position)" where
  "position_map positions =
     foldl (\<lambda>m p. m(encodeId (pos_Pool p) (pos_Id p) \<mapsto> p)) Map.empty positions"

text \<open>The second argument is ignored.  \<open>Num\<close> and \<open>Denom\<close> of a rational are in lowest terms with a
  positive denominator.\<close>

definition mulRatToInt :: "rat \<Rightarrow> int \<Rightarrow> int res" where
  "mulRatToInt x d = Quo (fst (quotient_of x)) (snd (quotient_of x))"

text \<open>The four slices and the index of the next free slot.\<close>

record columns =
  col_i :: nat
  col_pools :: "string list"
  col_ids :: "int list"
  col_amount0s :: "string list"
  col_amount1s :: "string list"

definition set_idx :: "'a list \<Rightarrow> nat \<Rightarrow> 'a \<Rightarrow> 'a list res" where
  "set_idx xs i v = (if i < length xs then Ok (xs[i := v]) else Panic ''index out of range'')"

text \<open>The amounts of a position with a given liquidity.\<close>

definition position_amounts ::
    "(string \<rightharpoonup> PoolDetails) \<Rightarrow> int \<Rightarrow> Position \<Rightarrow> Number \<Rightarrow> (int \<times> int) res" where
  "position_amounts poolMap fusdcDecimals pos delta =
     (let poolAddr = Address_String (pos_Pool pos) in
      andThen (GetSqrtRatioAtTick (Number_Big (pos_Lower pos))) (\<lambda>lowerPrice.
      andThen (GetSqrtRatioAtTick (Number_Big (pos_Upper pos))) (\<lambda>upperPrice.
      andThen (GetAmountsForLiq (pd_curPrice (pool_at poolMap poolAddr)) (Some lowerPrice)
          (Some upperPrice) (Some (Number_Big delta))) (\<lambda>(amount0Rat, amount1Rat).
      andThen (mulRatToInt amount0Rat fusdcDecimals) (\<lambda>amount0.
      andThen (mulRatToInt amount1Rat (uint (pd_Decimals (pool_at poolMap poolAddr)))) (\<lambda>amount1.
      Ok (amount0, amount1)))))))"

text \<open>One turn of the loop over the responses.\<close>

definition snapshot_row ::
    "(string \<rightharpoonup> PoolDetails) \<Rightarrow> (string \<rightharpoonup> Position) \<Rightarrow> int \<Rightarrow> posResp \<Rightarrow> columns \<Rightarrow> columns res" where
  "snapshot_row poolMap positionMap fusdcDecimals r c =
     (case positionMap (pr_Key r) of
        None \<Rightarrow> Ok c
      | Some pos \<Rightarrow>
          andThen (position_amounts poolMap fusdcDecimals pos (pr_Delta r)) (\<lambda>(amount0, amount1).
          if amount0 = 0 \<and> amount1 = 0 then Ok c
          else
            andThen (set_idx (col_pools c) (col_i c) (Address_String (pos_Pool pos))) (\<lambda>pools.
            andThen (set_idx (col_ids c) (col_i c) (pos_Id pos)) (\<lambda>ids.
            andThen (set_idx (col_amount0s c) (col_i c) (Itoa amount0)) (\<lambda>amount0s.
            andThen (set_idx (col_amount1s c) (col_i c) (Itoa amount1)) (\<lambda>amount1s.
            Ok \<lparr>col_i = col_i c + 1, col_pools = pools, col_ids = ids,
                col_amount0s = amount0s, col_amount1s = amount1s\<rparr>))))))"

definition empty_columns :: "nat \<Rightarrow> columns" where
  "empty_columns n = \<lparr>col_i = 0, col_pools = replicate n [], col_ids = replicate n 0,
     col_amount0s = replicate n [], col_amount1s = replicate n []\<rparr>"

text \<open>The part of \<open>main\<close> after the responses have arrived: \<open>len(ids)\<close> is the length of the slice,
  not the number of slots filled.\<close>

definition snapshot_store ::
    "(string \<Rightarrow> 'db \<Rightarrow> 'db res) \<Rightarrow> (string \<rightharpoonup> PoolDetails) \<Rightarrow> (string \<rightharpoonup> Position) \<Rightarrow> int \<Rightarrow>
      nat \<Rightarrow> posResp list \<Rightarrow> 'db \<Rightarrow> 'db res" where
  "snapshot_store db_Exec poolMap positionMap fusdcDecimals n resps db =
     andThen (foldRes (snapshot_row poolMap positionMap fusdcDecimals) resps (empty_columns n))
       (\<lambda>c.
          if length (col_ids c) = 0 then Ok db
          else
            mapErr (\<lambda>err. Exitf ''store positions: '' err)
              (storePositions db_Exec db (take (col_i c) (col_pools c)) (take (col_i c) (col_ids c))
                (take (col_i c) (col_amount0s c)) (take (col_i c) (col_amount1s c))))"

text \<open>\<open>main\<close>: the two queries and the outcome of \<open>reqPositions\<close> are arguments; \<open>iter\<close> is the order
  in which the map of positions is visited.\<close>

definition snapshot_main ::
    "eth \<Rightarrow> (byte list \<Rightarrow> nat \<Rightarrow> byte list) \<Rightarrow> getenv \<Rightarrow> nat \<Rightarrow> (string \<Rightarrow> 'db res) \<Rightarrow>
      ('db \<Rightarrow> Position list res) \<Rightarrow> ('db \<Rightarrow> PoolDetails list res) \<Rightarrow>
      ((string \<rightharpoonup> Position) \<Rightarrow> (string \<times> Position) list) \<Rightarrow>
      (string \<Rightarrow> rpcReq list \<Rightarrow> posResp list res) \<Rightarrow> (string \<Rightarrow> 'db \<Rightarrow> 'db res) \<Rightarrow> 'db res" where
  "snapshot_main E LeftPadBytes getenv seed gorm_Open scan_positions scan_pools iter reqPositions
      db_Exec =
     andThen (config_Get getenv) (\<lambda>config.
     andThen (PickTimescaleUrl seed config) (\<lambda>url.
     andThen (mapErr (\<lambda>err. Exitf ''database open: '' err) (gorm_Open url)) (\<lambda>db.
     andThen (mapErr (\<lambda>err. Exitf ''seawater positions scan: '' err) (scan_positions db)) (\<lambda>positions.
     andThen (mapErr (\<lambda>err. Exitf ''scan positions: '' err) (scan_pools db)) (\<lambda>poolDetails.
     andThen (pool_map poolDetails) (\<lambda>poolMap.
     let positionMap = position_map positions;
         d = packRpcPosData E LeftPadBytes (Address_String (SeawaterAddr config)) (iter positionMap)
     in
     andThen (mapErr (\<lambda>err. Exitf ''positions request: '' err) (reqPositions (GethUrl config) d))
       (\<lambda>resps.
     snapshot_store db_Exec poolMap positionMap (FusdcDecimals config) (length positions) resps
       db)))))))"

text \<open>\<open>httpPost\<close>, over the outcome of \<open>http.Post\<close> (a transport error, or a status and a body whose
  reading may fail).\<close>

definition httpPost :: "(int \<times> string res) res \<Rightarrow> string res" where
  "httpPost post =
     andThen post (\<lambda>(s, body).
       if s = 200 then body
       else
         andThen (mapErr (\<lambda>err. Err (Wrapf ''bad resp drain: '' err)) body) (\<lambda>buf.
         Err (Errorf (''bad resp status '' @ [CHR 0x22] @ buf @ [CHR 0x22] @ '': '' @ Itoa s))))"

end
