(* ===== verification/Requests.thy ===== *)
theory Requests
  imports Snapshot "HOL-Library.Multiset"
begin

text \<open>
  What the snapshot job guarantees: the round trip of position keys, the batching of requests, the
  outcome of the concurrent \<open>reqPositions\<close> under every schedule, and the columns it stores.
\<close>

section \<open>Keys\<close>

lemma decodeId_encodeId:
  assumes "length pool = 42" "is_int64 i"
  shows "decodeId (encodeId pool i) = Ok (AddressFromString pool, i, True)"
proof -
  have "take 42 (encodeId pool i) = Address_String pool" "drop 42 (encodeId pool i) = int_text 16 i"
    using assms(1) by (simp_all add: encodeId_def)
  moreover have "AddressFromString (Address_String pool) = AddressFromString pool"
    by (simp add: AddressFromString_def Address_String_def)
  moreover have "42 \<le> length (encodeId pool i)" using assms(1) by (simp add: encodeId_def)
  ultimately show ?thesis using assms(2) by (simp add: decodeId_def hex.ParseInt_int_text)
qed

text \<open>The key of a position as a codec on canonical addresses and 64 bit identifiers.\<close>

definition key_dec :: "string \<Rightarrow> (Address \<times> int) option" where
  "key_dec x = (case decodeId x of Ok (pool, i, True) \<Rightarrow> Some (pool, i) | _ \<Rightarrow> None)"

definition key_ok :: "Address \<times> int \<Rightarrow> bool" where
  "key_ok = (\<lambda>(pool, i). length pool = 42 \<and> AddressFromString pool = pool \<and> is_int64 i)"

interpretation position_key: text_codec "\<lambda>(pool, i). encodeId pool i" key_dec key_ok
  by unfold_locales (auto simp: key_dec_def key_ok_def decodeId_encodeId)

text \<open>C32. The key of a position determines it: decoding the key of a 42 character pool address and a
  64 bit identifier gives both back (the address in lower case), so distinct positions never share
  a key; a text of 40 or 41 characters makes the decoder panic.\<close>

theorem position_key_roundtrip:
  assumes "length pool = 42" "is_int64 i" "length pool' = 42" "is_int64 j" "length x \<in> {40, 41}"
  shows "decodeId (encodeId pool i) = Ok (AddressFromString pool, i, True) \<and>
    (encodeId pool i = encodeId pool' j \<longleftrightarrow>
       AddressFromString pool = AddressFromString pool' \<and> i = j) \<and>
    is_panic (decodeId x)"
proof -
  have norm: "encodeId p k = encodeId (AddressFromString p) k" for p k
    by (simp add: encodeId_def Address_String_def AddressFromString_def)
  have "key_ok (AddressFromString pool, i)" "key_ok (AddressFromString pool', j)"
    using assms by (simp_all add: key_ok_def AddressFromString_def)
  from position_key.enc_inj [OF this]
  have "encodeId pool i = encodeId pool' j \<Longrightarrow>
      AddressFromString pool = AddressFromString pool' \<and> i = j"
    using norm by simp
  moreover have "encodeId pool i = encodeId pool' j"
    if "AddressFromString pool = AddressFromString pool' \<and> i = j"
    using that norm by metis
  moreover have "is_panic (decodeId x)" using assms(5) by (auto simp: decodeId_def)
  ultimately show ?thesis using assms(1,2) by (auto simp: decodeId_encodeId)
qed

theorem position_key_roundtrip_witness:
  "decodeId (encodeId (''0X'' @ replicate 40 (CHR ''A'')) 10) =
     Ok (AddressFromString (''0X'' @ replicate 40 (CHR ''A'')), 10, True)"
  by (rule position_key_roundtrip [where pool' = "replicate 42 (CHR ''0'')" and j = 10
        and x = "replicate 41 (CHR ''0'')", THEN conjunct1])
    (simp_all add: is_int64_def)

section \<open>Batches\<close>

lemma batch_loop_concat:
  assumes "x < bl" "length b = bl"
  shows "concat (batch_loop bl reqs b x) = take x b @ reqs \<and>
    (\<forall>c \<in> set (batch_loop bl reqs b x). c \<noteq> [] \<and> length c \<le> bl)"
  using assms
proof (induction reqs arbitrary: b x)
  case (Cons p reqs)
  have t: "take (Suc x) (b[x := p]) = take x b @ [p]"
    using Cons.prems by (simp add: take_Suc_conv_app_nth)
  show ?case
  proof (cases "Suc x = bl")
    case True
    then have "take bl (b[x := p]) = take x b @ [p]" using t by simp
    then show ?thesis
      using Cons.IH [of 0 "b[x := p]"] Cons.prems True by (auto simp: Let_def)
  next
    case False
    then show ?thesis
      using Cons.IH [of "Suc x" "b[x := p]"] Cons.prems t by (auto simp: Let_def)
  qed
qed auto

lemma batches_partition:
  assumes "0 < bl"
  shows "concat (batches bl reqs) = reqs"
    and "b \<in> set (batches bl reqs) \<Longrightarrow> b \<noteq> [] \<and> length b \<le> bl"
  using batch_loop_concat [of 0 bl "replicate bl empty_req" reqs] assms
  by (auto simp: batches_def)

section \<open>Every schedule of the requests\<close>

lemma mset_concat_sum: "mset (concat xss) = sum_list (map mset xss)"
  by (induction xss) auto

fun pending :: "worker \<Rightarrow> posResp list" where
  "pending (Sending rs e) = rs"
| "pending _ = []"

fun erring :: "worker \<Rightarrow> bool" where
  "erring (Sending rs e) = (e \<noteq> None)"
| "erring Stopped = True"
| "erring Waiting = False"

text \<open>A server that answers each batch with one valid response per request, in any order.\<close>

definition answers :: "(rpcReq list \<Rightarrow> http_reply) \<Rightarrow> (rpcReq \<Rightarrow> posResp) \<Rightarrow> bool" where
  "answers makeReq answer \<longleftrightarrow>
     (\<forall>b. \<exists>rs. handle_batch (makeReq b) = (rs, None) \<and> mset rs = mset (map answer b))"

text \<open>Responses are neither lost nor duplicated: those received, those held by workers and those
  still to be asked for make up the answers to all requests.\<close>

definition req_inv ::
    "(rpcReq list \<Rightarrow> http_reply) \<Rightarrow> (rpcReq \<Rightarrow> posResp) \<Rightarrow> rpcReq list \<Rightarrow> req_state \<Rightarrow> bool" where
  "req_inv makeReq answer reqs s \<longleftrightarrow>
     answers makeReq answer \<and>
     mset (rs_resps s) + sum_list (map (mset \<circ> pending) (rs_workers s)) +
       sum_list (map (\<lambda>b. mset (map answer b)) (rs_batches s)) = mset (map answer reqs) \<and>
     (\<forall>w \<in> set (rs_workers s). \<not> erring w) \<and> rs_workers s \<noteq> [] \<and>
     length (rs_resps s) \<le> length reqs \<and>
     (rs_result s \<noteq> None \<longrightarrow> (\<exists>resps. rs_result s = Some (Ok resps) \<and>
        mset resps = mset (map answer reqs)))"

lemma req_inv_init:
  assumes "req_init seed reqs s" "answers makeReq answer"
  shows "req_inv makeReq answer reqs s"
proof -
  from assms(1) obtain bl where bl: "MinBatchLimit \<le> bl"
    and s: "s = \<lparr>rs_batches = batches bl reqs,
      rs_workers = replicate (worker_count bl reqs) Waiting, rs_resps = [], rs_result = None\<rparr>"
    unfolding req_init_def using le_add2 by blast
  have "sum_list (map (\<lambda>b. mset (map answer b)) bs) = mset (map answer (concat bs))" for bs
    by (induction bs) auto
  then have "sum_list (map (\<lambda>b. mset (map answer b)) (batches bl reqs)) = mset (map answer reqs)"
    using bl batches_partition(1) by (simp add: MinBatchLimit_def)
  moreover have "sum_list (map (mset \<circ> pending) (replicate k Waiting)) = {#}" for k
    by (induction k) auto
  ultimately show ?thesis
    using assms(2) by (simp add: req_inv_def s worker_count_def WorkerCount_def)
qed

text \<open>The effect of a worker's change of state on what the workers hold.\<close>

lemma pending_replace:
  assumes "i < length ws"
  shows "sum_list (map (mset \<circ> pending) (ws[i := w])) + mset (pending (ws ! i)) =
    sum_list (map (mset \<circ> pending) ws) + mset (pending w)"
  using sum_list_replace [OF assms, of "mset \<circ> pending" w] by simp

lemma not_erring_replace:
  assumes "\<forall>w \<in> set ws. \<not> erring w" "\<not> erring w"
  shows "\<forall>w \<in> set (ws[i := w]). \<not> erring w"
  using assms set_update_subset_insert [of ws i w] by blast

lemma req_inv_step:
  assumes inv: "req_inv makeReq answer reqs s" and "req_step makeReq None (length reqs) s t"
  shows "req_inv makeReq answer reqs t"
  using assms(2)
proof (cases rule: req_step.cases)
  case (dispatch b bs i rs e)
  obtain rs' where rs': "handle_batch (makeReq b) = (rs', None)" "mset rs' = mset (map answer b)"
    using inv unfolding req_inv_def answers_def by blast
  then have rs: "rs = rs'" "e = None" using dispatch by simp_all
  have "sum_list (map (mset \<circ> pending) ((rs_workers s)[i := Sending rs e])) =
      sum_list (map (mset \<circ> pending) (rs_workers s)) + mset (map answer b)"
    using pending_replace [OF dispatch(3), of "Sending rs e"] dispatch(4) rs rs' by simp
  moreover have "\<forall>w \<in> set ((rs_workers s)[i := Sending rs e]). \<not> erring w"
    using inv rs by (intro not_erring_replace) (simp_all add: req_inv_def)
  ultimately show ?thesis using inv dispatch(1,2) by (simp add: req_inv_def ac_simps)
next
  case (respond i r rs e)
  have "\<not> erring (Sending (r # rs) e)"
    using inv respond(4,5) nth_mem unfolding req_inv_def by metis
  then have "\<forall>w \<in> set ((rs_workers s)[i := Sending rs e]). \<not> erring w"
    using inv by (intro not_erring_replace) (simp_all add: req_inv_def)
  moreover have "sum_list (map (mset \<circ> pending) (rs_workers s)) =
      add_mset r (sum_list (map (mset \<circ> pending) ((rs_workers s)[i := Sending rs e])))"
    using pending_replace [OF respond(4), of "Sending rs e"] respond(5) by simp
  ultimately show ?thesis using inv respond(1-3) by (simp add: req_inv_def)
next
  case (again i)
  have "sum_list (map (mset \<circ> pending) ((rs_workers s)[i := Waiting])) =
      sum_list (map (mset \<circ> pending) (rs_workers s))"
    using pending_replace [OF again(2), of Waiting] again(3) by simp
  moreover have "\<forall>w \<in> set ((rs_workers s)[i := Waiting]). \<not> erring w"
    using inv by (intro not_erring_replace) (simp_all add: req_inv_def)
  ultimately show ?thesis using inv again(1) by (simp add: req_inv_def)
next
  case (failed i err)
  then have "erring (rs_workers s ! i)" by simp
  then show ?thesis using inv failed(4) nth_mem unfolding req_inv_def by blast
next
  case complete
  then have len: "length (rs_resps s) = length reqs" using inv by (simp add: req_inv_def)
  have "size (mset (rs_resps s) + (sum_list (map (mset \<circ> pending) (rs_workers s)) +
      sum_list (map (\<lambda>b. mset (map answer b)) (rs_batches s)))) = size (mset (rs_resps s))"
    using inv len by (simp add: req_inv_def add.assoc)
  then have "sum_list (map (mset \<circ> pending) (rs_workers s)) +
      sum_list (map (\<lambda>b. mset (map answer b)) (rs_batches s)) = {#}"
    by (simp only: size_union) simp
  then have "mset (rs_resps s) = mset (map answer reqs)"
    using inv by (simp add: req_inv_def)
  then show ?thesis using inv complete by (simp add: req_inv_def)
next
  case (stop_worker err i)
  then show ?thesis using inv by (simp add: req_inv_def)
next
  case (stop_producer err)
  then show ?thesis using inv by (simp add: req_inv_def)
qed simp

interpretation requests: invariant_system
  "\<lambda>s. req_init seed reqs s \<and> answers makeReq answer" "req_step makeReq None (length reqs)"
  "req_inv makeReq answer reqs"
  for seed reqs makeReq answer
  by unfold_locales (auto intro: req_inv_init req_inv_step)

text \<open>Work left: a batch to hand out counts its requests and two steps, a worker what it still
  holds and its return to waiting, the collecting loop its return.\<close>

fun worker_work :: "worker \<Rightarrow> nat" where
  "worker_work (Sending rs e) = length rs + 1"
| "worker_work _ = 0"

definition req_work :: "req_state \<Rightarrow> nat" where
  "req_work s =
     sum_list (map (\<lambda>b. length b + 2) (rs_batches s)) + sum_list (map worker_work (rs_workers s)) +
     (if rs_result s = None then 1 else 0)"

lemma work_replace:
  assumes "i < length ws"
  shows "sum_list (map worker_work (ws[i := w])) + worker_work (ws ! i) =
    sum_list (map worker_work ws) + worker_work w"
  by (rule sum_list_replace [OF assms])

lemma req_work_decreases:
  assumes inv: "req_inv makeReq answer reqs s" and "rs_result s = None"
    and "req_step makeReq None (length reqs) s t"
  shows "req_work t < req_work s"
  using assms(3)
proof (cases rule: req_step.cases)
  case (dispatch b bs i rs e)
  obtain rs' where "handle_batch (makeReq b) = (rs', None)" "mset rs' = mset (map answer b)"
    using inv unfolding req_inv_def answers_def by blast
  then have "length rs = length b" using dispatch(5) by (metis Pair_inject length_map mset_eq_length)
  then show ?thesis
    using work_replace [OF dispatch(3), of "Sending rs e"] dispatch(1,2,4) by (simp add: req_work_def)
next
  case (respond i r rs e)
  then show ?thesis
    using work_replace [OF respond(4), of "Sending rs e"] by (simp add: req_work_def)
next
  case (again i)
  then show ?thesis using work_replace [OF again(2), of Waiting] by (simp add: req_work_def)
next
  case (failed i err)
  then show ?thesis
    using work_replace [OF failed(4), of Stopped] by (simp add: req_work_def)
qed (use assms(2) in \<open>simp_all add: req_work_def\<close>)

lemma req_inv_progress:
  assumes inv: "req_inv makeReq answer reqs s" and none: "rs_result s = None"
  shows "\<exists>t. req_step makeReq None (length reqs) s t"
proof (cases "length (rs_resps s) < length reqs")
  case False
  with none show ?thesis using req_step.complete by blast
next
  case more: True
  show ?thesis
  proof (cases "\<exists>w \<in> set (rs_workers s). w \<noteq> Waiting")
    case True
    then obtain i where i: "i < length (rs_workers s)" "rs_workers s ! i \<noteq> Waiting"
      by (auto simp: in_set_conv_nth)
    then have "\<not> erring (rs_workers s ! i)" using inv nth_mem unfolding req_inv_def by blast
    with i obtain rs where "rs_workers s ! i = Sending rs None"
      by (cases "rs_workers s ! i") auto
    then show ?thesis
      using i more none by (cases rs) (blast intro: req_step.again req_step.respond)+
  next
    case False
    have "sum_list (map (mset \<circ> pending) ws) = {#}" if "\<forall>w \<in> set ws. w = Waiting" for ws
      using that by (induction ws) auto
    then have "sum_list (map (mset \<circ> pending) (rs_workers s)) = {#}" using False by blast
    then have "mset (rs_resps s) = mset (map answer reqs)" if "rs_batches s = []"
      using inv that by (simp add: req_inv_def)
    then have "rs_batches s \<noteq> []" using more mset_eq_length by fastforce
    then obtain b bs where "rs_batches s = b # bs" by (meson list.exhaust)
    moreover have "0 < length (rs_workers s)" "rs_workers s ! 0 = Waiting"
      using inv False nth_mem unfolding req_inv_def by blast+
    moreover obtain rs e where "handle_batch (makeReq b) = (rs, e)" by (meson surj_pair)
    ultimately show ?thesis using req_step.dispatch by blast
  qed
qed

text \<open>C8. Under every schedule of its goroutines, \<open>reqPositions\<close> ends with the answer to each request
  exactly once: with a node that answers each batch with one valid response per request, in
  whatever order, no reachable state has an error or a wrong result, as long as there is no result
  some step is possible, and every step takes it closer to the end.\<close>

theorem reqPositions_complete:
  assumes "answers makeReq answer"
    and "reach (req_init seed reqs) (req_step makeReq None (length reqs)) s"
  shows "(\<forall>r. rs_result s = Some r \<longrightarrow>
      (\<exists>resps. r = Ok resps \<and> mset resps = mset (map answer reqs))) \<and>
    (rs_result s = None \<longrightarrow>
      (\<exists>t. req_step makeReq None (length reqs) s t) \<and>
      (\<forall>t. req_step makeReq None (length reqs) s t \<longrightarrow> req_work t < req_work s))"
proof -
  have "reach (\<lambda>s. req_init seed reqs s \<and> answers makeReq answer)
      (req_step makeReq None (length reqs)) s"
    using assms(2) by induction (auto intro: reach.intros assms(1))
  then have inv: "req_inv makeReq answer reqs s" by (rule requests.reach_inv)
  then have "\<forall>r. rs_result s = Some r \<longrightarrow>
      (\<exists>resps. r = Ok resps \<and> mset resps = mset (map answer reqs))"
    unfolding req_inv_def by auto
  with inv show ?thesis using req_inv_progress req_work_decreases by blast
qed

text \<open>A node that reports a liquidity of ten for every position.\<close>

definition ten_req :: "rpcReq list \<Rightarrow> http_reply" where
  "ten_req b = Resps (map (\<lambda>q. \<lparr>rr_Id = rq_Id q, rr_Result = ''0xa'', rr_Error = None\<rparr>) b)"

definition ten_answer :: "rpcReq \<Rightarrow> posResp" where
  "ten_answer q = \<lparr>pr_Key = rq_Id q, pr_Delta = Number (Some 10)\<rparr>"

lemma ten_handle: "handle_batch (ten_req b) = (map ten_answer b, None)"
proof -
  have "NumberFromHex ''a'' = Ok (Number (Some 10))"
    by (simp add: NumberFromHex_def NumberFromBig_def SetString_def scan_nat_def digit_val_def)
  then show ?thesis
    by (induction b) (simp_all add: ten_req_def ten_answer_def TrimPrefix_def)
qed

lemma ten_answers: "answers ten_req ten_answer"
  by (simp add: answers_def ten_handle)

definition first_state :: "nat \<Rightarrow> rpcReq list \<Rightarrow> req_state" where
  "first_state bl reqs = \<lparr>rs_batches = batches bl reqs,
     rs_workers = replicate (worker_count bl reqs) Waiting, rs_resps = [], rs_result = None\<rparr>"

lemma first_state_init: "req_init 0 reqs (first_state 100 reqs)"
  by (simp add: req_init_def first_state_def Intn_def MinBatchLimit_def MaxBatchLimit_def)

theorem reqPositions_complete_witness:
  "answers ten_req ten_answer \<and>
   reach (req_init 0 [empty_req]) (req_step ten_req None 1) (first_state 100 [empty_req]) \<and>
   (\<exists>t. req_step ten_req None 1 (first_state 100 [empty_req]) t)"
proof -
  have r: "reach (req_init 0 [empty_req]) (req_step ten_req None (length [empty_req]))
      (first_state 100 [empty_req])"
    using first_state_init by (rule reach_init)
  moreover have "rs_result (first_state 100 [empty_req]) = None" by (simp add: first_state_def)
  ultimately show ?thesis
    using reqPositions_complete [OF ten_answers r] ten_answers by simp
qed

section \<open>Missing responses\<close>

text \<open>A node whose replies are valid but leave out the requests that do not satisfy \<open>P\<close>.\<close>

definition omits :: "(rpcReq list \<Rightarrow> http_reply) \<Rightarrow> (rpcReq \<Rightarrow> bool) \<Rightarrow> bool" where
  "omits makeReq P \<longleftrightarrow>
     (\<forall>b. \<exists>rs. handle_batch (makeReq b) = (rs, None) \<and> length rs = length (filter P b))"

definition hang_inv ::
    "(rpcReq list \<Rightarrow> http_reply) \<Rightarrow> (rpcReq \<Rightarrow> bool) \<Rightarrow> rpcReq list \<Rightarrow> req_state \<Rightarrow> bool" where
  "hang_inv makeReq P reqs s \<longleftrightarrow>
     omits makeReq P \<and>
     length (rs_resps s) + sum_list (map (length \<circ> pending) (rs_workers s)) +
       sum_list (map (\<lambda>b. length (filter P b)) (rs_batches s)) = length (filter P reqs) \<and>
     length (filter P reqs) < length reqs \<and>
     (\<forall>w \<in> set (rs_workers s). \<not> erring w) \<and> rs_result s = None"

lemma hang_replace:
  assumes "i < length ws"
  shows "sum_list (map (length \<circ> pending) (ws[i := w])) + length (pending (ws ! i)) =
    sum_list (map (length \<circ> pending) ws) + length (pending w)"
  using sum_list_replace [OF assms, of "length \<circ> pending" w] by simp

lemma hang_inv_init:
  assumes "req_init seed reqs s" "omits makeReq P" "length (filter P reqs) < length reqs"
  shows "hang_inv makeReq P reqs s"
proof -
  from assms(1) obtain bl where bl: "MinBatchLimit \<le> bl"
    and s: "s = \<lparr>rs_batches = batches bl reqs,
      rs_workers = replicate (worker_count bl reqs) Waiting, rs_resps = [], rs_result = None\<rparr>"
    unfolding req_init_def using le_add2 by blast
  have "sum_list (map (\<lambda>b. length (filter P b)) bs) = length (filter P (concat bs))" for bs
    by (induction bs) auto
  then have "sum_list (map (\<lambda>b. length (filter P b)) (batches bl reqs)) = length (filter P reqs)"
    using bl batches_partition(1) by (simp add: MinBatchLimit_def)
  moreover have "sum_list (map (length \<circ> pending) (replicate k Waiting)) = 0" for k
    by (induction k) auto
  ultimately show ?thesis using assms(2,3) by (simp add: hang_inv_def s)
qed

lemma hang_inv_step:
  assumes inv: "hang_inv makeReq P reqs s" and "req_step makeReq None (length reqs) s t"
  shows "hang_inv makeReq P reqs t"
  using assms(2)
proof (cases rule: req_step.cases)
  case (dispatch b bs i rs e)
  obtain rs' where "handle_batch (makeReq b) = (rs', None)" "length rs' = length (filter P b)"
    using inv unfolding hang_inv_def omits_def by blast
  then have rs: "length rs = length (filter P b)" "e = None" using dispatch by simp_all
  have "\<forall>w \<in> set ((rs_workers s)[i := Sending rs e]). \<not> erring w"
    using inv rs by (intro not_erring_replace) (simp_all add: hang_inv_def)
  then show ?thesis
    using inv hang_replace [OF dispatch(3), of "Sending rs e"] dispatch(1,2,4) rs
    by (simp add: hang_inv_def)
next
  case (respond i r rs e)
  have "\<not> erring (Sending (r # rs) e)"
    using inv respond(4,5) nth_mem unfolding hang_inv_def by metis
  then have "\<forall>w \<in> set ((rs_workers s)[i := Sending rs e]). \<not> erring w"
    using inv by (intro not_erring_replace) (simp_all add: hang_inv_def)
  then show ?thesis
    using inv hang_replace [OF respond(4), of "Sending rs e"] respond(1,5)
    by (simp add: hang_inv_def)
next
  case (again i)
  have "\<forall>w \<in> set ((rs_workers s)[i := Waiting]). \<not> erring w"
    using inv by (intro not_erring_replace) (simp_all add: hang_inv_def)
  then show ?thesis
    using inv hang_replace [OF again(2), of Waiting] again(1,3) by (simp add: hang_inv_def)
next
  case (failed i err)
  then have "erring (rs_workers s ! i)" by simp
  then show ?thesis using inv failed(4) nth_mem unfolding hang_inv_def by blast
next
  case complete
  then show ?thesis using inv by (simp add: hang_inv_def)
qed (use inv in \<open>simp_all add: hang_inv_def\<close>)

interpretation hanging: invariant_system
  "\<lambda>s. req_init seed reqs s \<and> omits makeReq P \<and> length (filter P reqs) < length reqs"
  "req_step makeReq None (length reqs)" "hang_inv makeReq P reqs"
  for seed reqs makeReq P
  by unfold_locales (auto intro: hang_inv_init hang_inv_step)

text \<open>C27. A reply that leaves out a response makes the job wait for ever: if the node's replies are
  valid but some request goes unanswered, \<open>reqPositions\<close> never returns under any schedule.\<close>

theorem reqPositions_hangs:
  assumes "omits makeReq P" "q \<in> set reqs" "\<not> P q"
    and "reach (req_init seed reqs) (req_step makeReq None (length reqs)) s"
  shows "rs_result s = None"
proof -
  have less: "length (filter P reqs) < length reqs"
    using assms(2,3) by (rule length_filter_less)
  have "reach (\<lambda>s. req_init seed reqs s \<and> omits makeReq P \<and> length (filter P reqs) < length reqs)
      (req_step makeReq None (length reqs)) s"
    using assms(4) by induction (auto intro: reach.intros assms(1) less)
  then have "hang_inv makeReq P reqs s" by (rule hanging.reach_inv)
  then show ?thesis by (simp add: hang_inv_def)
qed

theorem reqPositions_hangs_witness:
  "omits (\<lambda>b. Resps []) (\<lambda>q. False) \<and>
   reach (req_init 0 [empty_req]) (req_step (\<lambda>b. Resps []) None 1) (first_state 100 [empty_req]) \<and>
   rs_result (first_state 100 [empty_req]) = None"
proof -
  have o: "omits (\<lambda>b. Resps []) (\<lambda>q. False)" by (simp add: omits_def)
  have r: "reach (req_init 0 [empty_req]) (req_step (\<lambda>b. Resps []) None (length [empty_req]))
      (first_state 100 [empty_req])"
    using first_state_init by (rule reach_init)
  show ?thesis using reqPositions_hangs [OF o _ _ r, of empty_req] o r by simp
qed

end
