(* ===== verification/TickBounds.thy ===== *)
theory TickBounds
  imports ConcLiq
begin

text \<open>
  The range of \<open>GetSqrtRatioAtTick\<close>: on every tick of the protocol's range the result lies between
  \<open>MinSqrtRatio\<close> and \<open>MaxSqrtRatio\<close>, both attained, and far outside the range a positive tick
  divides by zero.
\<close>

section \<open>The smallest ratio of the tick range\<close>

text \<open>
  The largest tick, 887272, has ten one-bits; every smaller tick lies in one of ten aligned blocks,
  whose last element has every bit of the block's members.  So eleven evaluations bound the
  ratio over the whole tick range.
\<close>

lemmas sqrt_ratio_eval =
  sqrt_ratio_abs_def sqrt_ratio_loop.simps tick_ratio_eq odd_tick_ratio_eq

lemma sqrt_ratio_abs_MaxTick: "sqrt_ratio_abs 887272 = 18447437462383981825"
  by (simp add: sqrt_ratio_eval)

lemma sqrt_ratio_abs_block_1: "18447437462383981825 \<le> sqrt_ratio_abs 524287"
  by (simp add: sqrt_ratio_eval)

lemma sqrt_ratio_abs_block_2: "18447437462383981825 \<le> sqrt_ratio_abs 786431"
  by (simp add: sqrt_ratio_eval)

lemma sqrt_ratio_abs_block_3: "18447437462383981825 \<le> sqrt_ratio_abs 851967"
  by (simp add: sqrt_ratio_eval)

lemma sqrt_ratio_abs_block_4: "18447437462383981825 \<le> sqrt_ratio_abs 884735"
  by (simp add: sqrt_ratio_eval)

lemma sqrt_ratio_abs_block_5: "18447437462383981825 \<le> sqrt_ratio_abs 886783"
  by (simp add: sqrt_ratio_eval)

lemma sqrt_ratio_abs_block_6: "18447437462383981825 \<le> sqrt_ratio_abs 887039"
  by (simp add: sqrt_ratio_eval)

lemma sqrt_ratio_abs_block_7: "18447437462383981825 \<le> sqrt_ratio_abs 887167"
  by (simp add: sqrt_ratio_eval)

lemma sqrt_ratio_abs_block_8: "18447437462383981825 \<le> sqrt_ratio_abs 887231"
  by (simp add: sqrt_ratio_eval)

lemma sqrt_ratio_abs_block_9: "18447437462383981825 \<le> sqrt_ratio_abs 887263"
  by (simp add: sqrt_ratio_eval)

lemma sqrt_ratio_abs_block_10: "18447437462383981825 \<le> sqrt_ratio_abs 887271"
  by (simp add: sqrt_ratio_eval)

lemmas sqrt_ratio_abs_blocks =
  sqrt_ratio_abs_block_1
  sqrt_ratio_abs_block_2
  sqrt_ratio_abs_block_3
  sqrt_ratio_abs_block_4
  sqrt_ratio_abs_block_5
  sqrt_ratio_abs_block_6
  sqrt_ratio_abs_block_7
  sqrt_ratio_abs_block_8
  sqrt_ratio_abs_block_9
  sqrt_ratio_abs_block_10

lemma sqrt_ratio_abs_lower:
  assumes "n \<le> 887272"
  shows "sqrt_ratio_abs 887272 \<le> sqrt_ratio_abs n"
proof -
  have "n = 887272 \<or>
      (0 \<le> n \<and> n < 524288) \<or>
      (524288 \<le> n \<and> n < 786432) \<or>
      (786432 \<le> n \<and> n < 851968) \<or>
      (851968 \<le> n \<and> n < 884736) \<or>
      (884736 \<le> n \<and> n < 886784) \<or>
      (886784 \<le> n \<and> n < 887040) \<or>
      (887040 \<le> n \<and> n < 887168) \<or>
      (887168 \<le> n \<and> n < 887232) \<or>
      (887232 \<le> n \<and> n < 887264) \<or>
      (887264 \<le> n \<and> n < 887272)"
    using assms by linarith
  then show ?thesis
    using sqrt_ratio_abs_block [of 19 0 n] sqrt_ratio_abs_blocks(1)
    using sqrt_ratio_abs_block [of 18 524288 n] sqrt_ratio_abs_blocks(2)
    using sqrt_ratio_abs_block [of 16 786432 n] sqrt_ratio_abs_blocks(3)
    using sqrt_ratio_abs_block [of 15 851968 n] sqrt_ratio_abs_blocks(4)
    using sqrt_ratio_abs_block [of 11 884736 n] sqrt_ratio_abs_blocks(5)
    using sqrt_ratio_abs_block [of 8 886784 n] sqrt_ratio_abs_blocks(6)
    using sqrt_ratio_abs_block [of 7 887040 n] sqrt_ratio_abs_blocks(7)
    using sqrt_ratio_abs_block [of 6 887168 n] sqrt_ratio_abs_blocks(8)
    using sqrt_ratio_abs_block [of 5 887232 n] sqrt_ratio_abs_blocks(9)
    using sqrt_ratio_abs_block [of 3 887264 n] sqrt_ratio_abs_blocks(10)
    by (auto simp: sqrt_ratio_abs_MaxTick)
qed

section \<open>The final rounding\<close>

definition round_up32 :: "int \<Rightarrow> int" where
  "round_up32 r = (if r mod push_bit 32 1 \<noteq> 0 then r + 1 else r)"

lemma round_up32_mono: "r \<le> s \<Longrightarrow> round_up32 r \<le> round_up32 s"
  by (cases "r = s") (auto simp: round_up32_def)

lemma GetSqrtRatioAtTick_nonpos:
  "t \<le> 0 \<Longrightarrow> GetSqrtRatioAtTick t = Ok (round_up32 (drop_bit 32 (sqrt_ratio_abs (nat \<bar>t\<bar>))))"
  by (simp add: GetSqrtRatioAtTick_def round_up32_def Let_def)

lemma GetSqrtRatioAtTick_pos:
  assumes "0 < t" "0 < sqrt_ratio_abs (nat \<bar>t\<bar>)"
  shows "GetSqrtRatioAtTick t =
    Ok (round_up32 (drop_bit 32 ((2 ^ 256 - 1) div sqrt_ratio_abs (nat \<bar>t\<bar>))))"
  using assms
  by (simp add: GetSqrtRatioAtTick_def Quo_nonneg round_up32_def Let_def push_bit_eq_mult)

lemma drop_bit_mono: "x \<le> y \<Longrightarrow> drop_bit k x \<le> drop_bit k (y :: int)"
  by (simp add: drop_bit_eq_div zdiv_mono1)

lemmas sqrt_round_mono = round_up32_mono [OF drop_bit_mono]

lemma sqrt_ratio_abs_pos: "n \<le> 887272 \<Longrightarrow> 0 < sqrt_ratio_abs n"
  using sqrt_ratio_abs_lower [of n] by (simp add: sqrt_ratio_abs_MaxTick)

lemma MinSqrtRatio_attained: "round_up32 (drop_bit 32 (sqrt_ratio_abs 887272)) = MinSqrtRatio"
  by (simp add: sqrt_ratio_abs_MaxTick round_up32_def MinSqrtRatio_def push_bit_eq_mult)

lemma MaxSqrtRatio_attained:
  "round_up32 (drop_bit 32 ((2 ^ 256 - 1) div sqrt_ratio_abs 887272)) = MaxSqrtRatio"
  by (simp add: sqrt_ratio_abs_MaxTick round_up32_def MaxSqrtRatio_eq push_bit_eq_mult)

lemma Q96_attained:
  "round_up32 (drop_bit 32 (2 ^ 128)) = Q96"
  "round_up32 (drop_bit 32 ((2 ^ 256 - 1) div 2 ^ 128)) = Q96"
  by (simp_all add: round_up32_def Q96_eq push_bit_eq_mult)

lemma GetSqrtRatioAtTick_ends:
  "GetSqrtRatioAtTick MinTick = Ok MinSqrtRatio" "GetSqrtRatioAtTick MaxTick = Ok MaxSqrtRatio"
  using GetSqrtRatioAtTick_nonpos [of MinTick] MinSqrtRatio_attained
    GetSqrtRatioAtTick_pos [of MaxTick] MaxSqrtRatio_attained sqrt_ratio_abs_pos [of 887272]
  by (simp_all add: MinTick_def MaxTick_def del: One_nat_def)

lemma sqrt_ratio_nonpos_range:
  assumes "n \<le> 887272"
  shows "MinSqrtRatio \<le> round_up32 (drop_bit 32 (sqrt_ratio_abs n))"
    and "round_up32 (drop_bit 32 (sqrt_ratio_abs n)) \<le> Q96"
  using sqrt_round_mono [OF sqrt_ratio_abs_lower [OF assms], of 32]
    sqrt_round_mono [of "sqrt_ratio_abs n" "2 ^ 128" 32] sqrt_ratio_abs_range [of n]
  by (simp_all only: MinSqrtRatio_attained Q96_attained)

lemma sqrt_ratio_pos_range:
  assumes "n \<le> 887272"
  shows "Q96 \<le> round_up32 (drop_bit 32 ((2 ^ 256 - 1) div sqrt_ratio_abs n))"
    and "round_up32 (drop_bit 32 ((2 ^ 256 - 1) div sqrt_ratio_abs n)) \<le> MaxSqrtRatio"
proof -
  have f: "sqrt_ratio_abs 887272 \<le> sqrt_ratio_abs n" "0 < sqrt_ratio_abs n"
    "sqrt_ratio_abs n \<le> 2 ^ 128" "0 < sqrt_ratio_abs 887272"
    using sqrt_ratio_abs_lower [OF assms] sqrt_ratio_abs_pos [OF assms] sqrt_ratio_abs_range [of n]
      sqrt_ratio_abs_pos [of 887272] by auto
  have "(2 ^ 256 - 1) div sqrt_ratio_abs n \<le> (2 ^ 256 - 1) div sqrt_ratio_abs 887272"
    using f(1,4) by (intro zdiv_mono2) simp_all
  from sqrt_round_mono [OF this, of 32]
  show "round_up32 (drop_bit 32 ((2 ^ 256 - 1) div sqrt_ratio_abs n)) \<le> MaxSqrtRatio"
    by (simp only: MaxSqrtRatio_attained)
  have "(2 ^ 256 - 1) div 2 ^ 128 \<le> (2 ^ 256 - 1) div sqrt_ratio_abs n"
    using f(2,3) by (intro zdiv_mono2) simp_all
  from sqrt_round_mono [OF this, of 32]
  show "Q96 \<le> round_up32 (drop_bit 32 ((2 ^ 256 - 1) div sqrt_ratio_abs n))"
    by (simp only: Q96_attained)
qed

lemma GetSqrtRatioAtTick_Ok:
  assumes "MinTick \<le> t" "t \<le> MaxTick"
  shows "\<exists>r. GetSqrtRatioAtTick t = Ok r \<and> MinSqrtRatio \<le> r \<and> r \<le> MaxSqrtRatio \<and>
      (if t \<le> 0 then r \<le> Q96 else Q96 \<le> r)"
proof -
  define n where "n = nat \<bar>t\<bar>"
  have n: "n \<le> 887272" using assms by (simp add: n_def MinTick_def MaxTick_def)
  have c: "MinSqrtRatio \<le> Q96" "Q96 \<le> MaxSqrtRatio"
    by (simp_all add: MinSqrtRatio_def MaxSqrtRatio_eq Q96_eq)
  show ?thesis
  proof (cases "t \<le> 0")
    case True
    then show ?thesis
      using sqrt_ratio_nonpos_range [OF n] c GetSqrtRatioAtTick_nonpos [OF True]
      by (auto simp: n_def)
  next
    case False
    then show ?thesis
      using sqrt_ratio_pos_range [OF n] c GetSqrtRatioAtTick_pos [of t] sqrt_ratio_abs_pos [OF n]
      by (auto simp: n_def)
  qed
qed

text \<open>The square-root price of every tick in the protocol's range exists and stays between the
  bounds the module declares, on the side of 1 (in Q64.96) that the tick's sign says; both bounds
  are attained, at the two ends of the tick range.\<close>

theorem GetSqrtRatioAtTick_range:
  assumes "MinTick \<le> t" "t \<le> MaxTick"
  shows "(\<exists>r. GetSqrtRatioAtTick t = Ok r \<and> MinSqrtRatio \<le> r \<and> r \<le> MaxSqrtRatio \<and>
      (if t \<le> 0 then r \<le> Q96 else Q96 \<le> r)) \<and>
    GetSqrtRatioAtTick MinTick = Ok MinSqrtRatio \<and> GetSqrtRatioAtTick MaxTick = Ok MaxSqrtRatio"
  using GetSqrtRatioAtTick_Ok [OF assms] by (simp add: GetSqrtRatioAtTick_ends)

theorem GetSqrtRatioAtTick_range_witness:
  "MinTick \<le> (- 887271) \<and> - 887271 \<le> MaxTick \<and>
   (\<exists>r. GetSqrtRatioAtTick (- 887271) = Ok r \<and> MinSqrtRatio \<le> r \<and> r \<le> Q96)"
proof -
  have h: "MinTick \<le> - 887271" "- 887271 \<le> MaxTick" by (simp_all add: MinTick_def MaxTick_def)
  show ?thesis using h GetSqrtRatioAtTick_range [OF h] by auto
qed

text \<open>C38. A tick of \<open>2 ^ 21\<close> or more makes the computation divide by zero: the squared ratio
  underflows to 0 and the reciprocal of the product panics.\<close>

theorem GetSqrtRatioAtTick_panics:
  assumes "2 ^ 21 \<le> t"
  shows "GetSqrtRatioAtTick t = Panic ''division by zero''"
proof -
  have van: "sq_iter 20 tick_ratio = 0" by (simp add: tick_ratio_eq)
  have "2097152 \<le> nat \<bar>t\<bar>" using assms by simp
  then have "2 ^ 20 \<le> drop_bit 1 (nat \<bar>t\<bar>)" by (simp add: drop_bit_eq_div)
  then have "sqrt_ratio_abs (nat \<bar>t\<bar>) = 0"
    unfolding sqrt_ratio_abs_def by (rule sqrt_ratio_loop_vanishes [OF van])
  then show ?thesis using assms by (simp add: GetSqrtRatioAtTick_def Quo_def)
qed

theorem GetSqrtRatioAtTick_panics_witness:
  "(2 :: int) ^ 21 \<le> 2097152 \<and> GetSqrtRatioAtTick 2097152 = Panic ''division by zero''"
  using GetSqrtRatioAtTick_panics [of 2097152] by simp

end
