(* ===== verification/Amounts.thy ===== *)
theory Amounts
  imports ConcLiq
begin

text \<open>
  What \<open>GetAmountsForLiq\<close> computes: its three branches are one formula over the current price
  clamped to the position's range, which gives sign, monotonicity and the rounding error.
\<close>

definition clamp :: "int \<Rightarrow> int \<Rightarrow> int \<Rightarrow> int" where
  "clamp lo hi x = min hi (max lo x)"

text \<open>The reference: both amounts at the clamped price \<open>c\<close>; only \<open>amount0\<close> rounds.\<close>

definition amount0_spec :: "int \<Rightarrow> int \<Rightarrow> int \<Rightarrow> rat" where
  "amount0_spec c hi l = of_int (l * 2 ^ 96 * (hi - c) div hi) / of_int c"

definition amount1_spec :: "int \<Rightarrow> int \<Rightarrow> int \<Rightarrow> rat" where
  "amount1_spec lo c l = of_int l * (of_int c - of_int lo) / 2 ^ 96"

lemma GetAmountsForLiq_ordered:
  assumes "0 < a" "a \<le> b" "0 \<le> l"
  shows "GetAmountsForLiq (Some x) (Some a) (Some b) (Some l) =
           Ok (amount0_spec (clamp a b x) b l, amount1_spec a (clamp a b x) l)"
proof -
  consider "x \<le> a" | "a < x" "x < b" | "a < x" "b \<le> x" by linarith
  then show ?thesis
  proof cases
    case 1
    then show ?thesis
      using assms by (simp add: GetAmountsForLiq_def GetAmount0ForLiq_eq clamp_def amount0_spec_def
          amount1_spec_def)
  next
    case 2
    then show ?thesis
      using assms by (simp add: GetAmountsForLiq_def GetAmount0ForLiq_eq GetAmount1ForLiq_eq clamp_def
          amount0_spec_def amount1_spec_def)
  next
    case 3
    then show ?thesis
      using assms by (auto simp: GetAmountsForLiq_def GetAmount1ForLiq_eq clamp_def
          amount0_spec_def amount1_spec_def)
  qed
qed

lemma GetAmountsForLiq_commute: "GetAmountsForLiq x a b l = GetAmountsForLiq x b a l"
  by (cases x; cases a; cases b; cases l) (auto simp: GetAmountsForLiq_def Let_def)

lemma GetAmountsForLiq_clamped:
  assumes "0 < a" "0 < b" "0 \<le> l"
  shows "GetAmountsForLiq (Some x) (Some a) (Some b) (Some l) =
    (let lo = min a b; hi = max a b; c = clamp lo hi x
     in Ok (amount0_spec c hi l, amount1_spec lo c l))"
  using assms GetAmountsForLiq_ordered [of "min a b" "max a b" l x]
  by (cases "a \<le> b") (auto simp: Let_def min_def max_def GetAmountsForLiq_commute [of _ "Some a"])

lemma clamp_between: "lo \<le> hi \<Longrightarrow> lo \<le> clamp lo hi x \<and> clamp lo hi x \<le> hi"
  by (simp add: clamp_def)

lemma clamp_mono: "x \<le> y \<Longrightarrow> clamp lo hi x \<le> clamp lo hi y"
  by (auto simp: clamp_def)

lemma amount0_spec_antimono:
  assumes "0 < c" "c \<le> d" "d \<le> hi" "0 \<le> l"
  shows "0 \<le> amount0_spec d hi l" and "amount0_spec d hi l \<le> amount0_spec c hi l"
proof -
  have "l * 2 ^ 96 * (hi - d) div hi \<le> l * 2 ^ 96 * (hi - c) div hi"
    using assms by (intro zdiv_mono1 mult_left_mono) auto
  moreover have n: "0 \<le> l * 2 ^ 96 * (hi - d) div hi"
    using assms by (simp add: pos_imp_zdiv_nonneg_iff)
  ultimately show "amount0_spec d hi l \<le> amount0_spec c hi l"
    using assms unfolding amount0_spec_def by (intro frac_le) auto
  show "0 \<le> amount0_spec d hi l"
    using assms n unfolding amount0_spec_def by simp
qed

lemma amount1_spec_mono:
  "0 \<le> l \<Longrightarrow> c \<le> d \<Longrightarrow> amount1_spec lo c l \<le> amount1_spec lo d l"
  by (simp add: amount1_spec_def divide_right_mono mult_left_mono)

text \<open>For positive boundaries in either order and non-negative liquidity, the amounts of a
  position are the reference amounts at the current price clamped to the range: all of token 0
  below the range, all of token 1 above it, and never negative.\<close>

theorem GetAmountsForLiq_functional:
  assumes "0 < a" "0 < b" "0 \<le> l"
  shows "\<exists>m0 m1. GetAmountsForLiq (Some x) (Some a) (Some b) (Some l) = Ok (m0, m1) \<and>
    GetAmountsForLiq (Some x) (Some b) (Some a) (Some l) = Ok (m0, m1) \<and>
    m0 = amount0_spec (clamp (min a b) (max a b) x) (max a b) l \<and>
    m1 = amount1_spec (min a b) (clamp (min a b) (max a b) x) l \<and>
    0 \<le> m0 \<and> 0 \<le> m1 \<and> (x \<le> min a b \<longrightarrow> m1 = 0) \<and> (max a b \<le> x \<longrightarrow> m0 = 0)"
proof -
  define lo hi where "lo = min a b" and "hi = max a b"
  define c where "c = clamp lo hi x"
  have c: "lo \<le> c" "c \<le> hi" "0 < lo"
    using clamp_between [of lo hi x] assms by (auto simp: c_def lo_def hi_def)
  have "0 \<le> amount0_spec c hi l" using amount0_spec_antimono [of c c hi l] c assms by simp
  moreover have "0 \<le> amount1_spec lo c l"
    using amount1_spec_mono [of l lo c lo] c assms by (simp add: amount1_spec_def)
  moreover have "amount1_spec lo c l = 0" if "x \<le> lo"
    using that c by (simp add: c_def clamp_def amount1_spec_def lo_def hi_def)
  moreover have "amount0_spec c hi l = 0" if "hi \<le> x"
    using that c by (simp add: c_def clamp_def amount0_spec_def max_def)
  ultimately show ?thesis
    using GetAmountsForLiq_clamped [OF assms, of x]
    by (auto simp: Let_def lo_def [symmetric] hi_def [symmetric] c_def [symmetric]
        GetAmountsForLiq_commute [of _ "Some b"])
qed

theorem GetAmountsForLiq_functional_witness:
  "(0 :: int) < 5 \<and> (0 :: int) < 7 \<and> (0 :: int) \<le> 10 \<and>
   (\<exists>m0 m1. GetAmountsForLiq (Some 6) (Some 7) (Some 5) (Some 10) = Ok (m0, m1) \<and>
      m0 = amount0_spec 6 7 10 \<and> m1 = amount1_spec 5 6 10)"
  using GetAmountsForLiq_functional [of 7 5 10 6] by (auto simp: clamp_def)

text \<open>C30. As the price rises, a position only ever trades token 0 for token 1: for positive boundaries in
  either order and non-negative liquidity the amounts are defined at every price, and at a higher
  one the first is not larger and the second not smaller.\<close>

theorem GetAmountsForLiq_monotone:
  assumes "0 < a" "0 < b" "0 \<le> l" "x \<le> y"
  shows "\<exists>m0 m1 n0 n1. GetAmountsForLiq (Some x) (Some a) (Some b) (Some l) = Ok (m0, m1) \<and>
    GetAmountsForLiq (Some y) (Some a) (Some b) (Some l) = Ok (n0, n1) \<and> n0 \<le> m0 \<and> m1 \<le> n1"
proof -
  define lo hi where "lo = min a b" and "hi = max a b"
  have c: "0 < lo" "lo \<le> hi" using assms by (auto simp: lo_def hi_def)
  have "lo \<le> clamp lo hi x" "clamp lo hi y \<le> hi" "clamp lo hi x \<le> clamp lo hi y"
    using clamp_between [OF c(2)] clamp_mono [OF assms(4)] by auto
  with c assms(3) show ?thesis
    using GetAmountsForLiq_clamped [OF assms(1-3)] amount1_spec_mono
      amount0_spec_antimono(2) [of "clamp lo hi x" "clamp lo hi y" hi l]
    by (simp add: Let_def lo_def [symmetric] hi_def [symmetric])
qed

theorem GetAmountsForLiq_monotone_witness:
  "\<exists>m0 m1 n0 n1. GetAmountsForLiq (Some 5) (Some 7) (Some 5) (Some 10) = Ok (m0, m1) \<and>
     GetAmountsForLiq (Some 6) (Some 7) (Some 5) (Some 10) = Ok (n0, n1) \<and> n0 \<le> m0 \<and> m1 \<le> n1"
  by (rule GetAmountsForLiq_monotone) simp_all

text \<open>C39. Rounding loses less than one unit of the numerator: at a price \<open>x\<close> inside the range the
  first amount is below the exact \<open>l * 2 ^ 96 * (1 / x - 1 / b)\<close> by less than \<open>1 / x\<close>, and the
  second amount is exact.\<close>

theorem GetAmountsForLiq_accuracy:
  assumes "0 < a" "a \<le> x" "x \<le> b" "0 \<le> l"
  shows "\<exists>m0 m1. GetAmountsForLiq (Some x) (Some a) (Some b) (Some l) = Ok (m0, m1) \<and>
    m0 \<le> of_int l * 2 ^ 96 * (1 / of_int x - 1 / of_int b) \<and>
    of_int l * 2 ^ 96 * (1 / of_int x - 1 / of_int b) < m0 + 1 / of_int x \<and>
    m1 = of_int l * (of_int x - of_int a) / 2 ^ 96"
proof -
  have pos: "0 < x" "0 < b" using assms by auto
  define N where "N = l * 2 ^ 96 * (b - x)"
  define q :: rat where "q = of_int N / of_int b"
  have exact: "of_int l * 2 ^ 96 * (1 / of_int x - 1 / of_int b) = q / of_int x"
    using pos by (simp add: N_def q_def field_simps)
  have "of_int (N div b) \<le> q" "q < of_int (N div b) + 1"
    using floor_divide_of_int_eq [of N b, where 'a = rat] unfolding q_def by linarith+
  then have "of_int (N div b) / of_int x \<le> q / of_int x" "q / of_int x < (of_int (N div b) + 1) / of_int x"
    using pos by (simp_all add: divide_right_mono divide_strict_right_mono)
  moreover have "clamp a b x = x" using assms by (simp add: clamp_def)
  then have "GetAmountsForLiq (Some x) (Some a) (Some b) (Some l) =
      Ok (of_int (N div b) / of_int x, of_int l * (of_int x - of_int a) / 2 ^ 96)"
    using GetAmountsForLiq_ordered [of a b l x] assms
    unfolding amount0_spec_def amount1_spec_def N_def by simp
  ultimately show ?thesis unfolding exact by (simp only: res.inject prod.inject add_divide_distrib) blast
qed

theorem GetAmountsForLiq_accuracy_witness:
  "\<exists>m0 m1. GetAmountsForLiq (Some 6) (Some 5) (Some 7) (Some 10) = Ok (m0, m1) \<and>
    m0 \<le> of_int 10 * 2 ^ 96 * (1 / of_int 6 - 1 / of_int 7) \<and>
    m1 = of_int 10 * (of_int 6 - of_int 5) / 2 ^ 96"
  using GetAmountsForLiq_accuracy [of 5 6 7 10] by auto

end
