(* ===== verification/Snapshots.thy ===== *)
theory Snapshots
  imports Requests TickBounds Amounts
begin

text \<open>
  The last part of the snapshot job: the amounts it computes for a position, and that the columns
  it fills slot by slot are exactly one entry per response with a nonzero amount, in the order of
  the responses.
\<close>

section \<open>Amounts\<close>

lemma mulRatToInt_floor:
  assumes "0 \<le> x"
  shows "mulRatToInt x d = Ok \<lfloor>x\<rfloor>"
proof -
  obtain p q where pq: "quotient_of x = (p, q)" by (cases "quotient_of x")
  then have q: "0 < q" and x: "x = of_int p / of_int q"
    by (simp_all add: quotient_of_denom_pos quotient_of_div)
  then have "0 \<le> p" using assms by (simp add: zero_le_divide_iff)
  then have "mulRatToInt x d = Ok (p div q)" using q by (simp add: mulRatToInt_def pq Quo_nonneg)
  moreover have "\<lfloor>x\<rfloor> = p div q" by (simp add: x floor_divide_of_int_eq)
  ultimately show ?thesis by simp
qed

text \<open>C22. A position's snapshot is its exact holding: for ticks in the protocol's range and
  non-negative liquidity, the amounts are the whole parts of the amounts at the pool's price
  clamped to the position's range, and both are zero when the pool has no known price.\<close>

theorem position_amounts_exact:
  assumes "MinTick \<le> Number_Big (pos_Lower pos)" "Number_Big (pos_Lower pos) \<le> MaxTick"
    and "MinTick \<le> Number_Big (pos_Upper pos)" "Number_Big (pos_Upper pos) \<le> MaxTick"
    and "0 \<le> Number_Big delta"
  shows "\<exists>a b. GetSqrtRatioAtTick (Number_Big (pos_Lower pos)) = Ok a \<and>
    GetSqrtRatioAtTick (Number_Big (pos_Upper pos)) = Ok b \<and>
    position_amounts poolMap fd pos delta =
      (case pd_curPrice (pool_at poolMap (Address_String (pos_Pool pos))) of
         None \<Rightarrow> Ok (0, 0)
       | Some x \<Rightarrow>
           let lo = min a b; hi = max a b; c = clamp lo hi x; l = Number_Big delta
           in Ok (\<lfloor>amount0_spec c hi l\<rfloor>, \<lfloor>amount1_spec lo c l\<rfloor>))"
proof -
  obtain a where a: "GetSqrtRatioAtTick (Number_Big (pos_Lower pos)) = Ok a" "MinSqrtRatio \<le> a"
    using GetSqrtRatioAtTick_Ok [OF assms(1,2)] by blast
  obtain b where b: "GetSqrtRatioAtTick (Number_Big (pos_Upper pos)) = Ok b" "MinSqrtRatio \<le> b"
    using GetSqrtRatioAtTick_Ok [OF assms(3,4)] by blast
  have pos: "0 < a" "0 < b" using a(2) b(2) by (simp_all add: MinSqrtRatio_def)
  have nonneg: "0 \<le> amount0_spec c (max a b) l" "0 \<le> amount1_spec (min a b) c l"
    if "c = clamp (min a b) (max a b) x" "0 \<le> l" for c x l
  proof -
    have "min a b \<le> c" "c \<le> max a b" using clamp_between [of "min a b" "max a b" x] that(1) by auto
    then show "0 \<le> amount0_spec c (max a b) l" "0 \<le> amount1_spec (min a b) c l"
      using pos that(2)
      by (auto simp: amount0_spec_def amount1_spec_def pos_imp_zdiv_nonneg_iff
          intro!: divide_nonneg_nonneg mult_nonneg_nonneg)
  qed
  have "position_amounts poolMap fd pos delta =
      (case pd_curPrice (pool_at poolMap (Address_String (pos_Pool pos))) of
         None \<Rightarrow> Ok (0, 0)
       | Some x \<Rightarrow>
           let lo = min a b; hi = max a b; c = clamp lo hi x; l = Number_Big delta
           in Ok (\<lfloor>amount0_spec c hi l\<rfloor>, \<lfloor>amount1_spec lo c l\<rfloor>))"
  proof (cases "pd_curPrice (pool_at poolMap (Address_String (pos_Pool pos)))")
    case None
    then show ?thesis
      by (simp add: position_amounts_def a(1) b(1) Let_def GetAmountsForLiq_def mulRatToInt_floor)
  next
    case (Some x)
    then show ?thesis
      using pos assms(5) nonneg [OF refl assms(5), of x]
      by (simp add: position_amounts_def a(1) b(1) Let_def GetAmountsForLiq_clamped
          mulRatToInt_floor)
  qed
  with a(1) b(1) show ?thesis by blast
qed

lemma example_ticks:
  "Number_Big (Number (Some (- 60))) = - 60" "MinTick \<le> - 60" "60 \<le> MaxTick" "MinTick \<le> 60"
  "- 60 \<le> MaxTick"
  by (simp_all add: MinTick_def MaxTick_def)

definition example_position :: Position where
  "example_position = \<lparr>pos_CreatedBy = 0, pos_BlockHash = [], pos_TransactionHash = [],
     pos_BlockNumber = Number None, pos_Id = 7, pos_Owner = [], pos_Pool = ''0xab'',
     pos_Lower = Number (Some (- 60)), pos_Upper = Number (Some 60)\<rparr>"

theorem position_amounts_exact_witness:
  "\<exists>a b. GetSqrtRatioAtTick (- 60) = Ok a \<and> GetSqrtRatioAtTick 60 = Ok b \<and>
     position_amounts (\<lambda>k. Some (zero_details\<lparr>pd_curPrice := Some Q96\<rparr>)) 6 example_position
       (Number (Some 1000)) =
     Ok (\<lfloor>amount0_spec (clamp (min a b) (max a b) Q96) (max a b) 1000\<rfloor>,
         \<lfloor>amount1_spec (min a b) (clamp (min a b) (max a b) Q96) 1000\<rfloor>)"
  using position_amounts_exact [of example_position "Number (Some 1000)"
      "\<lambda>k. Some (zero_details\<lparr>pd_curPrice := Some Q96\<rparr>)" 6] example_ticks
  by (simp add: example_position_def pool_at_def Let_def)

section \<open>Columns\<close>

text \<open>The entry of one response: none when the key is unknown or both amounts are zero.\<close>

definition position_row ::
    "(string \<rightharpoonup> PoolDetails) \<Rightarrow> (string \<rightharpoonup> Position) \<Rightarrow> int \<Rightarrow> posResp \<Rightarrow>
      (string \<times> int \<times> int \<times> int) list res" where
  "position_row poolMap positionMap fd r =
     (case positionMap (pr_Key r) of
        None \<Rightarrow> Ok []
      | Some pos \<Rightarrow>
          andThen (position_amounts poolMap fd pos (pr_Delta r)) (\<lambda>(a0, a1).
          Ok (if a0 = 0 \<and> a1 = 0 then [] else [(Address_String (pos_Pool pos), pos_Id pos, a0, a1)])))"

text \<open>The filled part of the four slices holds the given entries.\<close>

definition holds_rows :: "nat \<Rightarrow> columns \<Rightarrow> (string \<times> int \<times> int \<times> int) list \<Rightarrow> bool" where
  "holds_rows n c rows \<longleftrightarrow>
     col_i c = length rows \<and> length (col_pools c) = n \<and> length (col_ids c) = n \<and>
     length (col_amount0s c) = n \<and> length (col_amount1s c) = n \<and>
     take (col_i c) (col_pools c) = map fst rows \<and>
     take (col_i c) (col_ids c) = map (fst \<circ> snd) rows \<and>
     take (col_i c) (col_amount0s c) = map (Itoa \<circ> fst \<circ> snd \<circ> snd) rows \<and>
     take (col_i c) (col_amount1s c) = map (Itoa \<circ> snd \<circ> snd \<circ> snd) rows"

lemma take_set_idx:
  assumes "i < length xs"
  shows "set_idx xs i v = Ok (xs[i := v])" "take (Suc i) (xs[i := v]) = take i xs @ [v]"
  using assms by (simp_all add: set_idx_def take_Suc_conv_app_nth)

lemma snapshot_row_step:
  assumes "holds_rows n c rows" "position_row poolMap positionMap fd r = Ok rs"
    and "length rows + length rs \<le> n"
  shows "\<exists>c'. snapshot_row poolMap positionMap fd r c = Ok c' \<and> holds_rows n c' (rows @ rs)"
proof (cases "positionMap (pr_Key r)")
  case None
  then show ?thesis using assms by (simp add: snapshot_row_def position_row_def)
next
  case (Some pos)
  then obtain a0 a1 where am: "position_amounts poolMap fd pos (pr_Delta r) = Ok (a0, a1)"
    and rs: "rs = (if a0 = 0 \<and> a1 = 0 then []
      else [(Address_String (pos_Pool pos), pos_Id pos, a0, a1)])"
    using assms(2) by (auto simp: position_row_def)
  show ?thesis
  proof (cases "a0 = 0 \<and> a1 = 0")
    case True
    then show ?thesis using assms(1) am rs Some by (auto simp: snapshot_row_def)
  next
    case False
    then have "col_i c < n" using assms(1,3) rs by (auto simp: holds_rows_def)
    with False assms(1) am rs Some show ?thesis
      by (auto simp: snapshot_row_def holds_rows_def take_set_idx)
  qed
qed

lemma snapshot_rows_all:
  assumes "holds_rows n c rows" "mapRes (position_row poolMap positionMap fd) resps = Ok rss"
    and "length rows + length (concat rss) \<le> n"
  shows "\<exists>c'. foldRes (snapshot_row poolMap positionMap fd) resps c = Ok c' \<and>
    holds_rows n c' (rows @ concat rss)"
  using assms
proof (induction resps arbitrary: c rows rss)
  case (Cons r resps)
  then obtain rs rss' where rs: "position_row poolMap positionMap fd r = Ok rs"
    "mapRes (position_row poolMap positionMap fd) resps = Ok rss'" "rss = rs # rss'"
    by auto
  have "length rows + length rs \<le> n" using Cons.prems(3) rs(3) by simp
  from snapshot_row_step [OF Cons.prems(1) rs(1) this] obtain c1 where
    "snapshot_row poolMap positionMap fd r c = Ok c1" "holds_rows n c1 (rows @ rs)" by blast
  with Cons.IH [OF this(2) rs(2)] Cons.prems(3) rs(3) show ?case by auto
qed simp

lemma position_row_length:
  assumes "mapRes (position_row poolMap positionMap fd) resps = Ok rss"
  shows "length (concat rss) \<le> length resps"
  using assms
proof (induction resps arbitrary: rss)
  case (Cons r resps)
  then obtain rs rss' where rs: "position_row poolMap positionMap fd r = Ok rs"
    "mapRes (position_row poolMap positionMap fd) resps = Ok rss'" "rss = rs # rss'"
    by auto
  have "length rs \<le> 1" using rs(1) by (auto simp: position_row_def split: option.splits)
  with Cons.IH [OF rs(2)] rs(3) show ?case by simp
qed simp

lemma snapshot_store_exec:
  assumes "mapRes (position_row poolMap positionMap fd) resps = Ok rss"
    and "length resps \<le> n" "0 < n"
  shows "snapshot_store db_Exec poolMap positionMap fd n resps db =
    mapErr (\<lambda>err. Exitf ''store positions: '' err)
      (db_Exec (store_sql (map fst (concat rss)) (map (fst \<circ> snd) (concat rss))
        (map (Itoa \<circ> fst \<circ> snd \<circ> snd) (concat rss))
        (map (Itoa \<circ> snd \<circ> snd \<circ> snd) (concat rss))) db)"
proof -
  have "holds_rows n (empty_columns n) []" by (simp add: holds_rows_def empty_columns_def)
  moreover have "length (concat rss) \<le> n"
    using position_row_length [OF assms(1)] assms(2) by simp
  ultimately obtain c where
    c: "foldRes (snapshot_row poolMap positionMap fd) resps (empty_columns n) = Ok c"
      "holds_rows n c (concat rss)"
    using snapshot_rows_all [OF _ assms(1), of n "empty_columns n" "[]"] by auto
  have len: "length (col_ids c) \<noteq> 0" using c(2) assms(3) by (simp add: holds_rows_def)
  have "snapshot_store db_Exec poolMap positionMap fd n resps db =
      mapErr (\<lambda>err. Exitf ''store positions: '' err)
        (storePositions db_Exec db (take (col_i c) (col_pools c)) (take (col_i c) (col_ids c))
          (take (col_i c) (col_amount0s c)) (take (col_i c) (col_amount1s c)))"
    using len by (simp add: snapshot_store_def c(1))
  moreover have "take (col_i c) (col_pools c) = map fst (concat rss)"
    "take (col_i c) (col_ids c) = map (fst \<circ> snd) (concat rss)"
    "take (col_i c) (col_amount0s c) = map (Itoa \<circ> fst \<circ> snd \<circ> snd) (concat rss)"
    "take (col_i c) (col_amount1s c) = map (Itoa \<circ> snd \<circ> snd \<circ> snd) (concat rss)"
    using c(2) unfolding holds_rows_def by blast+
  ultimately show ?thesis by (simp only: storePositions_def)
qed

text \<open>C13. What the job stores is one entry per response with a nonzero amount, in order: when there
  are no more responses than active positions, filling the slices never indexes out of range and
  the statement executed holds exactly these entries.\<close>

theorem snapshot_stores_rows:
  assumes "mapRes (position_row poolMap positionMap fd) resps = Ok rss"
    and "length resps \<le> n" "0 < n"
  shows "snapshot_store db_Exec poolMap positionMap fd n resps db =
    mapErr (\<lambda>err. Exitf ''store positions: '' err)
      (db_Exec (store_sql (map fst (concat rss)) (map (fst \<circ> snd) (concat rss))
        (map (Itoa \<circ> fst \<circ> snd \<circ> snd) (concat rss))
        (map (Itoa \<circ> snd \<circ> snd \<circ> snd) (concat rss))) db)"
  using assms by (rule snapshot_store_exec)

text \<open>Without a row to store the job still executes a statement, with four empty arrays.\<close>

theorem snapshot_stores_rows_witness:
  "snapshot_store (\<lambda>sql log. Ok (log @ [sql])) (\<lambda>_. None) (\<lambda>_. None) 6 1
     [\<lparr>pr_Key = [], pr_Delta = Number None\<rparr>] [] =
   Ok [''SELECT snapshot_create_positions_1(ARRAY[], ARRAY[], ARRAY[], ARRAY[])'']"
  using snapshot_stores_rows [of "\<lambda>_. None" "\<lambda>_. None" 6
      "[\<lparr>pr_Key = [], pr_Delta = Number None\<rparr>]" "[[]]" 1 "\<lambda>sql log. Ok (log @ [sql])" "[]"]
  by (simp add: position_row_def store_sql_def)

end
