(* ===== verification/GraphModel.thy ===== *)
theory GraphModel
  imports ConcLiq Events Runtime
begin

text \<open>
  The data of src/cmd/graphql.ethereum and what its resolvers run on: the objects of
  \<open>graph/model\<close>, the constants of \<open>graph/consts.go\<close> and \<open>graph/math.go\<close>, the resolver object of
  \<open>graph/resolver.go\<close>, the token lookup of \<open>lib/erc20\<close>, and the start-up (\<open>pools.go\<close>,
  \<open>main.go\<close>).  gorm and go-ethereum are not part of the repository: they are the fields of the
  records \<open>gorm\<close> and \<open>geth\<close>.  A query is a value of type \<open>stmt\<close> that records what the chained
  calls asked for, so that a property can speak about the statement that is sent.
\<close>

section \<open>Effects\<close>

text \<open>What a resolver can touch: the database, the clock (which only a sleep moves while a resolver
  runs) and the random source, \<open>w_rand n\<close> being its \<open>n\<close>-th draw and \<open>w_used\<close> the number drawn.\<close>

record 's world =
  w_db :: 's
  w_now :: time
  w_rand :: "nat \<Rightarrow> nat"
  w_used :: nat

type_synonym ('s, 'a) io = "'s world \<Rightarrow> 'a res \<times> 's world"

definition pure :: "'a res \<Rightarrow> ('s, 'a) io" where
  "pure r w = (r, w)"

text \<open>Run, then continue with the outcome, whatever it is.\<close>

definition handle :: "('s, 'a) io \<Rightarrow> ('a res \<Rightarrow> ('s, 'b) io) \<Rightarrow> ('s, 'b) io" where
  "handle m h w = (case m w of (r, w') \<Rightarrow> h r w')"

text \<open>Run, then continue when there was no error, as \<open>if err != nil { return ..., err }\<close> does.\<close>

definition andDo :: "('s, 'a) io \<Rightarrow> ('a \<Rightarrow> ('s, 'b) io) \<Rightarrow> ('s, 'b) io" where
  "andDo m f = handle m (\<lambda>r. case r of
     Ok v \<Rightarrow> f v | Err e \<Rightarrow> pure (Err e) | Panic p \<Rightarrow> pure (Panic p) | Exit e \<Rightarrow> pure (Exit e))"

text \<open>\<open>time.Now\<close>, \<open>time.Sleep\<close> and \<open>rand.Int(rand.Reader, max)\<close>.  The random source does not
  fail.\<close>

definition time_Now :: "('s, time) io" where
  "time_Now w = (Ok (w_now w), w)"

definition time_Sleep :: "time \<Rightarrow> ('s, unit) io" where
  "time_Sleep d w = (Ok (), w\<lparr>w_now := w_now w + max 0 d\<rparr>)"

definition rand_Int :: "int \<Rightarrow> ('s, int) io" where
  "rand_Int bound w =
     (if bound \<le> 0 then (Panic ''crypto/rand: argument to Int is <= 0'', w)
      else (Ok (int (w_rand w (w_used w)) mod bound), w\<lparr>w_used := w_used w + 1\<rparr>))"

section \<open>Statements\<close>

datatype sql_arg = ArgValue sql_value | ArgInt int | ArgTime time

datatype sql_from = FromTable string | FromRaw string "sql_arg list"

record stmt =
  st_from :: sql_from
  st_select :: "string option"
  st_where :: "(string \<times> sql_arg list) list"
  st_limit :: "int option"
  st_order :: "string option"

definition gorm_Table :: "string \<Rightarrow> stmt" where
  "gorm_Table t = \<lparr>st_from = FromTable t, st_select = None, st_where = [], st_limit = None,
     st_order = None\<rparr>"

definition gorm_Raw :: "string \<Rightarrow> sql_arg list \<Rightarrow> stmt" where
  "gorm_Raw q args = \<lparr>st_from = FromRaw q args, st_select = None, st_where = [], st_limit = None,
     st_order = None\<rparr>"

definition gorm_Select :: "string \<Rightarrow> stmt \<Rightarrow> stmt" where
  "gorm_Select c s = s\<lparr>st_select := Some c\<rparr>"

definition gorm_Where :: "string \<Rightarrow> sql_arg list \<Rightarrow> stmt \<Rightarrow> stmt" where
  "gorm_Where c args s = s\<lparr>st_where := st_where s @ [(c, args)]\<rparr>"

definition gorm_Limit :: "int \<Rightarrow> stmt \<Rightarrow> stmt" where
  "gorm_Limit n s = s\<lparr>st_limit := Some n\<rparr>"

definition gorm_Order :: "string \<Rightarrow> stmt \<Rightarrow> stmt" where
  "gorm_Order c s = s\<lparr>st_order := Some c\<rparr>"

text \<open>An address reaches the driver through its \<open>Value\<close> method, a Go string as it is.\<close>

definition arg_Address :: "Address \<Rightarrow> sql_arg" where
  "arg_Address a = ArgValue (Address_Value a)"

definition arg_string :: "string \<Rightarrow> sql_arg" where
  "arg_string s = ArgValue (SqlString s)"

lemmas stmt_defs = gorm_Table_def gorm_Raw_def gorm_Select_def gorm_Where_def gorm_Limit_def
  gorm_Order_def

section \<open>Objects of the graph\<close>

record Amount =
  amt_Token :: Address
  amt_Decimals :: int
  amt_Timestamp :: int
  amt_ValueUnscaled :: UnscaledNumber

record PairAmount =
  pair_Timestamp :: int
  pair_Fusdc :: Amount
  pair_Token1 :: Amount

record LiquidityCampaign =
  lc_Pool :: Address
  lc_Token :: Address
  lc_TickLower :: "32 word"
  lc_TickUpper :: "32 word"
  lc_Owner :: Address
  lc_Starting :: time
  lc_Ending :: time

record SeawaterLiquidity =
  sl_ID :: string
  sl_TickLower :: string
  sl_TickUpper :: string
  sl_Price :: string
  sl_Liquidity :: string

text \<open>An optional pointer is an \<open>option\<close>; nil and empty slices print alike in the reply, but for the
  optional sums, where nil is null.\<close>

record SeawaterPositions =
  sp_From :: int
  sp_To :: "int option"
  sp_Pool :: "Address option"
  sp_Wallet :: "Address option"
  sp_Positions :: "Position list"

type_synonym SeawaterPositionsGlobal = SeawaterPositions
type_synonym SeawaterPositionsUser = SeawaterPositions

record SeawaterSwap =
  sw_CreatedBy :: time
  sw_Sender :: Address
  sw_TokenIn :: Address
  sw_TokenInDecimals :: int
  sw_TokenOut :: Address
  sw_TokenOutDecimals :: int
  sw_AmountIn :: UnscaledNumber
  sw_AmountOut :: UnscaledNumber
  sw_TransactionHash :: Hash

record SeawaterSwaps =
  ss_From :: int
  ss_To :: int
  ss_Pool :: "Address option"
  ss_Wallet :: "Address option"
  ss_Swaps :: "SeawaterSwap list"

record SeawaterConfig =
  sc_Addr :: Address
  sc_Pool :: PoolConfig

record PriceResult =
  pr_FinalTick :: Number

record Token =
  tok_Erc20 :: Erc20

record Wallet =
  wal_Address :: Address

record Served =
  served_Timestamp :: int

record GetSwaps =
  gs_Data :: SeawaterSwaps

record GetSwapsForUser =
  gsu_Data :: SeawaterSwaps

record LiquidityOverTime =
  lot_Daily :: "PairAmount list"
  lot_Monthly :: "PairAmount list"

record PriceOverTime =
  pot_Daily :: "string list"
  pot_Monthly :: "string list"

record TvlOverTime =
  tvl_Daily :: "string list"
  tvl_Monthly :: "string list"

record VolumeOverTime =
  vol_Daily :: "PairAmount list"
  vol_Monthly :: "PairAmount list"

record YieldOverTime =
  yot_Daily :: "PairAmount list"
  yot_Monthly :: "PairAmount list"

text \<open>The row type declared inside \<open>VolumeOverTime\<close>.\<close>

record VolumeRow =
  vr_Token1Token :: Address
  vr_Token1Decimals :: int
  vr_Timestamp :: int
  vr_IntervalTimestamp :: time
  vr_FusdcValueUnscaled :: UnscaledNumber
  vr_Token1ValueUnscaled :: UnscaledNumber

text \<open>Zero values of the structs a lookup may leave untouched.\<close>

definition zero_Erc20 :: Erc20 where
  "zero_Erc20 = \<lparr>erc_Address = [], erc_Name = [], erc_Symbol = [],
     erc_TotalSupply = UnscaledNumber None, erc_Decimals = 0\<rparr>"

definition zero_Pool :: Pool where
  "zero_Pool = \<lparr>pool_CreatedBy = zero_time, pool_BlockHash = [], pool_TransactionHash = [],
     pool_BlockNumber = Number None, pool_Token = [], pool_Fee = Number None, pool_Decimals = 0,
     pool_TickSpacing = 0\<rparr>"

definition zero_positions :: SeawaterPositions where
  "zero_positions = \<lparr>sp_From = 0, sp_To = None, sp_Pool = None, sp_Wallet = None,
     sp_Positions = []\<rparr>"

section \<open>Constants\<close>

definition PoolPositionsPageSize :: int where
  "PoolPositionsPageSize = 50"

definition SwapPositionsPageSize :: int where
  "SwapPositionsPageSize = 10"

definition LiquidityGroupsLimit :: int where
  "LiquidityGroupsLimit = 20"

definition FiveThousand :: int where
  "FiveThousand = 500"

definition Ten :: int where
  "Ten = 10"

section \<open>Prices and values\<close>

definition PriceResult_Price :: "PriceResult \<Rightarrow> int \<Rightarrow> int \<Rightarrow> string res" where
  "PriceResult_Price p fusdcDecimals poolDecimals =
     andThen (GetSqrtRatioAtTick (Number_Big (pr_FinalTick p))) (\<lambda>sqrtPrice.
     let price = GetPriceAtSqrtRatio sqrtPrice;
         decimals = ExponentiateDecimals (poolDecimals - fusdcDecimals)
     in Ok (FloatString 5 (price * decimals)))"

definition FloatZero :: BigFloat where
  "FloatZero = BigFloat 0 0"

definition UsdValue :: "Amount \<Rightarrow> string \<Rightarrow> Address \<Rightarrow> string res" where
  "UsdValue obj price fusdcAddr =
     (let value = amt_ValueUnscaled obj in
      andThen (Scale value (amt_Decimals obj)) (\<lambda>dividedAmt.
      if amt_Token obj = fusdcAddr then Ok (SprintfF 8 dividedAmt)
      else
        let x = dividedAmt in
        if price = [] then Ok ''0''
        else
          case FloatSetString price of
            None \<Rightarrow> Err (Errorf (''failed to set string: '' @ [CHR 0x22] @ price @ [CHR 0x22]))
          | Some priceFloat \<Rightarrow>
              if fval priceFloat = fval FloatZero then Ok ''0''
              else Ok (SprintfF 8 (FloatMul (fprec x) dividedAmt priceFloat))))"

section \<open>Tokens on chain\<close>

text \<open>The dynamic types of the values a contract call hands back.\<close>

datatype call_value =
    CallString string
  | CallBytesList "byte list list"
  | CallBigInt int
  | CallOther string

fun call_type :: "call_value \<Rightarrow> string" where
  "call_type (CallString _) = ''string''"
| "call_type (CallBytesList _) = ''[][]uint8''"
| "call_type (CallBigInt _) = ''*big.Int''"
| "call_type (CallOther t) = t"

text \<open>What \<open>GetErc20Details\<close> uses of go-ethereum: the address helpers, packing and unpacking with
  the embedded ERC20 ABI, and a read-only call of a bound contract's method.\<close>

record geth =
  geth_IsHexAddress :: "string \<Rightarrow> bool"
  geth_HexToAddress :: "string \<Rightarrow> ethAddress"
  erc20Abi_Pack :: "string \<Rightarrow> byte list res"
  erc20Abi_Unpack :: "string \<Rightarrow> byte list \<Rightarrow> call_value list res"
  bound_Call :: "ethAddress \<Rightarrow> string \<Rightarrow> (ethAddress \<times> byte list) list \<Rightarrow> call_value list res"

definition multicallAddr :: string where
  "multicallAddr = ''0x1cAE7315c6E1dd217982317F2d1399e76F4BD994''"

definition decodeErc20Details :: "geth \<Rightarrow> call_value \<Rightarrow> (string \<times> string \<times> UnscaledNumber) res" where
  "decodeErc20Details G i =
     (case i of
        CallBytesList b \<Rightarrow>
          andThen (idx b 0) (\<lambda>b0.
          andThen (erc20Abi_Unpack G ''name'' b0) (\<lambda>name'.
          andThen (idx name' 0) (\<lambda>n. case n of
            CallString name \<Rightarrow>
              andThen (idx b 1) (\<lambda>b1.
              andThen (erc20Abi_Unpack G ''symbol'' b1) (\<lambda>symbol'.
              andThen (idx symbol' 0) (\<lambda>s. case s of
                CallString symbol \<Rightarrow>
                  andThen (idx b 2) (\<lambda>b2.
                  andThen (erc20Abi_Unpack G ''totalSupply'' b2) (\<lambda>totalSupply''.
                  andThen (idx totalSupply'' 0) (\<lambda>t. case t of
                    CallBigInt totalSupply' \<Rightarrow>
                      Ok (name, symbol, UnscaledNumberFromBig totalSupply')
                  | _ \<Rightarrow> Err (Errorf ''bad totalSupply: *big.Int''))))
              | _ \<Rightarrow> Err (Errorf ''bad symbol: []interface {}''))))
          | _ \<Rightarrow> Err (Errorf ''bad name: []interface {}''))))
      | _ \<Rightarrow> Err (Errorf (''bad multicall data: '' @ call_type i)))"

text \<open>The error of a malformed address prints the error of the surrounding scope, which is nil.\<close>

definition GetErc20Details :: "geth \<Rightarrow> Address \<Rightarrow> (string \<times> string \<times> UnscaledNumber) res" where
  "GetErc20Details G addr' =
     (if \<not> geth_IsHexAddress G (Address_String addr')
      then Err (Errorf ''bad erc20 address: <nil>'')
      else
        let addr = geth_HexToAddress G (Address_String addr') in
        andThen (erc20Abi_Pack G ''name'') (\<lambda>nameCd.
        andThen (erc20Abi_Pack G ''totalSupply'') (\<lambda>totalSupplyCd.
        andThen (erc20Abi_Pack G ''symbol'') (\<lambda>symbolCd.
        andThen (bound_Call G (geth_HexToAddress G multicallAddr) ''aggregate''
            [(addr, nameCd), (addr, symbolCd), (addr, totalSupplyCd)]) (\<lambda>i.
        andThen (idx i 1) (decodeErc20Details G))))))"

section \<open>The resolver object\<close>

text \<open>What the resolvers use of gorm, one operation per destination type.  \<open>Scan\<close> into a slice may
  leave it nil; \<open>Scan\<close> into a pointer may leave it nil; \<open>First\<close> reports a missing record as an
  error; \<open>Exec\<close> changes the database.\<close>

record 's gorm =
  Scan_Pools :: "stmt \<Rightarrow> 's \<Rightarrow> Pool list option res"
  Scan_Positions :: "stmt \<Rightarrow> 's \<Rightarrow> Position list option res"
  Scan_Swaps :: "stmt \<Rightarrow> 's \<Rightarrow> SeawaterSwap list option res"
  Scan_AccountCreated :: "stmt \<Rightarrow> 's \<Rightarrow> AccountCreated list option res"
  Scan_Prices :: "stmt \<Rightarrow> 's \<Rightarrow> PriceResult list option res"
  Scan_Volumes :: "stmt \<Rightarrow> 's \<Rightarrow> VolumeRow list option res"
  Scan_LiquidityGroups :: "stmt \<Rightarrow> 's \<Rightarrow> LiquidityGroup list option res"
  Scan_DecimalsGroups :: "stmt \<Rightarrow> 's \<Rightarrow> DecimalsGroup list option res"
  Scan_Pool :: "stmt \<Rightarrow> 's \<Rightarrow> Pool res"
  Scan_Position :: "stmt \<Rightarrow> 's \<Rightarrow> Position res"
  Scan_Page :: "stmt \<Rightarrow> 's \<Rightarrow> SeawaterPositions res"
  ScanPtr_Pool :: "stmt \<Rightarrow> 's \<Rightarrow> Pool option res"
  ScanPtr_Position :: "stmt \<Rightarrow> 's \<Rightarrow> Position option res"
  First_Erc20 :: "stmt \<Rightarrow> 's \<Rightarrow> Erc20 res"
  First_Price :: "stmt \<Rightarrow> 's \<Rightarrow> PriceResult res"
  First_Pool :: "stmt \<Rightarrow> 's \<Rightarrow> Pool res"
  First_Snapshot :: "stmt \<Rightarrow> 's \<Rightarrow> PositionSnapshot res"
  First_DecimalsGroup :: "stmt \<Rightarrow> 's \<Rightarrow> DecimalsGroup res"
  Exec :: "string \<Rightarrow> sql_arg list \<Rightarrow> 's \<Rightarrow> unit res \<times> 's"

record 's Resolver =
  r_DB :: "'s gorm"
  r_F :: F
  r_Geth :: geth
  r_C :: C
  r_PoolsConfig :: "Address \<rightharpoonup> PoolConfig"

text \<open>Reading the database, and a statement that changes it.\<close>

definition ask :: "(stmt \<Rightarrow> 's \<Rightarrow> 'a res) \<Rightarrow> stmt \<Rightarrow> ('s, 'a) io" where
  "ask q s w = (q s (w_db w), w)"

definition run_Exec :: "'s Resolver \<Rightarrow> string \<Rightarrow> sql_arg list \<Rightarrow> ('s, unit) io" where
  "run_Exec r q args w = (case Exec (r_DB r) q args (w_db w) of (x, s) \<Rightarrow> (x, w\<lparr>w_db := s\<rparr>))"

text \<open>The elements of a slice, nil having none.\<close>

definition elems :: "'a list option \<Rightarrow> 'a list" where
  "elems xs = (case xs of None \<Rightarrow> [] | Some ys \<Rightarrow> ys)"

section \<open>Start-up\<close>

text \<open>\<open>init\<close> of \<open>pools.go\<close>, over what the TOML decoder makes of the embedded file, in the order the
  map is visited.\<close>

definition pools_init :: "(string \<times> PoolConfig) list res \<Rightarrow> (Address \<rightharpoonup> PoolConfig) res" where
  "pools_init decoded =
     (case decoded of
        Err err \<Rightarrow> Panic ''toml''
      | Ok c \<Rightarrow> Ok (foldl (\<lambda>m (k, v). m(AddressFromString k \<mapsto> v)) Map.empty c)
      | Panic m \<Rightarrow> Panic m
      | Exit e \<Rightarrow> Exit e)"

definition corsMiddleware_ServeHTTP :: "(headers \<Rightarrow> 'req \<Rightarrow> 'reply) \<Rightarrow> headers \<Rightarrow> 'req \<Rightarrow> 'reply" where
  "corsMiddleware_ServeHTTP srv w r =
     (let w = w(''Access-Control-Allow-Origin'' \<mapsto> ''*'');
          w = w(''Access-Control-Allow-Headers'' \<mapsto> ''*'')
      in srv w r)"

text \<open>\<open>main\<close>: the resolver object that a lambda function starts to serve; the HTTP server only
  returns with an error, which ends the process.\<close>

definition graphql_main ::
    "getenv \<Rightarrow> nat \<Rightarrow> (string \<Rightarrow> 's gorm res) \<Rightarrow> (string \<Rightarrow> geth res) \<Rightarrow> bucket_reply \<Rightarrow>
      (Address \<rightharpoonup> PoolConfig) \<Rightarrow> (string \<Rightarrow> error) \<Rightarrow> 's Resolver res" where
  "graphql_main getenv seed gorm_Open Dial bucket poolsConfig ListenAndServe =
     andThen (config_Get getenv) (\<lambda>config.
     andThen (PickTimescaleUrl seed config) (\<lambda>url.
     andThen (mapErr (\<lambda>err. Exitf ''database open: '' err) (gorm_Open url)) (\<lambda>db.
     andThen (mapErr (\<lambda>err. Exitf ''geth open: '' err) (Dial (GethUrl config))) (\<lambda>geth.
     andThen (features_get getenv bucket) (\<lambda>f.
     let r = \<lparr>r_DB = db, r_F = f, r_Geth = geth, r_C = config, r_PoolsConfig = poolsConfig\<rparr>;
         typ = getenv ''SPN_LISTEN_BACKEND'' in
     if typ = ''lambda'' then Ok r
     else if typ = ''http'' then
       Exitf ''err listening, SPN_LISTEN_ADDR not set?: ''
         (ListenAndServe (getenv ''SPN_LISTEN_ADDR''))
     else Exitf0 (''unexpected listen type: '' @ [CHR 0x22] @ typ @ [CHR 0x22] @
       '', use either (lambda|http) for SPN_LISTEN_BACKEND''))))))"

section \<open>Lemmas on effects\<close>

lemma handle_apply: "handle m h w = h (fst (m w)) (snd (m w))"
  by (simp add: handle_def split: prod.split)

lemma andDo_Ok: "m w = (Ok v, w') \<Longrightarrow> andDo m f w = f v w'"
  by (simp add: andDo_def handle_def)

lemma andDo_Err: "m w = (Err e, w') \<Longrightarrow> andDo m f w = (Err e, w')"
  by (simp add: andDo_def handle_def pure_def)

lemma andDo_eq_Ok:
  "andDo m f w = (Ok v, w') \<longleftrightarrow> (\<exists>u w1. m w = (Ok u, w1) \<and> f u w1 = (Ok v, w'))"
  by (cases "m w"; cases "fst (m w)") (auto simp: andDo_def handle_def pure_def)

lemma pure_eq [simp]: "pure r w = (r', w') \<longleftrightarrow> r = r' \<and> w' = w"
  by (auto simp: pure_def)

lemma ask_eq [simp]: "ask q s w = (r, w') \<longleftrightarrow> q s (w_db w) = r \<and> w' = w"
  by (auto simp: ask_def)

lemma andDo_ask:
  "andDo (ask q s) f w =
     (case q s (w_db w) of
        Ok v \<Rightarrow> f v w | Err e \<Rightarrow> (Err e, w) | Panic p \<Rightarrow> (Panic p, w) | Exit e \<Rightarrow> (Exit e, w))"
  by (simp add: andDo_def handle_def ask_def pure_def split: res.split)

lemma handle_ask: "handle (ask q s) h w = h (q s (w_db w)) w"
  by (simp add: handle_def ask_def)

lemma andDo_time_Now [simp]: "andDo time_Now f w = f (w_now w) w"
  by (simp add: andDo_def handle_def time_Now_def)

lemma elems_simps [simp]: "elems None = []" "elems (Some xs) = xs"
  by (simp_all add: elems_def)

end
