(* ===== verification/GraphMocks.thy ===== *)
theory GraphMocks
  imports GraphModel
begin

text \<open>
  The demonstration data of src/cmd/graphql.ethereum/graph/mocked.go, served when the feature
  \<open>graphql mock demo data\<close> is on.  The package variables \<open>Tokens\<close>, \<open>Pools\<close> and \<open>Positions\<close> are
  association lists (each map has one key, so the order of a \<open>range\<close> over it is fixed); random
  draws come from the world.
\<close>

section \<open>Package variables\<close>

definition MaxMockedVolume :: int where
  "MaxMockedVolume = 10000000000000000000000000000"

definition MaxMockedPrice :: int where
  "MaxMockedPrice = 10000000000"

definition mock_MinTick :: int where
  "mock_MinTick = -887272"

definition mock_MaxTick :: int where
  "mock_MaxTick = - mock_MinTick"

definition Five :: int where
  "Five = 5"

definition mock_mustUnscaled :: "string \<Rightarrow> UnscaledNumber res" where
  "mock_mustUnscaled s =
     (case UnscaledNumberFromBase10 s of Err err \<Rightarrow> Panic ''bad string'' | x \<Rightarrow> x)"

definition ox65 :: string where
  "ox65 = ''0x65dfe41220c438bf069bbce9eb66b087fe65db36''"

text \<open>The initialiser panics when the total supply does not parse; \<open>Tokens_initialised\<close> below shows
  that it does.\<close>

definition Tokens :: "(string \<times> Token) list" where
  "Tokens = [(ox65, \<lparr>tok_Erc20 = \<lparr>
     erc_Address = AddressFromString ox65,
     erc_Name = ''NEW_TOKEN_2'',
     erc_Symbol = ''NEW_TOKEN_2'',
     erc_TotalSupply =
       (case mock_mustUnscaled ''10000000001000040000'' of Ok u \<Rightarrow> u | _ \<Rightarrow> UnscaledNumber None),
     erc_Decimals = 18\<rparr>\<rparr>)]"

definition mock_Pools :: "(string \<times> Pool) list" where
  "mock_Pools = [(ox65, zero_Pool\<lparr>
     pool_TransactionHash := [],
     pool_BlockNumber := Number None,
     pool_Token := AddressFromString ox65,
     pool_Fee := NumberFromBig 0\<rparr>)]"

definition mock_Positions :: "(string \<times> Position list) list" where
  "mock_Positions = [(ox65, [\<lparr>
     pos_CreatedBy = zero_time,
     pos_BlockHash = [],
     pos_TransactionHash = [],
     pos_BlockNumber = Number None,
     pos_Id = 0,
     pos_Owner = AddressFromString ''0xdca670597bcc35e11200fe07d9191a33a73850b9'',
     pos_Pool = AddressFromString ox65,
     pos_Lower = EmptyNumber,
     pos_Upper = EmptyNumber\<rparr>])]"

text \<open>Reading a missing key of a map gives the zero value.\<close>

definition lookup_or :: "'v \<Rightarrow> ('k \<times> 'v) list \<Rightarrow> 'k \<Rightarrow> 'v" where
  "lookup_or z m k = (case map_of m k of None \<Rightarrow> z | Some v \<Rightarrow> v)"

definition zero_Token :: Token where
  "zero_Token = \<lparr>tok_Erc20 = zero_Erc20\<rparr>"

section \<open>Lookups\<close>

definition MockSeawaterPools :: "Pool list" where
  "MockSeawaterPools = map snd mock_Pools"

definition MockGetPool :: "string \<Rightarrow> Pool option" where
  "MockGetPool address = (let x = lookup_or zero_Pool mock_Pools address in Some x)"

definition MockGetPoolPositions :: "Address \<Rightarrow> SeawaterPositions" where
  "MockGetPoolPositions address =
     (let a = address in
      \<lparr>sp_From = 0, sp_To = None, sp_Pool = Some a, sp_Wallet = None,
       sp_Positions = lookup_or [] mock_Positions (Address_String address)\<rparr>)"

definition MockGetPosition :: "int \<Rightarrow> Position option" where
  "MockGetPosition i = find (\<lambda>p. pos_Id p = i) (concat (map snd mock_Positions))"

definition MockToken :: "string \<Rightarrow> Token res" where
  "MockToken address = Ok (lookup_or zero_Token Tokens address)"

section \<open>Random histories\<close>

record volume_acc =
  va_avgFusdc :: int
  va_avgToken1 :: int
  va_maxFusdc :: int
  va_maxToken1 :: int
  va_history :: "PairAmount list"

definition hour :: time where
  "hour = 3600 * 10 ^ 9"

definition mock_Amount :: "Address \<Rightarrow> int \<Rightarrow> time \<Rightarrow> int \<Rightarrow> Amount" where
  "mock_Amount token decimals t x =
     \<lparr>amt_Token = token, amt_Decimals = decimals, amt_Timestamp = Unix t,
      amt_ValueUnscaled = UnscaledNumberFromBig x\<rparr>"

text \<open>The loop of \<open>MockVolumeOverTime\<close>, \<open>n\<close> turns from index \<open>i\<close> on.  The running sum of token 1 is
  overwritten by its maximum plus the new amount at every turn.\<close>

fun mock_volume_loop ::
    "Address \<Rightarrow> Address \<Rightarrow> time \<Rightarrow> nat \<Rightarrow> nat \<Rightarrow> volume_acc \<Rightarrow> ('s, volume_acc) io" where
  "mock_volume_loop fusdc token t i 0 a = pure (Ok a)"
| "mock_volume_loop fusdc token t i (Suc n) a =
     andDo (rand_Int MaxMockedVolume) (\<lambda>fusdcAmt.
     andDo (rand_Int MaxMockedVolume) (\<lambda>token1Amt.
     let days = int i * 24 * hour;
         backThen = t + (- (24 * hour * 365)) + days
     in mock_volume_loop fusdc token t (i + 1) n
       \<lparr>va_avgFusdc = va_avgFusdc a + fusdcAmt,
        va_avgToken1 = va_maxToken1 a + token1Amt,
        va_maxFusdc = (if va_maxFusdc a < fusdcAmt then fusdcAmt else va_maxFusdc a),
        va_maxToken1 = (if va_maxToken1 a < token1Amt then token1Amt else va_maxToken1 a),
        va_history = va_history a @
          [\<lparr>pair_Timestamp = 0,
            pair_Fusdc = mock_Amount fusdc 6 backThen fusdcAmt,
            pair_Token1 = mock_Amount token 18 backThen token1Amt\<rparr>]\<rparr>))"

text \<open>History, average and maximum; the average of token 1 is filled with the one of fUSDC.\<close>

definition MockVolumeOverTime ::
    "nat \<Rightarrow> Address \<Rightarrow> Address \<Rightarrow> ('s, PairAmount list \<times> PairAmount \<times> PairAmount) io" where
  "MockVolumeOverTime period fusdc token =
     andDo time_Now (\<lambda>t.
     andDo (mock_volume_loop fusdc token t 0 period
         \<lparr>va_avgFusdc = 0, va_avgToken1 = 0, va_maxFusdc = 0, va_maxToken1 = 0, va_history = []\<rparr>)
       (\<lambda>a.
     let p = int period in
     andDo (pure (Quo (va_avgFusdc a) p)) (\<lambda>avgFusdc.
     andDo (pure (Quo (va_avgToken1 a) p)) (\<lambda>avgToken1.
     pure (Ok (va_history a,
       \<lparr>pair_Timestamp = Unix t,
        pair_Fusdc = mock_Amount fusdc 6 t avgFusdc,
        pair_Token1 = mock_Amount token 18 t avgFusdc\<rparr>,
       \<lparr>pair_Timestamp = Unix t,
        pair_Fusdc = mock_Amount fusdc 6 t (va_maxFusdc a),
        pair_Token1 = mock_Amount token 18 t (va_maxToken1 a)\<rparr>))))))"

text \<open>\<open>z.Add(x, y)\<close> and \<open>z.Sub(x, y)\<close> for a receiver of precision \<open>p\<close>, 0 standing for one that
  takes the larger precision of its operands.\<close>

definition FloatAdd :: "nat \<Rightarrow> BigFloat \<Rightarrow> BigFloat \<Rightarrow> BigFloat" where
  "FloatAdd p x y =
     (let q = (if p = 0 then max (fprec x) (fprec y) else p)
      in BigFloat q (round_prec q (fval x + fval y)))"

definition FloatSub :: "nat \<Rightarrow> BigFloat \<Rightarrow> BigFloat \<Rightarrow> BigFloat" where
  "FloatSub p x y = FloatAdd p x (BigFloat (fprec y) (- fval y))"

record price_acc =
  pa_avg :: BigFloat
  pa_max :: BigFloat
  pa_history :: "string list"

text \<open>\<open>expo\<close> is ten times four.\<close>

fun mock_price_loop :: "int \<Rightarrow> nat \<Rightarrow> price_acc \<Rightarrow> ('s, price_acc) io" where
  "mock_price_loop expo 0 a = pure (Ok a)"
| "mock_price_loop expo (Suc n) a =
     andDo (rand_Int MaxMockedPrice) (\<lambda>priceI.
     let price0 = FloatSetInt priceI;
         price = FloatQuo (fprec price0) price0 (FloatSetInt expo)
     in mock_price_loop expo n
       \<lparr>pa_avg = FloatAdd (fprec (pa_avg a)) (pa_avg a) price,
        pa_max = (if fval (pa_max a) < fval price
          then BigFloat (if fprec (pa_max a) = 0 then fprec price else fprec (pa_max a)) (fval price)
          else pa_max a),
        pa_history = pa_history a @ [SprintfF 4 price]\<rparr>)"

definition MockPriceOverTime ::
    "nat \<Rightarrow> Address \<Rightarrow> Address \<Rightarrow> ('s, string list \<times> string \<times> string) io" where
  "MockPriceOverTime period fusdc token =
     (let expo = 10 * 4 in
      andDo (mock_price_loop expo period
          \<lparr>pa_avg = FloatZero, pa_max = FloatZero, pa_history = []\<rparr>) (\<lambda>a.
      let avg = FloatSub (fprec (pa_avg a)) (pa_avg a) (FloatSetInt (int period)) in
      pure (Ok (pa_history a, SprintfF 8 avg, SprintfF 8 (pa_max a)))))"

section \<open>Swaps\<close>

definition randomBoolean :: "('s, bool) io" where
  "randomBoolean = andDo (rand_Int 256) (\<lambda>b. pure (Ok (b > 127)))"

text \<open>\<open>slices.SortFunc\<close>: insertion by a three-way comparison, equal elements in their given order
  (the library keeps a slice that is already in order as it is).\<close>

fun insert_by :: "('a \<Rightarrow> 'a \<Rightarrow> int) \<Rightarrow> 'a \<Rightarrow> 'a list \<Rightarrow> 'a list" where
  "insert_by cmp x [] = [x]"
| "insert_by cmp x (y # ys) = (if cmp y x < 0 then y # insert_by cmp x ys else x # y # ys)"

definition SortFunc :: "('a \<Rightarrow> 'a \<Rightarrow> int) \<Rightarrow> 'a list \<Rightarrow> 'a list" where
  "SortFunc cmp xs = foldr (insert_by cmp) xs []"

definition time_Compare :: "time \<Rightarrow> time \<Rightarrow> int" where
  "time_Compare s t = (if s < t then -1 else if t < s then 1 else 0)"

text \<open>One turn of the loop of \<open>MockSwaps\<close>.\<close>

definition mock_swap :: "Address \<Rightarrow> time \<Rightarrow> ('s, SeawaterSwap) io" where
  "mock_swap fusdc now =
     (let secsSinceLastMonth = 2678400;
          tokenA = AddressFromString ox65;
          tokenADecimals = erc_Decimals (tok_Erc20 (lookup_or zero_Token Tokens (Address_String tokenA)))
      in
      andDo (rand_Int secsSinceLastMonth) (\<lambda>ts0.
      let ts = Unix now - ts0; t = time_Unix (Int64 ts) in
      andDo randomBoolean (\<lambda>fusdcIsSender.
      let (tokenIn, amountInDecimals, tokenOut, amountOutDecimals) =
            (if fusdcIsSender then (fusdc, 6, tokenA, tokenADecimals)
             else (tokenA, tokenADecimals, fusdc, 6))
      in
      andDo (rand_Int MaxMockedVolume) (\<lambda>amountIn.
      andDo (rand_Int MaxMockedVolume) (\<lambda>amountOut.
      pure (Ok \<lparr>
        sw_CreatedBy = t,
        sw_Sender = AddressFromString ''0xdca670597bcc35e11200fe07d9191a33a73850b9'',
        sw_TokenIn = tokenIn,
        sw_TokenInDecimals = amountInDecimals,
        sw_TokenOut = tokenOut,
        sw_TokenOutDecimals = amountOutDecimals,
        sw_AmountIn = UnscaledNumberFromBig amountIn,
        sw_AmountOut = UnscaledNumberFromBig amountOut,
        sw_TransactionHash = []\<rparr>))))))"

fun mock_swaps_loop :: "Address \<Rightarrow> time \<Rightarrow> nat \<Rightarrow> ('s, SeawaterSwap list) io" where
  "mock_swaps_loop fusdc now 0 = pure (Ok [])"
| "mock_swaps_loop fusdc now (Suc n) =
     andDo (mock_swap fusdc now) (\<lambda>s.
     andDo (mock_swaps_loop fusdc now n) (\<lambda>ss. pure (Ok (s # ss))))"

text \<open>The comparison ignores its second argument.\<close>

definition MockSwaps :: "Address \<Rightarrow> nat \<Rightarrow> Address \<Rightarrow> ('s, SeawaterSwaps) io" where
  "MockSwaps fusdc amount pool =
     andDo time_Now (\<lambda>now.
     andDo (mock_swaps_loop fusdc now amount) (\<lambda>swaps0.
     let swaps = SortFunc (\<lambda>x y. time_Compare (sw_CreatedBy x) (sw_CreatedBy x)) swaps0;
         p = pool
     in pure (Ok \<lparr>ss_From = 0, ss_To = int amount, ss_Pool = Some p, ss_Wallet = None,
          ss_Swaps = swaps\<rparr>)))"

section \<open>Delay, amounts, liquidity, campaigns\<close>

definition MockDelay :: "F \<Rightarrow> ('s, unit) io" where
  "MockDelay f w =
     (Ok (), snd (On f FeatureGraphqlMockGraphDataDelay
       (\<lambda>w. (None, snd (andDo (rand_Int Five) (\<lambda>d. time_Sleep (d * 10 ^ 9)) w))) w))"

text \<open>\<open>r.F.On(features.FeatureGraphqlMockGraphDataDelay, func() error { MockDelay(r.F); return nil })\<close>,
  which most resolvers run before they answer.\<close>

definition on_delay :: "F \<Rightarrow> ('s, unit) io" where
  "on_delay f w =
     (Ok (), snd (On f FeatureGraphqlMockGraphDataDelay (\<lambda>w. (None, snd (MockDelay f w))) w))"

definition MockAmount :: "('s, Amount) io" where
  "MockAmount =
     andDo (pure (UnscaledNumberFromHex ''17592186044416'')) (\<lambda>ts.
     andDo time_Now (\<lambda>now.
     pure (Ok \<lparr>amt_Token = AddressFromString ox65,
       amt_Decimals = erc_Decimals (tok_Erc20 (lookup_or zero_Token Tokens ox65)),
       amt_Timestamp = Unix now, amt_ValueUnscaled = ts\<rparr>)))"

definition tickSpread :: int where
  "tickSpread = 5000"

text \<open>The loop of \<open>MockLiquidity\<close> from tick \<open>i\<close> on.\<close>

function mock_liquidity_loop :: "int \<Rightarrow> ('s, SeawaterLiquidity list) io" where
  "mock_liquidity_loop i =
     (if \<not> i < mock_MaxTick then pure (Ok [])
      else
        let tickLower = Itoa i; tickUpper = Itoa (i + tickSpread) in
        andDo (rand_Int MaxMockedPrice) (\<lambda>price.
        andDo (rand_Int MaxMockedVolume) (\<lambda>volume.
        andDo (mock_liquidity_loop (i + tickSpread)) (\<lambda>rest.
        pure (Ok (\<lparr>sl_ID = ''tick:'' @ tickLower @ '':'' @ tickUpper, sl_TickLower = tickLower,
          sl_TickUpper = tickUpper, sl_Price = Itoa price, sl_Liquidity = Itoa volume\<rparr> # rest))))))"
  by auto
termination by (relation "measure (\<lambda>i. nat (mock_MaxTick - i))") (auto simp: tickSpread_def)

declare mock_liquidity_loop.simps [simp del]

definition MockLiquidity :: "Address \<Rightarrow> Address \<Rightarrow> ('s, SeawaterLiquidity list) io" where
  "MockLiquidity fusdc token = mock_liquidity_loop mock_MinTick"

definition MockCampaigns :: "('s, LiquidityCampaign list) io" where
  "MockCampaigns =
     andDo time_Now (\<lambda>starting.
     andDo time_Now (\<lambda>ending.
     pure (Ok [\<lparr>lc_Pool = AddressFromString ox65,
       lc_Token = erc_Address (tok_Erc20 (lookup_or zero_Token Tokens ox65)),
       lc_TickLower = -10, lc_TickUpper = 100,
       lc_Owner = AddressFromString ''0xfeb6034fc7df27df18a3a6bad5fb94c0d3dcb6d5'',
       lc_Starting = starting, lc_Ending = ending + 100 * hour\<rparr>])))"

section \<open>Lemmas\<close>

lemma Tokens_initialised:
  "mock_mustUnscaled ''10000000001000040000'' = Ok (UnscaledNumber (Some 10000000001000040000))"
proof -
  have "SetString 10 ''10000000001000040000'' = Some 10000000001000040000"
    by (simp add: SetString_def scan_nat_def digit_val_def)
  then show ?thesis
    by (simp add: mock_mustUnscaled_def UnscaledNumberFromBase10_def UnscaledNumberFromBig_def)
qed

end
