(* ===== verification/QueryResolvers.thy ===== *)
theory QueryResolvers
  imports GraphMocks
begin

text \<open>
  The resolvers of amounts, liquidity campaigns and the root query in
  src/cmd/graphql.ethereum/graph/schema.resolvers.go, one definition per method, named
  \<open><receiver>_<method>\<close>.  A nil object is \<open>None\<close>; an optional argument is an \<open>option\<close>.
\<close>

abbreviation mocking :: "'s Resolver \<Rightarrow> bool" where
  "mocking r \<equiv> Is (r_F r) FeatureGraphqlMockGraph"

text \<open>The default and the cap of a requested page size:
  \<open>if first == nil || *first > k { x := k; first = &x }\<close>.\<close>

definition page_size :: "int \<Rightarrow> int option \<Rightarrow> int" where
  "page_size k first = (case first of None \<Rightarrow> k | Some n \<Rightarrow> if n > k then k else n)"

definition after_or_zero :: "int option \<Rightarrow> int" where
  "after_or_zero after = (case after of None \<Rightarrow> 0 | Some n \<Rightarrow> n)"

text \<open>\<open>%#v\<close> of a string.\<close>

definition quoted :: "string \<Rightarrow> string" where
  "quoted s = [CHR 0x22] @ s @ [CHR 0x22]"

section \<open>amountResolver\<close>

definition amountResolver_Token :: "'s Resolver \<Rightarrow> Amount option \<Rightarrow> ('s, Token) io" where
  "amountResolver_Token r obj' =
     (case obj' of
        None \<Rightarrow> pure (Err (Errorf ''empty amount''))
      | Some obj \<Rightarrow>
          if mocking r then
            andDo (MockDelay (r_F r)) (\<lambda>_. pure (MockToken (Address_String (amt_Token obj))))
          else
            handle (ask (First_Erc20 (r_DB r))
                (gorm_Where ''address = ?'' [arg_Address (amt_Token obj)]
                (gorm_Table ''erc20_cache_1''))) (\<lambda>found. case found of
              Ok token \<Rightarrow> pure (Ok \<lparr>tok_Erc20 = token\<rparr>)
            | Err ErrRecordNotFound \<Rightarrow>
                (case GetErc20Details (r_Geth r) (amt_Token obj) of
                   Err err \<Rightarrow>
                     pure (Err (Wrapf (''erc20 token '' @ quoted (amt_Token obj) @ '': '') err))
                 | Ok (name, symbol, totalSupply) \<Rightarrow>
                     handle (run_Exec r ''SELECT erc20_insert_1(?, ?, ?, ?, ?)''
                         [arg_Address (amt_Token obj), arg_string name, arg_string symbol,
                          ArgValue (UnscaledNumber_Value totalSupply), ArgInt (amt_Decimals obj)])
                       (\<lambda>done'. case done' of
                          Err err \<Rightarrow> pure (Err (Wrapf
                            (''insert erc20 '' @ Address_String (amt_Token obj) @ '': '') err))
                        | Ok _ \<Rightarrow> pure (Ok \<lparr>tok_Erc20 = \<lparr>
                            erc_Address = amt_Token obj,
                            erc_Name = name,
                            erc_Symbol = symbol,
                            erc_TotalSupply = totalSupply,
                            erc_Decimals = amt_Decimals obj\<rparr>\<rparr>)
                        | Panic m \<Rightarrow> pure (Panic m)
                        | Exit e \<Rightarrow> pure (Exit e))
                 | Panic m \<Rightarrow> pure (Panic m)
                 | Exit e \<Rightarrow> pure (Exit e))
            | Err err \<Rightarrow> pure (Err err)
            | Panic m \<Rightarrow> pure (Panic m)
            | Exit e \<Rightarrow> pure (Exit e)))"

definition amountResolver_ValueUnscaled :: "Amount option \<Rightarrow> string res" where
  "amountResolver_ValueUnscaled obj' =
     (case obj' of
        None \<Rightarrow> Err (Errorf ''amount empty'')
      | Some obj \<Rightarrow> Ok (UnscaledNumber_String (amt_ValueUnscaled obj)))"

definition amountResolver_ValueScaled :: "Amount option \<Rightarrow> string res" where
  "amountResolver_ValueScaled obj' =
     (case obj' of
        None \<Rightarrow> Err (Errorf ''empty amount'')
      | Some obj \<Rightarrow> ScaleStr (amt_ValueUnscaled obj) (amt_Decimals obj))"

text \<open>\<open>new(big.Float).SetFloat64(0.04)\<close>.\<close>

definition float_004 :: BigFloat where
  "float_004 = BigFloat 53 (round_prec 53 (1 / 25))"

definition amountResolver_ValueUsd :: "'s Resolver \<Rightarrow> Amount option \<Rightarrow> ('s, string) io" where
  "amountResolver_ValueUsd r obj' =
     (case obj' of
        None \<Rightarrow> pure (Err (Errorf ''empty amount''))
      | Some obj \<Rightarrow>
          if mocking r then
            andDo (MockDelay (r_F r)) (\<lambda>_.
            andDo (pure (Scale (amt_ValueUnscaled obj) (amt_Decimals obj))) (\<lambda>dividedAmt.
            if amt_Token obj = FusdcAddr (r_C r) then pure (Ok (SprintfF 8 dividedAmt))
            else
              let x = FloatQuo (fprec dividedAmt) dividedAmt float_004
              in pure (Ok (SprintfF 8 x))))
          else
            (case un_Int (amt_ValueUnscaled obj) of
               None \<Rightarrow> pure (Panic ''nil pointer dereference'')
             | Some v \<Rightarrow>
                 if v = 0 then pure (Ok ''0'')
                 else if amt_Token obj = FusdcAddr (r_C r) then
                   pure (ScaleStr (amt_ValueUnscaled obj) 5)
                 else
                   andDo (ask (First_Price (r_DB r))
                       (gorm_Where ''pool = ?'' [arg_Address (amt_Token obj)]
                       (gorm_Select ''final_tick''
                       (gorm_Table ''seawater_latest_ticks_2'')))) (\<lambda>finalTick.
                   andDo (pure (GetSqrtRatioAtTick (Number_Big (pr_FinalTick finalTick)))) (\<lambda>sqrtPrice.
                   let price = GetPriceAtSqrtRatio sqrtPrice;
                       decimals = ExponentiateDecimals (FusdcDecimals (r_C r))
                   in
                   andDo (pure (RatQuo (of_int v) decimals)) (\<lambda>value.
                   pure (Ok (FloatString 5 (price * value))))))))"

section \<open>liquidityCampaignResolver\<close>

text \<open>None of the fields of a campaign is implemented.\<close>

definition liquidityCampaignResolver_CampaignID :: "LiquidityCampaign option \<Rightarrow> string res" where
  "liquidityCampaignResolver_CampaignID obj = Panic ''not implemented: CampaignID - campaignId''"

definition liquidityCampaignResolver_Owner ::
    "LiquidityCampaign option \<Rightarrow> SeawaterPositionsUser res" where
  "liquidityCampaignResolver_Owner obj = Panic ''not implemented: Owner - owner''"

definition liquidityCampaignResolver_PerSecond :: "LiquidityCampaign option \<Rightarrow> Amount res" where
  "liquidityCampaignResolver_PerSecond obj = Panic ''not implemented: PerSecond - perSecond''"

definition liquidityCampaignResolver_MaximumAmount :: "LiquidityCampaign option \<Rightarrow> Amount res" where
  "liquidityCampaignResolver_MaximumAmount obj =
     Panic ''not implemented: MaximumAmount - maximumAmount''"

definition liquidityCampaignResolver_FromTimestamp :: "LiquidityCampaign option \<Rightarrow> int res" where
  "liquidityCampaignResolver_FromTimestamp obj =
     Panic ''not implemented: FromTimestamp - fromTimestamp''"

definition liquidityCampaignResolver_EndTimestamp :: "LiquidityCampaign option \<Rightarrow> int res" where
  "liquidityCampaignResolver_EndTimestamp obj =
     Panic ''not implemented: EndTimestamp - endTimestamp''"

definition liquidityCampaignResolver_Pool :: "LiquidityCampaign option \<Rightarrow> Pool res" where
  "liquidityCampaignResolver_Pool obj = Panic ''not implemented: Pool - pool''"

section \<open>queryResolver\<close>

definition queryResolver_Served :: "('s, Served) io" where
  "queryResolver_Served = andDo time_Now (\<lambda>now. pure (Ok \<lparr>served_Timestamp = Unix now\<rparr>))"

definition queryResolver_Fusdc :: "'s Resolver \<Rightarrow> Token res" where
  "queryResolver_Fusdc r =
     Ok \<lparr>tok_Erc20 = \<lparr>
       erc_Address = FusdcAddr (r_C r),
       erc_Name = FusdcName (r_C r),
       erc_Symbol = FusdcSymbol (r_C r),
       erc_TotalSupply = FusdcTotalSupply (r_C r),
       erc_Decimals = FusdcDecimals (r_C r)\<rparr>\<rparr>"

definition queryResolver_Pools :: "'s Resolver \<Rightarrow> ('s, Pool list) io" where
  "queryResolver_Pools r =
     (if mocking r then andDo (MockDelay (r_F r)) (\<lambda>_. pure (Ok MockSeawaterPools))
      else andDo (ask (Scan_Pools (r_DB r)) (gorm_Table ''events_seawater_newpool''))
        (\<lambda>pools. pure (Ok (elems pools))))"

definition queryResolver_ActiveLiquidityCampaigns ::
    "'s Resolver \<Rightarrow> ('s, LiquidityCampaign list) io" where
  "queryResolver_ActiveLiquidityCampaigns r =
     (if mocking r then andDo (on_delay (r_F r)) (\<lambda>_. MockCampaigns) else pure (Ok []))"

definition queryResolver_UpcomingLiquidityCampaigns ::
    "'s Resolver \<Rightarrow> ('s, LiquidityCampaign list) io" where
  "queryResolver_UpcomingLiquidityCampaigns r =
     (if mocking r then andDo (on_delay (r_F r)) (\<lambda>_. MockCampaigns) else pure (Ok []))"

definition queryResolver_GetPool :: "'s Resolver \<Rightarrow> string \<Rightarrow> ('s, Pool option) io" where
  "queryResolver_GetPool r token =
     (let tokenAddress = AddressFromString token in
      if mocking r then
        andDo (on_delay (r_F r)) (\<lambda>_. pure (Ok (MockGetPool (Address_String tokenAddress))))
      else ask (ScanPtr_Pool (r_DB r))
        (gorm_Where ''token = ?'' [arg_Address tokenAddress]
        (gorm_Table ''events_seawater_newpool'')))"

text \<open>The cursor a page hands out: the creation time of its last row, in seconds.\<close>

definition last_created :: "Position list \<Rightarrow> int option res" where
  "last_created pos =
     (let l = length pos in
      if l > 0 then andThen (idx pos (l - 1)) (\<lambda>p. Ok (Some (Unix (pos_CreatedBy p)))) else Ok None)"

definition GetPoolPositions_stmt :: "Address \<Rightarrow> int \<Rightarrow> int option \<Rightarrow> stmt" where
  "GetPoolPositions_stmt p first after =
     (let stmt =
        gorm_Order ''created_by desc''
        (gorm_Limit first
        (gorm_Where ''pool = ?'' [arg_Address p]
        (gorm_Table ''seawater_active_positions_2'')))
      in case after of None \<Rightarrow> stmt | Some a \<Rightarrow> gorm_Where ''pos_id > ?'' [ArgInt a] stmt)"

definition queryResolver_GetPoolPositions ::
    "'s Resolver \<Rightarrow> string \<Rightarrow> int option \<Rightarrow> int option \<Rightarrow> ('s, SeawaterPositionsGlobal) io" where
  "queryResolver_GetPoolPositions r pool first' after =
     (let p = AddressFromString pool; first = page_size PoolPositionsPageSize first' in
      if mocking r then andDo (on_delay (r_F r)) (\<lambda>_. pure (Ok (MockGetPoolPositions p)))
      else
        andDo (ask (Scan_Positions (r_DB r)) (GetPoolPositions_stmt p first after)) (\<lambda>pos'.
        case pos' of
          None \<Rightarrow> pure (Ok zero_positions)
        | Some pos \<Rightarrow>
            andDo (pure (last_created pos)) (\<lambda>to.
            pure (Ok \<lparr>sp_From = first, sp_To = to, sp_Pool = Some p, sp_Wallet = None,
              sp_Positions = pos\<rparr>))))"

definition queryResolver_GetPosition :: "'s Resolver \<Rightarrow> int \<Rightarrow> ('s, Position option) io" where
  "queryResolver_GetPosition r i =
     (if mocking r then andDo (on_delay (r_F r)) (\<lambda>_. pure (Ok (MockGetPosition i)))
      else ask (ScanPtr_Position (r_DB r))
        (gorm_Where ''pos_id = ?'' [ArgInt i] (gorm_Table ''seawater_positions_1'')))"

definition GetPositions_stmt :: "Address \<Rightarrow> int \<Rightarrow> int option \<Rightarrow> stmt" where
  "GetPositions_stmt w first after =
     (let stmt =
        gorm_Order ''created_by desc''
        (gorm_Limit first
        (gorm_Where ''owner = ?'' [arg_Address w]
        (gorm_Table ''seawater_active_positions_2'')))
      in case after of None \<Rightarrow> stmt | Some a \<Rightarrow> gorm_Where ''pos_id < ?'' [ArgInt a] stmt)"

text \<open>The index of the last element is \<open>-1\<close> for an empty slice, which panics like the natural
  number 0 does here.\<close>

definition queryResolver_GetPositions ::
    "'s Resolver \<Rightarrow> string \<Rightarrow> int option \<Rightarrow> int option \<Rightarrow> ('s, SeawaterPositionsUser) io" where
  "queryResolver_GetPositions r wallet first' after =
     (let w = AddressFromString wallet; first = page_size PoolPositionsPageSize first' in
      if mocking r then andDo (on_delay (r_F r)) (\<lambda>_. pure (Ok (MockGetPoolPositions ox65)))
      else
        andDo (ask (Scan_Positions (r_DB r)) (GetPositions_stmt w first after)) (\<lambda>pos'.
        case pos' of
          None \<Rightarrow> pure (Ok zero_positions)
        | Some pos \<Rightarrow>
            andDo (pure (idx pos (length pos - 1))) (\<lambda>lst.
            andDo (pure (idx pos 0)) (\<lambda>fst'.
            pure (Ok \<lparr>sp_From = pos_Id fst', sp_To = Some (pos_Id lst), sp_Pool = None,
              sp_Wallet = Some w, sp_Positions = pos\<rparr>)))))"

definition queryResolver_GetWallet :: "'s Resolver \<Rightarrow> string \<Rightarrow> ('s, Wallet option) io" where
  "queryResolver_GetWallet r address =
     (if mocking r then
        andDo (on_delay (r_F r)) (\<lambda>_. pure (Ok (Some \<lparr>wal_Address = AddressFromString address\<rparr>)))
      else pure (Ok (Some \<lparr>wal_Address = AddressFromString address\<rparr>)))"

definition last_swap_created :: "SeawaterSwap list \<Rightarrow> int res" where
  "last_swap_created d =
     (let l = length d in
      if l > 0 then andThen (idx d (l - 1)) (\<lambda>s. Ok (Unix (sw_CreatedBy s))) else Ok 0)"

definition queryResolver_GetSwaps ::
    "'s Resolver \<Rightarrow> string \<Rightarrow> int option \<Rightarrow> int option \<Rightarrow> ('s, GetSwaps) io" where
  "queryResolver_GetSwaps r pool first' after' =
     (let poolAddress = AddressFromString pool;
          first = page_size SwapPositionsPageSize first';
          after = after_or_zero after' in
      if mocking r then
        andDo (MockDelay (r_F r)) (\<lambda>_.
        andDo (MockSwaps (FusdcAddr (r_C r)) 150 ox65) (\<lambda>d. pure (Ok \<lparr>gs_Data = d\<rparr>)))
      else
        andDo (ask (Scan_Swaps (r_DB r))
            (gorm_Raw ''SELECT * FROM seawater_swaps_pool_2(?, ?, ?, ?, ?)''
              [arg_Address (FusdcAddr (r_C r)), ArgInt (FusdcDecimals (r_C r)),
               arg_Address poolAddress, ArgTime (time_Unix after), ArgInt first])) (\<lambda>d'.
        let d = elems d' in
        andDo (pure (last_swap_created d)) (\<lambda>to.
        pure (Ok \<lparr>gs_Data = \<lparr>ss_From = first, ss_To = to, ss_Pool = Some poolAddress,
          ss_Wallet = None, ss_Swaps = d\<rparr>\<rparr>))))"

definition queryResolver_GetSwapsForUser ::
    "'s Resolver \<Rightarrow> string \<Rightarrow> int option \<Rightarrow> int option \<Rightarrow> ('s, GetSwapsForUser) io" where
  "queryResolver_GetSwapsForUser r wallet first' after' =
     (let walletAddress = AddressFromString wallet;
          first = page_size PoolPositionsPageSize first';
          after = after_or_zero after' in
      if mocking r then
        andDo (MockDelay (r_F r)) (\<lambda>_.
        andDo (MockSwaps (FusdcAddr (r_C r)) 150 walletAddress) (\<lambda>d. pure (Ok \<lparr>gsu_Data = d\<rparr>)))
      else
        andDo (ask (Scan_Swaps (r_DB r))
            (gorm_Raw ''SELECT * FROM seawater_swaps_user_2(?, ?, ?, ?, ?)''
              [arg_Address (FusdcAddr (r_C r)), ArgInt (FusdcDecimals (r_C r)),
               arg_Address walletAddress, ArgTime (time_Unix after), ArgInt first])) (\<lambda>d'.
        let d = elems d' in
        andDo (pure (last_swap_created d)) (\<lambda>to.
        pure (Ok \<lparr>gsu_Data = \<lparr>ss_From = first, ss_To = to, ss_Pool = None,
          ss_Wallet = Some walletAddress, ss_Swaps = d\<rparr>\<rparr>))))"

definition queryResolver_GetSmartAccount :: "'s Resolver \<Rightarrow> string \<Rightarrow> ('s, Wallet list) io" where
  "queryResolver_GetSmartAccount r wallet =
     (if wallet = [] then pure (Err (Errorf ''empty wallet''))
      else
        andDo (ask (Scan_AccountCreated (r_DB r))
            (gorm_Where ''account_admin = ?'' [arg_string wallet]
            (gorm_Table ''events_thirdweb_accountcreated''))) (\<lambda>accountCreations.
        pure (Ok (map (\<lambda>a. \<lparr>wal_Address = ac_Account a\<rparr>) (elems accountCreations)))))"

end
