(* ===== verification/PoolResolvers.thy ===== *)
theory PoolResolvers
  imports QueryResolvers
begin

text \<open>
  The resolvers of pools, of their configuration and of their liquidity in
  src/cmd/graphql.ethereum/graph/schema.resolvers.go.
\<close>

text \<open>\<open>Int64\<close> of the embedded \<open>*big.Int\<close>, which may be nil.\<close>

definition Number_Int64 :: "Number \<Rightarrow> int res" where
  "Number_Int64 n =
     (case num_Int n of None \<Rightarrow> Panic ''nil pointer dereference'' | Some i \<Rightarrow> Ok (Int64 i))"

section \<open>seawaterConfigResolver and seawaterLiquidityResolver\<close>

definition seawaterConfigResolver_ID :: "SeawaterConfig option \<Rightarrow> string res" where
  "seawaterConfigResolver_ID obj' =
     (case obj' of
        None \<Rightarrow> Err (Errorf ''empty config'')
      | Some obj \<Rightarrow> Ok (''config:'' @ Address_String (sc_Addr obj)))"

definition seawaterConfigResolver_Pool ::
    "'s Resolver \<Rightarrow> SeawaterConfig option \<Rightarrow> ('s, Pool) io" where
  "seawaterConfigResolver_Pool r obj' =
     (case obj' of
        None \<Rightarrow> pure (Err (Errorf ''empty config''))
      | Some obj \<Rightarrow> ask (Scan_Pool (r_DB r))
          (gorm_Where ''token = ?'' [arg_Address (sc_Addr obj)]
          (gorm_Table ''events_seawater_newpool'')))"

definition Atoi_res :: "string \<Rightarrow> int res" where
  "Atoi_res s =
     (case Atoi s of None \<Rightarrow> Err (External ''strconv.Atoi: invalid syntax'') | Some i \<Rightarrow> Ok i)"

definition seawaterLiquidityResolver_TickLower :: "SeawaterLiquidity option \<Rightarrow> int res" where
  "seawaterLiquidityResolver_TickLower obj' =
     (case obj' of
        None \<Rightarrow> Err (Errorf ''no pool obj'')
      | Some obj \<Rightarrow> Atoi_res (sl_TickLower obj))"

definition seawaterLiquidityResolver_TickUpper :: "SeawaterLiquidity option \<Rightarrow> int res" where
  "seawaterLiquidityResolver_TickUpper obj' =
     (case obj' of
        None \<Rightarrow> Err (Errorf ''no pool obj'')
      | Some obj \<Rightarrow> Atoi_res (sl_TickUpper obj))"

section \<open>seawaterPoolResolver\<close>

definition seawaterPoolResolver_Served :: "Pool option \<Rightarrow> ('s, Served) io" where
  "seawaterPoolResolver_Served obj' =
     andDo time_Now (\<lambda>now. pure (Ok \<lparr>served_Timestamp = Unix now\<rparr>))"

definition seawaterPoolResolver_ID :: "Pool option \<Rightarrow> string res" where
  "seawaterPoolResolver_ID obj' =
     (case obj' of
        None \<Rightarrow> Err (Errorf ''empty pool'')
      | Some obj \<Rightarrow> Ok (Address_String (pool_Token obj)))"

definition seawaterPoolResolver_Fee :: "Pool option \<Rightarrow> int res" where
  "seawaterPoolResolver_Fee obj' =
     (case obj' of
        None \<Rightarrow> Err (Errorf ''no pool obj'')
      | Some obj \<Rightarrow> Number_Int64 (pool_Fee obj))"

definition seawaterPoolResolver_Address :: "Pool option \<Rightarrow> string res" where
  "seawaterPoolResolver_Address obj' =
     (case obj' of
        None \<Rightarrow> Err (Errorf ''no pool obj'')
      | Some obj \<Rightarrow> Ok (Address_String (pool_Token obj)))"

definition seawaterPoolResolver_TickSpacing :: "Pool option \<Rightarrow> string res" where
  "seawaterPoolResolver_TickSpacing obj' =
     (case obj' of
        None \<Rightarrow> Err (Errorf ''no pool obj'')
      | Some obj \<Rightarrow> Ok (Itoa (uint (pool_TickSpacing obj))))"

definition seawaterPoolResolver_Token :: "'s Resolver \<Rightarrow> Pool option \<Rightarrow> ('s, Token) io" where
  "seawaterPoolResolver_Token r obj' =
     (case obj' of
        None \<Rightarrow> pure (Err (Errorf ''empty amount''))
      | Some obj \<Rightarrow>
          if mocking r then
            andDo (MockDelay (r_F r)) (\<lambda>_. pure (MockToken (Address_String (pool_Token obj))))
          else
            handle (ask (First_Erc20 (r_DB r))
                (gorm_Where ''address = ?'' [arg_Address (pool_Token obj)]
                (gorm_Table ''erc20_cache_1''))) (\<lambda>found. case found of
              Ok token \<Rightarrow> pure (Ok \<lparr>tok_Erc20 = token\<rparr>)
            | Err ErrRecordNotFound \<Rightarrow>
                (case GetErc20Details (r_Geth r) (pool_Token obj) of
                   Err err \<Rightarrow>
                     pure (Err (Wrapf (''erc20 token '' @ quoted (pool_Token obj) @ '': '') err))
                 | Ok (name, symbol, totalSupply) \<Rightarrow>
                     handle (run_Exec r ''SELECT erc20_insert_1(?, ?, ?, ?, ?)''
                         [arg_Address (pool_Token obj), arg_string name, arg_string symbol,
                          ArgValue (UnscaledNumber_Value totalSupply), ArgInt (pool_Decimals obj)])
                       (\<lambda>done'. case done' of
                          Err err \<Rightarrow> pure (Err (Wrapf
                            (''insert erc20 '' @ Address_String (pool_Token obj) @ '': '') err))
                        | Ok _ \<Rightarrow> pure (Ok \<lparr>tok_Erc20 = \<lparr>
                            erc_Address = pool_Token obj,
                            erc_Name = name,
                            erc_Symbol = symbol,
                            erc_TotalSupply = totalSupply,
                            erc_Decimals = pool_Decimals obj\<rparr>\<rparr>)
                        | Panic m \<Rightarrow> pure (Panic m)
                        | Exit e \<Rightarrow> pure (Exit e))
                 | Panic m \<Rightarrow> pure (Panic m)
                 | Exit e \<Rightarrow> pure (Exit e))
            | Err err \<Rightarrow> pure (Err err)
            | Panic m \<Rightarrow> pure (Panic m)
            | Exit e \<Rightarrow> pure (Exit e)))"

definition seawaterPoolResolver_Price :: "'s Resolver \<Rightarrow> Pool option \<Rightarrow> ('s, string) io" where
  "seawaterPoolResolver_Price r obj' =
     (case obj' of
        None \<Rightarrow> pure (Err (Errorf ''empty pool''))
      | Some obj \<Rightarrow>
          if mocking r then
            andDo (on_delay (r_F r)) (\<lambda>_.
            andDo (MockPriceOverTime 31 (FusdcAddr (r_C r)) (pool_Token obj)) (\<lambda>(daily, _, _).
            pure (idx daily 0)))
          else
            handle (ask (First_Price (r_DB r))
                (gorm_Where ''pool = ?'' [arg_Address (pool_Token obj)]
                (gorm_Table ''seawater_latest_ticks_2''))) (\<lambda>result. case result of
              Err ErrRecordNotFound \<Rightarrow> pure (Ok ''0'')
            | Ok result \<Rightarrow>
                pure (PriceResult_Price result (FusdcDecimals (r_C r)) (pool_Decimals obj))
            | Err err \<Rightarrow> pure (Err err)
            | Panic m \<Rightarrow> pure (Panic m)
            | Exit e \<Rightarrow> pure (Exit e)))"

definition maxDays :: nat where
  "maxDays = 31"

definition maxMonths :: nat where
  "maxMonths = 12"

definition seawaterPoolResolver_PriceOverTime ::
    "'s Resolver \<Rightarrow> Pool option \<Rightarrow> ('s, PriceOverTime) io" where
  "seawaterPoolResolver_PriceOverTime r obj' =
     (case obj' of
        None \<Rightarrow> pure (Err (Errorf ''pool empty''))
      | Some obj \<Rightarrow>
          if mocking r then
            andDo (on_delay (r_F r)) (\<lambda>_.
            andDo (MockPriceOverTime maxDays (FusdcAddr (r_C r)) (pool_Token obj)) (\<lambda>(daily, _, _).
            andDo (MockPriceOverTime maxMonths (FusdcAddr (r_C r)) (pool_Token obj))
              (\<lambda>(monthly, _, _).
            pure (Ok \<lparr>pot_Daily = daily, pot_Monthly = monthly\<rparr>))))
          else
            andDo (ask (Scan_Prices (r_DB r))
                (gorm_Limit (int maxDays)
                (gorm_Where ''pool = ?'' [arg_Address (pool_Token obj)]
                (gorm_Table ''seawater_final_ticks_daily_2'')))) (\<lambda>daily.
            andDo (ask (Scan_Prices (r_DB r))
                (gorm_Limit (int maxMonths)
                (gorm_Where ''pool = ?'' [arg_Address (pool_Token obj)]
                (gorm_Table ''seawater_final_ticks_monthly_3'')))) (\<lambda>monthly.
            andDo (pure (mapRes (\<lambda>d. PriceResult_Price d (FusdcDecimals (r_C r)) (pool_Decimals obj))
                (elems daily))) (\<lambda>dailyPrices.
            andDo (pure (mapRes (\<lambda>m. PriceResult_Price m (FusdcDecimals (r_C r)) (pool_Decimals obj))
                (elems monthly))) (\<lambda>monthlyPrices.
            pure (Ok \<lparr>pot_Daily = dailyPrices, pot_Monthly = monthlyPrices\<rparr>))))))"

text \<open>One entry of the volume, from a row of either query.\<close>

definition volume_pair :: "C \<Rightarrow> VolumeRow \<Rightarrow> PairAmount" where
  "volume_pair c d =
     \<lparr>pair_Timestamp = vr_Timestamp d,
      pair_Fusdc = \<lparr>
        amt_Token = FusdcAddr c,
        amt_Decimals = FusdcDecimals c,
        amt_Timestamp = Unix (vr_IntervalTimestamp d),
        amt_ValueUnscaled = vr_FusdcValueUnscaled d\<rparr>,
      pair_Token1 = \<lparr>
        amt_Token = vr_Token1Token d,
        amt_Decimals = vr_Token1Decimals d,
        amt_Timestamp = Unix (vr_IntervalTimestamp d),
        amt_ValueUnscaled = vr_Token1ValueUnscaled d\<rparr>\<rparr>"

definition seawaterPoolResolver_VolumeOverTime ::
    "'s Resolver \<Rightarrow> Pool option \<Rightarrow> ('s, VolumeOverTime) io" where
  "seawaterPoolResolver_VolumeOverTime r obj' =
     (case obj' of
        None \<Rightarrow> pure (Err (Errorf ''pool empty''))
      | Some obj \<Rightarrow>
          if mocking r then
            andDo (on_delay (r_F r)) (\<lambda>_.
            andDo (MockVolumeOverTime 31 (FusdcAddr (r_C r)) (pool_Token obj)) (\<lambda>(daily, _, _).
            andDo (MockVolumeOverTime 31 (FusdcAddr (r_C r)) (pool_Token obj)) (\<lambda>(monthly, _, _).
            pure (Ok \<lparr>vol_Daily = daily, vol_Monthly = monthly\<rparr>))))
          else
            andDo (ask (Scan_Volumes (r_DB r))
                (gorm_Limit (int maxDays)
                (gorm_Where ''token1_token = ?'' [arg_Address (pool_Token obj)]
                (gorm_Table ''seawater_pool_swap_volume_daily_1'')))) (\<lambda>dailyResults.
            andDo (ask (Scan_Volumes (r_DB r))
                (gorm_Limit (int maxMonths)
                (gorm_Where ''token1_token = ?'' [arg_Address (pool_Token obj)]
                (gorm_Table ''seawater_pool_swap_volume_monthly_1'')))) (\<lambda>monthlyResults.
            pure (Ok \<lparr>vol_Daily = map (volume_pair (r_C r)) (elems dailyResults),
              vol_Monthly = map (volume_pair (r_C r)) (elems monthlyResults)\<rparr>))))"

definition seawaterPoolResolver_LiquidityOverTime ::
    "'s Resolver \<Rightarrow> Pool option \<Rightarrow> ('s, LiquidityOverTime) io" where
  "seawaterPoolResolver_LiquidityOverTime r obj' =
     (case obj' of
        None \<Rightarrow> pure (Err (Errorf ''pool empty''))
      | Some obj \<Rightarrow>
          if mocking r then
            andDo (on_delay (r_F r)) (\<lambda>_.
            andDo (MockVolumeOverTime 31 (FusdcAddr (r_C r)) (pool_Token obj)) (\<lambda>(daily, _, _).
            andDo (MockVolumeOverTime 31 (FusdcAddr (r_C r)) (pool_Token obj)) (\<lambda>(monthly, _, _).
            pure (Ok \<lparr>lot_Daily = daily, lot_Monthly = monthly\<rparr>))))
          else pure (Ok \<lparr>lot_Daily = [], lot_Monthly = []\<rparr>))"

text \<open>The loop that values a history of volumes at a history of prices, from index \<open>i\<close> on.\<close>

fun tvl_loop :: "Address \<Rightarrow> string list \<Rightarrow> nat \<Rightarrow> PairAmount list \<Rightarrow> string list res" where
  "tvl_loop fusdcAddr prices i [] = Ok []"
| "tvl_loop fusdcAddr prices i (v # vs) =
     (if length prices = i then Ok []
      else
        andThen (idx prices i) (\<lambda>price.
        andThen (UsdValue (pair_Token1 v) price fusdcAddr) (\<lambda>tvl.
        andThen (tvl_loop fusdcAddr prices (i + 1) vs) (\<lambda>tvls. Ok (tvl # tvls)))))"

definition seawaterPoolResolver_TvlOverTime ::
    "'s Resolver \<Rightarrow> Pool option \<Rightarrow> ('s, TvlOverTime) io" where
  "seawaterPoolResolver_TvlOverTime r obj' =
     (case obj' of
        None \<Rightarrow> pure (Err (Errorf ''pool empty''))
      | Some obj \<Rightarrow>
          if mocking r then
            andDo (on_delay (r_F r)) (\<lambda>_.
            andDo (MockPriceOverTime 31 (FusdcAddr (r_C r)) (pool_Token obj)) (\<lambda>(daily, _, _).
            andDo (MockPriceOverTime 12 (FusdcAddr (r_C r)) (pool_Token obj)) (\<lambda>(monthly, _, _).
            pure (Ok \<lparr>tvl_Daily = daily, tvl_Monthly = monthly\<rparr>))))
          else
            andDo (seawaterPoolResolver_VolumeOverTime r (Some obj)) (\<lambda>volumeOverTime.
            andDo (seawaterPoolResolver_PriceOverTime r (Some obj)) (\<lambda>priceOverTime.
            andDo (pure (tvl_loop (FusdcAddr (r_C r)) (pot_Daily priceOverTime) 0
                (vol_Daily volumeOverTime))) (\<lambda>daily.
            andDo (pure (tvl_loop (FusdcAddr (r_C r)) (pot_Monthly priceOverTime) 0
                (vol_Monthly volumeOverTime))) (\<lambda>monthly.
            pure (Ok \<lparr>tvl_Daily = daily, tvl_Monthly = monthly\<rparr>))))))"

text \<open>An error of the second history is assigned and never looked at.\<close>

definition seawaterPoolResolver_YieldOverTime ::
    "'s Resolver \<Rightarrow> Pool option \<Rightarrow> ('s, YieldOverTime) io" where
  "seawaterPoolResolver_YieldOverTime r obj' =
     (case obj' of
        None \<Rightarrow> pure (Err (Errorf ''pool empty''))
      | Some obj \<Rightarrow>
          if mocking r then
            andDo (MockDelay (r_F r)) (\<lambda>_.
            andDo (MockVolumeOverTime 31 (FusdcAddr (r_C r)) (pool_Token obj)) (\<lambda>(daily, _, _).
            handle (MockVolumeOverTime 12 (FusdcAddr (r_C r)) (pool_Token obj)) (\<lambda>res. case res of
              Ok (monthly, _, _) \<Rightarrow> pure (Ok \<lparr>yot_Daily = daily, yot_Monthly = monthly\<rparr>)
            | Err err \<Rightarrow> pure (Ok \<lparr>yot_Daily = daily, yot_Monthly = []\<rparr>)
            | Panic m \<Rightarrow> pure (Panic m)
            | Exit e \<Rightarrow> pure (Exit e))))
          else pure (Ok \<lparr>yot_Daily = [], yot_Monthly = []\<rparr>))"

definition seawaterPoolResolver_EarnedFeesAprfusdc ::
    "'s Resolver \<Rightarrow> Pool option \<Rightarrow> string list res" where
  "seawaterPoolResolver_EarnedFeesAprfusdc r obj' =
     (if mocking r then Ok [''0'', ''0.15''] else Ok [])"

definition seawaterPoolResolver_EarnedFeesAPRToken1 ::
    "'s Resolver \<Rightarrow> Pool option \<Rightarrow> string list res" where
  "seawaterPoolResolver_EarnedFeesAPRToken1 r obj' =
     (if mocking r then Ok [''0'', ''0.15''] else Ok [])"

definition seawaterPoolResolver_LiquidityCampaigns :: "Pool option \<Rightarrow> LiquidityCampaign list res" where
  "seawaterPoolResolver_LiquidityCampaigns obj' =
     Panic ''not implemented: LiquidityCampaigns - liquidityCampaigns''"

definition nil_deref :: "'a option \<Rightarrow> 'a res" where
  "nil_deref p = (case p of None \<Rightarrow> Panic ''nil pointer dereference'' | Some v \<Rightarrow> Ok v)"

definition pool_Positions_stmt :: "Address \<Rightarrow> int \<Rightarrow> int option \<Rightarrow> stmt" where
  "pool_Positions_stmt token first after =
     (let stmt =
        gorm_Order ''created_by desc''
        (gorm_Limit first
        (gorm_Where ''pool = ?'' [arg_Address token]
        (gorm_Table ''seawater_active_positions_2'')))
      in case after of None \<Rightarrow> stmt | Some a \<Rightarrow> gorm_Where ''created_by < ?'' [ArgInt a] stmt)"

text \<open>The object is not checked for nil.\<close>

definition seawaterPoolResolver_Positions ::
    "'s Resolver \<Rightarrow> Pool option \<Rightarrow> int option \<Rightarrow> int option \<Rightarrow> ('s, SeawaterPositionsGlobal) io" where
  "seawaterPoolResolver_Positions r obj' first' after =
     (let first = page_size PoolPositionsPageSize first' in
      if mocking r then
        andDo (on_delay (r_F r)) (\<lambda>_.
        andDo (pure (nil_deref obj')) (\<lambda>obj. pure (Ok (MockGetPoolPositions (pool_Token obj)))))
      else
        andDo (pure (nil_deref obj')) (\<lambda>obj.
        andDo (ask (Scan_Positions (r_DB r)) (pool_Positions_stmt (pool_Token obj) first after))
          (\<lambda>pos'. case pos' of
             None \<Rightarrow> pure (Ok zero_positions)
           | Some pos \<Rightarrow>
               let p = pool_Token obj in
               andDo (pure (last_created pos)) (\<lambda>to.
               andDo (pure (idx pos 0)) (\<lambda>fst'.
               pure (Ok \<lparr>sp_From = pos_Id fst', sp_To = to, sp_Pool = Some p, sp_Wallet = None,
                 sp_Positions = pos\<rparr>))))))"

text \<open>The wallet is passed as the caller spelled it, and the page size and cursor are not used.\<close>

definition seawaterPoolResolver_PositionsForUser ::
    "'s Resolver \<Rightarrow> Pool option \<Rightarrow> string \<Rightarrow> int option \<Rightarrow> int option \<Rightarrow> ('s, SeawaterPositionsUser) io" where
  "seawaterPoolResolver_PositionsForUser r obj' wallet first after =
     (let w = AddressFromString wallet in
      case obj' of
        None \<Rightarrow> pure (Err (Errorf ''empty pool''))
      | Some obj \<Rightarrow>
          if mocking r then
            andDo (MockDelay (r_F r)) (\<lambda>_. pure (Ok (MockGetPoolPositions w)))
          else ask (Scan_Page (r_DB r))
            (gorm_Where ''pool = ? and owner = ?'' [arg_Address (pool_Token obj), arg_string wallet]
            (gorm_Table ''seawater_active_positions_2'')))"

text \<open>One entry of the liquidity, from a group of positions.\<close>

definition liquidity_row :: "rat \<Rightarrow> LiquidityGroup \<Rightarrow> SeawaterLiquidity res" where
  "liquidity_row fusdcDecimals g =
     (let tick = Number_Big (lg_Tick g) + FiveThousand in
      andThen (GetSqrtRatioAtTick tick) (\<lambda>ratio.
      let price = GetPriceAtSqrtRatio ratio in
      andThen (UnscaledNumber_Big (lg_CumulativeAmount1 g)) (\<lambda>amount1.
      andThen (RatQuo (of_int amount1) fusdcDecimals) (\<lambda>usdAmt1.
      andThen (UnscaledNumber_Big (lg_CumulativeAmount0 g)) (\<lambda>amount0.
      let d = Exp Ten (uint (lg_Decimals g)) in
      andThen (RatQuo (of_int amount0) (of_int d)) (\<lambda>scaled0.
      let usdAmt0 = scaled0 * price + usdAmt1 in
      Ok \<lparr>sl_ID = [],
        sl_TickLower = Number_String (lg_Tick g),
        sl_TickUpper = Number_String (lg_NextTick g),
        sl_Price = FloatString 5 price,
        sl_Liquidity = FloatString 5 usdAmt0\<rparr>))))))"

definition seawaterPoolResolver_Liquidity ::
    "'s Resolver \<Rightarrow> Pool option \<Rightarrow> ('s, SeawaterLiquidity list) io" where
  "seawaterPoolResolver_Liquidity r obj' =
     (case obj' of
        None \<Rightarrow> pure (Err (Errorf ''empty pool''))
      | Some obj \<Rightarrow>
          if mocking r then
            andDo (MockDelay (r_F r)) (\<lambda>_. MockLiquidity (FusdcAddr (r_C r)) (pool_Token obj))
          else
            andDo (ask (Scan_LiquidityGroups (r_DB r))
                (gorm_Limit LiquidityGroupsLimit
                (gorm_Where ''pool = ?'' [arg_Address (pool_Token obj)]
                (gorm_Table ''seawater_liquidity_groups_2'')))) (\<lambda>groups.
            let fusdcDecimals = of_int (Exp Ten (FusdcDecimals (r_C r)))
            in pure (mapRes (liquidity_row fusdcDecimals) (elems groups))))"

definition seawaterPoolResolver_Swaps ::
    "'s Resolver \<Rightarrow> Pool option \<Rightarrow> int option \<Rightarrow> int option \<Rightarrow> ('s, SeawaterSwaps) io" where
  "seawaterPoolResolver_Swaps r obj' first' after' =
     (case obj' of
        None \<Rightarrow> pure (Err (Errorf ''empty pool''))
      | Some obj \<Rightarrow>
          let first = page_size SwapPositionsPageSize first'; after = after_or_zero after' in
          if mocking r then
            andDo (MockDelay (r_F r)) (\<lambda>_. MockSwaps (FusdcAddr (r_C r)) 150 (pool_Token obj))
          else
            andDo (ask (Scan_Swaps (r_DB r))
                (gorm_Raw ''SELECT * FROM seawater_swaps_pool_2(?, ?, ?, ?, ?)''
                  [arg_Address (FusdcAddr (r_C r)), ArgInt (FusdcDecimals (r_C r)),
                   arg_Address (pool_Token obj), ArgTime (time_Unix after), ArgInt first])) (\<lambda>d.
            pure (Ok \<lparr>ss_From = 0, ss_To = 0, ss_Pool = Some (pool_Token obj), ss_Wallet = None,
              ss_Swaps = elems d\<rparr>)))"

text \<open>A summed group of amounts as a pair, stamped with a time.\<close>

definition group_pair :: "C \<Rightarrow> int \<Rightarrow> Address \<Rightarrow> DecimalsGroup \<Rightarrow> PairAmount" where
  "group_pair c ts token1 summed =
     \<lparr>pair_Timestamp = ts,
      pair_Fusdc = \<lparr>
        amt_Token = FusdcAddr c,
        amt_Decimals = FusdcDecimals c,
        amt_Timestamp = ts,
        amt_ValueUnscaled = dg_CumulativeAmount0 summed\<rparr>,
      pair_Token1 = \<lparr>
        amt_Token = token1,
        amt_Decimals = uint (dg_Decimals summed),
        amt_Timestamp = ts,
        amt_ValueUnscaled = dg_CumulativeAmount1 summed\<rparr>\<rparr>"

definition seawaterPoolResolver_Amounts :: "'s Resolver \<Rightarrow> Pool option \<Rightarrow> ('s, PairAmount) io" where
  "seawaterPoolResolver_Amounts r obj' =
     (case obj' of
        None \<Rightarrow> pure (Err (Errorf ''empty pool''))
      | Some obj \<Rightarrow>
          andDo (ask (First_DecimalsGroup (r_DB r))
              (gorm_Where ''pool = ?'' [arg_Address (pool_Token obj)]
              (gorm_Table ''snapshot_positions_latest_decimals_grouped_1''))) (\<lambda>summed.
          andDo time_Now (\<lambda>now.
          pure (Ok (group_pair (r_C r) (Unix now) (pool_Token obj) summed)))))"

definition seawaterPoolResolver_Config :: "'s Resolver \<Rightarrow> Pool option \<Rightarrow> SeawaterConfig res" where
  "seawaterPoolResolver_Config r obj' =
     (case obj' of
        None \<Rightarrow> Err (Errorf ''empty pool'')
      | Some obj \<Rightarrow>
          (case r_PoolsConfig r (pool_Token obj) of
             None \<Rightarrow> Ok \<lparr>sc_Addr = pool_Token obj, sc_Pool = DefaultPoolConfiguration\<rparr>
           | Some c \<Rightarrow> Ok \<lparr>sc_Addr = pool_Token obj, sc_Pool = c\<rparr>))"

end
