(* ===== verification/PositionResolvers.thy ===== *)
theory PositionResolvers
  imports PoolResolvers
begin

text \<open>
  The resolvers of positions, of the two kinds of position pages, of swaps, tokens and wallets in
  src/cmd/graphql.ethereum/graph/schema.resolvers.go.
\<close>

section \<open>seawaterPositionResolver\<close>

definition seawaterPositionResolver_Served :: "Position option \<Rightarrow> ('s, Served) io" where
  "seawaterPositionResolver_Served obj' =
     andDo time_Now (\<lambda>now. pure (Ok \<lparr>served_Timestamp = Unix now\<rparr>))"

definition seawaterPositionResolver_ID :: "Position option \<Rightarrow> string res" where
  "seawaterPositionResolver_ID obj' =
     (case obj' of
        None \<Rightarrow> Err (Errorf ''empty position'')
      | Some obj \<Rightarrow> Ok (''pos:'' @ Address_String (pos_Pool obj) @ '':'' @ Itoa (pos_Id obj)))"

text \<open>An error of the database is answered with 0.\<close>

definition seawaterPositionResolver_Created ::
    "'s Resolver \<Rightarrow> Position option \<Rightarrow> ('s, int) io" where
  "seawaterPositionResolver_Created r obj' =
     (case obj' of
        None \<Rightarrow> pure (Err (Errorf ''no position obj''))
      | Some obj \<Rightarrow>
          handle (ask (Scan_Position (r_DB r))
              (gorm_Where ''pos_id = ?'' [ArgInt (pos_Id obj)]
              (gorm_Table ''events_seawater_mintposition''))) (\<lambda>pos. case pos of
            Err err \<Rightarrow> pure (Ok 0)
          | Ok pos \<Rightarrow> pure (Ok (Unix (pos_CreatedBy pos)))
          | Panic m \<Rightarrow> pure (Panic m)
          | Exit e \<Rightarrow> pure (Exit e)))"

definition seawaterPositionResolver_PositionID :: "Position option \<Rightarrow> int res" where
  "seawaterPositionResolver_PositionID obj' =
     (case obj' of
        None \<Rightarrow> Err (Errorf ''no position obj'')
      | Some obj \<Rightarrow> Ok (pos_Id obj))"

definition seawaterPositionResolver_Owner ::
    "'s Resolver \<Rightarrow> Position option \<Rightarrow> ('s, Wallet) io" where
  "seawaterPositionResolver_Owner r obj' =
     (case obj' of
        None \<Rightarrow> pure (Err (Errorf ''no position obj''))
      | Some obj \<Rightarrow>
          andDo (queryResolver_GetWallet r (Address_String (pos_Owner obj))) (\<lambda>wallet.
          pure (nil_deref wallet)))"

definition seawaterPositionResolver_Pool :: "'s Resolver \<Rightarrow> Position option \<Rightarrow> ('s, Pool) io" where
  "seawaterPositionResolver_Pool r obj' =
     (case obj' of
        None \<Rightarrow> pure (Err (Errorf ''no position obj''))
      | Some obj \<Rightarrow> ask (Scan_Pool (r_DB r))
          (gorm_Where ''token = ?'' [arg_Address (pos_Pool obj)]
          (gorm_Table ''events_seawater_newpool'')))"

definition seawaterPositionResolver_Lower :: "Position option \<Rightarrow> int res" where
  "seawaterPositionResolver_Lower obj' =
     (case obj' of
        None \<Rightarrow> Err (Errorf ''no position obj'')
      | Some obj \<Rightarrow> Number_Int64 (pos_Lower obj))"

definition seawaterPositionResolver_Upper :: "Position option \<Rightarrow> int res" where
  "seawaterPositionResolver_Upper obj' =
     (case obj' of
        None \<Rightarrow> Err (Errorf ''no position obj'')
      | Some obj \<Rightarrow> Number_Int64 (pos_Upper obj))"

text \<open>The pair of amounts of a position: the value of fUSDC and of the other token are arguments.\<close>

definition position_pair ::
    "C \<Rightarrow> Address \<Rightarrow> int \<Rightarrow> int \<Rightarrow> UnscaledNumber \<Rightarrow> UnscaledNumber \<Rightarrow> PairAmount" where
  "position_pair c token1 decimals ts fusdc amount1 =
     \<lparr>pair_Timestamp = ts,
      pair_Fusdc = \<lparr>
        amt_Token = FusdcAddr c,
        amt_Decimals = FusdcDecimals c,
        amt_Timestamp = ts,
        amt_ValueUnscaled = fusdc\<rparr>,
      pair_Token1 = \<lparr>
        amt_Token = token1,
        amt_Decimals = decimals,
        amt_Timestamp = ts,
        amt_ValueUnscaled = amount1\<rparr>\<rparr>"

text \<open>When no snapshot is found the destination keeps its zero value, whose time stamp is read.\<close>

definition seawaterPositionResolver_Liquidity ::
    "'s Resolver \<Rightarrow> Position option \<Rightarrow> ('s, PairAmount) io" where
  "seawaterPositionResolver_Liquidity r obj' =
     (case obj' of
        None \<Rightarrow> pure (Err (Errorf ''no position obj''))
      | Some obj \<Rightarrow>
          handle (ask (First_Pool (r_DB r))
              (gorm_Where ''token = ?'' [arg_Address (pos_Pool obj)]
              (gorm_Select ''decimals''
              (gorm_Table ''events_seawater_newpool'')))) (\<lambda>pool'. case pool' of
            Err err \<Rightarrow> pure (Err (Wrapf ''finding new pool: '' err))
          | Panic m \<Rightarrow> pure (Panic m)
          | Exit e \<Rightarrow> pure (Exit e)
          | Ok pool \<Rightarrow>
              handle (ask (First_Snapshot (r_DB r))
                  (gorm_Where ''pos_id = ?'' [ArgInt (pos_Id obj)]
                  (gorm_Table ''snapshot_positions_latest_1''))) (\<lambda>res. case res of
                Err ErrRecordNotFound \<Rightarrow>
                  pure (Ok (position_pair (r_C r) (pos_Pool obj) (pool_Decimals pool)
                    (Unix zero_time) EmptyUnscaledNumber EmptyUnscaledNumber))
              | Ok res \<Rightarrow>
                  pure (Ok (position_pair (r_C r) (pos_Pool obj) (pool_Decimals pool)
                    (Unix (snap_UpdatedBy res)) (snap_Amount1 res) (snap_Amount0 res)))
              | Err err \<Rightarrow> pure (Err (Wrapf (''position id: '' @ Itoa (pos_Id obj) @ '': '') err))
              | Panic m \<Rightarrow> pure (Panic m)
              | Exit e \<Rightarrow> pure (Exit e))))"

section \<open>seawaterPositionsGlobalResolver\<close>

definition seawaterPositionsGlobalResolver_ID :: "SeawaterPositionsGlobal option \<Rightarrow> string res" where
  "seawaterPositionsGlobalResolver_ID obj' =
     (case obj' of
        None \<Rightarrow> Err (Errorf ''empty positions'')
      | Some obj \<Rightarrow>
          let to = after_or_zero (sp_To obj)
          in Ok (''posglobal:'' @ Itoa (sp_From obj) @ '':'' @ Itoa to))"

text \<open>The sums are a slice that is nil when the page knows neither a pool nor a wallet.\<close>

definition seawaterPositionsGlobalResolver_Sum ::
    "'s Resolver \<Rightarrow> SeawaterPositionsGlobal option \<Rightarrow> ('s, PairAmount list option) io" where
  "seawaterPositionsGlobalResolver_Sum r obj' =
     (case obj' of
        None \<Rightarrow> pure (Err (Errorf ''empty positions''))
      | Some obj \<Rightarrow>
          let stmt' =
            (case (sp_Pool obj, sp_Wallet obj) of
               (Some pool, _) \<Rightarrow> Some (gorm_Where ''pool = ?'' [arg_Address pool]
                 (gorm_Table ''snapshot_positions_latest_decimals_grouped_1''))
             | (None, Some wallet) \<Rightarrow> Some (gorm_Raw
                 ''SELECT * FROM snapshot_positions_latest_decimals_grouped_user_1(?)''
                 [arg_Address wallet])
             | (None, None) \<Rightarrow> None)
          in
          case stmt' of
            None \<Rightarrow> pure (Ok None)
          | Some stmt \<Rightarrow>
              andDo (ask (Scan_DecimalsGroups (r_DB r)) stmt) (\<lambda>results.
              andDo time_Now (\<lambda>now.
              pure (Ok (Some (map (\<lambda>res. group_pair (r_C r) (Unix now) (dg_Pool res) res)
                (elems results)))))))"

text \<open>The statement of \<open>Next\<close>, \<open>None\<close> when the page knows neither a wallet nor a pool.\<close>

definition global_Next_stmt :: "SeawaterPositionsGlobal \<Rightarrow> int \<Rightarrow> int \<Rightarrow> stmt option" where
  "global_Next_stmt obj to first =
     (let stmt =
        gorm_Order ''created_by desc''
        (gorm_Limit first
        (gorm_Where ''created_by < ?'' [ArgTime (time_Unix to)]
        (gorm_Table ''seawater_active_positions_2'')))
      in
      case (sp_Wallet obj, sp_Pool obj) of
        (Some wallet, _) \<Rightarrow> Some (gorm_Where ''owner = ?'' [arg_Address wallet] stmt)
      | (None, Some pool) \<Rightarrow> Some (gorm_Where ''pool = ?'' [arg_Address pool] stmt)
      | (None, None) \<Rightarrow> None)"

definition seawaterPositionsGlobalResolver_Next ::
    "'s Resolver \<Rightarrow> SeawaterPositionsGlobal option \<Rightarrow> int option \<Rightarrow> ('s, SeawaterPositionsGlobal) io" where
  "seawaterPositionsGlobalResolver_Next r obj' first' =
     (case obj' of
        None \<Rightarrow> pure (Err (Errorf ''empty positions''))
      | Some obj \<Rightarrow>
          let first = page_size PoolPositionsPageSize first' in
          case sp_To obj of
            None \<Rightarrow> pure (Ok obj)
          | Some to \<Rightarrow>
              (case global_Next_stmt obj to first of
                 None \<Rightarrow> pure (Err (Errorf ''unimplemented positions pagination behaviour''))
               | Some stmt \<Rightarrow>
                   andDo (ask (Scan_Positions (r_DB r)) stmt) (\<lambda>pos'.
                   let pos = elems pos' in
                   andDo (pure (last_created pos)) (\<lambda>newTo.
                   pure (Ok \<lparr>sp_From = to, sp_To = newTo, sp_Pool = sp_Pool obj,
                     sp_Wallet = sp_Wallet obj, sp_Positions = pos\<rparr>)))))"

section \<open>seawaterPositionsUserResolver\<close>

definition seawaterPositionsUserResolver_ID :: "SeawaterPositionsUser option \<Rightarrow> string res" where
  "seawaterPositionsUserResolver_ID obj' =
     (case obj' of
        None \<Rightarrow> Err (Errorf ''empty positions'')
      | Some obj \<Rightarrow>
          let to = after_or_zero (sp_To obj)
          in Ok (''posuser:'' @ Itoa (sp_From obj) @ '':'' @ Itoa to))"

definition seawaterPositionsUserResolver_Sum ::
    "'s Resolver \<Rightarrow> SeawaterPositionsUser option \<Rightarrow> ('s, PairAmount list option) io" where
  "seawaterPositionsUserResolver_Sum r obj' =
     (case obj' of
        None \<Rightarrow> pure (Err (Errorf ''empty positions''))
      | Some obj \<Rightarrow>
          let stmt' =
            (case (sp_Pool obj, sp_Wallet obj) of
               (Some pool, _) \<Rightarrow> Some (gorm_Where ''pool = ?'' [arg_Address pool]
                 (gorm_Table ''snapshot_positions_latest_decimals_grouped_1''))
             | (None, Some wallet) \<Rightarrow> Some (gorm_Raw
                 ''SELECT * FROM snapshot_positions_latest_decimals_grouped_user_1(?)''
                 [arg_Address wallet])
             | (None, None) \<Rightarrow> None)
          in
          case stmt' of
            None \<Rightarrow> pure (Ok None)
          | Some stmt \<Rightarrow>
              andDo (ask (Scan_DecimalsGroups (r_DB r)) stmt) (\<lambda>results.
              andDo time_Now (\<lambda>now.
              pure (Ok (Some (map (\<lambda>res. group_pair (r_C r) (Unix now) (dg_Pool res) res)
                (elems results)))))))"

definition user_Next_stmt :: "SeawaterPositionsUser \<Rightarrow> int \<Rightarrow> int \<Rightarrow> stmt option" where
  "user_Next_stmt obj to first =
     (let stmt =
        gorm_Order ''created_by desc''
        (gorm_Limit first
        (gorm_Where ''created_by < ?'' [ArgTime (time_Unix to)]
        (gorm_Table ''seawater_active_positions_2'')))
      in
      case (sp_Wallet obj, sp_Pool obj) of
        (Some wallet, _) \<Rightarrow> Some (gorm_Where ''owner = ?'' [arg_Address wallet] stmt)
      | (None, Some pool) \<Rightarrow> Some (gorm_Where ''pool = ?'' [arg_Address pool] stmt)
      | (None, None) \<Rightarrow> None)"

definition seawaterPositionsUserResolver_Next ::
    "'s Resolver \<Rightarrow> SeawaterPositionsUser option \<Rightarrow> int option \<Rightarrow> ('s, SeawaterPositionsUser) io" where
  "seawaterPositionsUserResolver_Next r obj' first' =
     (case obj' of
        None \<Rightarrow> pure (Err (Errorf ''empty positions''))
      | Some obj \<Rightarrow>
          let first = page_size PoolPositionsPageSize first' in
          case sp_To obj of
            None \<Rightarrow> pure (Ok obj)
          | Some to \<Rightarrow>
              (case user_Next_stmt obj to first of
                 None \<Rightarrow> pure (Err (Errorf ''unimplemented positions pagination behaviour''))
               | Some stmt \<Rightarrow>
                   andDo (ask (Scan_Positions (r_DB r)) stmt) (\<lambda>pos'.
                   let pos = elems pos' in
                   andDo (pure (last_created pos)) (\<lambda>newTo.
                   pure (Ok \<lparr>sp_From = to, sp_To = newTo, sp_Pool = sp_Pool obj,
                     sp_Wallet = sp_Wallet obj, sp_Positions = pos\<rparr>)))))"

section \<open>seawaterSwapResolver and seawaterSwapsResolver\<close>

definition seawaterSwapResolver_Served :: "SeawaterSwap option \<Rightarrow> ('s, Served) io" where
  "seawaterSwapResolver_Served obj' =
     andDo time_Now (\<lambda>now. pure (Ok \<lparr>served_Timestamp = Unix now\<rparr>))"

definition seawaterSwapResolver_Timestamp :: "SeawaterSwap option \<Rightarrow> int res" where
  "seawaterSwapResolver_Timestamp obj' =
     (case obj' of
        None \<Rightarrow> Err (Errorf ''empty swap'')
      | Some obj \<Rightarrow> Ok (Unix (sw_CreatedBy obj)))"

text \<open>Neither the object nor the pool found is checked for nil.\<close>

definition seawaterSwapResolver_Pool :: "'s Resolver \<Rightarrow> SeawaterSwap option \<Rightarrow> ('s, Pool) io" where
  "seawaterSwapResolver_Pool r obj' =
     andDo (pure (nil_deref obj')) (\<lambda>obj.
     let token =
       (if sw_TokenIn obj = FusdcAddr (r_C r) then Address_String (sw_TokenOut obj)
        else Address_String (sw_TokenIn obj))
     in
     andDo (queryResolver_GetPool r token) (\<lambda>pool. pure (nil_deref pool)))"

definition seawaterSwapResolver_TransactionHash :: "SeawaterSwap option \<Rightarrow> string res" where
  "seawaterSwapResolver_TransactionHash obj' =
     (case obj' of
        None \<Rightarrow> Err (Errorf ''empty swap'')
      | Some obj \<Rightarrow> Ok (Hash_String (sw_TransactionHash obj)))"

definition seawaterSwapResolver_Sender :: "'s Resolver \<Rightarrow> SeawaterSwap option \<Rightarrow> ('s, Wallet) io" where
  "seawaterSwapResolver_Sender r obj' =
     (case obj' of
        None \<Rightarrow> pure (Err (Errorf ''empty swap''))
      | Some obj \<Rightarrow>
          andDo (queryResolver_GetWallet r (Address_String (sw_Sender obj))) (\<lambda>wallet.
          pure (nil_deref wallet)))"

definition seawaterSwapResolver_AmountIn :: "SeawaterSwap option \<Rightarrow> Amount res" where
  "seawaterSwapResolver_AmountIn obj' =
     (case obj' of
        None \<Rightarrow> Err (Errorf ''empty swap'')
      | Some obj \<Rightarrow> Ok \<lparr>
          amt_Token = sw_TokenIn obj,
          amt_Decimals = sw_TokenInDecimals obj,
          amt_Timestamp = Unix (sw_CreatedBy obj),
          amt_ValueUnscaled = sw_AmountIn obj\<rparr>)"

definition seawaterSwapResolver_AmountOut :: "SeawaterSwap option \<Rightarrow> Amount res" where
  "seawaterSwapResolver_AmountOut obj' =
     (case obj' of
        None \<Rightarrow> Err (Errorf ''empty swap'')
      | Some obj \<Rightarrow> Ok \<lparr>
          amt_Token = sw_TokenOut obj,
          amt_Decimals = sw_TokenOutDecimals obj,
          amt_Timestamp = Unix (sw_CreatedBy obj),
          amt_ValueUnscaled = sw_AmountOut obj\<rparr>)"

definition seawaterSwapsResolver_Sum ::
    "'s Resolver \<Rightarrow> SeawaterSwaps option \<Rightarrow> ('s, PairAmount list option) io" where
  "seawaterSwapsResolver_Sum r obj' =
     (case obj' of
        None \<Rightarrow> pure (Err (Errorf ''empty swaps''))
      | Some obj \<Rightarrow>
          let stmt' =
            (case (ss_Pool obj, ss_Wallet obj) of
               (Some pool, _) \<Rightarrow> Some (gorm_Raw ''SELECT * FROM swaps_decimals_pool_group_1(?,?,?)''
                 [arg_Address (FusdcAddr (r_C r)), ArgInt (FusdcDecimals (r_C r)), arg_Address pool])
             | (None, Some wallet) \<Rightarrow> Some (gorm_Raw
                 ''SELECT * FROM swaps_decimals_user_group_1(?,?,?)''
                 [arg_Address (FusdcAddr (r_C r)), ArgInt (FusdcDecimals (r_C r)),
                  arg_Address wallet])
             | (None, None) \<Rightarrow> None)
          in
          case stmt' of
            None \<Rightarrow> pure (Ok None)
          | Some stmt \<Rightarrow>
              andDo (ask (Scan_DecimalsGroups (r_DB r)) stmt) (\<lambda>results.
              andDo time_Now (\<lambda>now.
              pure (Ok (Some (map (\<lambda>res. group_pair (r_C r) (Unix now) (dg_Pool res) res)
                (elems results)))))))"

definition seawaterSwapsResolver_Next :: "SeawaterSwaps option \<Rightarrow> int option \<Rightarrow> SeawaterSwaps res" where
  "seawaterSwapsResolver_Next obj' first = Panic ''not implemented: Next - next''"

section \<open>tokenResolver\<close>

definition tokenResolver_ID :: "Token option \<Rightarrow> string res" where
  "tokenResolver_ID obj' =
     (case obj' of
        None \<Rightarrow> Err (Errorf ''empty token'')
      | Some obj \<Rightarrow> Ok (''token:'' @ Address_String (erc_Address (tok_Erc20 obj))))"

definition tokenResolver_Address :: "Token option \<Rightarrow> string res" where
  "tokenResolver_Address obj' =
     (case obj' of
        None \<Rightarrow> Err (Errorf ''empty token'')
      | Some obj \<Rightarrow> Ok (Address_String (erc_Address (tok_Erc20 obj))))"

definition tokenResolver_Image :: "Token option \<Rightarrow> string res" where
  "tokenResolver_Image obj' = Panic ''not implemented: Image - image''"

definition tokenResolver_TotalSupply :: "Token option \<Rightarrow> string res" where
  "tokenResolver_TotalSupply obj' =
     (case obj' of
        None \<Rightarrow> Err (Errorf ''empty token'')
      | Some obj \<Rightarrow> Ok (UnscaledNumber_String (erc_TotalSupply (tok_Erc20 obj))))"

section \<open>walletResolver\<close>

definition walletResolver_ID :: "Wallet option \<Rightarrow> string res" where
  "walletResolver_ID obj' =
     (case obj' of
        None \<Rightarrow> Err (Errorf ''empty token'')
      | Some obj \<Rightarrow> Ok (''wallet:'' @ Address_String (wal_Address obj)))"

definition walletResolver_Address :: "Wallet option \<Rightarrow> string res" where
  "walletResolver_Address obj' =
     (case obj' of
        None \<Rightarrow> Err (Errorf ''no token'')
      | Some obj \<Rightarrow> Ok (Address_String (wal_Address obj)))"

definition walletResolver_Balances :: "Wallet option \<Rightarrow> Amount list res" where
  "walletResolver_Balances obj' = Panic ''not implemented: Balances - balances''"

definition wallet_Positions_stmt :: "Address \<Rightarrow> int \<Rightarrow> int option \<Rightarrow> stmt" where
  "wallet_Positions_stmt address first after =
     (let stmt =
        gorm_Order ''created_by desc''
        (gorm_Limit first
        (gorm_Where ''owner = ?'' [arg_Address address]
        (gorm_Table ''seawater_active_positions_2'')))
      in case after of None \<Rightarrow> stmt | Some a \<Rightarrow> gorm_Where ''pos_id > ?'' [ArgInt a] stmt)"

definition walletResolver_Positions ::
    "'s Resolver \<Rightarrow> Wallet option \<Rightarrow> int option \<Rightarrow> int option \<Rightarrow> ('s, SeawaterPositionsUser) io" where
  "walletResolver_Positions r obj' first' after =
     (case obj' of
        None \<Rightarrow> pure (Err (Errorf ''empty wallet''))
      | Some obj \<Rightarrow>
          let first = page_size PoolPositionsPageSize first' in
          if mocking r then
            andDo (on_delay (r_F r)) (\<lambda>_. pure (Ok (MockGetPoolPositions ox65)))
          else
            andDo (ask (Scan_Positions (r_DB r))
                (wallet_Positions_stmt (wal_Address obj) first after)) (\<lambda>pos'.
            case pos' of
              None \<Rightarrow> pure (Ok zero_positions)
            | Some pos \<Rightarrow>
                let w = wal_Address obj in
                andDo (pure (last_created pos)) (\<lambda>to.
                pure (Ok \<lparr>sp_From = first, sp_To = to, sp_Pool = None, sp_Wallet = Some w,
                  sp_Positions = pos\<rparr>))))"

end
