(* ===== verification/Store.thy ===== *)
theory Store
  imports PositionResolvers "HOL-Library.Multiset"
begin

text \<open>
  What the resolvers rely on of the database, as predicates over the \<open>gorm\<close> parameter: the table of
  active positions answers well-typed queries with a newest-first page of the matching rows and
  rejects ill-typed ones (\<open>positions_lawful\<close>), the token cache keeps the first row inserted for an
  address (\<open>cache_lawful\<close>), and the table of smart accounts is filtered by exact text, in whatever
  order (\<open>accounts_lawful\<close>).  The last section gives a concrete store that satisfies all three.
\<close>

text \<open>\<open>Scan\<close> reads the first row before it touches its destination: when there is none, the slice stays
  nil.\<close>

definition scanned :: "'a list \<Rightarrow> 'a list option" where
  "scanned xs = (if xs = [] then None else Some xs)"

lemma elems_scanned [simp]: "elems (scanned xs) = xs"
  by (simp add: scanned_def)

lemma scanned_eq [simp]: "scanned [] = None" "scanned xs = Some ys \<longleftrightarrow> xs \<noteq> [] \<and> ys = xs"
  "scanned xs = None \<longleftrightarrow> xs = []"
  by (auto simp: scanned_def)

section \<open>Positions\<close>

text \<open>The conditions on \<open>seawater_active_positions_2\<close> the database accepts: addresses are compared
  with texts, identifiers with integers, creation times with times.\<close>

fun cond_ok :: "string \<times> sql_arg list \<Rightarrow> bool" where
  "cond_ok (c, [ArgValue (SqlString s)]) = (c = ''pool = ?'' \<or> c = ''owner = ?'')"
| "cond_ok (c, [ArgValue (SqlString s), ArgValue (SqlString t)]) = (c = ''pool = ? and owner = ?'')"
| "cond_ok (c, [ArgInt n]) = (c = ''pos_id > ?'' \<or> c = ''pos_id < ?'')"
| "cond_ok (c, [ArgTime t]) = (c = ''created_by < ?'')"
| "cond_ok _ = False"

fun cond_holds :: "string \<times> sql_arg list \<Rightarrow> Position \<Rightarrow> bool" where
  "cond_holds (c, [ArgValue (SqlString s)]) p =
     (if c = ''pool = ?'' then pos_Pool p = s else pos_Owner p = s)"
| "cond_holds (c, [ArgValue (SqlString s), ArgValue (SqlString t)]) p = (pos_Pool p = s \<and> pos_Owner p = t)"
| "cond_holds (c, [ArgInt n]) p = (if c = ''pos_id > ?'' then n < pos_Id p else pos_Id p < n)"
| "cond_holds (c, [ArgTime t]) p = (pos_CreatedBy p < t)"
| "cond_holds _ p = False"

definition selected :: "stmt \<Rightarrow> Position list \<Rightarrow> Position list" where
  "selected st rows = filter (\<lambda>p. list_all (\<lambda>c. cond_holds c p) (st_where st)) rows"

text \<open>gorm writes no LIMIT clause for a negative limit.\<close>

fun limited :: "int option \<Rightarrow> 'a list \<Rightarrow> 'a list" where
  "limited None xs = xs"
| "limited (Some n) xs = (if n < 0 then xs else take (nat n) xs)"

abbreviation newest_first :: "Position list \<Rightarrow> bool" where
  "newest_first ps \<equiv> sorted_wrt (\<lambda>p q. pos_CreatedBy q \<le> pos_CreatedBy p) ps"

definition is_page :: "stmt \<Rightarrow> Position list \<Rightarrow> Position list \<Rightarrow> bool" where
  "is_page st rows ps \<longleftrightarrow>
     (\<exists>qs. mset qs = mset (selected st rows) \<and> newest_first qs \<and> ps = limited (st_limit st) qs)"

definition position_query :: "stmt \<Rightarrow> bool" where
  "position_query st \<longleftrightarrow> st_from st = FromTable ''seawater_active_positions_2'' \<and>
     st_select st = None \<and> st_order st = Some ''created_by desc''"

definition positions_lawful :: "'s gorm \<Rightarrow> ('s \<Rightarrow> Position list) \<Rightarrow> bool" where
  "positions_lawful D rows \<longleftrightarrow>
     (\<forall>st s. position_query st \<longrightarrow>
        (if list_all cond_ok (st_where st)
         then \<exists>ps. Scan_Positions D st s = Ok (scanned ps) \<and> is_page st (rows s) ps
         else \<exists>e. Scan_Positions D st s = Err e))"

lemma positions_lawful_page:
  assumes "positions_lawful D rows" "position_query st" "list_all cond_ok (st_where st)"
  obtains ps where "Scan_Positions D st s = Ok (scanned ps)" "is_page st (rows s) ps"
  using assms unfolding positions_lawful_def by meson

lemma positions_lawful_error:
  assumes "positions_lawful D rows" "position_query st" "\<not> list_all cond_ok (st_where st)"
  obtains e where "Scan_Positions D st s = Err e"
  using assms unfolding positions_lawful_def by meson

lemma length_limited: "0 \<le> n \<Longrightarrow> length (limited (Some n) xs) \<le> nat n"
  by simp

lemma limited_prefix: "\<exists>zs. xs = limited l xs @ zs"
proof (cases l)
  case (Some n)
  then show ?thesis by (cases "n < 0") (auto intro: exI [of _ "drop (nat n) xs"])
qed simp

section \<open>The token cache\<close>

definition cache_stmt :: "string \<Rightarrow> stmt" where
  "cache_stmt a =
     gorm_Where ''address = ?'' [ArgValue (SqlString a)] (gorm_Table ''erc20_cache_1'')"

definition insert_sql :: string where
  "insert_sql = ''SELECT erc20_insert_1(?, ?, ?, ?, ?)''"

definition cache_row :: "string \<Rightarrow> string \<Rightarrow> string \<Rightarrow> UnscaledNumber \<Rightarrow> int \<Rightarrow> Erc20" where
  "cache_row a n sy u d = \<lparr>erc_Address = a, erc_Name = n, erc_Symbol = sy, erc_TotalSupply = u,
     erc_Decimals = d\<rparr>"

text \<open>A lookup by address finds the row, if any; inserting a supply that scans succeeds and only
  adds a row for a new address (ON CONFLICT DO NOTHING).\<close>

definition cache_lawful :: "'s gorm \<Rightarrow> ('s \<Rightarrow> string \<rightharpoonup> Erc20) \<Rightarrow> bool" where
  "cache_lawful D cache \<longleftrightarrow>
     (\<forall>a s. First_Erc20 D (cache_stmt a) s =
        (case cache s a of None \<Rightarrow> Err ErrRecordNotFound | Some e \<Rightarrow> Ok e)) \<and>
     (\<forall>a n sy v u d s. UnscaledNumber_Scan (UnscaledNumber None) v = Ok u \<longrightarrow>
        (\<exists>s'. Exec D insert_sql
             [ArgValue (SqlString a), ArgValue (SqlString n), ArgValue (SqlString sy), ArgValue v,
              ArgInt d] s = (Ok (), s') \<and>
           cache s' = (if cache s a = None then (cache s)(a \<mapsto> cache_row a n sy u d) else cache s)))"

lemma cache_lawful_First:
  "cache_lawful D cache \<Longrightarrow> First_Erc20 D (cache_stmt a) s =
     (case cache s a of None \<Rightarrow> Err ErrRecordNotFound | Some e \<Rightarrow> Ok e)"
  by (simp add: cache_lawful_def)

lemma cache_lawful_Exec:
  assumes "cache_lawful D cache" "UnscaledNumber_Scan (UnscaledNumber None) v = Ok u"
    and "cache s a = None"
  obtains s' where
    "Exec D insert_sql [ArgValue (SqlString a), ArgValue (SqlString n), ArgValue (SqlString sy),
       ArgValue v, ArgInt d] s = (Ok (), s')"
    "cache s' a = Some (cache_row a n sy u d)"
  using assms unfolding cache_lawful_def by (metis fun_upd_same)

section \<open>Smart accounts\<close>

text \<open>The statement has no \<open>ORDER BY\<close>: the rows come in any order.\<close>

definition accounts_lawful :: "'s gorm \<Rightarrow> ('s \<Rightarrow> AccountCreated list) \<Rightarrow> bool" where
  "accounts_lawful D accounts \<longleftrightarrow>
     (\<forall>t s. \<exists>found. Scan_AccountCreated D
        (gorm_Where ''account_admin = ?'' [ArgValue (SqlString t)]
        (gorm_Table ''events_thirdweb_accountcreated'')) s = Ok (scanned found) \<and>
      mset found = mset (filter (\<lambda>a. ac_AccountAdmin a = t) (accounts s)))"

section \<open>A store\<close>

record store =
  store_positions :: "Position list"
  store_cache :: "string \<rightharpoonup> Erc20"
  store_accounts :: "AccountCreated list"

definition store_scan_positions :: "stmt \<Rightarrow> store \<Rightarrow> Position list option res" where
  "store_scan_positions st s =
     (if list_all cond_ok (st_where st)
      then Ok (scanned (limited (st_limit st)
        (sort_key (\<lambda>p. - pos_CreatedBy p) (selected st (store_positions s)))))
      else Err (External ''operator does not exist''))"

fun store_first_erc20 :: "(string \<times> sql_arg list) list \<Rightarrow> store \<Rightarrow> Erc20 res" where
  "store_first_erc20 [(c, [ArgValue (SqlString a)])] s =
     (case store_cache s a of None \<Rightarrow> Err ErrRecordNotFound | Some e \<Rightarrow> Ok e)"
| "store_first_erc20 _ s = Err (External ''bad statement'')"

fun store_accounts_of :: "(string \<times> sql_arg list) list \<Rightarrow> store \<Rightarrow> AccountCreated list option res" where
  "store_accounts_of [(c, [ArgValue (SqlString t)])] s =
     Ok (scanned (rev (filter (\<lambda>a. ac_AccountAdmin a = t) (store_accounts s))))"
| "store_accounts_of _ s = Err (External ''bad statement'')"

fun store_exec :: "string \<Rightarrow> sql_arg list \<Rightarrow> store \<Rightarrow> unit res \<times> store" where
  "store_exec q [ArgValue (SqlString a), ArgValue (SqlString n), ArgValue (SqlString sy), ArgValue v,
     ArgInt d] s =
     (case UnscaledNumber_Scan (UnscaledNumber None) v of
        Ok u \<Rightarrow> (Ok (), if store_cache s a = None
          then s\<lparr>store_cache := (store_cache s)(a \<mapsto> cache_row a n sy u d)\<rparr> else s)
      | _ \<Rightarrow> (Err (External ''invalid input syntax''), s))"
| "store_exec q args s = (Err (External ''bad statement''), s)"

definition store_gorm :: "store gorm" where
  "store_gorm = \<lparr>
     Scan_Pools = (\<lambda>st s. Ok None),
     Scan_Positions = store_scan_positions,
     Scan_Swaps = (\<lambda>st s. Ok None),
     Scan_AccountCreated = (\<lambda>st. store_accounts_of (st_where st)),
     Scan_Prices = (\<lambda>st s. Ok None),
     Scan_Volumes = (\<lambda>st s. Ok None),
     Scan_LiquidityGroups = (\<lambda>st s. Ok None),
     Scan_DecimalsGroups = (\<lambda>st s. Ok None),
     Scan_Pool = (\<lambda>st s. Ok zero_Pool),
     Scan_Position = (\<lambda>st s. Err (External ''no such table'')),
     Scan_Page = (\<lambda>st s. Ok zero_positions),
     ScanPtr_Pool = (\<lambda>st s. Ok None),
     ScanPtr_Position = (\<lambda>st s. Ok None),
     First_Erc20 = (\<lambda>st. store_first_erc20 (st_where st)),
     First_Price = (\<lambda>st s. Err ErrRecordNotFound),
     First_Pool = (\<lambda>st s. Err ErrRecordNotFound),
     First_Snapshot = (\<lambda>st s. Err ErrRecordNotFound),
     First_DecimalsGroup = (\<lambda>st s. Err ErrRecordNotFound),
     Exec = store_exec\<rparr>"

lemma newest_first_sort: "newest_first (sort_key (\<lambda>p. - pos_CreatedBy p) ps)"
  using sorted_sort_key [of "\<lambda>p. - pos_CreatedBy p" ps] by (simp add: sorted_wrt_map)

lemma store_positions_lawful: "positions_lawful store_gorm store_positions"
proof -
  have "is_page st rows (limited (st_limit st) (sort_key (\<lambda>p. - pos_CreatedBy p) (selected st rows)))"
    for st rows
    unfolding is_page_def using newest_first_sort mset_sort by blast
  then show ?thesis
    by (auto simp: positions_lawful_def store_gorm_def store_scan_positions_def)
qed

lemma store_cache_lawful: "cache_lawful store_gorm store_cache"
  by (auto simp: cache_lawful_def store_gorm_def cache_stmt_def stmt_defs)

lemma store_accounts_lawful: "accounts_lawful store_gorm store_accounts"
  unfolding accounts_lawful_def
  by (auto simp: store_gorm_def stmt_defs intro!: exI [of _ "rev (filter _ _)"])

text \<open>A resolver over the store, with the demonstration data off.\<close>

definition demo_C :: C where
  "demo_C = \<lparr>GethUrl = [], TimescaleUrls = [], SeawaterAddr = [], FusdcAddr = ''0xf'',
     FusdcDecimals = 6, FusdcTotalSupply = UnscaledNumber (Some 1), FusdcSymbol = [],
     FusdcName = []\<rparr>"

definition demo_geth :: geth where
  "demo_geth = \<lparr>geth_IsHexAddress = (\<lambda>s. True), geth_HexToAddress = (\<lambda>s. 0),
     erc20Abi_Pack = (\<lambda>m. Ok []),
     erc20Abi_Unpack = (\<lambda>m b. if m = ''totalSupply'' then Ok [CallBigInt 1000]
       else Ok [CallString m]),
     bound_Call = (\<lambda>a m calls. Ok [CallBigInt 1, CallBytesList [[], [], []]])\<rparr>"

definition demo_graph :: "'s gorm \<Rightarrow> 's Resolver" where
  "demo_graph D = \<lparr>r_DB = D, r_F = \<lparr>f_everything = False, f_enabled = Map.empty\<rparr>,
     r_Geth = demo_geth, r_C = demo_C, r_PoolsConfig = Map.empty\<rparr>"

definition demo_position :: "int \<Rightarrow> time \<Rightarrow> Position" where
  "demo_position i t = \<lparr>pos_CreatedBy = t, pos_BlockHash = [], pos_TransactionHash = [],
     pos_BlockNumber = Number None, pos_Id = i, pos_Owner = ''0xb'', pos_Pool = ''0xa'',
     pos_Lower = EmptyNumber, pos_Upper = EmptyNumber\<rparr>"

definition demo_world :: "'s \<Rightarrow> 's world" where
  "demo_world s = \<lparr>w_db = s, w_now = 0, w_rand = (\<lambda>n. n), w_used = 0\<rparr>"

lemma demo_graph_simps [simp]:
  "r_DB (demo_graph D) = D" "\<not> mocking (demo_graph D)" "r_C (demo_graph D) = demo_C"
  "r_Geth (demo_graph D) = demo_geth"
  by (simp_all add: demo_graph_def Is_def)

end
