(* ===== verification/Pages.thy ===== *)
theory Pages
  imports Store
begin

text \<open>
  Pages of positions.  The two \<open>Next\<close> resolvers share a contract, the locale \<open>position_pager\<close>; its
  lemmas follow \<open>Next\<close> from page to page.  The properties: a walk that starts at
  \<open>GetPoolPositions\<close> ends, never shows a row twice and shows every row when no two were created in
  the same second.
\<close>

section \<open>Cutting a page off a list of rows\<close>

abbreviation second :: "Position \<Rightarrow> int" where
  "second p \<equiv> Unix (pos_CreatedBy p)"

definition cursor :: "Position list \<Rightarrow> int option" where
  "cursor ps = (if ps = [] then None else Some (second (last ps)))"

definition older :: "int option \<Rightarrow> Position list \<Rightarrow> Position list" where
  "older c M =
     (case c of None \<Rightarrow> [] | Some t \<Rightarrow> filter (\<lambda>p. pos_CreatedBy p < time_Unix t) M)"

lemma before_second_iff: "x < time_Unix t \<longleftrightarrow> Unix x < t"
proof -
  have split: "x = Unix x * 10 ^ 9 + x mod 10 ^ 9" "0 \<le> x mod 10 ^ 9" "x mod 10 ^ 9 < 10 ^ 9"
    by (simp_all add: Unix_def div_mult_mod_eq)
  show ?thesis
  proof
    assume "x < time_Unix t"
    then have "Unix x * 10 ^ 9 < t * 10 ^ 9" using split by (simp only: time_Unix_def)
    then show "Unix x < t" by simp
  next
    assume "Unix x < t"
    then have "(Unix x + 1) * 10 ^ 9 \<le> t * 10 ^ 9" by (intro mult_right_mono) simp_all
    then show "x < time_Unix t" using split by (simp add: time_Unix_def algebra_simps)
  qed
qed

lemma second_mono: "x \<le> y \<Longrightarrow> Unix x \<le> Unix y"
  by (simp add: Unix_def zdiv_mono1)

lemma last_created_cursor: "last_created ps = Ok (cursor ps)"
  by (cases ps rule: rev_cases) (simp_all add: last_created_def cursor_def Let_def)

lemma limited_nonempty: "n \<noteq> 0 \<Longrightarrow> xs \<noteq> [] \<Longrightarrow> limited (Some n) xs \<noteq> []"
  by auto

lemma older_Nil [simp]: "older c [] = []"
  by (simp add: older_def split: option.split)

lemma set_older: "q \<in> set (older c M) \<Longrightarrow> q \<in> set M"
  by (auto simp: older_def split: option.splits)

lemma older_older: "t' \<le> t \<Longrightarrow> older (Some t') (older (Some t) M) = older (Some t') M"
  by (auto simp: older_def before_second_iff intro: filter_cong)

lemma newest_first_last:
  assumes "newest_first ps" "p \<in> set ps"
  shows "pos_CreatedBy (last ps) \<le> pos_CreatedBy p"
proof -
  obtain us l where ps: "ps = us @ [l]" using assms(2) by (cases ps rule: rev_cases) auto
  with assms show ?thesis by (auto simp: sorted_wrt_append)
qed

lemma page_cut:
  assumes qs: "mset qs = mset M" "newest_first qs" and ps: "ps = limited (Some n) qs" "n \<noteq> 0"
  shows "mset ps + mset (older (cursor ps) M) \<subseteq># mset M" and "newest_first ps"
    and "ps = [] \<longleftrightarrow> M = []"
    and "p \<in> set ps \<Longrightarrow> q \<in> set (older (cursor ps) M) \<Longrightarrow> pos_CreatedBy q \<le> pos_CreatedBy p"
    and "distinct (map second M) \<Longrightarrow> mset ps + mset (older (cursor ps) M) = mset M"
proof -
  obtain zs where split: "qs = ps @ zs" using limited_prefix ps(1) by blast
  from qs(2) show sorted: "newest_first ps" unfolding split by (simp add: sorted_wrt_append)
  show empty: "ps = [] \<longleftrightarrow> M = []"
  proof
    assume "ps = []"
    then have "qs = []" by (metis limited_nonempty ps)
    with qs(1) show "M = []" by simp
  next
    assume "M = []"
    with qs(1) have "qs = []" by simp
    then show "ps = []" unfolding split by simp
  qed
  have sub_filter: "mset (older (cursor ps) M) =
      mset (filter (\<lambda>p. pos_CreatedBy p < time_Unix (second (last ps))) zs)" if "ps \<noteq> []"
  proof -
    have "filter (\<lambda>p. pos_CreatedBy p < time_Unix (second (last ps))) ps = []"
      using newest_first_last [OF sorted]
      by (auto simp: filter_empty_conv before_second_iff not_less intro: second_mono)
    then have "filter_mset (\<lambda>p. pos_CreatedBy p < time_Unix (second (last ps))) (mset qs) =
        mset (filter (\<lambda>p. pos_CreatedBy p < time_Unix (second (last ps))) zs)"
      by (simp add: split flip: mset_filter)
    with that show ?thesis by (simp add: older_def cursor_def qs(1))
  qed
  have none: "older (cursor ps) M = []" if "ps = []" using that by (simp add: older_def cursor_def)
  have M: "mset M = mset ps + mset zs" unfolding qs(1) [symmetric] split by simp
  show "mset ps + mset (older (cursor ps) M) \<subseteq># mset M"
    using sub_filter none unfolding M by (cases "ps = []") (simp_all add: multiset_filter_subset)
  show "pos_CreatedBy q \<le> pos_CreatedBy p"
    if "p \<in> set ps" "q \<in> set (older (cursor ps) M)" for p q
  proof -
    have "q \<in> set zs"
      using that mset_eq_setD [OF sub_filter] by (cases "ps = []") (auto simp: none)
    with that(1) qs(2) show ?thesis by (simp add: split sorted_wrt_append)
  qed
  assume dist: "distinct (map second M)"
  then have "distinct (map second qs)"
    using qs(1) by (metis mset_eq_imp_distinct_iff mset_map)
  then have "pos_CreatedBy z < time_Unix (second (last ps))" if "z \<in> set zs" "ps \<noteq> []" for z
  proof -
    have "pos_CreatedBy z \<le> pos_CreatedBy (last ps)" "last ps \<in> set ps"
      using that qs(2) by (auto simp: split sorted_wrt_append)
    moreover have "second z \<noteq> second (last ps)"
      using \<open>distinct (map second qs)\<close> that calculation(2) by (force simp: split)
    ultimately show ?thesis
      unfolding before_second_iff using second_mono by (metis order_less_le)
  qed
  then have "ps \<noteq> [] \<Longrightarrow> filter (\<lambda>p. pos_CreatedBy p < time_Unix (second (last ps))) zs = zs" by simp
  moreover have "zs = []" if "ps = []" using empty that M by simp
  ultimately show "mset ps + mset (older (cursor ps) M) = mset M"
    using M sub_filter none by (cases "ps = []") simp_all
qed

section \<open>Following Next\<close>

text \<open>The filter a page carries: its wallet, or else its pool.\<close>

definition has_filter :: "SeawaterPositions \<Rightarrow> bool" where
  "has_filter obj \<longleftrightarrow> sp_Wallet obj \<noteq> None \<or> sp_Pool obj \<noteq> None"

definition matches :: "SeawaterPositions \<Rightarrow> Position \<Rightarrow> bool" where
  "matches obj p =
     (case (sp_Wallet obj, sp_Pool obj) of
        (Some w, _) \<Rightarrow> pos_Owner p = Address_String w
      | (None, Some a) \<Rightarrow> pos_Pool p = Address_String a
      | (None, None) \<Rightarrow> False)"

text \<open>The rows a page has still to show.\<close>

definition pending :: "SeawaterPositions \<Rightarrow> Position list \<Rightarrow> Position list" where
  "pending obj rows = older (sp_To obj) (filter (matches obj) rows)"

definition next_page :: "SeawaterPositions \<Rightarrow> int \<Rightarrow> Position list \<Rightarrow> SeawaterPositions" where
  "next_page obj t ps = \<lparr>sp_From = t, sp_To = cursor ps, sp_Pool = sp_Pool obj,
     sp_Wallet = sp_Wallet obj, sp_Positions = ps\<rparr>"

text \<open>A page and the \<open>n\<close> pages that \<open>Next\<close> gives after it.\<close>

fun follow :: "(SeawaterPositions \<Rightarrow> SeawaterPositions res) \<Rightarrow> nat \<Rightarrow> SeawaterPositions \<Rightarrow>
    SeawaterPositions list res" where
  "follow nxt 0 p = Ok [p]"
| "follow nxt (Suc n) p =
     andThen (nxt p) (\<lambda>q. andThen (follow nxt n q) (\<lambda>qs. Ok (p # qs)))"

abbreviation shown :: "SeawaterPositions list \<Rightarrow> Position list" where
  "shown pages \<equiv> concat (map sp_Positions pages)"

lemma matches_next_page [simp]: "matches (next_page obj t ps) = matches obj"
  by (simp add: matches_def next_page_def fun_eq_iff)

lemma has_filter_next_page [simp]: "has_filter (next_page obj t ps) = has_filter obj"
  by (simp add: has_filter_def next_page_def)

lemma next_page_simps [simp]:
  "sp_Positions (next_page obj t ps) = ps" "sp_To (next_page obj t ps) = cursor ps"
  by (simp_all add: next_page_def)

text \<open>What the pages of a walk show of the rows \<open>M\<close>: no row twice, the newest first, and all of them
  when no two rows share a second.\<close>

definition walked :: "Position list \<Rightarrow> SeawaterPositions list \<Rightarrow> bool" where
  "walked M pages \<longleftrightarrow> mset (shown pages) \<subseteq># mset M \<and> newest_first (shown pages) \<and>
     (distinct (map second M) \<longrightarrow> mset (shown pages) = mset M)"

lemma walked_Nil: "shown pages = [] \<Longrightarrow> M = [] \<Longrightarrow> walked M pages"
  by (simp only: walked_def) simp

lemma walked_Cons:
  assumes sub: "mset (sp_Positions pg) + mset M' \<subseteq># mset M" and "newest_first (sp_Positions pg)"
    and ord: "\<forall>p \<in> set (sp_Positions pg). \<forall>q \<in> set M'. pos_CreatedBy q \<le> pos_CreatedBy p"
    and exact: "distinct (map second M) \<longrightarrow> mset (sp_Positions pg) + mset M' = mset M"
    and pages: "walked M' pages"
  shows "walked M (pg # pages)"
proof -
  have sub': "mset (shown pages) \<subseteq># mset M'" using pages by (simp add: walked_def)
  have "mset (shown (pg # pages)) \<subseteq># mset M"
    using subset_mset.order_trans [OF _ sub] sub' by simp
  moreover have "newest_first (shown (pg # pages))"
    using assms(2) pages ord mset_subset_eqD [OF sub'] by (auto simp: sorted_wrt_append walked_def)
  moreover have "mset (shown (pg # pages)) = mset M" if dist: "distinct (map second M)"
  proof -
    note split = exact [rule_format, OF dist]
    have "mset (map second (sp_Positions pg @ M')) = mset (map second M)"
      using split by (metis mset_append mset_map)
    then have "distinct (map second M')" using dist mset_eq_imp_distinct_iff by fastforce
    then show ?thesis using pages split by (simp add: walked_def)
  qed
  ultimately show ?thesis by (simp add: walked_def)
qed

locale position_pager =
  fixes nxt :: "'s Resolver \<Rightarrow> SeawaterPositions option \<Rightarrow> int option \<Rightarrow> ('s, SeawaterPositions) io"
  assumes nxt_end: "sp_To obj = None \<Longrightarrow> nxt r (Some obj) first w = (Ok obj, w)"
    and nxt_more: "positions_lawful (r_DB r) rows \<Longrightarrow> sp_To obj = Some t \<Longrightarrow> has_filter obj \<Longrightarrow>
      \<exists>qs. mset qs = mset (pending obj (rows (w_db w))) \<and> newest_first qs \<and>
        nxt r (Some obj) first w =
          (Ok (next_page obj t (limited (Some (page_size PoolPositionsPageSize first)) qs)), w)"
begin

abbreviation step :: "'s Resolver \<Rightarrow> int option \<Rightarrow> 's world \<Rightarrow> SeawaterPositions \<Rightarrow>
    SeawaterPositions res" where
  "step r first w p \<equiv> fst (nxt r (Some p) first w)"

lemma follow_end: "sp_To p = None \<Longrightarrow> follow (step r first w) n p = Ok (replicate (Suc n) p)"
  by (induction n) (simp_all add: nxt_end)

lemma follow_stop:
  assumes "sp_To p = None" "sp_Positions p = []"
  shows "\<exists>pages. follow (step r first w) n p = Ok (p # pages) \<and> sp_To (last (p # pages)) = None \<and>
    shown pages = []"
  using assms last_replicate [of "Suc n" p]
  by (intro exI [of _ "replicate n p"]) (simp add: follow_end del: last_replicate)

text \<open>What one step does with the rows still to be shown.\<close>

lemma step_cut:
  assumes "positions_lawful (r_DB r) rows" "has_filter obj" "sp_To obj = Some t"
    and "page_size PoolPositionsPageSize first \<noteq> 0"
  obtains pg where "step r first w obj = Ok pg" "has_filter pg"
    "sp_To pg = None \<longleftrightarrow> sp_Positions pg = []"
    "sp_Positions pg = [] \<longleftrightarrow> pending obj (rows (w_db w)) = []"
    "mset (sp_Positions pg) + mset (pending pg (rows (w_db w))) \<subseteq># mset (pending obj (rows (w_db w)))"
    "newest_first (sp_Positions pg)"
    "\<forall>p \<in> set (sp_Positions pg). \<forall>q \<in> set (pending pg (rows (w_db w))).
      pos_CreatedBy q \<le> pos_CreatedBy p"
    "distinct (map second (pending obj (rows (w_db w)))) \<longrightarrow>
      mset (sp_Positions pg) + mset (pending pg (rows (w_db w))) = mset (pending obj (rows (w_db w)))"
proof -
  let ?M = "pending obj (rows (w_db w))"
  obtain qs where qs: "mset qs = mset ?M" "newest_first qs"
    and nxt: "nxt r (Some obj) first w =
      (Ok (next_page obj t (limited (Some (page_size PoolPositionsPageSize first)) qs)), w)"
    using nxt_more [OF assms(1,3,2)] by blast
  define ps where "ps = limited (Some (page_size PoolPositionsPageSize first)) qs"
  note cut = page_cut [OF qs ps_def assms(4)]
  have "set ps \<subseteq> set ?M" using mset_subset_eqD [OF cut(1)] by force
  then have "second p < t" if "p \<in> set ps" for p
    using that assms(3) by (auto simp: pending_def older_def before_second_iff)
  then have pend: "pending (next_page obj t ps) (rows (w_db w)) = older (cursor ps) ?M"
    by (cases "ps = []") (simp_all add: pending_def assms(3) cursor_def older_older order_less_imp_le,
        simp add: older_def)
  show thesis
  proof (rule that [of "next_page obj t ps"])
    show "step r first w obj = Ok (next_page obj t ps)" by (simp add: nxt ps_def)
  qed (use cut assms(2) in \<open>simp_all add: pend, simp add: cursor_def\<close>)
qed

text \<open>One step more than there are pending rows reaches the end.\<close>

lemma follow_walk:
  assumes law: "positions_lawful (r_DB r) rows" and size: "page_size PoolPositionsPageSize first \<noteq> 0"
    and "has_filter obj" "sp_To obj = None \<Longrightarrow> sp_Positions obj = []"
    and "length (pending obj (rows (w_db w))) < n"
  shows "\<exists>pages. follow (step r first w) n obj = Ok (obj # pages) \<and>
    sp_To (last (obj # pages)) = None \<and> walked (pending obj (rows (w_db w))) pages"
  using assms(3-)
proof (induction n arbitrary: obj)
  case (Suc n)
  show ?case
  proof (cases "sp_To obj")
    case None
    then have "pending obj (rows (w_db w)) = []" by (simp add: pending_def older_def)
    with follow_stop [OF None] Suc.prems(2) None show ?thesis by (metis walked_Nil)
  next
    case (Some t)
    obtain pg where pg: "step r first w obj = Ok pg" "has_filter pg"
      "sp_To pg = None \<longleftrightarrow> sp_Positions pg = []"
      "sp_Positions pg = [] \<longleftrightarrow> pending obj (rows (w_db w)) = []"
      and sub: "mset (sp_Positions pg) + mset (pending pg (rows (w_db w))) \<subseteq># mset (pending obj (rows (w_db w)))"
      and cut: "newest_first (sp_Positions pg)"
        "\<forall>p \<in> set (sp_Positions pg). \<forall>q \<in> set (pending pg (rows (w_db w))).
          pos_CreatedBy q \<le> pos_CreatedBy p"
        "distinct (map second (pending obj (rows (w_db w)))) \<longrightarrow>
          mset (sp_Positions pg) + mset (pending pg (rows (w_db w))) = mset (pending obj (rows (w_db w)))"
      by (rule step_cut [OF law Suc.prems(1) Some size, where w = w])
    have "\<exists>pages. follow (step r first w) n pg = Ok (pg # pages) \<and>
        sp_To (last (pg # pages)) = None \<and> walked (pending pg (rows (w_db w))) pages"
    proof (cases "sp_Positions pg = []")
      case True
      then have "pending pg (rows (w_db w)) = []" using sub pg(4) by simp
      with follow_stop [of pg] True pg(3) show ?thesis by (metis walked_Nil)
    next
      case False
      have "length (sp_Positions pg) + length (pending pg (rows (w_db w))) \<le>
          length (pending obj (rows (w_db w)))"
        using size_mset_mono [OF sub] by simp
      with False Suc.prems(3) have "length (pending pg (rows (w_db w))) < n"
        by (cases "sp_Positions pg") auto
      then show ?thesis using pg(3) by (intro Suc.IH [OF pg(2)]) simp_all
    qed
    then show ?thesis using pg(1) walked_Cons [OF sub cut] by fastforce
  qed
qed simp

end

section \<open>The two resolvers are pagers\<close>

lemma global_Next_query:
  assumes "has_filter obj"
  obtains c where "global_Next_stmt obj t n = Some c" "position_query c" "list_all cond_ok (st_where c)"
    "st_limit c = Some n" "\<And>rows. selected c rows = older (Some t) (filter (matches obj) rows)"
proof -
  define c where "c = gorm_Order ''created_by desc'' (gorm_Limit n
    (gorm_Where ''created_by < ?'' [ArgTime (time_Unix t)] (gorm_Table ''seawater_active_positions_2'')))"
  define f where "f = (case sp_Wallet obj of
      Some w \<Rightarrow> (''owner = ?'', [arg_Address w]) | None \<Rightarrow> (''pool = ?'', [arg_Address (the (sp_Pool obj))]))"
  have "global_Next_stmt obj t n = Some (gorm_Where (fst f) (snd f) c)"
    using assms by (auto simp: global_Next_stmt_def has_filter_def f_def c_def split: option.split)
  moreover have "cond_ok f" "cond_holds f = matches obj"
    using assms by (auto simp: f_def matches_def has_filter_def arg_Address_def Address_Value_def
        fun_eq_iff split: option.split)
  then have "list_all cond_ok (st_where (gorm_Where (fst f) (snd f) c))"
    "selected (gorm_Where (fst f) (snd f) c) rows = older (Some t) (filter (matches obj) rows)" for rows
    by (simp_all add: c_def stmt_defs selected_def older_def)
      (auto intro: filter_cong)
  moreover have "position_query (gorm_Where (fst f) (snd f) c)"
    "st_limit (gorm_Where (fst f) (snd f) c) = Some n"
    by (simp_all add: c_def stmt_defs position_query_def)
  ultimately show thesis using that by blast
qed

lemma user_Next_eq: "seawaterPositionsUserResolver_Next = seawaterPositionsGlobalResolver_Next"
proof -
  have "user_Next_stmt = global_Next_stmt"
    by (intro ext) (simp only: user_Next_stmt_def global_Next_stmt_def)
  then show ?thesis
    by (intro ext) (simp only: seawaterPositionsUserResolver_Next_def
        seawaterPositionsGlobalResolver_Next_def)
qed

interpretation global_pages: position_pager seawaterPositionsGlobalResolver_Next
proof
  fix obj :: SeawaterPositions and r :: "'a Resolver" and first and w :: "'a world"
  assume "sp_To obj = None"
  then show "seawaterPositionsGlobalResolver_Next r (Some obj) first w = (Ok obj, w)"
    by (simp add: seawaterPositionsGlobalResolver_Next_def Let_def pure_def)
next
  fix r :: "'a Resolver" and obj :: SeawaterPositions and rows t first and w :: "'a world"
  assume law: "positions_lawful (r_DB r) rows" and to: "sp_To obj = Some t" and filter: "has_filter obj"
  let ?n = "page_size PoolPositionsPageSize first"
  obtain c where c: "global_Next_stmt obj t ?n = Some c" "position_query c" "list_all cond_ok (st_where c)"
      "st_limit c = Some ?n" "\<And>rows. selected c rows = older (Some t) (filter (matches obj) rows)"
    using global_Next_query [OF filter] by blast
  obtain ps where ps: "Scan_Positions (r_DB r) c (w_db w) = Ok (scanned ps)" "is_page c (rows (w_db w)) ps"
    using positions_lawful_page [OF law c(2,3)] by blast
  then obtain qs where "mset qs = mset (pending obj (rows (w_db w)))" "newest_first qs"
      "ps = limited (Some ?n) qs"
    by (auto simp: is_page_def c pending_def to)
  moreover have "seawaterPositionsGlobalResolver_Next r (Some obj) first w = (Ok (next_page obj t ps), w)"
    by (simp add: seawaterPositionsGlobalResolver_Next_def Let_def to c(1) andDo_ask ps(1)
        last_created_cursor andDo_Ok pure_def next_page_def)
  ultimately show "\<exists>qs. mset qs = mset (pending obj (rows (w_db w))) \<and> newest_first qs \<and>
      seawaterPositionsGlobalResolver_Next r (Some obj) first w =
        (Ok (next_page obj t (limited (Some ?n) qs)), w)" by blast
qed

interpretation user_pages: position_pager seawaterPositionsUserResolver_Next
  unfolding user_Next_eq by (rule global_pages.position_pager_axioms)

section \<open>From the first page to the last\<close>

definition pool_rows :: "string \<Rightarrow> Position list \<Rightarrow> Position list" where
  "pool_rows pool rows = filter (\<lambda>p. pos_Pool p = AddressFromString pool) rows"

definition pool_page :: "string \<Rightarrow> int \<Rightarrow> Position list \<Rightarrow> SeawaterPositions" where
  "pool_page pool n ps = \<lparr>sp_From = n, sp_To = cursor ps, sp_Pool = Some (AddressFromString pool),
     sp_Wallet = None, sp_Positions = ps\<rparr>"

text \<open>The first page; without rows it is empty, and knows neither pool nor size.\<close>

definition first_page :: "string \<Rightarrow> int \<Rightarrow> Position list \<Rightarrow> SeawaterPositions" where
  "first_page pool n ps = (if ps = [] then zero_positions else pool_page pool n ps)"

lemma first_page_positions [simp]: "sp_Positions (first_page pool n ps) = ps"
  by (simp add: first_page_def pool_page_def zero_positions_def)

lemma GetPoolPositions_query:
  "position_query (GetPoolPositions_stmt (AddressFromString pool) n after)"
  "st_limit (GetPoolPositions_stmt (AddressFromString pool) n after) = Some n"
  "list_all cond_ok (st_where (GetPoolPositions_stmt (AddressFromString pool) n after))"
  by (simp_all add: GetPoolPositions_stmt_def stmt_defs position_query_def arg_Address_def
      Address_Value_def Let_def split: option.split)

lemma GetPoolPositions_first_page:
  assumes "positions_lawful (r_DB r) rows" "\<not> mocking r"
  obtains qs where "mset qs = mset (pool_rows pool (rows (w_db w)))" "newest_first qs"
    "queryResolver_GetPoolPositions r pool first None w =
      (Ok (first_page pool (page_size PoolPositionsPageSize first)
        (limited (Some (page_size PoolPositionsPageSize first)) qs)), w)"
proof -
  let ?n = "page_size PoolPositionsPageSize first"
  let ?st = "GetPoolPositions_stmt (AddressFromString pool) ?n None"
  obtain ps where ps: "Scan_Positions (r_DB r) ?st (w_db w) = Ok (scanned ps)"
      "is_page ?st (rows (w_db w)) ps"
    using positions_lawful_page [OF assms(1) GetPoolPositions_query(1,3)] by blast
  have "selected ?st (rows (w_db w)) = pool_rows pool (rows (w_db w))"
    by (simp add: selected_def GetPoolPositions_stmt_def stmt_defs pool_rows_def arg_Address_def
        Address_Value_def)
  then obtain qs where "mset qs = mset (pool_rows pool (rows (w_db w)))" "newest_first qs"
      "ps = limited (Some ?n) qs"
    using ps(2) by (auto simp: is_page_def GetPoolPositions_query(2))
  moreover have "queryResolver_GetPoolPositions r pool first None w = (Ok (first_page pool ?n ps), w)"
    using assms(2) by (cases "ps = []") (simp_all add: queryResolver_GetPoolPositions_def Let_def andDo_ask
        ps(1) last_created_cursor andDo_Ok pure_def pool_page_def first_page_def scanned_def)
  ultimately show thesis using that by blast
qed

lemma pending_pool_page:
  "pending (pool_page pool n ps) rows = older (cursor ps) (pool_rows pool rows)"
proof -
  have "matches (pool_page pool n ps) = (\<lambda>p. pos_Pool p = AddressFromString pool)"
    by (simp add: matches_def pool_page_def fun_eq_iff)
  then show ?thesis by (simp add: pending_def pool_rows_def) (simp add: pool_page_def)
qed

text \<open>C9. Listing the positions of a pool page by page is sound and comes to an end: after
  \<open>getPoolPositions\<close> without a cursor, following \<open>next\<close> once more often than there are rows succeeds,
  ends with a page that has no cursor, and the pages together show no row twice, the newest first;
  and they show every row of the pool when no two of them were created in the same second.  The page
  size asked for is anything but zero.\<close>

theorem positions_walk:
  assumes law: "positions_lawful (r_DB r) rows" and "\<not> mocking r"
    and size: "page_size PoolPositionsPageSize first \<noteq> 0"
  shows "\<exists>page pages. queryResolver_GetPoolPositions r pool first None w = (Ok page, w) \<and>
    follow (\<lambda>p. fst (seawaterPositionsGlobalResolver_Next r (Some p) first w))
      (Suc (length (pool_rows pool (rows (w_db w))))) page = Ok (page # pages) \<and>
    sp_To (last (page # pages)) = None \<and>
    mset (shown (page # pages)) \<subseteq># mset (pool_rows pool (rows (w_db w))) \<and>
    newest_first (shown (page # pages)) \<and>
    (distinct (map second (pool_rows pool (rows (w_db w)))) \<longrightarrow>
      mset (shown (page # pages)) = mset (pool_rows pool (rows (w_db w))))"
proof -
  let ?M = "pool_rows pool (rows (w_db w))" and ?n = "page_size PoolPositionsPageSize first"
  obtain qs where qs: "mset qs = mset ?M" "newest_first qs"
    and get: "queryResolver_GetPoolPositions r pool first None w =
      (Ok (first_page pool ?n (limited (Some ?n) qs)), w)"
    by (rule GetPoolPositions_first_page [OF assms(1,2), of pool w first])
  define ps where "ps = limited (Some ?n) qs"
  define page where "page = first_page pool ?n ps"
  note cut = page_cut [OF qs ps_def size]
  have "\<exists>pages. follow (\<lambda>p. fst (seawaterPositionsGlobalResolver_Next r (Some p) first w))
        (Suc (length ?M)) page = Ok (page # pages) \<and>
      sp_To (last (page # pages)) = None \<and> walked ?M (page # pages)"
  proof (cases "ps = []")
    case True
    then have page: "sp_To page = None" "sp_Positions page = []" and "?M = []"
      using cut(3) by (simp_all add: page_def first_page_def zero_positions_def)
    obtain pages where pages: "follow (\<lambda>p. fst (seawaterPositionsGlobalResolver_Next r (Some p) first w))
        (Suc (length ?M)) page = Ok (page # pages)" "sp_To (last (page # pages)) = None" "shown pages = []"
      using global_pages.follow_stop [OF page] by blast
    then have "walked ?M (page # pages)"
      using page \<open>?M = []\<close> by (intro walked_Nil) (simp_all only: list.map concat.simps append.simps)
    with pages show ?thesis by blast
  next
    case False
    then have page: "has_filter page" "sp_To page = None \<Longrightarrow> sp_Positions page = []"
      and pend: "pending page (rows (w_db w)) = older (cursor ps) ?M"
      by (auto simp: page_def first_page_def pending_pool_page, auto simp: pool_page_def has_filter_def cursor_def)
    then have "length (pending page (rows (w_db w))) < Suc (length ?M)"
      by (simp add: older_def less_Suc_eq_le split: option.split)
    from global_pages.follow_walk [OF law size page this]
    obtain pages where pages:
        "follow (\<lambda>p. fst (seawaterPositionsGlobalResolver_Next r (Some p) first w)) (Suc (length ?M)) page =
          Ok (page # pages)"
        "sp_To (last (page # pages)) = None" "walked (pending page (rows (w_db w))) pages" by blast
    have "walked ?M (page # pages)"
      by (rule walked_Cons [OF _ _ _ _ pages(3)]) (use cut in \<open>simp_all add: pend, simp_all add: page_def\<close>)
    with pages(1,2) show ?thesis by blast
  qed
  then show ?thesis using get
    unfolding ps_def [symmetric] page_def [symmetric] walked_def by blast
qed

definition demo_store :: "Position list \<Rightarrow> store" where
  "demo_store ps = \<lparr>store_positions = ps, store_cache = Map.empty, store_accounts = []\<rparr>"

abbreviation demo_state :: "Position list \<Rightarrow> store world" where
  "demo_state ps \<equiv> demo_world (demo_store ps)"

lemma demo_rows [simp]: "store_positions (w_db (demo_state ps)) = ps"
  by (simp add: demo_world_def demo_store_def)

lemma AddressFromString_0xA: "AddressFromString ''0xA'' = ''0xa''"
  by code_simp

lemma demo_pool_rows:
  "pool_rows ''0xA'' (map (\<lambda>(i, t). demo_position i t) its) = map (\<lambda>(i, t). demo_position i t) its"
  by (induction its) (auto simp: pool_rows_def demo_position_def AddressFromString_0xA)

theorem positions_walk_witness:
  "\<exists>page pages. let w = demo_state [demo_position 1 (2 * 10 ^ 9), demo_position 2 (3 * 10 ^ 9)] in
    queryResolver_GetPoolPositions (demo_graph store_gorm) ''0xA'' (Some 1) None w = (Ok page, w) \<and>
    follow (\<lambda>p. fst (seawaterPositionsGlobalResolver_Next (demo_graph store_gorm) (Some p) (Some 1) w))
      3 page = Ok (page # pages) \<and>
    mset (shown (page # pages)) = {#demo_position 1 (2 * 10 ^ 9), demo_position 2 (3 * 10 ^ 9)#}"
proof -
  let ?ps = "[demo_position 1 (2 * 10 ^ 9), demo_position 2 (3 * 10 ^ 9)]"
  have law: "positions_lawful (r_DB (demo_graph store_gorm)) store_positions"
    by (simp add: store_positions_lawful)
  have rows: "pool_rows ''0xA'' ?ps = ?ps"
    using demo_pool_rows [of "[(1, 2 * 10 ^ 9), (2, 3 * 10 ^ 9)]"] by simp
  have "distinct (map second ?ps)" by (simp add: demo_position_def Unix_def)
  then show ?thesis
    using positions_walk [OF law, of "Some 1" "''0xA''" "demo_state ?ps", unfolded demo_rows rows]
    by (simp add: page_size_def PoolPositionsPageSize_def Let_def numeral_3_eq_3 del: follow.simps) blast
qed

text \<open>Two positions created in the same second, asked for one at a time: the second one is never
  shown.\<close>

theorem same_second_skipped:
  "let w = demo_state [demo_position 1 (2 * 10 ^ 9 + 1), demo_position 2 (2 * 10 ^ 9)];
       page = pool_page ''0xA'' 1 [demo_position 1 (2 * 10 ^ 9 + 1)]
   in queryResolver_GetPoolPositions (demo_graph store_gorm) ''0xA'' (Some 1) None w = (Ok page, w) \<and>
      seawaterPositionsGlobalResolver_Next (demo_graph store_gorm) (Some page) (Some 1) w =
        (Ok (next_page page 2 []), w)"
  by (simp add: queryResolver_GetPoolPositions_def seawaterPositionsGlobalResolver_Next_def Let_def
      page_size_def PoolPositionsPageSize_def GetPoolPositions_stmt_def global_Next_stmt_def stmt_defs
      andDo_ask store_gorm_def store_scan_positions_def selected_def arg_Address_def Address_Value_def
      AddressFromString_0xA Address_String_def lower_char_def demo_position_def last_created_cursor
      cursor_def Unix_def time_Unix_def andDo_Ok pure_def pool_page_def next_page_def scanned_def)

end
