(* ===== verification/PageBounds.thy ===== *)
theory PageBounds
  imports Pages
begin

text \<open>
  The sizes of the pages of positions and the types of the statements behind them, over all six
  resolvers that hand out such pages.
\<close>

section \<open>Every page comes from one limited statement\<close>

text \<open>The rows of a page are those of a statement on the table of active positions with limit \<open>n\<close>,
  or there are none.\<close>

definition fetched :: "'s gorm \<Rightarrow> 's \<Rightarrow> int \<Rightarrow> SeawaterPositions \<Rightarrow> bool" where
  "fetched D s n page \<longleftrightarrow> sp_Positions page = [] \<or>
     (\<exists>st. position_query st \<and> st_limit st = Some n \<and>
        Scan_Positions D st s = Ok (Some (sp_Positions page)))"

lemma fetchedI:
  "Scan_Positions D st s = Ok (Some ps) \<Longrightarrow> position_query st \<Longrightarrow> st_limit st = Some n \<Longrightarrow>
    fetched D s n \<lparr>sp_From = a, sp_To = b, sp_Pool = c, sp_Wallet = d, sp_Positions = ps\<rparr>"
  by (auto simp: fetched_def)

lemma fetched_empty: "sp_Positions page = [] \<Longrightarrow> fetched D s n page"
  by (simp add: fetched_def)

lemma fetched_bounded:
  assumes "positions_lawful D rows" "fetched D s n page" "0 \<le> n"
  shows "length (sp_Positions page) \<le> nat n"
proof (cases "sp_Positions page = []")
  case False
  then obtain st where st: "position_query st" "st_limit st = Some n"
      "Scan_Positions D st s = Ok (Some (sp_Positions page))"
    using assms(2) by (auto simp: fetched_def)
  have "list_all cond_ok (st_where st)"
    using positions_lawful_error [OF assms(1) st(1), of s] st(3) by fastforce
  then obtain ps where ps: "Scan_Positions D st s = Ok (scanned ps)" "is_page st (rows s) ps"
    by (rule positions_lawful_page [OF assms(1) st(1)])
  moreover have "sp_Positions page = ps" using ps(1) st(3) by (simp add: scanned_def split: if_splits)
  ultimately obtain qs where "sp_Positions page = limited (Some n) qs"
    unfolding is_page_def st(2) by blast
  then show ?thesis using length_limited [OF assms(3), of qs] by (simp only:)
qed simp

lemmas page_stmt_defs = GetPoolPositions_stmt_def GetPositions_stmt_def pool_Positions_stmt_def
  wallet_Positions_stmt_def global_Next_stmt_def user_Next_stmt_def stmt_defs position_query_def

lemma page_stmts:
  "position_query (GetPoolPositions_stmt a n after)" "st_limit (GetPoolPositions_stmt a n after) = Some n"
  "position_query (GetPositions_stmt a n after)" "st_limit (GetPositions_stmt a n after) = Some n"
  "position_query (pool_Positions_stmt a n after)" "st_limit (pool_Positions_stmt a n after) = Some n"
  "position_query (wallet_Positions_stmt a n after)" "st_limit (wallet_Positions_stmt a n after) = Some n"
  by (simp_all add: page_stmt_defs Let_def split: option.split)

lemma Next_stmt:
  "global_Next_stmt obj t n = Some st \<Longrightarrow> position_query st \<and> st_limit st = Some n"
  by (auto simp: page_stmt_defs Let_def split: option.splits)

lemma fetched_GetPoolPositions:
  "\<not> mocking r \<Longrightarrow> queryResolver_GetPoolPositions r pool first after w = (Ok page, w') \<Longrightarrow>
    fetched (r_DB r) (w_db w) (page_size PoolPositionsPageSize first) page"
  by (auto simp: queryResolver_GetPoolPositions_def Let_def andDo_eq_Ok zero_positions_def split: option.splits
      intro: fetched_empty fetchedI page_stmts)

lemma fetched_GetPositions:
  "\<not> mocking r \<Longrightarrow> queryResolver_GetPositions r wallet first after w = (Ok page, w') \<Longrightarrow>
    fetched (r_DB r) (w_db w) (page_size PoolPositionsPageSize first) page"
  by (auto simp: queryResolver_GetPositions_def Let_def andDo_eq_Ok zero_positions_def split: option.splits
      intro: fetched_empty fetchedI page_stmts)

lemma fetched_pool_Positions:
  "\<not> mocking r \<Longrightarrow> seawaterPoolResolver_Positions r obj first after w = (Ok page, w') \<Longrightarrow>
    fetched (r_DB r) (w_db w) (page_size PoolPositionsPageSize first) page"
  by (auto simp: seawaterPoolResolver_Positions_def Let_def andDo_eq_Ok zero_positions_def split: option.splits
      intro: fetched_empty fetchedI page_stmts)

lemma fetched_wallet_Positions:
  "\<not> mocking r \<Longrightarrow> walletResolver_Positions r obj first after w = (Ok page, w') \<Longrightarrow>
    fetched (r_DB r) (w_db w) (page_size PoolPositionsPageSize first) page"
  by (auto simp: walletResolver_Positions_def Let_def andDo_eq_Ok zero_positions_def split: option.splits
      intro: fetched_empty fetchedI page_stmts)

lemma fetched_Next:
  assumes "sp_To obj \<noteq> None"
    and "seawaterPositionsGlobalResolver_Next r (Some obj) first w = (Ok page, w')"
  shows "fetched (r_DB r) (w_db w) (page_size PoolPositionsPageSize first) page"
proof -
  let ?n = "page_size PoolPositionsPageSize first"
  obtain t st pos' where st: "sp_To obj = Some t" "global_Next_stmt obj t ?n = Some st"
      "Scan_Positions (r_DB r) st (w_db w) = Ok pos'" "sp_Positions page = elems pos'"
    using assms
    by (auto simp: seawaterPositionsGlobalResolver_Next_def Let_def andDo_eq_Ok split: option.splits)
  then show ?thesis using Next_stmt [OF st(2)] by (cases pos') (auto simp: fetched_def)
qed

lemma page_size_le: "page_size k first \<le> k"
  by (simp add: page_size_def split: option.split)

lemma page_size_nonneg: "0 \<le> k \<Longrightarrow> (\<And>n. first = Some n \<Longrightarrow> 0 \<le> n) \<Longrightarrow> 0 \<le> page_size k first"
  by (simp add: page_size_def split: option.split)

text \<open>C21. A page of positions never has more than fifty rows, nor more than were asked for, whichever
  of the six resolvers made it, as long as the number asked for is not negative.\<close>

theorem page_bounded:
  assumes law: "positions_lawful (r_DB r) rows" and live: "\<not> mocking r"
    and size: "\<And>n. first = Some n \<Longrightarrow> 0 \<le> n"
    and made: "(Ok page, w') \<in> {queryResolver_GetPoolPositions r pool first after w,
      queryResolver_GetPositions r wallet first after w,
      seawaterPoolResolver_Positions r obj first after w,
      walletResolver_Positions r user first after w} \<or>
      sp_To prev \<noteq> None \<and> (Ok page, w') \<in> {seawaterPositionsGlobalResolver_Next r (Some prev) first w,
        seawaterPositionsUserResolver_Next r (Some prev) first w}"
  shows "length (sp_Positions page) \<le> 50 \<and>
    (case first of None \<Rightarrow> True | Some n \<Rightarrow> length (sp_Positions page) \<le> nat n)"
proof -
  let ?n = "page_size PoolPositionsPageSize first"
  have "fetched (r_DB r) (w_db w) ?n page"
  proof -
    consider "queryResolver_GetPoolPositions r pool first after w = (Ok page, w')"
      | "queryResolver_GetPositions r wallet first after w = (Ok page, w')"
      | "seawaterPoolResolver_Positions r obj first after w = (Ok page, w')"
      | "walletResolver_Positions r user first after w = (Ok page, w')"
      | "sp_To prev \<noteq> None" "seawaterPositionsGlobalResolver_Next r (Some prev) first w = (Ok page, w')"
      using made unfolding user_Next_eq by (metis empty_iff insert_iff)
    then show ?thesis
      by cases (auto dest: fetched_GetPoolPositions [OF live] fetched_GetPositions [OF live]
        fetched_pool_Positions [OF live] fetched_wallet_Positions [OF live] fetched_Next [rotated])
  qed
  moreover have "0 \<le> ?n" using size by (intro page_size_nonneg) (simp_all add: PoolPositionsPageSize_def)
  ultimately have "length (sp_Positions page) \<le> nat ?n" by (rule fetched_bounded [OF law])
  then show ?thesis
    by (auto simp: page_size_def PoolPositionsPageSize_def split: option.splits if_splits)
qed

theorem page_bounded_witness:
  "let w = demo_state [demo_position 1 (2 * 10 ^ 9 + 1), demo_position 2 (2 * 10 ^ 9)];
       page = pool_page ''0xA'' 1 [demo_position 1 (2 * 10 ^ 9 + 1)]
   in (Ok page, w) = queryResolver_GetPoolPositions (demo_graph store_gorm) ''0xA'' (Some 1) None w \<and>
      length (sp_Positions page) \<le> 1"
proof -
  let ?w = "demo_state [demo_position 1 (2 * 10 ^ 9 + 1), demo_position 2 (2 * 10 ^ 9)]"
  have "queryResolver_GetPoolPositions (demo_graph store_gorm) ''0xA'' (Some 1) None ?w =
      (Ok (pool_page ''0xA'' 1 [demo_position 1 (2 * 10 ^ 9 + 1)]), ?w)"
    using same_second_skipped by (simp add: Let_def)
  moreover have "positions_lawful (r_DB (demo_graph store_gorm)) store_positions"
    by (simp add: store_positions_lawful)
  ultimately show ?thesis
    using page_bounded [of "demo_graph store_gorm" store_positions "Some 1"
        "pool_page ''0xA'' 1 [demo_position 1 (2 * 10 ^ 9 + 1)]" ?w "''0xA''" None ?w]
    by (simp add: Let_def)
qed

text \<open>A negative number escapes the cap: the whole table comes back in one page.\<close>

theorem negative_page_size_unbounded:
  assumes "positions_lawful (r_DB r) rows" "\<not> mocking r" "n < 0"
  shows "\<exists>page. queryResolver_GetPoolPositions r pool (Some n) None w = (Ok page, w) \<and>
    mset (sp_Positions page) = mset (pool_rows pool (rows (w_db w)))"
proof -
  have n: "page_size PoolPositionsPageSize (Some n) = n"
    using assms(3) by (simp add: page_size_def PoolPositionsPageSize_def)
  obtain qs where "mset qs = mset (pool_rows pool (rows (w_db w)))"
      "queryResolver_GetPoolPositions r pool (Some n) None w =
        (Ok (first_page pool n (limited (Some n) qs)), w)"
    using GetPoolPositions_first_page [OF assms(1,2), of pool w "Some n"] unfolding n by metis
  then show ?thesis using assms(3) by simp
qed

section \<open>Well-typed statements\<close>

text \<open>The statements behind the six kinds of page compare a column with a value of its type, with one
  exception: a pool's \<open>positions\<close> given a cursor compares the creation time with a number, so that
  the database rejects it and the resolver always answers with that error.\<close>

theorem page_statements_typed:
  "list_all cond_ok (st_where (GetPoolPositions_stmt p n after)) \<and>
   list_all cond_ok (st_where (GetPositions_stmt p n after)) \<and>
   list_all cond_ok (st_where (wallet_Positions_stmt p n after)) \<and>
   (case global_Next_stmt page t n of None \<Rightarrow> True | Some st \<Rightarrow> list_all cond_ok (st_where st)) \<and>
   (case user_Next_stmt page t n of None \<Rightarrow> True | Some st \<Rightarrow> list_all cond_ok (st_where st)) \<and>
   (list_all cond_ok (st_where (pool_Positions_stmt p n after)) \<longleftrightarrow> after = None) \<and>
   (positions_lawful (r_DB r) rows \<and> \<not> mocking r \<longrightarrow>
     (\<exists>e. seawaterPoolResolver_Positions r (Some obj) first (Some a) w = (Err e, w)))"
proof (intro conjI impI)
  have bad: "\<not> list_all cond_ok (st_where (pool_Positions_stmt q m (Some k)))" for q m k
    by (simp add: pool_Positions_stmt_def stmt_defs)
  then show "list_all cond_ok (st_where (pool_Positions_stmt p n after)) \<longleftrightarrow> after = None"
    by (cases after) (simp_all add: pool_Positions_stmt_def stmt_defs arg_Address_def Address_Value_def)
  assume "positions_lawful (r_DB r) rows \<and> \<not> mocking r"
  then show "\<exists>e. seawaterPoolResolver_Positions r (Some obj) first (Some a) w = (Err e, w)"
  proof (elim conjE)
    assume "\<not> mocking r" "positions_lawful (r_DB r) rows"
    then obtain e where "Scan_Positions (r_DB r) (pool_Positions_stmt (pool_Token obj)
        (page_size PoolPositionsPageSize first) (Some a)) (w_db w) = Err e"
      using positions_lawful_error [OF _ page_stmts(5) bad] by metis
    with \<open>\<not> mocking r\<close> show ?thesis
      by (simp add: seawaterPoolResolver_Positions_def Let_def nil_deref_def andDo_Ok pure_def andDo_ask)
  qed
qed (simp_all add: page_stmt_defs arg_Address_def Address_Value_def Let_def split: option.split)

theorem page_statements_typed_witness:
  "\<exists>e. seawaterPoolResolver_Positions (demo_graph store_gorm) (Some zero_Pool) None (Some 0)
     (demo_state []) = (Err e, demo_state [])"
  using page_statements_typed [of "[]" 0 None zero_positions 0 "demo_graph store_gorm" store_positions
      zero_Pool None 0 "demo_state []"]
  by (simp add: store_positions_lawful)

end
