(* ===== verification/TickAccuracy.thy ===== *)
theory TickAccuracy
  imports TickBounds
begin

text \<open>
  \<open>GetSqrtRatioAtTick\<close> against the mathematics it stands for: the square root of \<open>1.0001 ^ tick\<close> in
  Q64.96.  Every product of the bit loop is truncated to 128 fractional bits; the errors are
  followed through the loop, the reciprocal and the last shift.  The bound is far below the distance
  of neighbouring ticks, so the function is strictly increasing.
\<close>

section \<open>Truncated products\<close>

text \<open>\<open>a\<close> stands for \<open>A\<close> with 128 fractional bits, up to \<open>d\<close> units of the last place.\<close>

definition close :: "int \<Rightarrow> real \<Rightarrow> real \<Rightarrow> bool" where
  "close a A d \<longleftrightarrow> \<bar>real_of_int a - 2 ^ 128 * A\<bar> \<le> d"

lemma drop_bit_real:
  "real_of_int x / 2 ^ k - 1 < real_of_int (drop_bit k x) \<and> real_of_int (drop_bit k x) \<le> real_of_int x / 2 ^ k"
proof -
  have "drop_bit k x = \<lfloor>real_of_int x / 2 ^ k\<rfloor>"
    by (metis drop_bit_eq_div floor_divide_of_int_eq of_int_numeral of_int_power)
  then show ?thesis by linarith
qed

lemma close_product:
  assumes "close a A d" "close b B e" "0 \<le> A" "A \<le> 1" "0 \<le> B" "B \<le> 1"
    and "d * e \<le> 2 ^ 128"
  shows "close (drop_bit 128 (a * b)) (A * B) (d + e + 2)"
proof -
  let ?M = "2 ^ 128 :: real"
  let ?u = "real_of_int a - ?M * A" and ?v = "real_of_int b - ?M * B"
  have u: "\<bar>?u\<bar> \<le> d" and v: "\<bar>?v\<bar> \<le> e" using assms(1,2) by (simp_all add: close_def)
  have "\<bar>?u * ?v\<bar> \<le> d * e" unfolding abs_mult using u v by (intro mult_mono) auto
  then have uv: "\<bar>?u * ?v / ?M\<bar> \<le> 1" using assms(7) by simp
  have "\<bar>A * ?v\<bar> \<le> 1 * e" "\<bar>B * ?u\<bar> \<le> 1 * d"
    unfolding abs_mult using u v assms(3-6) by (intro mult_mono; simp)+
  moreover have "real_of_int (a * b) / ?M = ?M * (A * B) + A * ?v + B * ?u + ?u * ?v / ?M"
    by (simp add: field_simps)
  ultimately have "\<bar>real_of_int (a * b) / ?M - ?M * (A * B)\<bar> \<le> d + e + 1"
    using uv by linarith
  then show ?thesis using drop_bit_real [of "a * b" 128] unfolding close_def by linarith
qed

text \<open>The loop multiplies \<open>P\<close> by \<open>Q ^ n\<close>; each of its \<open>b\<close> rounds doubles the error of the ratio and
  adds it to that of the result.\<close>

lemma sqrt_ratio_loop_close:
  assumes "close ratio Q d" "close res P e" "0 \<le> Q" "Q \<le> 1" "0 \<le> P" "P \<le> 1"
    and "n < 2 ^ b" "0 \<le> d" "0 \<le> e" "e + (d + 2) * (2 ^ b - 1) \<le> 2 ^ 64"
  shows "close (sqrt_ratio_loop n ratio res) (P * Q ^ n) (e + (d + 2) * (2 ^ b - 1))"
  using assms
proof (induction b arbitrary: n ratio res Q P d e)
  case 0
  then show ?case by simp
next
  case (Suc b)
  define grow where "grow = (d + 2) * (2 ^ Suc b - 1 :: real)"
  have "(d + 2) * 1 \<le> grow" unfolding grow_def
    using Suc.prems(8) one_le_power [of "2 :: real" b] by (intro mult_left_mono) simp_all
  moreover have "e + grow \<le> 2 ^ 64" unfolding grow_def by (rule Suc.prems(10))
  ultimately have d: "d \<le> 2 ^ 64" and e: "e \<le> 2 ^ 64" using Suc.prems(8,9) by simp_all
  have "d * d \<le> 2 ^ 64 * 2 ^ 64" "e * d \<le> 2 ^ 64 * 2 ^ 64"
    using d e Suc.prems(8,9) by (intro mult_mono; simp)+
  then have sq: "close (drop_bit 128 (ratio * ratio)) (Q ^ 2) (2 * d + 2)"
    and mul: "close (drop_bit 128 (res * ratio)) (P * Q) (e + d + 2)"
    using close_product [OF Suc.prems(1) Suc.prems(1)] close_product [OF Suc.prems(2) Suc.prems(1)]
      Suc.prems(3-6) by (simp_all add: power2_eq_square)
  have Q2: "0 \<le> Q ^ 2" "Q ^ 2 \<le> 1" using Suc.prems(3,4) by (simp_all add: power_le_one)
  define P' where "P' = (if odd n then P * Q else P)"
  define res' where "res' = (if n AND 1 \<noteq> 0 then drop_bit 128 (res * ratio) else res)"
  have "close res P (e + d + 2)" using Suc.prems(2,8) by (auto simp: close_def)
  then have res': "close res' P' (e + d + 2)"
    using mul by (auto simp: res'_def P'_def and_one_eq odd_iff_mod_2_eq_one)
  have P': "0 \<le> P'" "P' \<le> 1"
    using Suc.prems(3-6) mult_mono [of P 1 Q 1] by (auto simp: P'_def)
  have "n div 2 < 2 ^ b" using Suc.prems(7) by simp
  moreover have err: "e + d + 2 + (2 * d + 2 + 2) * (2 ^ b - 1) = e + (d + 2) * (2 ^ Suc b - 1)"
    by (simp add: algebra_simps)
  ultimately have "close (sqrt_ratio_loop (n div 2) (drop_bit 128 (ratio * ratio)) res')
      (P' * (Q ^ 2) ^ (n div 2)) (e + d + 2 + (2 * d + 2 + 2) * (2 ^ b - 1))"
    using Suc.prems(8-10) by (intro Suc.IH [OF sq res' Q2 P']) simp_all
  moreover have "P' * (Q ^ 2) ^ (n div 2) = P * Q ^ n"
    by (cases "even n") (auto simp: P'_def power_mult [symmetric] elim!: oddE evenE)
  moreover have "sqrt_ratio_loop n ratio res =
      sqrt_ratio_loop (n div 2) (drop_bit 128 (ratio * ratio)) res'"
    using sqrt_ratio_loop_step [of n] by (cases "n = 0") (simp_all add: res'_def drop_bit_eq_div)
  ultimately show ?case by (simp only: err)
qed

section \<open>The exact price\<close>

text \<open>The square root of \<open>1.0001 ^ t\<close> in Q64.96.\<close>

definition exact_sqrt_price :: "int \<Rightarrow> real" where
  "exact_sqrt_price t = 2 ^ 96 * 1.0001 powr (t / 2)"

definition tick_root :: real where
  "tick_root = 1.0001 powr (- 1 / 2)"

lemma tick_root_range: "0 \<le> tick_root" "tick_root \<le> 1"
  using powr_mono [of "- 1 / 2" 0 "1.0001 :: real"] by (simp_all add: tick_root_def)

lemma tick_root_power: "tick_root ^ n = 1.0001 powr (- (n / 2))"
  unfolding tick_root_def by (subst powr_power) (simp_all add: algebra_simps)

lemma tick_root_square: "tick_root ^ 2 = 10000 / 10001"
  by (simp add: tick_root_power powr_minus)

lemma close_one: "close (push_bit 128 1) 1 1"
  by (simp add: close_def push_bit_eq_mult)

lemma close_tick_ratio: "close tick_ratio (tick_root ^ 2) 1"
  by (simp add: close_def tick_ratio_eq tick_root_square abs_le_iff)

lemma close_odd_tick_ratio: "close odd_tick_ratio tick_root 1"
proof -
  let ?x = "2 ^ 128 * tick_root" and ?c = "340265354078544963557816517032075149313 :: real"
  have sq: "?x ^ 2 = 2 ^ 256 * (10000 / 10001)" by (simp add: power_mult_distrib tick_root_square)
  have "(?c - 1) ^ 2 \<le> ?x ^ 2" unfolding sq by (simp add: field_simps)
  then have "?c - 1 \<le> ?x" by (rule power2_le_imp_le) (simp add: tick_root_range(1))
  moreover have "?x ^ 2 \<le> (?c + 1) ^ 2" unfolding sq by (simp add: field_simps)
  then have "?x \<le> ?c + 1" by (rule power2_le_imp_le) simp
  ultimately have "?c - 1 \<le> ?x" "?x \<le> ?c + 1" .
  then show ?thesis by (simp add: close_def odd_tick_ratio_eq abs_le_iff)
qed

lemma sqrt_ratio_abs_close:
  assumes "n \<le> 887272"
  shows "close (sqrt_ratio_abs n) (1.0001 powr (- (n / 2))) 1572862"
proof -
  define P where "P = (if odd n then tick_root else 1)"
  have "close (sqrt_ratio_loop (n div 2) tick_ratio
        (if n AND 1 \<noteq> 0 then odd_tick_ratio else push_bit 128 1))
      (P * (tick_root ^ 2) ^ (n div 2)) (1 + (1 + 2) * (2 ^ 19 - 1))"
    using tick_root_range assms close_one close_odd_tick_ratio
    by (intro sqrt_ratio_loop_close close_tick_ratio)
      (auto simp: P_def power_le_one and_one_eq odd_iff_mod_2_eq_one)
  moreover have "P * (tick_root ^ 2) ^ (n div 2) = tick_root ^ n"
    by (cases "even n") (auto simp: P_def power_mult [symmetric] elim!: oddE evenE)
  ultimately show ?thesis
    by (simp add: sqrt_ratio_abs_def drop_bit_eq_div tick_root_power)
qed

lemma exact_nonpos: "t \<le> 0 \<Longrightarrow> exact_sqrt_price t = 2 ^ 96 * 1.0001 powr (- (nat \<bar>t\<bar> / 2))"
  by (simp add: exact_sqrt_price_def)

lemma round_up32_shift: "\<bar>real_of_int (round_up32 (drop_bit 32 x)) - x / 2 ^ 32\<bar> \<le> 1"
  using drop_bit_real [of x 32] by (auto simp: round_up32_def)

lemma reciprocal_real:
  assumes "2 ^ 64 \<le> real_of_int r"
  shows "\<bar>real_of_int ((2 ^ 256 - 1) div r) - 2 ^ 256 / real_of_int r\<bar> \<le> 2"
proof -
  have "(2 ^ 256 - 1) div r = \<lfloor>real_of_int (2 ^ 256 - 1) / real_of_int r\<rfloor>"
    by (rule floor_divide_of_int_eq [symmetric])
  moreover have "real_of_int (2 ^ 256 - 1) / real_of_int r = 2 ^ 256 / real_of_int r - 1 / real_of_int r"
    by (simp add: diff_divide_distrib)
  moreover have "0 \<le> 1 / real_of_int r" "1 / real_of_int r \<le> 1" using assms by simp_all
  ultimately show ?thesis by linarith
qed

section \<open>Accuracy\<close>

lemma accurate_nonpos:
  assumes "MinTick \<le> t" "t \<le> 0"
  shows "\<exists>r. GetSqrtRatioAtTick t = Ok r \<and> \<bar>real_of_int r - exact_sqrt_price t\<bar> \<le> 2"
proof -
  let ?n = "nat \<bar>t\<bar>" and ?r = "sqrt_ratio_abs (nat \<bar>t\<bar>)"
  have "?n \<le> 887272" using assms by (simp add: MinTick_def)
  from sqrt_ratio_abs_close [OF this]
  have "\<bar>real_of_int ?r - 2 ^ 32 * exact_sqrt_price t\<bar> \<le> 1572862"
    using assms(2) by (simp add: close_def exact_nonpos)
  then have "\<bar>?r / 2 ^ 32 - exact_sqrt_price t\<bar> \<le> 1"
    by (simp add: abs_le_iff field_simps)
  then have "\<bar>real_of_int (round_up32 (drop_bit 32 ?r)) - exact_sqrt_price t\<bar> \<le> 2"
    using round_up32_shift [of ?r] by linarith
  then show ?thesis using GetSqrtRatioAtTick_nonpos [OF assms(2)] by simp
qed

lemma accurate_pos:
  assumes "0 < t" "t \<le> MaxTick"
  shows "\<exists>r. GetSqrtRatioAtTick t = Ok r \<and>
    \<bar>real_of_int r - exact_sqrt_price t\<bar> \<le> 2 + exact_sqrt_price t / 2 ^ 43"
proof -
  let ?n = "nat \<bar>t\<bar>"
  define res where "res = sqrt_ratio_abs ?n"
  define x where "x = (1.0001 :: real) powr (t / 2)"
  have n: "?n \<le> 887272" using assms by (simp add: MaxTick_def)
  have res: "2 ^ 64 \<le> res" using sqrt_ratio_abs_lower [OF n] by (simp add: res_def sqrt_ratio_abs_MaxTick)
  then have res': "2 ^ 64 \<le> real_of_int res" by (metis of_int_le_iff of_int_numeral of_int_power)
  have x: "0 < x" by (simp add: x_def)
  have "1.0001 powr (- (?n / 2)) = 1 / x"
    using assms(1) by (simp add: x_def powr_minus field_simps)
  then have "\<bar>real_of_int res - 2 ^ 128 / x\<bar> \<le> 1572862"
    using sqrt_ratio_abs_close [OF n] by (simp add: close_def res_def)
  then have "\<bar>2 ^ 128 - real_of_int res * x\<bar> \<le> 1572862 * x"
    using x by (simp add: abs_le_iff field_simps)
  then have "\<bar>2 ^ 128 - real_of_int res * x\<bar> * 2 ^ 128 / real_of_int res
      \<le> 1572862 * x * 2 ^ 128 / 2 ^ 64"
    using res' x by (intro frac_le mult_right_mono) simp_all
  moreover have "2 ^ 256 / real_of_int res - 2 ^ 128 * x =
      (2 ^ 128 - real_of_int res * x) * 2 ^ 128 / real_of_int res"
    using res' by (simp add: field_simps)
  ultimately have "\<bar>2 ^ 256 / real_of_int res - 2 ^ 128 * x\<bar> \<le> 1572862 * x * 2 ^ 128 / 2 ^ 64"
    using res' by (simp only: abs_mult abs_divide) simp
  moreover have "\<bar>real_of_int ((2 ^ 256 - 1) div res) - 2 ^ 256 / real_of_int res\<bar> \<le> 2"
    using res' by (rule reciprocal_real)
  ultimately have "\<bar>real_of_int ((2 ^ 256 - 1) div res) / 2 ^ 32 - 2 ^ 96 * x\<bar> \<le> 1 + 2 ^ 96 * x / 2 ^ 43"
    using x by (simp add: abs_le_iff field_simps)
  moreover have "GetSqrtRatioAtTick t = Ok (round_up32 (drop_bit 32 ((2 ^ 256 - 1) div res)))"
    using GetSqrtRatioAtTick_pos [OF assms(1)] sqrt_ratio_abs_pos [OF n] by (simp add: res_def)
  ultimately show ?thesis
    using round_up32_shift [of "(2 ^ 256 - 1) div res"]
    unfolding exact_sqrt_price_def x_def [symmetric] by (intro exI conjI) (assumption, linarith)
qed

text \<open>C7. The square-root price of a tick is the one it stands for: over the whole protocol range the
  result differs from the square root of \<open>1.0001 ^ t\<close> in Q64.96 by at most two units of the last
  place, and for positive ticks by at most a further relative error of \<open>2 ^ - 43\<close>.\<close>

theorem GetSqrtRatioAtTick_accurate:
  assumes "MinTick \<le> t" "t \<le> MaxTick"
  shows "\<exists>r. GetSqrtRatioAtTick t = Ok r \<and>
    \<bar>real_of_int r - 2 ^ 96 * 1.0001 powr (t / 2)\<bar>
      \<le> 2 + (if 0 < t then 2 ^ 96 * 1.0001 powr (t / 2) / 2 ^ 43 else 0)"
  using accurate_nonpos [OF assms(1)] accurate_pos [OF _ assms(2)]
  by (cases "0 < t") (auto simp: exact_sqrt_price_def)

theorem GetSqrtRatioAtTick_accurate_witness:
  "\<exists>r. GetSqrtRatioAtTick (- 200000) = Ok r \<and>
     \<bar>real_of_int r - 2 ^ 96 * 1.0001 powr (- 100000)\<bar> \<le> 2"
  using GetSqrtRatioAtTick_accurate [of "- 200000"] by (simp add: MinTick_def MaxTick_def)

section \<open>Order\<close>

lemma accurate:
  assumes "MinTick \<le> t" "t \<le> MaxTick"
  shows "\<exists>r. GetSqrtRatioAtTick t = Ok r \<and> 2 ^ 31 \<le> exact_sqrt_price t \<and>
    \<bar>real_of_int r - exact_sqrt_price t\<bar> \<le> 2 + exact_sqrt_price t / 2 ^ 43"
proof (cases "0 < t")
  case True
  then have "1 \<le> (1.0001 :: real) powr (t / 2)"
    using powr_mono [of 0 "real_of_int t / 2" "1.0001 :: real"] by simp
  then show ?thesis using accurate_pos [OF True assms(2)] by (auto simp: exact_sqrt_price_def)
next
  case False
  then obtain r where r: "GetSqrtRatioAtTick t = Ok r" "\<bar>real_of_int r - exact_sqrt_price t\<bar> \<le> 2"
    using accurate_nonpos [OF assms(1)] by auto
  moreover have "MinSqrtRatio \<le> r" using GetSqrtRatioAtTick_Ok [OF assms] r(1) by auto
  ultimately have "2 ^ 31 \<le> exact_sqrt_price t" by (simp add: MinSqrtRatio_def)
  then show ?thesis using r by (intro exI [of _ r]) simp
qed

lemma exact_sqrt_price_step:
  assumes "t < t'"
  shows "1.00004 * exact_sqrt_price t \<le> exact_sqrt_price t'"
proof -
  have "(1.00004 :: real) \<le> sqrt 1.0001" by (rule real_le_rsqrt) (simp add: power2_eq_square)
  also have "\<dots> = 1.0001 powr (1 / 2)" by (simp add: powr_half_sqrt)
  finally have "1.00004 * 1.0001 powr (t / 2) \<le> (1.0001 :: real) powr (1 / 2) * 1.0001 powr (t / 2)"
    by (intro mult_right_mono) simp_all
  also have "\<dots> = 1.0001 powr ((t + 1) / 2)" by (simp add: powr_add [symmetric] add_divide_distrib add.commute)
  also have "\<dots> \<le> 1.0001 powr (t' / 2)" using assms by (intro powr_mono) simp_all
  finally show ?thesis by (simp add: exact_sqrt_price_def)
qed

text \<open>C23. The square-root price is strictly increasing in the tick over the whole protocol range, so
  no two ticks share a price and the ends of a position are never out of order.\<close>

theorem GetSqrtRatioAtTick_strict_mono:
  assumes "MinTick \<le> t" "t < t'" "t' \<le> MaxTick"
  shows "\<exists>r r'. GetSqrtRatioAtTick t = Ok r \<and> GetSqrtRatioAtTick t' = Ok r' \<and> r < r'"
proof -
  obtain r r' where r: "GetSqrtRatioAtTick t = Ok r" "2 ^ 31 \<le> exact_sqrt_price t"
      "\<bar>real_of_int r - exact_sqrt_price t\<bar> \<le> 2 + exact_sqrt_price t / 2 ^ 43"
    and r': "GetSqrtRatioAtTick t' = Ok r'"
      "\<bar>real_of_int r' - exact_sqrt_price t'\<bar> \<le> 2 + exact_sqrt_price t' / 2 ^ 43"
    using accurate [of t] accurate [of t'] assms by auto
  have "real_of_int r < real_of_int r'"
    using r(2,3) r'(2) exact_sqrt_price_step [OF assms(2)] by (simp add: abs_le_iff)
  then show ?thesis using r(1) r'(1) by simp
qed

theorem GetSqrtRatioAtTick_strict_mono_witness:
  "\<exists>r r'. GetSqrtRatioAtTick (- 887272) = Ok r \<and> GetSqrtRatioAtTick (- 887271) = Ok r' \<and> r < r'"
  by (rule GetSqrtRatioAtTick_strict_mono) (simp_all add: MinTick_def MaxTick_def)

section \<open>Prices\<close>

text \<open>The square of an approximate root.\<close>

lemma square_accurate:
  fixes c x d :: real
  assumes "\<bar>c - x\<bar> \<le> d * x" "0 \<le> x" "0 \<le> d" "d \<le> 1 / 2"
  shows "\<bar>c ^ 2 - x ^ 2\<bar> \<le> 5 / 2 * d * x ^ 2"
proof -
  have "\<bar>c + x\<bar> \<le> \<bar>c - x\<bar> + 2 * x" using assms(2) by linarith
  also have "\<dots> \<le> 5 / 2 * x" using assms mult_right_mono [of d "1 / 2" x] by linarith
  finally have "\<bar>c - x\<bar> * \<bar>c + x\<bar> \<le> d * x * (5 / 2 * x)"
    using assms by (intro mult_mono) simp_all
  then show ?thesis by (simp add: abs_mult [symmetric] power2_eq_square algebra_simps)
qed

lemma price_accurate:
  assumes "MinTick \<le> t" "t \<le> MaxTick"
  shows "\<exists>c. GetSqrtRatioAtTick t = Ok c \<and>
    \<bar>real_of_rat (GetPriceAtSqrtRatio c) - 1.0001 powr t\<bar> \<le> 1.0001 powr t / 2 ^ 28"
proof -
  let ?x = "exact_sqrt_price t"
  obtain c where c: "GetSqrtRatioAtTick t = Ok c" and x: "2 ^ 31 \<le> ?x"
    and "\<bar>real_of_int c - ?x\<bar> \<le> 2 + ?x / 2 ^ 43"
    using accurate [OF assms] by auto
  then have "\<bar>real_of_int c - ?x\<bar> \<le> (2 / 2 ^ 31 + 1 / 2 ^ 43) * ?x" by (simp add: field_simps)
  from square_accurate [OF this] x
  have "\<bar>real_of_int c ^ 2 - ?x ^ 2\<bar> \<le> 5 / 2 * (2 / 2 ^ 31 + 1 / 2 ^ 43) * ?x ^ 2" by simp
  also have "\<dots> \<le> ?x ^ 2 / 2 ^ 28" by simp
  finally have "\<bar>real_of_int c ^ 2 / 2 ^ 192 - ?x ^ 2 / 2 ^ 192\<bar> \<le> ?x ^ 2 / 2 ^ 192 / 2 ^ 28"
    by (simp add: abs_le_iff field_simps)
  moreover have "?x ^ 2 / 2 ^ 192 = 1.0001 powr t"
    by (simp add: exact_sqrt_price_def power_mult_distrib powr_power)
  moreover have "real_of_rat (GetPriceAtSqrtRatio c) = real_of_int c ^ 2 / 2 ^ 192"
    by (simp add: GetPriceAtSqrtRatio_def Two192_eq of_rat_mult of_rat_divide of_rat_power power2_eq_square)
  ultimately show ?thesis using c by (intro exI [of _ c] conjI) (simp_all only:)
qed

end
