(* ===== verification/GraphValues.thy ===== *)
theory GraphValues
  imports PageBounds TickAccuracy
begin

text \<open>
  What the graph says about tokens, prices and values: the token cache, prices as text, the traded
  volume of a pool valued over time, the value of an amount in USD, smart accounts and the
  demonstration liquidity.
\<close>

section \<open>Tokens\<close>

lemma cache_lookup:
  "gorm_Where ''address = ?'' [arg_Address a] (gorm_Table ''erc20_cache_1'') =
     cache_stmt (Address_String a)"
  by (simp add: cache_stmt_def arg_Address_def Address_Value_def)

lemma call_value_Ok:
  "(case v of CallString n \<Rightarrow> f n | _ \<Rightarrow> Err e) = Ok x \<longleftrightarrow> (\<exists>n. v = CallString n \<and> f n = Ok x)"
  "(case v of CallBigInt i \<Rightarrow> g i | _ \<Rightarrow> Err e) = Ok x \<longleftrightarrow> (\<exists>i. v = CallBigInt i \<and> g i = Ok x)"
  "(case v of CallBytesList b \<Rightarrow> h b | _ \<Rightarrow> Err e) = Ok x \<longleftrightarrow> (\<exists>b. v = CallBytesList b \<and> h b = Ok x)"
  by (cases v; simp)+

lemma GetErc20Details_supply:
  "GetErc20Details G a = Ok (name, symbol, supply) \<Longrightarrow> \<exists>i. supply = UnscaledNumber (Some i)"
  by (auto simp: GetErc20Details_def decodeErc20Details_def UnscaledNumberFromBig_def Let_def
      call_value_Ok split: if_split_asm)

lemma token_hit:
  assumes "cache_lawful (r_DB r) cache" "\<not> mocking r"
    and "cache (w_db w) (Address_String (amt_Token a)) = Some e"
  shows "amountResolver_Token r (Some a) w = (Ok \<lparr>tok_Erc20 = e\<rparr>, w)"
  using assms by (simp add: amountResolver_Token_def cache_lookup handle_ask cache_lawful_First pure_def)

lemma token_miss:
  assumes law: "cache_lawful (r_DB r) cache" and "\<not> mocking r"
    and "cache (w_db w) (Address_String (amt_Token a)) = None"
    and details: "GetErc20Details (r_Geth r) (amt_Token a) = Ok (name, symbol, supply)"
  obtains s where
    "amountResolver_Token r (Some a) w =
      (Ok \<lparr>tok_Erc20 = cache_row (amt_Token a) name symbol supply (amt_Decimals a)\<rparr>, w\<lparr>w_db := s\<rparr>)"
    "cache s (Address_String (amt_Token a)) =
      Some (cache_row (Address_String (amt_Token a)) name symbol supply (amt_Decimals a))"
proof -
  obtain i where i: "supply = UnscaledNumber (Some i)" using GetErc20Details_supply [OF details] ..
  obtain s where s: "Exec (r_DB r) insert_sql
        [ArgValue (SqlString (Address_String (amt_Token a))), ArgValue (SqlString name),
         ArgValue (SqlString symbol), ArgValue (UnscaledNumber_Value supply), ArgInt (amt_Decimals a)]
        (w_db w) = (Ok (), s)"
      "cache s (Address_String (amt_Token a)) =
        Some (cache_row (Address_String (amt_Token a)) name symbol supply (amt_Decimals a))"
    using cache_lawful_Exec [OF law _ assms(3), of "UnscaledNumber_Value supply" "supply" name symbol
        "amt_Decimals a"] by (auto simp: i)
  have "amountResolver_Token r (Some a) w =
      (Ok \<lparr>tok_Erc20 = cache_row (amt_Token a) name symbol supply (amt_Decimals a)\<rparr>, w\<lparr>w_db := s\<rparr>)"
    using assms(2) s(1)
    by (simp add: amountResolver_Token_def cache_lookup handle_ask cache_lawful_First [OF law]
          assms(3) details)
      (simp add: handle_def run_Exec_def insert_sql_def arg_Address_def Address_Value_def
        arg_string_def cache_row_def pure_def)
  then show thesis using s(2) by (rule that)
qed

text \<open>C19. A token is looked up on chain once: the first request for a token that is not cached
  returns what the chain says and stores it, and from then on every request for that token, whatever
  decimals it comes with, returns the same token from the cache, changes nothing and does not depend
  on the node.\<close>

theorem token_cached:
  assumes law: "cache_lawful (r_DB r) cache" and live: "\<not> mocking r"
    and canonical: "Address_String (amt_Token a) = amt_Token a"
    and miss: "cache (w_db w) (amt_Token a) = None"
    and details: "GetErc20Details (r_Geth r) (amt_Token a) = Ok (name, symbol, supply)"
  shows "\<exists>t w'. amountResolver_Token r (Some a) w = (Ok t, w') \<and>
    t = \<lparr>tok_Erc20 = \<lparr>erc_Address = amt_Token a, erc_Name = name, erc_Symbol = symbol,
      erc_TotalSupply = supply, erc_Decimals = amt_Decimals a\<rparr>\<rparr> \<and>
    (\<forall>b G. amt_Token b = amt_Token a \<longrightarrow>
      amountResolver_Token (r\<lparr>r_Geth := G\<rparr>) (Some b) w' = (Ok t, w'))"
proof -
  obtain s where s: "amountResolver_Token r (Some a) w =
      (Ok \<lparr>tok_Erc20 = cache_row (amt_Token a) name symbol supply (amt_Decimals a)\<rparr>, w\<lparr>w_db := s\<rparr>)"
    "cache s (amt_Token a) = Some (cache_row (amt_Token a) name symbol supply (amt_Decimals a))"
    using token_miss [OF law live _ details] canonical miss by metis
  have "amountResolver_Token (r\<lparr>r_Geth := G\<rparr>) (Some b) (w\<lparr>w_db := s\<rparr>) =
      (Ok \<lparr>tok_Erc20 = cache_row (amt_Token a) name symbol supply (amt_Decimals a)\<rparr>, w\<lparr>w_db := s\<rparr>)"
    if "amt_Token b = amt_Token a" for b G
    using that canonical s(2) live law by (intro token_hit [of _ cache]) simp_all
  with s(1) show ?thesis by (auto simp: cache_row_def)
qed

definition demo_amount :: "int option \<Rightarrow> Amount" where
  "demo_amount v = \<lparr>amt_Token = ''0xa'', amt_Decimals = 18, amt_Timestamp = 0,
     amt_ValueUnscaled = UnscaledNumber v\<rparr>"

lemma demo_details:
  "GetErc20Details demo_geth a = Ok (''name'', ''symbol'', UnscaledNumber (Some 1000))"
  by (simp add: GetErc20Details_def decodeErc20Details_def demo_geth_def UnscaledNumberFromBig_def
      idx_def)

lemma Address_String_0xa: "Address_String ''0xa'' = ''0xa''"
  by code_simp

theorem token_cached_witness:
  "\<exists>t w'. amountResolver_Token (demo_graph store_gorm) (Some (demo_amount None)) (demo_state []) = (Ok t, w') \<and>
     erc_Name (tok_Erc20 t) = ''name'' \<and>
     amountResolver_Token (demo_graph store_gorm) (Some (demo_amount (Some 5))) w' = (Ok t, w')"
proof -
  let ?r = "demo_graph store_gorm" and ?a = "demo_amount None"
  have law: "cache_lawful (r_DB ?r) store_cache" by (simp add: store_cache_lawful)
  have "Address_String (amt_Token ?a) = amt_Token ?a"
    "store_cache (w_db (demo_state [])) (amt_Token ?a) = None"
    "GetErc20Details (r_Geth ?r) (amt_Token ?a) = Ok (''name'', ''symbol'', UnscaledNumber (Some 1000))"
    by (simp_all add: demo_amount_def demo_world_def demo_store_def demo_details Address_String_0xa)
  from token_cached [OF law demo_graph_simps(2) this] obtain w' t where
    t: "amountResolver_Token ?r (Some ?a) (demo_state []) = (Ok t, w')" "erc_Name (tok_Erc20 t) = ''name''"
    and hit: "\<And>b G. amt_Token b = amt_Token ?a \<Longrightarrow>
      amountResolver_Token (?r\<lparr>r_Geth := G\<rparr>) (Some b) w' = (Ok t, w')" by auto
  have "amountResolver_Token ?r (Some (demo_amount (Some 5))) w' = (Ok t, w')"
    using hit [of "demo_amount (Some 5)" demo_geth] by (simp add: demo_amount_def demo_graph_def)
  with t show ?thesis by blast
qed

section \<open>Prices\<close>

lemma FloatString_5: "\<exists>v. decimal_val (FloatString 5 x) = Some v \<and> \<bar>v - x\<bar> \<le> 1 / (2 * 10 ^ 5)"
  by (rule FloatString_accuracy) simp

definition price_stmt :: "Pool \<Rightarrow> stmt" where
  "price_stmt p =
     gorm_Where ''pool = ?'' [arg_Address (pool_Token p)] (gorm_Table ''seawater_latest_ticks_2'')"

lemma Price_live:
  "\<not> mocking r \<Longrightarrow> seawaterPoolResolver_Price r (Some p) w =
     (case First_Price (r_DB r) (price_stmt p) (w_db w) of
        Err e \<Rightarrow> if e = ErrRecordNotFound then (Ok ''0'', w) else (Err e, w)
      | Ok res \<Rightarrow> (PriceResult_Price res (FusdcDecimals (r_C r)) (pool_Decimals p), w)
      | Panic m \<Rightarrow> (Panic m, w)
      | Exit e \<Rightarrow> (Exit e, w))"
  by (simp add: seawaterPoolResolver_Price_def handle_ask price_stmt_def [symmetric] pure_def
      split: res.split error.split)

lemma of_rat_abs_diff:
  assumes "\<bar>v - q\<bar> \<le> d"
  shows "\<bar>real_of_rat v - real_of_rat q\<bar> \<le> real_of_rat d"
proof (rule abs_leI)
  have "v - q \<le> d" "q - v \<le> d" using assms by linarith+
  then have "real_of_rat (v - q) \<le> real_of_rat d" "real_of_rat (q - v) \<le> real_of_rat d"
    by (simp_all only: of_rat_less_eq)
  then show "real_of_rat v - real_of_rat q \<le> real_of_rat d"
    "- (real_of_rat v - real_of_rat q) \<le> real_of_rat d" by (simp_all add: of_rat_diff)
qed

lemma PriceResult_Price_accurate:
  assumes "MinTick \<le> Number_Big (pr_FinalTick p)" "Number_Big (pr_FinalTick p) \<le> MaxTick"
  shows "\<exists>s v. PriceResult_Price p fd pd = Ok s \<and> decimal_val s = Some v \<and>
    \<bar>real_of_rat v - 1.0001 powr Number_Big (pr_FinalTick p) * 10 ^ nat (pd - fd)\<bar>
      \<le> 1 / (2 * 10 ^ 5) + 1.0001 powr Number_Big (pr_FinalTick p) * 10 ^ nat (pd - fd) / 2 ^ 28"
proof -
  let ?e = "1.0001 powr Number_Big (pr_FinalTick p) :: real" and ?k = "nat (pd - fd)"
  obtain c where c: "GetSqrtRatioAtTick (Number_Big (pr_FinalTick p)) = Ok c"
    "\<bar>real_of_rat (GetPriceAtSqrtRatio c) - ?e\<bar> \<le> ?e / 2 ^ 28"
    using price_accurate [OF assms(1,2)] by blast
  define q where "q = GetPriceAtSqrtRatio c * 10 ^ ?k"
  have text': "PriceResult_Price p fd pd = Ok (FloatString 5 q)"
    by (cases "fd \<le> pd") (simp_all add: PriceResult_Price_def c(1) q_def ExponentiateDecimals_def Exp_pos)
  obtain v where v: "decimal_val (FloatString 5 q) = Some v" "\<bar>v - q\<bar> \<le> 1 / (2 * 10 ^ 5)"
    using FloatString_5 by blast
  have "\<bar>real_of_rat (GetPriceAtSqrtRatio c) - ?e\<bar> * 10 ^ ?k \<le> ?e / 2 ^ 28 * 10 ^ ?k"
    using c(2) by (rule mult_right_mono) simp
  then have near: "\<bar>real_of_rat q - ?e * 10 ^ ?k\<bar> \<le> ?e * 10 ^ ?k / 2 ^ 28"
    by (simp add: q_def of_rat_mult of_rat_power left_diff_distrib [symmetric] abs_mult)
  from of_rat_abs_diff [OF v(2)] have "\<bar>real_of_rat v - real_of_rat q\<bar> \<le> 1 / (2 * 10 ^ 5)"
    by (simp add: of_rat_divide)
  with near have "\<bar>real_of_rat v - ?e * 10 ^ ?k\<bar> \<le> 1 / (2 * 10 ^ 5) + ?e * 10 ^ ?k / 2 ^ 28"
    by linarith
  with text' v(1) show ?thesis by blast
qed

text \<open>C14. The price of a pool is \<open>0\<close> while it has no tick and reports any other failure of the
  database; with a latest tick \<open>t\<close> in the range of the protocol, it is a text that denotes
  \<open>1.0001 ^ t\<close>, scaled up by the decimals the token has beyond fUSDC's (and not scaled at all when it
  has fewer), to within half a unit of the fifth place and a relative error of \<open>2 ^ - 28\<close>.\<close>

theorem pool_price:
  assumes live: "\<not> mocking r"
  shows "case First_Price (r_DB r) (price_stmt p) (w_db w) of
      Err e \<Rightarrow> seawaterPoolResolver_Price r (Some p) w =
        (if e = ErrRecordNotFound then (Ok ''0'', w) else (Err e, w))
    | Ok res \<Rightarrow>
        let t = Number_Big (pr_FinalTick res);
            price = 1.0001 powr t * 10 ^ nat (pool_Decimals p - FusdcDecimals (r_C r)) in
        MinTick \<le> t \<and> t \<le> MaxTick \<longrightarrow>
        (\<exists>s v. seawaterPoolResolver_Price r (Some p) w = (Ok s, w) \<and> decimal_val s = Some v \<and>
          \<bar>real_of_rat v - price\<bar> \<le> 1 / (2 * 10 ^ 5) + price / 2 ^ 28)
    | _ \<Rightarrow> True"
proof (cases "First_Price (r_DB r) (price_stmt p) (w_db w)")
  case (Ok res)
  then have "seawaterPoolResolver_Price r (Some p) w =
      (PriceResult_Price res (FusdcDecimals (r_C r)) (pool_Decimals p), w)"
    by (simp add: Price_live [OF live])
  then show ?thesis
    using PriceResult_Price_accurate [of res "FusdcDecimals (r_C r)" "pool_Decimals p"]
    by (simp only: Ok Let_def res.case prod.inject) blast
qed (simp_all add: Price_live [OF live])

text \<open>A token of fewer decimals than fUSDC: the scale is not applied at all.\<close>

theorem price_scale_lost:
  assumes "pd \<le> fd"
  shows "PriceResult_Price p fd pd = PriceResult_Price p fd fd"
  using assms by (simp add: PriceResult_Price_def ExponentiateDecimals_def)

definition tick_gorm :: "int \<Rightarrow> store gorm" where
  "tick_gorm t = store_gorm\<lparr>First_Price := (\<lambda>st s. Ok \<lparr>pr_FinalTick = Number (Some t)\<rparr>)\<rparr>"

theorem pool_price_witness:
  "\<exists>s v. seawaterPoolResolver_Price (demo_graph (tick_gorm 0)) (Some (zero_Pool\<lparr>pool_Decimals := 18\<rparr>))
      (demo_state []) = (Ok s, demo_state []) \<and> decimal_val s = Some v \<and>
     \<bar>real_of_rat v - 10 ^ 12\<bar> \<le> 10 ^ 4"
proof -
  have "\<exists>s v. seawaterPoolResolver_Price (demo_graph (tick_gorm 0)) (Some (zero_Pool\<lparr>pool_Decimals := 18\<rparr>))
      (demo_state []) = (Ok s, demo_state []) \<and> decimal_val s = Some v \<and>
     \<bar>real_of_rat v - 10 ^ 12\<bar> \<le> 1 / (2 * 10 ^ 5) + 10 ^ 12 / 2 ^ 28"
    using pool_price [of "demo_graph (tick_gorm 0)" "zero_Pool\<lparr>pool_Decimals := 18\<rparr>" "demo_state []"]
    by (simp add: tick_gorm_def MinTick_def MaxTick_def demo_C_def)
  then show ?thesis by (elim exE conjE, intro exI conjI) (assumption, assumption, simp)
qed

section \<open>Volume valued over time\<close>

text \<open>The loop pairs volumes with prices up to the shorter of the two histories.\<close>

lemma tvl_loop_zip:
  "i \<le> length prices \<Longrightarrow> tvl_loop fusdc prices i vs =
     mapRes (\<lambda>(v, price). UsdValue (pair_Token1 v) price fusdc) (zip vs (drop i prices))"
proof (induction vs arbitrary: i)
  case (Cons v vs)
  show ?case
  proof (cases "i = length prices")
    case False
    with Cons.prems have "drop i prices = prices ! i # drop (Suc i) prices" "i < length prices"
      by (simp_all add: Cons_nth_drop_Suc)
    with Cons.IH [of "Suc i"] show ?thesis by simp
  qed simp
qed simp

lemma UsdValue_Ok:
  assumes "un_Int (amt_ValueUnscaled a) \<noteq> None" "decimal_val price \<noteq> None"
  shows "\<exists>s. UsdValue a price fusdc = Ok s"
  using assms unfolding is_ok_iff [symmetric]
  by (auto simp: UsdValue_def Scale_def FloatSetString_def Let_def)

lemma mapRes_all_Ok: "(\<And>x. x \<in> set xs \<Longrightarrow> \<exists>y. f x = Ok y) \<Longrightarrow> \<exists>ys. mapRes f xs = Ok ys"
  by (induction xs) fastforce+

lemma mapRes_nth: "mapRes f xs = Ok ys \<Longrightarrow> i < length xs \<Longrightarrow> f (xs ! i) = Ok (ys ! i)"
proof (induction xs arbitrary: ys i)
  case (Cons x xs)
  then show ?case by (cases i) auto
qed simp

lemma tvl_loop_Ok:
  assumes "\<forall>v \<in> set vs. un_Int (amt_ValueUnscaled (pair_Token1 v)) \<noteq> None"
    and "\<forall>price \<in> set prices. decimal_val price \<noteq> None"
  obtains ts where "tvl_loop fusdc prices 0 vs = Ok ts"
    "length ts = min (length vs) (length prices)"
    "\<forall>i < length ts. UsdValue (pair_Token1 (vs ! i)) (prices ! i) fusdc = Ok (ts ! i)"
proof -
  let ?f = "\<lambda>(v, price). UsdValue (pair_Token1 v) price fusdc"
  have zip: "tvl_loop fusdc prices 0 vs = mapRes ?f (zip vs prices)" by (simp add: tvl_loop_zip)
  have "\<exists>ts. mapRes ?f (zip vs prices) = Ok ts"
    using assms by (intro mapRes_all_Ok) (auto intro!: UsdValue_Ok dest: set_zip_leftD set_zip_rightD)
  then obtain ts where ts: "mapRes ?f (zip vs prices) = Ok ts" ..
  have len: "length ts = min (length vs) (length prices)" using mapRes_Ok_length [OF ts] by simp
  have "UsdValue (pair_Token1 (vs ! i)) (prices ! i) fusdc = Ok (ts ! i)" if "i < length ts" for i
    using mapRes_nth [OF ts, of i] that len by simp
  with ts len show thesis by (intro that [of ts]) (simp_all add: zip)
qed

lemma PriceResult_Price_parses: "PriceResult_Price p fd pd = Ok s \<Longrightarrow> decimal_val s \<noteq> None"
  using FloatString_5 by (auto simp: PriceResult_Price_def Let_def)

lemma PriceOverTime_parses:
  assumes "\<not> mocking r" "seawaterPoolResolver_PriceOverTime r (Some p) w = (Ok q, w')"
  shows "\<forall>price \<in> set (pot_Daily q) \<union> set (pot_Monthly q). decimal_val price \<noteq> None"
proof -
  let ?f = "\<lambda>d. PriceResult_Price d (FusdcDecimals (r_C r)) (pool_Decimals p)"
  obtain daily monthly where "mapRes ?f daily = Ok (pot_Daily q)" "mapRes ?f monthly = Ok (pot_Monthly q)"
    using assms by (auto simp: seawaterPoolResolver_PriceOverTime_def andDo_eq_Ok)
  moreover have "\<forall>y \<in> set ys. decimal_val y \<noteq> None" if "mapRes ?f xs = Ok ys" for xs ys
    using that by (induction xs arbitrary: ys) (auto dest: PriceResult_Price_parses)
  ultimately show ?thesis by blast
qed

text \<open>C20. What \<open>tvlOverTime\<close> reports is traded volume, and nothing the pool holds: whenever the volumes
  and the prices can be read and no volume is nil, the answer is total, has one entry per day and per
  month of the shorter of the two histories, and each entry is the volume of the pool's token in that
  interval valued at the price of the same index.  (The schema documents the USD value of the assets
  in the pool, with 31 daily and 12 monthly items.)\<close>

theorem tvl_pointwise:
  assumes live: "\<not> mocking r"
    and vol: "seawaterPoolResolver_VolumeOverTime r (Some p) w = (Ok v, w)"
    and price: "seawaterPoolResolver_PriceOverTime r (Some p) w = (Ok q, w)"
    and "\<forall>x \<in> set (vol_Daily v) \<union> set (vol_Monthly v). un_Int (amt_ValueUnscaled (pair_Token1 x)) \<noteq> None"
  shows "\<exists>t. seawaterPoolResolver_TvlOverTime r (Some p) w = (Ok t, w) \<and>
    length (tvl_Daily t) = min (length (vol_Daily v)) (length (pot_Daily q)) \<and>
    (\<forall>i < length (tvl_Daily t). UsdValue (pair_Token1 (vol_Daily v ! i)) (pot_Daily q ! i)
      (FusdcAddr (r_C r)) = Ok (tvl_Daily t ! i)) \<and>
    length (tvl_Monthly t) = min (length (vol_Monthly v)) (length (pot_Monthly q)) \<and>
    (\<forall>i < length (tvl_Monthly t). UsdValue (pair_Token1 (vol_Monthly v ! i)) (pot_Monthly q ! i)
      (FusdcAddr (r_C r)) = Ok (tvl_Monthly t ! i))"
proof -
  note parses = PriceOverTime_parses [OF live price]
  obtain daily where daily: "tvl_loop (FusdcAddr (r_C r)) (pot_Daily q) 0 (vol_Daily v) = Ok daily"
      "length daily = min (length (vol_Daily v)) (length (pot_Daily q))"
      "\<forall>i < length daily. UsdValue (pair_Token1 (vol_Daily v ! i)) (pot_Daily q ! i)
        (FusdcAddr (r_C r)) = Ok (daily ! i)"
    using tvl_loop_Ok assms(4) parses by (metis UnCI)
  obtain monthly where monthly: "tvl_loop (FusdcAddr (r_C r)) (pot_Monthly q) 0 (vol_Monthly v) = Ok monthly"
      "length monthly = min (length (vol_Monthly v)) (length (pot_Monthly q))"
      "\<forall>i < length monthly. UsdValue (pair_Token1 (vol_Monthly v ! i)) (pot_Monthly q ! i)
        (FusdcAddr (r_C r)) = Ok (monthly ! i)"
    using tvl_loop_Ok assms(4) parses by (metis UnCI)
  have "seawaterPoolResolver_TvlOverTime r (Some p) w = (Ok \<lparr>tvl_Daily = daily, tvl_Monthly = monthly\<rparr>, w)"
    using live by (simp add: seawaterPoolResolver_TvlOverTime_def vol price andDo_Ok daily(1) monthly(1)
        pure_def)
  then show ?thesis using daily(2,3) monthly(2,3) by simp
qed

definition volume_gorm :: "store gorm" where
  "volume_gorm = store_gorm\<lparr>
     Scan_Prices := (\<lambda>st s. Ok (Some [\<lparr>pr_FinalTick = Number (Some 0)\<rparr>])),
     Scan_Volumes := (\<lambda>st s. Ok (Some [\<lparr>vr_Token1Token = ''0xa'', vr_Token1Decimals = 18,
       vr_Timestamp = 0, vr_IntervalTimestamp = 0, vr_FusdcValueUnscaled = UnscaledNumber (Some 1),
       vr_Token1ValueUnscaled = UnscaledNumber (Some 7)\<rparr>]))\<rparr>"

theorem tvl_pointwise_witness:
  "\<exists>t. seawaterPoolResolver_TvlOverTime (demo_graph volume_gorm) (Some zero_Pool) (demo_state []) =
     (Ok t, demo_state []) \<and> length (tvl_Daily t) = 1"
proof -
  let ?r = "demo_graph volume_gorm" and ?w = "demo_state []"
  obtain c where "GetSqrtRatioAtTick 0 = Ok c"
    using GetSqrtRatioAtTick_Ok [of 0] by (auto simp: MinTick_def MaxTick_def)
  then have priced: "PriceResult_Price \<lparr>pr_FinalTick = Number (Some 0)\<rparr> fd pd =
      Ok (FloatString 5 (GetPriceAtSqrtRatio c * ExponentiateDecimals (pd - fd)))" for fd pd
    by (simp add: PriceResult_Price_def)
  obtain v q where vq: "seawaterPoolResolver_VolumeOverTime ?r (Some zero_Pool) ?w = (Ok v, ?w)"
    "seawaterPoolResolver_PriceOverTime ?r (Some zero_Pool) ?w = (Ok q, ?w)"
    "\<forall>x \<in> set (vol_Daily v) \<union> set (vol_Monthly v). un_Int (amt_ValueUnscaled (pair_Token1 x)) \<noteq> None"
    "length (pot_Daily q) = 1" "length (vol_Daily v) = 1"
    by (simp add: seawaterPoolResolver_VolumeOverTime_def seawaterPoolResolver_PriceOverTime_def
        volume_gorm_def store_gorm_def andDo_ask andDo_Ok pure_def volume_pair_def priced)
  from tvl_pointwise [OF demo_graph_simps(2) vq(1-3)] vq(4,5) show ?thesis by auto
qed

section \<open>Value in USD\<close>

text \<open>C31. An amount of fUSDC, a token of six decimals worth one dollar, is reported at ten times its
  value: it is scaled by five decimals.\<close>

theorem fusdc_value_tenfold:
  assumes "\<not> mocking r" "amt_Token a = FusdcAddr (r_C r)"
    and "amt_ValueUnscaled a = UnscaledNumber (Some x)" "x \<noteq> 0"
  shows "\<exists>s v. amountResolver_ValueUsd r (Some a) w = (Ok s, w) \<and> decimal_val s = Some v \<and>
    \<bar>v - 10 * (of_int x / 10 ^ 6)\<bar> \<le> 1 / (2 * 10 ^ 8) + \<bar>10 * (of_int x / 10 ^ 6)\<bar> / 2 ^ 64"
proof -
  obtain s v where "ScaleStr (UnscaledNumber (Some x)) 5 = Ok s" "decimal_val s = Some v"
    "\<bar>v - of_int x / 10 ^ 5\<bar> \<le> 1 / (2 * 10 ^ 8) + \<bar>of_int x / 10 ^ 5\<bar> / 2 ^ 64"
    using ScaleStr_error [of 5 x] by auto
  moreover have "of_int x / 10 ^ 5 = 10 * (of_int x / 10 ^ 6 :: rat)" by simp
  moreover have "amountResolver_ValueUsd r (Some a) w = (ScaleStr (UnscaledNumber (Some x)) 5, w)"
    using assms by (simp add: amountResolver_ValueUsd_def pure_def)
  ultimately show ?thesis by metis
qed

theorem fusdc_value_tenfold_witness:
  "\<exists>s v. amountResolver_ValueUsd (demo_graph store_gorm)
      (Some ((demo_amount (Some 1000000))\<lparr>amt_Token := ''0xf''\<rparr>)) (demo_state []) = (Ok s, demo_state []) \<and>
     decimal_val s = Some v \<and> \<bar>v - 10\<bar> \<le> 1 / 10 ^ 6"
proof -
  let ?a = "(demo_amount (Some 1000000))\<lparr>amt_Token := ''0xf''\<rparr>"
  have "amt_Token ?a = FusdcAddr (r_C (demo_graph store_gorm))"
    "amt_ValueUnscaled ?a = UnscaledNumber (Some 1000000)" "(1000000 :: int) \<noteq> 0"
    by (simp_all add: demo_amount_def demo_C_def)
  from fusdc_value_tenfold [OF demo_graph_simps(2) this, of "demo_state []"]
  obtain s v where s: "amountResolver_ValueUsd (demo_graph store_gorm) (Some ?a) (demo_state []) =
      (Ok s, demo_state [])" "decimal_val s = Some v"
    and v: "\<bar>v - 10\<bar> \<le> 1 / (2 * 10 ^ 8) + 10 / 2 ^ 64" by auto
  have "(1 / (2 * 10 ^ 8) + 10 / 2 ^ 64 :: rat) \<le> 1 / 10 ^ 6" by simp
  with v have "\<bar>v - 10\<bar> \<le> 1 / 10 ^ 6" by linarith
  with s show ?thesis by blast
qed

section \<open>Smart accounts\<close>

text \<open>The smart accounts of a wallet are those whose administrator is written exactly as the
  wallet is in the request, in the order the database chooses.\<close>

lemma GetSmartAccount_exact:
  assumes law: "accounts_lawful (r_DB r) accounts" and "wallet \<noteq> []"
  obtains found where
    "queryResolver_GetSmartAccount r wallet w = (Ok (map (\<lambda>a. \<lparr>wal_Address = ac_Account a\<rparr>) found), w)"
    "mset found = mset (filter (\<lambda>a. ac_AccountAdmin a = wallet) (accounts (w_db w)))"
proof -
  let ?st = "gorm_Where ''account_admin = ?'' [ArgValue (SqlString wallet)]
    (gorm_Table ''events_thirdweb_accountcreated'')"
  obtain found where "Scan_AccountCreated (r_DB r) ?st (w_db w) = Ok (scanned found)"
    and same: "mset found = mset (filter (\<lambda>a. ac_AccountAdmin a = wallet) (accounts (w_db w)))"
    using law unfolding accounts_lawful_def by metis
  then have "queryResolver_GetSmartAccount r wallet w = (Ok (map (\<lambda>a. \<lparr>wal_Address = ac_Account a\<rparr>) found), w)"
    using assms(2) by (simp add: queryResolver_GetSmartAccount_def andDo_ask arg_string_def pure_def)
  then show thesis using same by (rule that)
qed

section \<open>Sides of a pair\<close>

text \<open>A pool with one position, whose amounts are therefore the sums of the pool: what the position
  reports as fUSDC the pool reports as the other token, and the other way round.\<close>

theorem pair_sides_disagree:
  assumes "First_Pool (r_DB r) st1 (w_db w) = Ok p" "First_Snapshot (r_DB r) st2 (w_db w) = Ok snap"
    and "First_DecimalsGroup (r_DB r) st3 (w_db w) = Ok g"
    and "st1 = gorm_Where ''token = ?'' [arg_Address (pos_Pool pos)]
      (gorm_Select ''decimals'' (gorm_Table ''events_seawater_newpool''))"
    and "st2 = gorm_Where ''pos_id = ?'' [ArgInt (pos_Id pos)] (gorm_Table ''snapshot_positions_latest_1'')"
    and "st3 = gorm_Where ''pool = ?'' [arg_Address (pool_Token p)]
      (gorm_Table ''snapshot_positions_latest_decimals_grouped_1'')"
    and "dg_CumulativeAmount0 g = snap_Amount0 snap" "dg_CumulativeAmount1 g = snap_Amount1 snap"
  shows "\<exists>a b. seawaterPositionResolver_Liquidity r (Some pos) w = (Ok a, w) \<and>
    seawaterPoolResolver_Amounts r (Some p) w = (Ok b, w) \<and>
    amt_ValueUnscaled (pair_Fusdc a) = snap_Amount1 snap \<and>
    amt_ValueUnscaled (pair_Fusdc b) = snap_Amount0 snap \<and>
    amt_ValueUnscaled (pair_Token1 a) = amt_ValueUnscaled (pair_Fusdc b) \<and>
    amt_ValueUnscaled (pair_Token1 b) = amt_ValueUnscaled (pair_Fusdc a)"
  using assms
  by (simp add: seawaterPositionResolver_Liquidity_def seawaterPoolResolver_Amounts_def handle_ask
      andDo_ask pure_def position_pair_def group_pair_def)

section \<open>Demonstration liquidity\<close>

lemma rand_Int_Ok:
  "0 < m \<Longrightarrow> rand_Int m w = (Ok (int (w_rand w (w_used w)) mod m), w\<lparr>w_used := w_used w + 1\<rparr>)"
  by (simp add: rand_Int_def)

lemma mock_liquidity_buckets:
  assumes "i + 5000 * int n \<ge> mock_MaxTick" "n = 0 \<or> i + 5000 * (int n - 1) < mock_MaxTick"
  shows "\<exists>bs. mock_liquidity_loop i w = (Ok bs, w\<lparr>w_used := w_used w + 2 * n\<rparr>) \<and> length bs = n \<and>
    (\<forall>j < n. sl_TickLower (bs ! j) = Itoa (i + 5000 * int j) \<and>
      sl_TickUpper (bs ! j) = Itoa (i + 5000 * (int j + 1)))"
  using assms
proof (induction n arbitrary: i w)
  case 0
  then show ?case by (simp add: mock_liquidity_loop.simps pure_def)
next
  case (Suc n)
  let ?w = "w\<lparr>w_used := w_used w + 2\<rparr>"
  obtain bs where bs: "mock_liquidity_loop (i + 5000) ?w = (Ok bs, ?w\<lparr>w_used := w_used ?w + 2 * n\<rparr>)"
      "length bs = n" "\<forall>j < n. sl_TickLower (bs ! j) = Itoa (i + 5000 + 5000 * int j) \<and>
        sl_TickUpper (bs ! j) = Itoa (i + 5000 + 5000 * (int j + 1))"
    using Suc.IH [of "i + 5000" ?w] Suc.prems by (auto simp: algebra_simps)
  have "i < mock_MaxTick" using Suc.prems by auto
  define b where "b = \<lparr>sl_ID = ''tick:'' @ Itoa i @ '':'' @ Itoa (i + 5000), sl_TickLower = Itoa i,
    sl_TickUpper = Itoa (i + 5000), sl_Price = Itoa (int (w_rand w (w_used w)) mod MaxMockedPrice),
    sl_Liquidity = Itoa (int (w_rand w (w_used w + 1)) mod MaxMockedVolume)\<rparr>"
  have "0 < MaxMockedPrice" "0 < MaxMockedVolume" by (simp_all add: MaxMockedPrice_def MaxMockedVolume_def)
  with \<open>i < mock_MaxTick\<close>
  have loop: "mock_liquidity_loop i w = (Ok (b # bs), w\<lparr>w_used := w_used w + 2 * Suc n\<rparr>)"
    using bs(1) by (subst mock_liquidity_loop.simps)
      (simp add: tickSpread_def rand_Int_Ok andDo_Ok Let_def pure_def b_def)
  have "sl_TickLower ((b # bs) ! j) = Itoa (i + 5000 * int j) \<and>
      sl_TickUpper ((b # bs) ! j) = Itoa (i + 5000 * (int j + 1))" if "j < Suc n" for j
    using that bs(3) by (cases j) (auto simp: algebra_simps b_def)
  then show ?case using loop bs(2) by (intro exI [of _ "b # bs"]) simp
qed

text \<open>The loop that makes up liquidity ends after 355 buckets of 5000 ticks, adjacent to each other
  and starting at the smallest tick, whose ends the tick resolvers read back; the last one runs past
  the largest tick.\<close>

theorem mock_liquidity_partition:
  "\<exists>bs. MockLiquidity fusdc token w = (Ok bs, w\<lparr>w_used := w_used w + 710\<rparr>) \<and> length bs = 355 \<and>
    (\<forall>j < 355. seawaterLiquidityResolver_TickLower (Some (bs ! j)) = Ok (-887272 + 5000 * int j) \<and>
      seawaterLiquidityResolver_TickUpper (Some (bs ! j)) = Ok (-887272 + 5000 * (int j + 1))) \<and>
    mock_MaxTick < -887272 + 5000 * 355"
proof -
  have read: "Atoi_res (Itoa i) = Ok i" if "\<bar>i\<bar> < 10 ^ 7" for i
  proof -
    have "is_int64 i" using that by (auto simp: is_int64_def)
    then show ?thesis by (simp add: Atoi_res_def dec.ParseInt_int_text)
  qed
  obtain bs where "MockLiquidity fusdc token w = (Ok bs, w\<lparr>w_used := w_used w + 2 * 355\<rparr>)"
    "length bs = 355" and ticks: "\<And>j. j < 355 \<Longrightarrow> sl_TickLower (bs ! j) = Itoa (-887272 + 5000 * int j)"
    "\<And>j. j < 355 \<Longrightarrow> sl_TickUpper (bs ! j) = Itoa (-887272 + 5000 * (int j + 1))"
    using mock_liquidity_buckets [of "-887272" 355 w]
    by (auto simp: MockLiquidity_def mock_MaxTick_def mock_MinTick_def)
  moreover have "seawaterLiquidityResolver_TickLower (Some (bs ! j)) = Ok (-887272 + 5000 * int j) \<and>
      seawaterLiquidityResolver_TickUpper (Some (bs ! j)) = Ok (-887272 + 5000 * (int j + 1))"
    if "j < 355" for j
    using that by (simp add: seawaterLiquidityResolver_TickLower_def
        seawaterLiquidityResolver_TickUpper_def ticks read)
  ultimately show ?thesis by (simp add: mock_MaxTick_def mock_MinTick_def)
qed

theorem mock_liquidity_partition_witness:
  "\<exists>bs. MockLiquidity ''0xf'' ''0xa'' (demo_world ()) = (Ok bs, (demo_world ())\<lparr>w_used := 710\<rparr>) \<and>
    seawaterLiquidityResolver_TickLower (Some (bs ! 354)) = Ok 882728 \<and>
    seawaterLiquidityResolver_TickUpper (Some (bs ! 354)) = Ok 887728"
proof -
  obtain bs where "MockLiquidity ''0xf'' ''0xa'' (demo_world ()) =
      (Ok bs, (demo_world ())\<lparr>w_used := w_used (demo_world ()) + 710\<rparr>)"
    and ticks: "\<forall>j < 355. seawaterLiquidityResolver_TickLower (Some (bs ! j)) = Ok (-887272 + 5000 * int j) \<and>
      seawaterLiquidityResolver_TickUpper (Some (bs ! j)) = Ok (-887272 + 5000 * (int j + 1))"
    using mock_liquidity_partition [of "''0xf''" "''0xa''" "demo_world ()"] by blast
  then show ?thesis using ticks [rule_format, of 354] by (auto simp: demo_world_def)
qed

end
