(* ===== verification/SnapshotServed.thy ===== *)
theory SnapshotServed
  imports Snapshots GraphValues
begin

text \<open>
  The snapshot job and the graph meet in the table \<open>snapshot_positions_latest_1\<close>: the job writes it with
  one statement, built as text, and the resolver of a position's liquidity reads it.  First the
  text, which holds exactly the entries it was made from; then what the two services show
  together.
\<close>

section \<open>The statement as text\<close>

text \<open>A reader of the four arrays of the statement: each ends with a bracket, its elements are
  separated by commas, and those of the first are quoted.\<close>

definition read_array :: "string \<Rightarrow> string list" where
  "read_array part =
     (let body = tl (dropWhile (\<lambda>c. c \<noteq> CHR ''['') part) in
      if body = [] then [] else Split (CHR '','') body)"

definition read_store_sql :: "string \<Rightarrow> (string list \<times> string list \<times> string list \<times> string list) option" where
  "read_store_sql sql =
     (case Split (CHR '']'') sql of
        [p, i, a, b, rest] \<Rightarrow>
          Some (map (butlast \<circ> tl) (read_array p), read_array i, read_array a, read_array b)
      | _ \<Rightarrow> None)"

text \<open>No character of the statement's own syntax.\<close>

definition plain :: "string \<Rightarrow> bool" where
  "plain s \<longleftrightarrow> set s \<inter> {CHR 0x27, CHR '','', CHR ''['', CHR '']''} = {}"

lemma Split_append: "sep \<notin> set u \<Longrightarrow> Split sep (u @ sep # v) = u # Split sep v"
  by (induction u) auto

lemma Join_chars: "set (Join sep ws) \<subseteq> (\<Union>w \<in> set ws. set w) \<union> set sep"
  by (induction sep ws rule: Join.induct) auto

lemma quoted_pools_Join:
  "quoted_pools (i + length pools) i pools = Join '','' (map (\<lambda>a. [CHR 0x27] @ a @ [CHR 0x27]) pools)"
proof (induction pools arbitrary: i)
  case (Cons a pools)
  then show ?case using Cons.IH [of "Suc i"] by (cases pools) auto
qed simp

lemma digit_char_plain: "d < 10 \<Longrightarrow> digit_char d \<notin> {CHR 0x27, CHR '','', CHR ''['', CHR '']''}"
proof -
  have "list_all (\<lambda>d. digit_char d \<notin> set [CHR 0x27, CHR '','', CHR ''['', CHR '']'']) [0..<10]"
    by code_simp
  then show "d < 10 \<Longrightarrow> ?thesis" by (simp add: list_all_iff)
qed

lemma plain_int_text: "plain (Itoa n)" "Itoa n \<noteq> []"
proof -
  have "c \<notin> {CHR 0x27, CHR '','', CHR ''['', CHR '']''}" if "c \<in> set (nat_text 10 m)" for c m
  proof -
    from dec.nat_text_digits [OF that] obtain d where "d < 10" "c = digit_char d" by (elim exE conjE)
    then show ?thesis by (simp only: digit_char_plain not_False_eq_True)
  qed
  then have "set (nat_text 10 m) \<inter> {CHR 0x27, CHR '','', CHR ''['', CHR '']''} = {}" for m
    by (meson disjoint_iff)
  moreover have "CHR ''-'' \<notin> {CHR 0x27, CHR '','', CHR ''['', CHR '']''}" by simp
  ultimately show "plain (Itoa n)" unfolding plain_def int_text_def by simp
  show "Itoa n \<noteq> []" by (simp add: int_text_def)
qed

lemma read_array_Join:
  assumes "CHR ''['' \<notin> set pre" "\<forall>w \<in> set ws. w \<noteq> [] \<and> CHR '','' \<notin> set w"
  shows "read_array (pre @ CHR ''['' # Join '','' ws) = ws"
proof -
  have body: "tl (dropWhile (\<lambda>c. c \<noteq> CHR ''['') (pre @ CHR ''['' # Join '','' ws)) = Join '','' ws"
    using assms(1) by (induction pre) auto
  show ?thesis
  proof (cases ws)
    case Nil
    then show ?thesis using body by (simp add: read_array_def)
  next
    case (Cons w vs)
    then have "Join '','' ws \<noteq> []" using assms(2) by (cases vs) auto
    moreover have "Split (CHR '','') (Join '','' ws) = ws"
      using Split_Join [of ws "CHR '',''"] assms(2) Cons by simp
    ultimately show ?thesis by (simp add: read_array_def body Let_def)
  qed
qed

lemma read_store_sql_text:
  assumes "\<forall>p \<in> set pools. plain p"
  shows "read_store_sql (store_sql pools ids (map Itoa a0s) (map Itoa a1s)) =
    Some (pools, map Itoa ids, map Itoa a0s, map Itoa a1s)"
proof -
  let ?q = "map (\<lambda>a. [CHR 0x27] @ a @ [CHR 0x27]) pools"
  have q: "\<forall>w \<in> set ?q. w \<noteq> [] \<and> CHR '','' \<notin> set w \<and> CHR '']'' \<notin> set w"
    using assms by (auto simp: plain_def)
  have n: "\<forall>w \<in> set (map Itoa ns). w \<noteq> [] \<and> CHR '','' \<notin> set w \<and> CHR '']'' \<notin> set w" for ns
    using plain_int_text by (auto simp: plain_def)
  have nb: "CHR '']'' \<notin> set (Join '','' ws)"
    if "\<forall>w \<in> set ws. w \<noteq> [] \<and> CHR '','' \<notin> set w \<and> CHR '']'' \<notin> set w" for ws
    using that Join_chars [of "'',''" ws] by auto
  have sql: "store_sql pools ids (map Itoa a0s) (map Itoa a1s) =
      (''SELECT snapshot_create_positions_1(ARRAY'' @ CHR ''['' # Join '','' ?q) @ CHR '']'' #
      ('', ARRAY'' @ CHR ''['' # Join '','' (map Itoa ids)) @ CHR '']'' #
      ('', ARRAY'' @ CHR ''['' # Join '','' (map Itoa a0s)) @ CHR '']'' #
      ('', ARRAY'' @ CHR ''['' # Join '','' (map Itoa a1s)) @ CHR '']'' # '')''"
    using quoted_pools_Join [of 0 pools] by (simp add: store_sql_def Let_def)
  have split: "Split (CHR '']'') (store_sql pools ids (map Itoa a0s) (map Itoa a1s)) =
      [''SELECT snapshot_create_positions_1(ARRAY'' @ CHR ''['' # Join '','' ?q,
       '', ARRAY'' @ CHR ''['' # Join '','' (map Itoa ids),
       '', ARRAY'' @ CHR ''['' # Join '','' (map Itoa a0s),
       '', ARRAY'' @ CHR ''['' # Join '','' (map Itoa a1s), '')'']"
    unfolding sql using nb [OF q] nb [OF n] by (subst Split_append, simp)+ simp
  have "read_array (''SELECT snapshot_create_positions_1(ARRAY'' @ CHR ''['' # Join '','' ?q) = ?q"
    using q by (intro read_array_Join) auto
  moreover have "read_array ('', ARRAY'' @ CHR ''['' # Join '','' (map Itoa ns)) = map Itoa ns" for ns
    using n [of ns] by (intro read_array_Join; simp)
  moreover have "map (butlast \<circ> tl) ?q = pools" by (simp add: o_def map_idI)
  ultimately show ?thesis by (simp only: read_store_sql_def split list.case)
qed

text \<open>C24. The statement the job builds is the one it means: for pool addresses without quotes, commas or
  brackets, reading the text back gives exactly the four lists, in order, whatever their length.\<close>

theorem store_sql_roundtrip:
  assumes "\<forall>p \<in> set pools. plain p"
  shows "read_store_sql (store_sql pools ids (map Itoa a0s) (map Itoa a1s)) =
    Some (pools, map Itoa ids, map Itoa a0s, map Itoa a1s)"
  using assms by (rule read_store_sql_text)

theorem store_sql_roundtrip_witness:
  "read_store_sql (store_sql [''0xa'', ''0xb''] [1, 2] (map Itoa [10, 0]) (map Itoa [- 5, 7])) =
     Some ([''0xa'', ''0xb''], [''1'', ''2''], [''10'', ''0''], [''-5'', ''7''])"
proof -
  have "map Itoa [1, 2] = [''1'', ''2'']" "map Itoa [10, 0] = [''10'', ''0'']"
    "map Itoa [- 5, 7] = [''-5'', ''7'']" by code_simp+
  then show ?thesis
    using store_sql_roundtrip [of "[''0xa'', ''0xb'']" "[1, 2]" "[10, 0]" "[- 5, 7]"]
    by (simp only:) (simp add: plain_def)
qed

section \<open>What the graph shows of a snapshot\<close>

type_synonym snapshot_entry = "string \<times> int \<times> int \<times> int"

definition entries_sql :: "snapshot_entry list \<Rightarrow> string" where
  "entries_sql rows = store_sql (map fst rows) (map (fst \<circ> snd) rows)
     (map (Itoa \<circ> fst \<circ> snd \<circ> snd) rows) (map (Itoa \<circ> snd \<circ> snd \<circ> snd) rows)"

definition snapshot_stmt :: "int \<Rightarrow> stmt" where
  "snapshot_stmt i = gorm_Where ''pos_id = ?'' [ArgInt i] (gorm_Table ''snapshot_positions_latest_1'')"

text \<open>What is relied on of the database: the stored procedure replaces the table by those entries of a
  non-empty statement that name a minted position, and a lookup finds the first entry with the
  identifier asked for.\<close>

definition snapshots_lawful ::
    "'s gorm \<Rightarrow> (string \<Rightarrow> 's \<Rightarrow> 's res) \<Rightarrow> ('s \<Rightarrow> snapshot_entry list) \<Rightarrow> ('s \<Rightarrow> (string \<times> int) set) \<Rightarrow> bool" where
  "snapshots_lawful D db_Exec entries minted \<longleftrightarrow>
     (\<forall>rows s s'. rows \<noteq> [] \<and> (\<forall>(pool, _) \<in> set rows. plain pool) \<and>
        db_Exec (entries_sql rows) s = Ok s' \<longrightarrow>
        entries s' = filter (\<lambda>(pool, i, _). (pool, i) \<in> minted s) rows) \<and>
     (\<forall>i s. case find (\<lambda>(pool, j, _). j = i) (entries s) of
        None \<Rightarrow> First_Snapshot D (snapshot_stmt i) s = Err ErrRecordNotFound
      | Some (pool, j, a0, a1) \<Rightarrow> \<exists>snap. First_Snapshot D (snapshot_stmt i) s = Ok snap \<and>
          snap_Amount0 snap = UnscaledNumber (Some a0) \<and> snap_Amount1 snap = UnscaledNumber (Some a1))"

lemma find_unique:
  assumes "x \<in> set xs" "P x" "\<And>y. y \<in> set xs \<Longrightarrow> P y \<Longrightarrow> y = x"
  shows "find P xs = Some x"
proof (cases "find P xs")
  case None
  then show ?thesis using assms(1,2) by (simp add: find_None_iff)
next
  case (Some y)
  then have "y \<in> set xs" "P y" by (auto simp: find_Some_iff)
  with assms(3) Some show ?thesis by simp
qed

lemma position_map_Some:
  "position_map positions k = Some pos \<Longrightarrow>
    pos \<in> set positions \<and> k = encodeId (pos_Pool pos) (pos_Id pos)"
proof -
  have "foldl (\<lambda>m p. m(encodeId (pos_Pool p) (pos_Id p) \<mapsto> p)) m positions k = Some pos \<Longrightarrow>
      m k = Some pos \<or> pos \<in> set positions \<and> k = encodeId (pos_Pool pos) (pos_Id pos)" for m
    by (induction positions arbitrary: m) (fastforce split: if_splits)+
  from this [of Map.empty] show "position_map positions k = Some pos \<Longrightarrow> ?thesis"
    by (simp add: position_map_def)
qed

lemma mapRes_concat_set:
  "mapRes f xs = Ok yss \<Longrightarrow> y \<in> set (concat yss) \<longleftrightarrow> (\<exists>x \<in> set xs. \<exists>ys. f x = Ok ys \<and> y \<in> set ys)"
  by (induction xs arbitrary: yss) auto

lemma mapErr_Exitf_Ok: "mapErr (Exitf m) x = Ok v \<longleftrightarrow> x = Ok v"
  by (cases x) (simp_all add: Exitf_def)

text \<open>The entries with the identifier of a position are those of its own response.\<close>

lemma entries_of_position:
  assumes rss: "mapRes (position_row poolMap (position_map positions) fd) resps = Ok rss"
    and ids: "inj_on pos_Id (set positions)" and keys: "distinct (map pr_Key resps)"
    and resp: "resp \<in> set resps" "position_map positions (pr_Key resp) = Some pos"
      "position_amounts poolMap fd pos (pr_Delta resp) = Ok (a0, a1)"
    and row: "(pool, pos_Id pos, b0, b1) \<in> set (concat rss)"
  shows "\<not> (a0 = 0 \<and> a1 = 0) \<and> pool = Address_String (pos_Pool pos) \<and> b0 = a0 \<and> b1 = a1"
proof -
  obtain r rs where r: "r \<in> set resps" "position_row poolMap (position_map positions) fd r = Ok rs"
    "(pool, pos_Id pos, b0, b1) \<in> set rs"
    using row mapRes_concat_set [OF rss] by blast
  then obtain pos' c0 c1 where pos': "position_map positions (pr_Key r) = Some pos'"
    "position_amounts poolMap fd pos' (pr_Delta r) = Ok (c0, c1)"
    "rs = [(Address_String (pos_Pool pos'), pos_Id pos', c0, c1)]" "\<not> (c0 = 0 \<and> c1 = 0)"
    by (fastforce simp: position_row_def split: option.splits if_splits)
  then have id': "pos_Id pos' = pos_Id pos" using r(3) by simp
  then have same: "pos' = pos"
    using position_map_Some [OF pos'(1)] position_map_Some [OF resp(2)] inj_onD [OF ids id'] by blast
  then have "pr_Key r = pr_Key resp"
    using position_map_Some [OF pos'(1)] position_map_Some [OF resp(2)] by simp
  then have "r = resp" using keys r(1) resp(1) by (auto simp: distinct_map dest: inj_onD)
  with same pos' resp(3) r(3) show ?thesis by auto
qed

text \<open>C4. The graph shows what the snapshot computed: after the job has stored the answers of the node,
  each at most once, the liquidity of a minted position is reported as the two amounts computed
  for its answer (token 1 as fUSDC), zero ones included, whatever the other positions are.\<close>

theorem snapshot_served:
  assumes law: "snapshots_lawful (r_DB r) db_Exec entries minted"
    and rss: "mapRes (position_row poolMap (position_map positions) fd) resps = Ok rss" "concat rss \<noteq> []"
    and stored: "snapshot_store db_Exec poolMap (position_map positions) fd n resps s = Ok (w_db w)"
      "length resps \<le> n"
    and ids: "inj_on pos_Id (set positions)" and keys: "distinct (map pr_Key resps)"
    and pools: "\<forall>p \<in> set positions. plain (Address_String (pos_Pool p)) \<and>
      (Address_String (pos_Pool p), pos_Id p) \<in> minted s"
    and resp: "resp \<in> set resps" "position_map positions (pr_Key resp) = Some pos"
      "position_amounts poolMap fd pos (pr_Delta resp) = Ok (a0, a1)"
    and pool: "First_Pool (r_DB r) (gorm_Where ''token = ?'' [arg_Address (pos_Pool pos)]
      (gorm_Select ''decimals'' (gorm_Table ''events_seawater_newpool''))) (w_db w) = Ok pl"
  shows "\<exists>pair. seawaterPositionResolver_Liquidity r (Some pos) w = (Ok pair, w) \<and>
    amt_ValueUnscaled (pair_Fusdc pair) = UnscaledNumber (Some a1) \<and>
    amt_ValueUnscaled (pair_Token1 pair) = UnscaledNumber (Some a0)"
proof -
  let ?rows = "concat rss"
  have row_pos: "\<exists>p \<in> set positions. pl = Address_String (pos_Pool p) \<and> i = pos_Id p"
    if "(pl, i, b0, b1) \<in> set ?rows" for pl i b0 b1
    using that mapRes_concat_set [OF rss(1)] position_map_Some
    by (fastforce simp: position_row_def split: option.splits if_splits)
  have "0 < n" using stored(2) resp(1) by (cases resps) auto
  have "db_Exec (entries_sql ?rows) s = Ok (w_db w)"
    using stored(1) unfolding snapshot_store_exec [OF rss(1) stored(2) \<open>0 < n\<close>] entries_sql_def
    by (simp only: mapErr_Exitf_Ok)
  moreover have "\<forall>(pool, _) \<in> set ?rows. plain pool" using row_pos pools by fastforce
  ultimately have "entries (w_db w) = filter (\<lambda>(pool, i, _). (pool, i) \<in> minted s) ?rows"
    using law rss(2) unfolding snapshots_lawful_def by blast
  also have "\<dots> = ?rows" using row_pos pools by (fastforce simp: filter_id_conv)
  finally have entries: "entries (w_db w) = ?rows" .
  note mine = entries_of_position [OF rss(1) ids keys resp]
  have lookup: "case find (\<lambda>(pool, j, _). j = pos_Id pos) ?rows of
      None \<Rightarrow> First_Snapshot (r_DB r) (snapshot_stmt (pos_Id pos)) (w_db w) = Err ErrRecordNotFound
    | Some (pool, j, b0, b1) \<Rightarrow> \<exists>snap. First_Snapshot (r_DB r) (snapshot_stmt (pos_Id pos)) (w_db w) = Ok snap \<and>
        snap_Amount0 snap = UnscaledNumber (Some b0) \<and> snap_Amount1 snap = UnscaledNumber (Some b1)"
    using law entries unfolding snapshots_lawful_def by metis
  show ?thesis
  proof (cases "a0 = 0 \<and> a1 = 0")
    case True
    then have "find (\<lambda>(pool, j, _). j = pos_Id pos) ?rows = None"
      using mine by (fastforce simp: find_None_iff)
    with lookup True pool show ?thesis
      by (simp add: seawaterPositionResolver_Liquidity_def handle_ask pure_def position_pair_def
          snapshot_stmt_def EmptyUnscaledNumber_def)
  next
    case False
    then have "position_row poolMap (position_map positions) fd resp =
        Ok [(Address_String (pos_Pool pos), pos_Id pos, a0, a1)]"
      using resp(2,3) by (auto simp: position_row_def)
    then have "(Address_String (pos_Pool pos), pos_Id pos, a0, a1) \<in> set ?rows"
      using resp(1) unfolding mapRes_concat_set [OF rss(1)] by (metis list.set_intros(1))
    then have "find (\<lambda>(pool, j, _). j = pos_Id pos) ?rows =
        Some (Address_String (pos_Pool pos), pos_Id pos, a0, a1)"
      by (rule find_unique) (use mine in auto)
    with lookup pool show ?thesis
      by (auto simp: seawaterPositionResolver_Liquidity_def handle_ask pure_def position_pair_def
          snapshot_stmt_def)
  qed
qed

text \<open>A database with one minted position, and a job with one answer.\<close>

type_synonym snap_db = "(string \<times> int) list \<times> snapshot_entry list"

definition snap_exec :: "string \<Rightarrow> snap_db \<Rightarrow> snap_db res" where
  "snap_exec sql = (\<lambda>(minted, rows).
     case read_store_sql sql of
       None \<Rightarrow> Err (External ''syntax error'')
     | Some (pools, ids, a0s, a1s) \<Rightarrow>
         let num = (\<lambda>t. the (SetString 10 t)) in
         Ok (minted, filter (\<lambda>(pool, i, _). (pool, i) \<in> set minted)
           (zip pools (zip (map num ids) (zip (map num a0s) (map num a1s))))))"

fun snap_first :: "(string \<times> sql_arg list) list \<Rightarrow> snap_db \<Rightarrow> PositionSnapshot res" where
  "snap_first [(c, [ArgInt i])] (minted, rows) =
     (case find (\<lambda>(pool, j, _). j = i) rows of
        None \<Rightarrow> Err ErrRecordNotFound
      | Some (pool, j, a0, a1) \<Rightarrow> Ok \<lparr>snap_PosId = j, snap_UpdatedBy = 0, snap_Owner = [], snap_Pool = pool,
          snap_Lower = EmptyNumber, snap_Upper = EmptyNumber, snap_Amount0 = UnscaledNumber (Some a0),
          snap_Amount1 = UnscaledNumber (Some a1)\<rparr>)"
| "snap_first _ s = Err (External ''bad statement'')"

definition snap_gorm :: "snap_db gorm" where
  "snap_gorm = \<lparr>
     Scan_Pools = (\<lambda>st s. Ok (Some [])), Scan_Positions = (\<lambda>st s. Ok (Some [])),
     Scan_Swaps = (\<lambda>st s. Ok (Some [])), Scan_AccountCreated = (\<lambda>st s. Ok (Some [])),
     Scan_Prices = (\<lambda>st s. Ok (Some [])), Scan_Volumes = (\<lambda>st s. Ok (Some [])),
     Scan_LiquidityGroups = (\<lambda>st s. Ok (Some [])), Scan_DecimalsGroups = (\<lambda>st s. Ok (Some [])),
     Scan_Pool = (\<lambda>st s. Ok zero_Pool), Scan_Position = (\<lambda>st s. Err (External ''no such table'')),
     Scan_Page = (\<lambda>st s. Ok zero_positions), ScanPtr_Pool = (\<lambda>st s. Ok None),
     ScanPtr_Position = (\<lambda>st s. Ok None), First_Erc20 = (\<lambda>st s. Err ErrRecordNotFound),
     First_Price = (\<lambda>st s. Err ErrRecordNotFound), First_Pool = (\<lambda>st s. Ok zero_Pool),
     First_Snapshot = (\<lambda>st. snap_first (st_where st)),
     First_DecimalsGroup = (\<lambda>st s. Err ErrRecordNotFound),
     Exec = (\<lambda>q args s. (Ok (), s))\<rparr>"

lemma zip_entries:
  "zip (map fst rows) (zip (map (fst \<circ> snd) rows) (zip (map (fst \<circ> snd \<circ> snd) rows)
    (map (snd \<circ> snd \<circ> snd) rows))) = rows"
  by (induction rows) auto

lemma snap_exec_entries:
  assumes "\<forall>(pool, _) \<in> set rows. plain pool"
  shows "snap_exec (entries_sql rows) (minted, old) =
    Ok (minted, filter (\<lambda>(pool, i, _). (pool, i) \<in> set minted) rows)"
proof -
  have "\<forall>p \<in> set (map fst rows). plain p" using assms by fastforce
  from read_store_sql_text [OF this, of "map (fst \<circ> snd) rows" "map (fst \<circ> snd \<circ> snd) rows"
      "map (snd \<circ> snd \<circ> snd) rows"]
  have "read_store_sql (entries_sql rows) = Some (map fst rows, map Itoa (map (fst \<circ> snd) rows),
      map Itoa (map (fst \<circ> snd \<circ> snd) rows), map Itoa (map (snd \<circ> snd \<circ> snd) rows))"
    by (simp only: entries_sql_def map_map comp_assoc)
  moreover have "map (\<lambda>t. the (SetString 10 t)) (map Itoa ns) = ns" for ns
    by (simp add: map_idI)
  ultimately show ?thesis by (simp only: snap_exec_def prod.case option.case Let_def zip_entries)
qed

lemma snap_lawful: "snapshots_lawful snap_gorm snap_exec snd (set \<circ> fst)"
  unfolding snapshots_lawful_def
proof (intro conjI allI impI)
  fix rows :: "snapshot_entry list" and s s' :: snap_db
  assume "rows \<noteq> [] \<and> (\<forall>(pool, _) \<in> set rows. plain pool) \<and> snap_exec (entries_sql rows) s = Ok s'"
  then show "snd s' = filter (\<lambda>(pool, i, _). (pool, i) \<in> (set \<circ> fst) s) rows"
    using snap_exec_entries [of rows "fst s" "snd s"] by auto
next
  fix i and s :: snap_db
  show "case find (\<lambda>(pool, j, _). j = i) (snd s) of
      None \<Rightarrow> First_Snapshot snap_gorm (snapshot_stmt i) s = Err ErrRecordNotFound
    | Some (pool, j, a0, a1) \<Rightarrow> \<exists>snap. First_Snapshot snap_gorm (snapshot_stmt i) s = Ok snap \<and>
        snap_Amount0 snap = UnscaledNumber (Some a0) \<and> snap_Amount1 snap = UnscaledNumber (Some a1)"
    by (cases s) (auto simp: snap_gorm_def snapshot_stmt_def stmt_defs split: option.splits)
qed

definition served_position :: Position where
  "served_position = example_position\<lparr>pos_Lower := Number (Some 0), pos_Upper := Number (Some 2)\<rparr>"

definition served_pool :: "string \<rightharpoonup> PoolDetails" where
  "served_pool k = Some (zero_details\<lparr>pd_curPrice := Some (2 ^ 128)\<rparr>)"

lemma amount1_whole: "amount1_spec lo c (2 ^ 96) = of_int (c - lo)"
  unfolding amount1_spec_def by simp

lemma served_amounts:
  obtains a1 where "0 < a1"
    "position_amounts served_pool 6 served_position (Number (Some (2 ^ 96))) = Ok (0, a1)"
proof -
  define b where "b = round_up32 (drop_bit 32 ((2 ^ 256 - 1) div tick_ratio))"
  have b: "Q96 < b" "b < 2 ^ 128" by (simp_all add: b_def tick_ratio_eq round_up32_def Q96_eq push_bit_eq_mult)
  have "sqrt_ratio_abs 2 = tick_ratio" "sqrt_ratio_abs 0 = 2 ^ 128"
    by (simp_all add: sqrt_ratio_eval push_bit_eq_mult)
  then have "GetSqrtRatioAtTick 2 = Ok b" "GetSqrtRatioAtTick 0 = Ok Q96"
    using GetSqrtRatioAtTick_pos [of 2] GetSqrtRatioAtTick_nonpos [of 0] Q96_attained
    by (simp_all add: b_def tick_ratio_eq)
  then have "position_amounts served_pool 6 served_position (Number (Some (2 ^ 96))) =
      Ok (0, b - Q96)"
    using b
    by (simp add: position_amounts_def served_position_def served_pool_def pool_at_def Let_def
        GetAmountsForLiq_clamped clamp_def amount0_spec_def mulRatToInt_floor Q96_eq
        amount1_whole [simplified])
  with b(1) show ?thesis by (intro that [of "b - Q96"]) simp_all
qed

theorem snapshot_served_witness:
  "\<exists>a1 s' pair. 0 < a1 \<and>
     snapshot_store snap_exec served_pool (position_map [served_position]) 6 1
       [\<lparr>pr_Key = encodeId ''0xab'' 7, pr_Delta = Number (Some (2 ^ 96))\<rparr>] ([(''0xab'', 7)], []) = Ok s' \<and>
     seawaterPositionResolver_Liquidity (demo_graph snap_gorm) (Some served_position) (demo_world s') =
       (Ok pair, demo_world s') \<and>
     amt_ValueUnscaled (pair_Fusdc pair) = UnscaledNumber (Some a1)"
proof -
  obtain a1 where a1: "0 < a1"
    "position_amounts served_pool 6 served_position (Number (Some (2 ^ 96))) = Ok (0, a1)"
    by (rule served_amounts)
  let ?r = "\<lparr>pr_Key = encodeId ''0xab'' 7, pr_Delta = Number (Some (2 ^ 96))\<rparr>"
  have pos: "pos_Pool served_position = ''0xab''" "pos_Id served_position = 7"
    by (simp_all add: served_position_def example_position_def)
  have low: "Address_String ''0xab'' = ''0xab''" by code_simp
  have key: "position_map [served_position] (pr_Key ?r) = Some served_position"
    by (simp add: position_map_def pos)
  have rss: "mapRes (position_row served_pool (position_map [served_position]) 6) [?r] =
      Ok [[(''0xab'', 7, 0, a1)]]"
    using a1 key by (simp add: position_row_def pos low)
  have "snapshot_store snap_exec served_pool (position_map [served_position]) 6 1 [?r] ([(''0xab'', 7)], []) =
      Ok ([(''0xab'', 7)], [(''0xab'', 7, 0, a1)])"
    using snapshot_store_exec [OF rss, of 1 snap_exec "([(''0xab'', 7)], [])"] snap_exec_entries [of "[(''0xab'', 7, 0, a1)]" "[(''0xab'', 7)]" "[]"]
    by (simp add: entries_sql_def plain_def)
  then have stored: "snapshot_store snap_exec served_pool (position_map [served_position]) 6 1 [?r]
      ([(''0xab'', 7)], []) = Ok (w_db (demo_world ([(''0xab'', 7)], [(''0xab'', 7, 0, a1)])))"
    by (simp add: demo_world_def)
  have law: "snapshots_lawful (r_DB (demo_graph snap_gorm)) snap_exec snd (set \<circ> fst)"
    by (simp add: snap_lawful)
  have pool: "First_Pool (r_DB (demo_graph snap_gorm)) st s = Ok zero_Pool" for st s
    by (simp add: snap_gorm_def)
  have "\<exists>pair. seawaterPositionResolver_Liquidity (demo_graph snap_gorm) (Some served_position)
      (demo_world ([(''0xab'', 7)], [(''0xab'', 7, 0, a1)])) =
      (Ok pair, demo_world ([(''0xab'', 7)], [(''0xab'', 7, 0, a1)])) \<and>
    amt_ValueUnscaled (pair_Fusdc pair) = UnscaledNumber (Some a1) \<and>
    amt_ValueUnscaled (pair_Token1 pair) = UnscaledNumber (Some 0)"
    by (rule snapshot_served [OF law rss _ stored _ _ _ _ _ key _ pool])
      (use a1(2) in \<open>simp_all add: pos low plain_def\<close>)
  with a1(1) stored show ?thesis by (auto simp: demo_world_def)
qed

end
