(* ===== verification/Faucet.thy ===== *)
theory Faucet
  imports Ethereum Runtime
begin

text \<open>
  src/cmd/faucet.superposition: the resolver that accepts a request for test tokens
  (\<open>schema.resolvers.go\<close>) with its checks (\<open>filter.go\<close>, \<open>stakers.go\<close>, \<open>verify-turnstile.go\<close>), the
  request row and the sending transaction (\<open>lib/faucet\<close>).  The table \<open>faucet_requests\<close> is a list of
  rows, the oldest first; the clocks, the replies of Cloudflare and of the moderators' graph and
  the failures of the database are inputs of a request.
\<close>

section \<open>Checks\<close>

definition is_alnum :: "char \<Rightarrow> bool" where
  "is_alnum c =
     (let n = (of_char c :: nat) in
      48 \<le> n \<and> n \<le> 57 \<or> 65 \<le> n \<and> n \<le> 90 \<or> 97 \<le> n \<and> n \<le> 122)"

text \<open>\<open>MatchString\<close> is unanchored: the pattern matches when some forty consecutive characters are
  letters or digits (the optional prefix adds nothing).\<close>

fun reWallet_matches :: "string \<Rightarrow> bool" where
  "reWallet_matches [] = False"
| "reWallet_matches (c # cs) =
     (39 \<le> length cs \<and> list_all is_alnum (take 40 (c # cs)) \<or> reWallet_matches cs)"

definition IsValidWallet :: "(string \<Rightarrow> bool) \<Rightarrow> string \<Rightarrow> bool" where
  "IsValidWallet IsHexAddress a = (if \<not> reWallet_matches a then False else IsHexAddress a)"

definition IsContract :: "(ethAddress \<Rightarrow> byte list res) \<Rightarrow> ethAddress \<Rightarrow> bool res" where
  "IsContract CodeAt a =
     andThen (mapErr (\<lambda>err. Err (Wrapf ''bad code at: '' err)) (CodeAt a)) (\<lambda>b.
     let isContract = length b > 0 in Ok isContract)"

text \<open>The reply of the moderators' graph: the values of \<open>points\<close> in the returned list (\<open>None\<close> for a
  missing or null one), each a string or something else with its printed form.\<close>

datatype points = PString string | POther string

datatype staker_reply =
    StakerPostFailed error
  | StakerNotDecoded error
  | StakerInfo "points option list"

definition StakerCutoff :: int where
  "StakerCutoff = 10000"

definition staker_query :: "string \<Rightarrow> string" where
  "staker_query wallet =
     [CHR 0x7B, CHR 0x22] @ ''query'' @ [CHR 0x22, CHR 0x3A, CHR 0x22] @ ''query '' @ [CHR 0x7B, CHR 0x5C] @
     ''n  getStakingInformation(addresses: ['' @ [CHR 0x5C] @ ''n    '' @ [CHR 0x5C, CHR 0x22] @
     wallet @ [CHR 0x5C, CHR 0x22, CHR 0x5C] @ ''n  ]) '' @ [CHR 0x7B, CHR 0x5C] @ ''n    points'' @ [CHR 0x5C] @
     ''n  '' @ [CHR 0x7D, CHR 0x5C] @ ''n'' @ [CHR 0x7D, CHR 0x22, CHR 0x7D]"

fun points_text :: "points option \<Rightarrow> string" where
  "points_text None = ''<nil>''"
| "points_text (Some (PString s)) = [CHR 0x22] @ s @ [CHR 0x22]"
| "points_text (Some (POther t)) = t"

definition IsUserStaker :: "(string \<Rightarrow> staker_reply) \<Rightarrow> string \<Rightarrow> bool res" where
  "IsUserStaker post wallet =
     (case post (staker_query wallet) of
        StakerPostFailed err \<Rightarrow> Err err
      | StakerNotDecoded err \<Rightarrow> Err err
      | StakerInfo stakerInfo \<Rightarrow>
          if length stakerInfo = 0 then Err (Errorf ''nothing returned from data'')
          else andThen (idx stakerInfo 0) (\<lambda>staker.
            let s = (case staker of Some (PString s) \<Rightarrow> s | _ \<Rightarrow> []) in
            case Atoi s of
              None \<Rightarrow> Err (Wrapf (''bad type conversion to int: '' @ points_text staker @ '': '')
                  (Errorf ''invalid syntax''))
            | Some v \<Rightarrow> Ok (v > StakerCutoff)))"

datatype turnstile_reply =
    PostFormFailed error
  | Status int string
  | BodyNotRead error
  | BodyNotDecoded string error
  | Verdict bool "int list"

text \<open>The last three replies come with status 200 or 202.\<close>

definition VerifyTurnstile :: "turnstile_reply \<Rightarrow> bool res" where
  "VerifyTurnstile reply =
     (case reply of
        PostFormFailed err \<Rightarrow> Err err
      | Status s buf \<Rightarrow>
          Err (Errorf (''unusual status code (resp '' @ [CHR 0x22] @ buf @ [CHR 0x22] @ ''): '' @ Itoa s))
      | BodyNotRead err \<Rightarrow> Err err
      | BodyNotDecoded buf2 err \<Rightarrow>
          Err (Wrapf (''error decoding '' @ [CHR 0x22] @ buf2 @ [CHR 0x22] @ '': '') err)
      | Verdict success e \<Rightarrow>
          if length e > 0 then Err (Errorf (''returned error codes: '' @ ''['' @ Join '' '' (map Itoa e) @ '']''))
          else Ok success)"

section \<open>Requests for tokens\<close>

record FaucetRequest =
  fr_Addr :: string
  fr_IpAddr :: string
  fr_CreatedBy :: time
  fr_UpdatedBy :: time
  fr_WasSent :: bool
  fr_IsFlyStaker :: bool

record faucet_Resolver =
  fres_F :: F
  fres_C :: C
  fres_TurnstileSecret :: string

text \<open>What one request meets: the forwarded addresses, the replies of the two services, the times of
  the query and of the two readings of the clock for the row, and the failures of the database, if any.\<close>

record faucet_call =
  call_forwarded :: string
  call_turnstile :: "string \<Rightarrow> string \<Rightarrow> turnstile_reply"
  call_staker :: "string \<Rightarrow> staker_reply"
  call_query_time :: time
  call_query_err :: "error option"
  call_created_time :: time
  call_insert_time :: time
  call_insert_err :: "error option"

definition five_hours :: time where
  "five_hours = 5 * 3600 * 10 ^ 9"

text \<open>The rows of \<open>SELECT 1 FROM faucet_requests WHERE (addr = ? OR ip_addr = ?) AND updated_by +
  INTERVAL '5 hours' > CURRENT_TIMESTAMP\<close>.\<close>

definition attempts :: "time \<Rightarrow> string \<Rightarrow> string \<Rightarrow> FaucetRequest list \<Rightarrow> FaucetRequest list" where
  "attempts now wallet ipAddr rows =
     filter (\<lambda>r. (fr_Addr r = wallet \<or> fr_IpAddr r = ipAddr) \<and> fr_UpdatedBy r + five_hours > now) rows"

definition client_ip :: "faucet_call \<Rightarrow> string res" where
  "client_ip call =
     (let ipAddrsSplit = Split (CHR '','') (call_forwarded call) in
      if length ipAddrsSplit = 0 then Err (Errorf ''internal error'')
      else idx ipAddrsSplit 0)"

text \<open>Everything before the table is touched: whether the user is a staker.\<close>

definition admit ::
    "(string \<Rightarrow> bool) \<Rightarrow> faucet_Resolver \<Rightarrow> faucet_call \<Rightarrow> string \<Rightarrow> string \<Rightarrow> bool res" where
  "admit IsHexAddress r call wallet turnstileToken =
     andThen (mapErr (\<lambda>err. Err (Errorf ''failed to verify''))
         (VerifyTurnstile (call_turnstile call (fres_TurnstileSecret r) turnstileToken)))
       (\<lambda>verifiedTurnstile.
     if \<not> verifiedTurnstile then Err (Errorf ''bad turnstile'')
     else if \<not> Is (fres_F r) FeatureFaucetEnabled then Err (Errorf ''faucet disabled'')
     else if \<not> IsValidWallet IsHexAddress wallet then Err (Errorf ''bad wallet'')
     else andThen (mapErr (\<lambda>err. Err (Wrapf ''error requesting: '' err))
         (IsUserStaker (call_staker call) wallet)) (\<lambda>isFlyStaker.
     if Is (fres_F r) FeatureFaucetStakersOnly \<and> \<not> isFlyStaker then Err (Errorf ''not staker'')
     else Ok isFlyStaker))"

text \<open>The query for recent attempts.\<close>

definition check_attempts ::
    "faucet_call \<Rightarrow> string \<Rightarrow> string \<Rightarrow> FaucetRequest list \<Rightarrow> unit res" where
  "check_attempts call wallet ipAddr rows =
     (case call_query_err call of
        Some err \<Rightarrow> Err (Errorf ''internal error'')
      | None \<Rightarrow>
          if attempts (call_query_time call) wallet ipAddr rows \<noteq> []
          then Err (Errorf ''too many requests'') else Ok ())"

text \<open>The insertion.\<close>

definition mark_request ::
    "faucet_call \<Rightarrow> string \<Rightarrow> string \<Rightarrow> bool \<Rightarrow> FaucetRequest list \<Rightarrow> FaucetRequest list res" where
  "mark_request call wallet ipAddr isFlyStaker rows =
     (case call_insert_err call of
        Some err \<Rightarrow> Err (Errorf ''internal error'')
      | None \<Rightarrow> Ok (rows @ [\<lparr>fr_Addr = wallet, fr_IpAddr = ipAddr,
          fr_CreatedBy = call_created_time call, fr_UpdatedBy = call_insert_time call,
          fr_WasSent = False, fr_IsFlyStaker = isFlyStaker\<rparr>]))"

text \<open>The resolver: on success it returns the empty text, and the model the table it leaves.\<close>

definition RequestTokens ::
    "(string \<Rightarrow> bool) \<Rightarrow> faucet_Resolver \<Rightarrow> faucet_call \<Rightarrow> string \<Rightarrow> string \<Rightarrow>
      FaucetRequest list \<Rightarrow> (string \<times> FaucetRequest list) res" where
  "RequestTokens IsHexAddress r call wallet' turnstileToken rows =
     (let wallet = ToLower wallet' in
      andThen (client_ip call) (\<lambda>ipAddr.
      andThen (admit IsHexAddress r call wallet turnstileToken) (\<lambda>isFlyStaker.
      andThen (check_attempts call wallet ipAddr rows) (\<lambda>_.
      andThen (mark_request call wallet ipAddr isFlyStaker rows) (\<lambda>rows'.
      Ok ([], rows'))))))"

definition Healthcheck :: "int res" where
  "Healthcheck = Ok 0"

section \<open>Sending\<close>

text \<open>A \<open>float64\<close> holds 53 bits; converting back to \<open>uint64\<close> truncates.\<close>

definition scale_gas :: "64 word \<Rightarrow> rat \<Rightarrow> 64 word" where
  "scale_gas g k = word_of_int \<lfloor>round_prec 53 (round_prec 53 (of_int (uint g)) * k)\<rfloor>"

definition gas_limit :: "64 word \<Rightarrow> 64 word" where
  "gas_limit g = scale_gas (scale_gas g (5 / 4)) (3 / 2)"

definition SendFaucet ::
    "((ethAddress \<times> bool) list \<Rightarrow> byte list res) \<Rightarrow> (ethAddress \<Rightarrow> ethAddress \<Rightarrow> byte list \<Rightarrow> (64 word) res) \<Rightarrow>
      (64 word \<Rightarrow> (ethAddress \<times> bool) list \<Rightarrow> 'tx res) \<Rightarrow> ethAddress \<Rightarrow> ethAddress \<Rightarrow>
      (ethAddress \<times> bool) list \<Rightarrow> 'tx res" where
  "SendFaucet Pack EstimateGas Transact faucet sender addrs =
     andThen (Pack addrs) (\<lambda>d.
     andThen (EstimateGas sender faucet d) (\<lambda>g.
     Transact (gas_limit g) addrs))"

section \<open>main\<close>

text \<open>The middleware: headers of the reply, and the forwarded addresses (the header's first value, or
  the empty text) in the context the resolvers read.\<close>

definition requestMiddleware_ServeHTTP ::
    "(headers \<Rightarrow> string \<Rightarrow> 'req \<Rightarrow> 'reply) \<Rightarrow> headers \<Rightarrow> headers \<Rightarrow> 'req \<Rightarrow> 'reply" where
  "requestMiddleware_ServeHTTP srv w header r =
     (let w = w(''Access-Control-Allow-Origin'' \<mapsto> ''*'');
          w = w(''Access-Control-Allow-Headers'' \<mapsto> ''*'');
          ipAddr = (case header ''X-Forwarded-For'' of None \<Rightarrow> [] | Some v \<Rightarrow> v)
      in srv w ipAddr r)"

text \<open>The resolver the process starts to serve as a lambda function; the HTTP server only returns
  with an error, which ends the process.\<close>

definition faucet_main ::
    "getenv \<Rightarrow> nat \<Rightarrow> (string \<Rightarrow> 'db res) \<Rightarrow> bucket_reply \<Rightarrow> (string \<Rightarrow> error) \<Rightarrow>
      ('db \<times> faucet_Resolver) res" where
  "faucet_main getenv seed gorm_Open bucket ListenAndServe =
     (let turnstileSecret = getenv ''SPN_TURNSTILE_SECRET'' in
      if turnstileSecret = [] then Exitf0 ''turnstile secret empty. set SPN_TURNSTILE_SECRET''
      else
        andThen (config_Get getenv) (\<lambda>config.
        andThen (PickTimescaleUrl seed config) (\<lambda>url.
        andThen (mapErr (\<lambda>err. Exitf ''database open: '' err) (gorm_Open url)) (\<lambda>db.
        andThen (features_get getenv bucket) (\<lambda>f.
        let r = \<lparr>fres_F = f, fres_C = config, fres_TurnstileSecret = turnstileSecret\<rparr>;
            typ = getenv ''SPN_LISTEN_BACKEND'' in
        if typ = ''lambda'' then Ok (db, r)
        else if typ = ''http'' then
          Exitf ''err listening, SPN_LISTEN_ADDR not set?: ''
            (ListenAndServe (getenv ''SPN_LISTEN_ADDR''))
        else Exitf0 (''unexpected listen type: '' @ [CHR 0x22] @ typ @ [CHR 0x22] @
          '', use either (lambda|http) for SPN_LISTEN_BACKEND''))))))"

section \<open>Acceptance\<close>

text \<open>The documented meaning of \<open>common.IsHexAddress\<close>.\<close>

definition hex_address :: "string \<Rightarrow> bool" where
  "hex_address s =
     (let t = (if take 2 s = ''0x'' \<or> take 2 s = ''0X'' then drop 2 s else s)
      in length t = 40 \<and> list_all (\<lambda>c. hex_digit c \<noteq> None) t)"

lemma hex_address_chars:
  assumes "hex_address s" "c \<in> set s"
  shows "c \<in> {CHR ''0'', CHR ''x'', CHR ''X''} \<or> hex_digit c \<noteq> None"
proof -
  have split: "set s = set (take 2 s) \<union> set (drop 2 s)"
    by (metis append_take_drop_id set_append)
  consider "take 2 s = ''0x''" "\<forall>c \<in> set (drop 2 s). hex_digit c \<noteq> None"
    | "take 2 s = ''0X''" "\<forall>c \<in> set (drop 2 s). hex_digit c \<noteq> None"
    | "\<forall>c \<in> set s. hex_digit c \<noteq> None"
    using assms(1) by (auto simp: hex_address_def Let_def list_all_iff split: if_splits)
  then show ?thesis
  proof cases
    case 1
    with split assms(2) show ?thesis by auto
  next
    case 2
    with split assms(2) show ?thesis by auto
  next
    case 3
    with assms(2) show ?thesis by auto
  qed
qed

text \<open>C26. Tokens are only promised to requests that passed every check, and exactly one row is
  written for them: the Cloudflare verdict was positive, the faucet is enabled, the wallet matches
  the pattern and is a hexadecimal address (so it has no quote or backslash, and the query sent to
  the moderators' graph cannot be altered by it), the staker rule holds and neither the wallet text
  nor the address of the client has a request in the last five hours.\<close>

theorem RequestTokens_accepts:
  assumes "RequestTokens hex_address r call w token rows = Ok (s, rows')"
  shows "\<exists>ip staker. client_ip call = Ok ip \<and>
    rows' = rows @ [\<lparr>fr_Addr = ToLower w, fr_IpAddr = ip, fr_CreatedBy = call_created_time call,
      fr_UpdatedBy = call_insert_time call, fr_WasSent = False, fr_IsFlyStaker = staker\<rparr>] \<and>
    VerifyTurnstile (call_turnstile call (fres_TurnstileSecret r) token) = Ok True \<and>
    Is (fres_F r) FeatureFaucetEnabled \<and>
    reWallet_matches (ToLower w) \<and> hex_address (ToLower w) \<and>
    CHR 0x22 \<notin> set (ToLower w) \<and> CHR 0x5C \<notin> set (ToLower w) \<and>
    IsUserStaker (call_staker call) (ToLower w) = Ok staker \<and>
    (Is (fres_F r) FeatureFaucetStakersOnly \<longrightarrow> staker) \<and>
    attempts (call_query_time call) (ToLower w) ip rows = []"
proof -
  obtain ip staker where ip: "client_ip call = Ok ip"
    and admit: "admit hex_address r call (ToLower w) token = Ok staker"
    and check: "check_attempts call (ToLower w) ip rows = Ok ()"
    and mark: "mark_request call (ToLower w) ip staker rows = Ok rows'"
    using assms by (auto simp: RequestTokens_def Let_def)
  have adm: "VerifyTurnstile (call_turnstile call (fres_TurnstileSecret r) token) = Ok True"
    "Is (fres_F r) FeatureFaucetEnabled" "hex_address (ToLower w)" "reWallet_matches (ToLower w)"
    "IsUserStaker (call_staker call) (ToLower w) = Ok staker"
    "Is (fres_F r) FeatureFaucetStakersOnly \<longrightarrow> staker"
    using admit by (auto simp: admit_def IsValidWallet_def mapErr_eq_Ok split: if_splits)
  have "CHR 0x22 \<notin> set (ToLower w)" "CHR 0x5C \<notin> set (ToLower w)"
    using hex_address_chars [OF adm(3)] by (fastforce simp: hex_digit_def digit_val_def)+
  moreover have "attempts (call_query_time call) (ToLower w) ip rows = []"
    using check by (auto simp: check_attempts_def split: option.splits if_splits)
  ultimately show ?thesis using ip adm mark
    by (auto simp: mark_request_def split: option.splits)
qed

text \<open>A call that meets no obstacle.\<close>

definition demo_resolver :: faucet_Resolver where
  "demo_resolver = \<lparr>fres_F = \<lparr>f_everything = True, f_enabled = Map.empty\<rparr>,
     fres_C = \<lparr>GethUrl = [], TimescaleUrls = [], SeawaterAddr = [], FusdcAddr = [], FusdcDecimals = 6,
       FusdcTotalSupply = UnscaledNumber None, FusdcSymbol = [], FusdcName = []\<rparr>,
     fres_TurnstileSecret = []\<rparr>"

definition demo_call :: "string \<Rightarrow> time \<Rightarrow> faucet_call" where
  "demo_call ip t = \<lparr>call_forwarded = ip, call_turnstile = (\<lambda>s k. Verdict True []),
     call_staker = (\<lambda>q. StakerInfo [Some (PString ''20000'')]), call_query_time = t,
     call_query_err = None, call_created_time = t, call_insert_time = t, call_insert_err = None\<rparr>"

definition demo_wallet :: string where
  "demo_wallet = replicate 40 (CHR ''a'')"

definition demo_row :: "string \<Rightarrow> string \<Rightarrow> time \<Rightarrow> FaucetRequest" where
  "demo_row w ip t = \<lparr>fr_Addr = w, fr_IpAddr = ip, fr_CreatedBy = t, fr_UpdatedBy = t,
     fr_WasSent = False, fr_IsFlyStaker = True\<rparr>"

lemma ToLower_demo_wallet: "ToLower demo_wallet = demo_wallet"
  by (simp add: demo_wallet_def ToLower_def lower_char_def)

lemma demo_wallet_valid: "IsValidWallet hex_address demo_wallet"
proof -
  have w: "demo_wallet = CHR ''a'' # replicate 39 (CHR ''a'')"
    by (simp add: demo_wallet_def numeral_eq_Suc)
  have "reWallet_matches demo_wallet"
    by (simp add: w is_alnum_def list_all_iff)
  moreover have "hex_address demo_wallet"
    by (simp add: demo_wallet_def hex_address_def list_all_iff hex_digit_def digit_val_def
        numeral_eq_Suc)
  ultimately show ?thesis by (simp add: IsValidWallet_def)
qed

lemma demo_admit:
  assumes "IsValidWallet hex_address w"
  shows "admit hex_address demo_resolver (demo_call ip t) w token = Ok True"
proof -
  have "SetString 10 ''20000'' = Some 20000"
    by (simp add: SetString_def scan_nat_def digit_val_def)
  then have "Atoi ''20000'' = Some 20000" by (simp add: ParseInt_def is_int64_def)
  then show ?thesis
    by (simp add: admit_def demo_call_def demo_resolver_def VerifyTurnstile_def Is_def
        assms IsUserStaker_def StakerCutoff_def)
qed

lemma demo_ip: "CHR '','' \<notin> set ip \<Longrightarrow> client_ip (demo_call ip t) = Ok ip"
  by (simp add: client_ip_def demo_call_def Split_no_sep)

lemma demo_request:
  assumes "IsValidWallet hex_address (ToLower w)"
    and "CHR '','' \<notin> set ip" "attempts t (ToLower w) ip rows = []"
  shows "RequestTokens hex_address demo_resolver (demo_call ip t) w token rows =
    Ok ([], rows @ [demo_row (ToLower w) ip t])"
proof -
  have "check_attempts (demo_call ip t) (ToLower w) ip rows = Ok ()"
    using assms(3) by (simp add: check_attempts_def demo_call_def)
  moreover have "mark_request (demo_call ip t) (ToLower w) ip True rows =
      Ok (rows @ [demo_row (ToLower w) ip t])"
    by (simp add: mark_request_def demo_call_def demo_row_def)
  ultimately show ?thesis
    using demo_ip [OF assms(2)] by (simp add: RequestTokens_def demo_admit [OF assms(1)])
qed

theorem RequestTokens_accepts_witness:
  "RequestTokens hex_address demo_resolver (demo_call ''1.2.3.4'' 0) demo_wallet [] [] =
     Ok ([], [demo_row demo_wallet ''1.2.3.4'' 0]) \<and>
   attempts 0 (ToLower demo_wallet) ''1.2.3.4'' [] = []"
proof -
  have r: "RequestTokens hex_address demo_resolver (demo_call ''1.2.3.4'' 0) demo_wallet [] [] =
      Ok ([], [demo_row demo_wallet ''1.2.3.4'' 0])"
    using demo_request [of demo_wallet "''1.2.3.4''" 0 "[]"] demo_wallet_valid
    by (simp add: attempts_def ToLower_demo_wallet)
  from RequestTokens_accepts [OF r] r show ?thesis
    by (auto simp: demo_call_def client_ip_def)
qed

section \<open>The five hour window\<close>

text \<open>Any two rows of the same wallet or of the same client are five hours apart.\<close>

definition spaced :: "FaucetRequest list \<Rightarrow> bool" where
  "spaced rows \<longleftrightarrow>
     sorted_wrt (\<lambda>r q. fr_Addr r = fr_Addr q \<or> fr_IpAddr r = fr_IpAddr q \<longrightarrow>
       fr_UpdatedBy r + five_hours \<le> fr_UpdatedBy q) rows"

text \<open>Requests served one after the other; a refused one leaves the table as it was.\<close>

fun serve ::
    "(string \<Rightarrow> bool) \<Rightarrow> faucet_Resolver \<Rightarrow> (faucet_call \<times> string \<times> string) list \<Rightarrow>
      FaucetRequest list \<Rightarrow> FaucetRequest list" where
  "serve H r [] rows = rows"
| "serve H r ((call, w, token) # calls) rows =
     (case RequestTokens H r call w token rows of
        Ok (s, rows') \<Rightarrow> serve H r calls rows'
      | _ \<Rightarrow> serve H r calls rows)"

lemma RequestTokens_spaced:
  assumes "RequestTokens H r call w token rows = Ok (s, rows')" "spaced rows"
    and "call_query_time call \<le> call_insert_time call"
  shows "spaced rows'"
proof -
  obtain ip staker where check: "check_attempts call (ToLower w) ip rows = Ok ()"
    and mark: "mark_request call (ToLower w) ip staker rows = Ok rows'"
    using assms(1) by (auto simp: RequestTokens_def Let_def)
  have "attempts (call_query_time call) (ToLower w) ip rows = []"
    using check by (auto simp: check_attempts_def split: option.splits if_splits)
  then have "\<forall>q \<in> set rows. fr_Addr q = ToLower w \<or> fr_IpAddr q = ip \<longrightarrow>
      fr_UpdatedBy q + five_hours \<le> call_insert_time call"
    using assms(3) by (fastforce simp: attempts_def filter_empty_conv)
  with mark assms(2) show ?thesis
    by (auto simp: mark_request_def spaced_def sorted_wrt_append split: option.splits)
qed

text \<open>C11. Served one after the other, requests are limited: whatever is asked, with a clock that does
  not run backwards between the query and the insertion of a request, no two rows of the same
  wallet text or of the same client address are less than five hours apart.\<close>

theorem faucet_rate_limit:
  assumes "spaced rows"
    and "\<forall>(call, w, token) \<in> set calls. call_query_time call \<le> call_insert_time call"
  shows "spaced (serve H r calls rows)"
  using assms
proof (induction calls arbitrary: rows)
  case (Cons c calls)
  obtain call w token where c: "c = (call, w, token)" by (cases c)
  show ?case
  proof (cases "RequestTokens H r call w token rows")
    case (Ok v)
    obtain s rows' where "v = (s, rows')" by (cases v)
    with Ok RequestTokens_spaced [of H r call w token rows s rows'] Cons show ?thesis
      by (auto simp: c)
  qed (use Cons in \<open>auto simp: c\<close>)
qed simp

theorem faucet_rate_limit_witness:
  "spaced (serve hex_address demo_resolver
     [(demo_call ''1.2.3.4'' 0, demo_wallet, []), (demo_call ''5.6.7.8'' 1, demo_wallet, [])] [])"
  by (rule faucet_rate_limit) (simp_all add: spaced_def demo_call_def)

text \<open>The window is kept for the text of a wallet: the same address without its prefix is another
  wallet, so with another client address it is served again at once.\<close>

theorem wallet_spelling_bypass:
  "\<exists>r q. serve hex_address demo_resolver
     [(demo_call ''1.2.3.4'' 0, demo_wallet, []), (demo_call ''5.6.7.8'' 0, ''0x'' @ demo_wallet, [])] [] = [r, q] \<and>
     fr_Addr q = ''0x'' @ fr_Addr r \<and> fr_UpdatedBy q = fr_UpdatedBy r"
proof -
  let ?w = "''0x'' @ demo_wallet"
  have low: "ToLower ?w = ?w" by (simp add: ToLower_demo_wallet lower_char_def)
  have "reWallet_matches ?w" using demo_wallet_valid by (simp add: IsValidWallet_def split: if_splits)
  moreover have "hex_address ?w"
    by (simp add: demo_wallet_def hex_address_def list_all_iff hex_digit_def digit_val_def)
  ultimately have "IsValidWallet hex_address (ToLower ?w)" unfolding low by (simp add: IsValidWallet_def)
  then have "RequestTokens hex_address demo_resolver (demo_call ''5.6.7.8'' 0) ?w []
      [demo_row demo_wallet ''1.2.3.4'' 0] =
      Ok ([], [demo_row demo_wallet ''1.2.3.4'' 0, demo_row ?w ''5.6.7.8'' 0])"
    using demo_request [of ?w "''5.6.7.8''" 0 "[demo_row demo_wallet ''1.2.3.4'' 0]"]
    unfolding low by (simp add: attempts_def demo_row_def)
  moreover have "RequestTokens hex_address demo_resolver (demo_call ''1.2.3.4'' 0) demo_wallet [] [] =
      Ok ([], [demo_row demo_wallet ''1.2.3.4'' 0])"
    using demo_request [of demo_wallet "''1.2.3.4''" 0 "[]"] demo_wallet_valid
    by (simp add: attempts_def ToLower_demo_wallet)
  ultimately show ?thesis by (simp add: demo_row_def)
qed

section \<open>Concurrent requests\<close>

text \<open>The server handles requests concurrently: a request that passed its checks, the query
  included, inserts its row in a later step.\<close>

type_synonym faucet_state = "FaucetRequest list \<times> (faucet_call \<times> string \<times> string \<times> bool) list"

inductive faucet_step ::
    "(string \<Rightarrow> bool) \<Rightarrow> faucet_Resolver \<Rightarrow> faucet_state \<Rightarrow> faucet_state \<Rightarrow> bool" for H r where
  checked: "client_ip call = Ok ip \<Longrightarrow> admit H r call (ToLower w) token = Ok staker \<Longrightarrow>
    check_attempts call (ToLower w) ip rows = Ok () \<Longrightarrow>
    faucet_step H r (rows, ps) (rows, ps @ [(call, ToLower w, ip, staker)])"
| inserted: "mark_request call w ip staker rows = Ok rows' \<Longrightarrow>
    faucet_step H r (rows, ps @ (call, w, ip, staker) # qs) (rows', ps @ qs)"

definition faucet_start :: "faucet_state \<Rightarrow> bool" where
  "faucet_start s \<longleftrightarrow> s = ([], [])"

text \<open>C28. The limit does not hold for concurrent requests: the check and the insertion are separate
  statements, and two requests of one wallet and one client, made at the same time, can both pass
  the check and both be accepted.\<close>

theorem faucet_race:
  "\<exists>rows. reach faucet_start (faucet_step hex_address demo_resolver) (rows, []) \<and>
     length rows = 2 \<and> \<not> spaced rows"
proof -
  let ?step = "faucet_step hex_address demo_resolver"
  let ?c = "demo_call ''1.2.3.4'' 0" and ?d = "demo_row demo_wallet ''1.2.3.4'' 0"
  let ?p = "(?c, demo_wallet, ''1.2.3.4'', True)"
  have ip: "client_ip ?c = Ok ''1.2.3.4''" by (rule demo_ip) simp
  have chk: "check_attempts ?c demo_wallet ''1.2.3.4'' [] = Ok ()"
    by (simp add: check_attempts_def demo_call_def attempts_def)
  have mk: "mark_request ?c demo_wallet ''1.2.3.4'' True rows = Ok (rows @ [?d])" for rows
    by (simp add: mark_request_def demo_call_def demo_row_def)
  have st: "?step ([], ps) ([], ps @ [?p])" for ps
    using faucet_step.checked [OF ip, of hex_address demo_resolver demo_wallet "[]" True "[]"]
      demo_admit [OF demo_wallet_valid] chk by (simp add: ToLower_demo_wallet)
  have a: "?step ([], []) ([], [?p])" "?step ([], [?p]) ([], [?p, ?p])"
    using st [of "[]"] st [of "[?p]"] by simp_all
  have b: "?step ([], [?p, ?p]) ([?d], [?p])" "?step ([?d], [?p]) ([?d, ?d], [])"
    using faucet_step.inserted [OF mk, of hex_address demo_resolver "[]" "[]" "[?p]"]
      faucet_step.inserted [OF mk, of hex_address demo_resolver "[?d]" "[]" "[]"] by simp_all
  have "reach faucet_start ?step ([], [])" by (rule reach_init) (simp add: faucet_start_def)
  then have "reach faucet_start ?step ([], [?p])" by (rule reach_step) (rule a(1))
  then have "reach faucet_start ?step ([], [?p, ?p])" by (rule reach_step) (rule a(2))
  then have "reach faucet_start ?step ([?d], [?p])" by (rule reach_step) (rule b(1))
  then have "reach faucet_start ?step ([?d, ?d], [])" by (rule reach_step) (rule b(2))
  moreover have "\<not> spaced [?d, ?d]" by (simp add: spaced_def demo_row_def five_hours_def)
  ultimately show ?thesis by (intro exI [of _ "[?d, ?d]"]) simp
qed

end
