(* ===== verification/GraphqlExec.thy ===== *)
theory GraphqlExec
  imports Types
begin

text \<open>
  How the code gqlgen writes into the two generated.go files answers a selection set, up to the
  fields, which are in \<open>GraphFields\<close> and \<open>FaucetExec\<close>: a field runs its resolver, records what
  went wrong at its path and becomes null; an object collects its fields and becomes null when a
  required one is; a list becomes null when an element is.  The library under it is not part of
  the repository: selection sets are taken as \<open>graphql.CollectFields\<close> hands them out (no
  fragments, no field twice) and without \<open>@defer\<close>, the functions of the library the code calls are
  parameters, and its contexts are the paths they stand for.  The last section says when an answer
  fits a schema, independently of the code.
\<close>

section \<open>Requests and answers\<close>

text \<open>The value of an argument, \<open>VNil\<close> being Go's nil.\<close>

datatype arg_value = VNil | VText string | VInt int | VBool bool

datatype selection = Selection
  (sel_Alias: string)
  (sel_Name: string)
  (sel_Args: "(string \<times> arg_value) list")
  (sel_Selections: "selection list")

datatype json =
    JNull
  | JBool bool
  | JInt int
  | JText string
  | JArray "json list"
  | JObject "(string \<times> json) list"

datatype path_step = PathName string | PathIndex nat

type_synonym path = "path_step list"

text \<open>What marshalling hands back, and the errors recorded on the way, with their paths.  Their
  order among concurrent fields depends on the schedule; here it is the order of the fields.\<close>

type_synonym answer = "json res \<times> (path \<times> error) list"

datatype operation = Query | Mutation | Subscription

text \<open>What the code uses of the library: \<open>ec.Recover\<close> turns a panic into an error, and values of
  arguments are converted.  Introspection, whose answers come from the library's description of the
  schema, is a parameter too.\<close>

record gqlgen =
  gql_Recover :: "string \<Rightarrow> error"
  gql_UnmarshalString :: "arg_value \<Rightarrow> error + string"
  gql_UnmarshalInt :: "arg_value \<Rightarrow> error + int"
  gql_Introspect :: "path \<Rightarrow> selection \<Rightarrow> answer"

section \<open>Arguments\<close>

text \<open>\<open>graphql.ErrorOnPath\<close> attaches the path of the context to an error of a conversion.\<close>

definition ErrorOnPath :: "path \<Rightarrow> error + 'a \<Rightarrow> (path \<times> error) + 'a" where
  "ErrorOnPath p res = (case res of Inl err \<Rightarrow> Inl (p, err) | Inr v \<Rightarrow> Inr v)"

definition unmarshalNString2string :: "gqlgen \<Rightarrow> path \<Rightarrow> arg_value \<Rightarrow> (path \<times> error) + string" where
  "unmarshalNString2string Q p v = ErrorOnPath p (gql_UnmarshalString Q v)"

definition unmarshalNInt2int :: "gqlgen \<Rightarrow> path \<Rightarrow> arg_value \<Rightarrow> (path \<times> error) + int" where
  "unmarshalNInt2int Q p v = ErrorOnPath p (gql_UnmarshalInt Q v)"

definition unmarshalOInt2int :: "gqlgen \<Rightarrow> path \<Rightarrow> arg_value \<Rightarrow> (path \<times> error) + int option" where
  "unmarshalOInt2int Q p v =
     (if v = VNil then Inr None else ErrorOnPath p (map_sum id Some (gql_UnmarshalInt Q v)))"

text \<open>\<open>var arg T; if tmp, ok := rawArgs[name]; ok { ... }\<close>: the conversion runs in a context whose path
  ends in the name of the argument.\<close>

definition raw_arg ::
    "'a \<Rightarrow> (path \<Rightarrow> arg_value \<Rightarrow> (path \<times> error) + 'a) \<Rightarrow> path \<Rightarrow> (string \<times> arg_value) list \<Rightarrow> string \<Rightarrow>
     (path \<times> error) + 'a" where
  "raw_arg zero unmarshal p rawArgs name =
     (case map_of rawArgs name of None \<Rightarrow> Inr zero | Some tmp \<Rightarrow> unmarshal (p @ [PathName name]) tmp)"

text \<open>\<open>if err != nil { return nil, err }\<close> between two arguments.\<close>

definition withArg :: "(path \<times> error) + 'a \<Rightarrow> ('a \<Rightarrow> (path \<times> error) + 'b) \<Rightarrow> (path \<times> error) + 'b" where
  "withArg arg f = (case arg of Inl err \<Rightarrow> Inl err | Inr v \<Rightarrow> f v)"

lemmas unmarshal_defs = ErrorOnPath_def unmarshalNString2string_def unmarshalNInt2int_def
  unmarshalOInt2int_def raw_arg_def withArg_def

section \<open>Fields\<close>

text \<open>The body of a field: an error of its resolver is recorded and the field is null, and so is a
  panic below it.  The result of a resolver is a typed value, so the test \<open>resTmp == nil\<close> never
  holds.\<close>

definition exec_field :: "gqlgen \<Rightarrow> path \<Rightarrow> 'a res \<Rightarrow> ('a \<Rightarrow> answer) \<Rightarrow> answer" where
  "exec_field Q p resTmp marshal =
     (case (case resTmp of
              Ok res \<Rightarrow> marshal res
            | Err err \<Rightarrow> (Ok JNull, [(p, err)])
            | Panic m \<Rightarrow> (Panic m, [])
            | Exit e \<Rightarrow> (Exit e, [])) of
        (Panic m, errs) \<Rightarrow> (Ok JNull, errs @ [(p, gql_Recover Q m)])
      | a \<Rightarrow> a)"

text \<open>A field with arguments reads them first, in its \<open>fieldContext\<close>: when one does not convert, its
  error is recorded at the path it carries and the field is null without running its resolver.\<close>

definition exec_args :: "(path \<times> error) + 'a \<Rightarrow> ('a \<Rightarrow> answer) \<Rightarrow> answer" where
  "exec_args fcArgs run =
     (case fcArgs of Inl (q, err) \<Rightarrow> (Ok JNull, [(q, err)]) | Inr args \<Rightarrow> run args)"

section \<open>Marshalling\<close>

definition marshalNInt :: "int \<Rightarrow> answer" where
  "marshalNInt v = (Ok (JInt v), [])"

definition marshalNString :: "string \<Rightarrow> answer" where
  "marshalNString v = (Ok (JText v), [])"

definition marshalNID :: "string \<Rightarrow> answer" where
  "marshalNID v = (Ok (JText v), [])"

definition marshalNBoolean :: "bool \<Rightarrow> answer" where
  "marshalNBoolean v = (Ok (JBool v), [])"

definition marshalNStrings :: "string list \<Rightarrow> answer" where
  "marshalNStrings v = (Ok (JArray (map JText v)), [])"

text \<open>The first end of the process among some answers.\<close>

fun first_exit :: "answer list \<Rightarrow> error option" where
  "first_exit [] = None"
| "first_exit ((Exit e, _) # as) = Some e"
| "first_exit (_ # as) = first_exit as"

definition answer_errors :: "answer list \<Rightarrow> (path \<times> error) list" where
  "answer_errors as = concat (map snd as)"

text \<open>The elements of an array, each at its index, run concurrently.  A panic in one is recorded and
  clears the array; otherwise a null element makes the array null.  The elements share their
  selections and their type, so when one panics on an unknown field all do.\<close>

fun exec_elements :: "gqlgen \<Rightarrow> (path \<Rightarrow> 'a \<Rightarrow> answer) \<Rightarrow> path \<Rightarrow> nat \<Rightarrow> 'a list \<Rightarrow> (bool \<times> answer) list" where
  "exec_elements Q marshal p i [] = []"
| "exec_elements Q marshal p i (v # vs) =
     (case marshal (p @ [PathIndex i]) v of
        (Panic m, errs) \<Rightarrow> (True, (Ok JNull, errs @ [(p @ [PathIndex i], gql_Recover Q m)]))
      | a \<Rightarrow> (False, a)) # exec_elements Q marshal p (i + 1) vs"

definition ok_json :: "answer \<Rightarrow> json" where
  "ok_json a = (case fst a of Ok j \<Rightarrow> j | _ \<Rightarrow> JNull)"

definition marshalN_array :: "gqlgen \<Rightarrow> (path \<Rightarrow> 'a \<Rightarrow> answer) \<Rightarrow> path \<Rightarrow> 'a list \<Rightarrow> answer" where
  "marshalN_array Q marshal p v =
     (let es = exec_elements Q marshal p 0 v; as = map snd es; ret = map ok_json as in
      ((case first_exit as of
          Some e \<Rightarrow> Exit e
        | None \<Rightarrow>
            if list_ex fst es then Ok (JArray [])
            else if JNull \<in> set ret then Ok JNull
            else Ok (JArray ret)),
       answer_errors as))"

text \<open>An optional array, nil being null, and an optional object.\<close>

definition marshalO_array :: "gqlgen \<Rightarrow> (path \<Rightarrow> 'a \<Rightarrow> answer) \<Rightarrow> path \<Rightarrow> 'a list option \<Rightarrow> answer" where
  "marshalO_array Q marshal p v =
     (case v of None \<Rightarrow> (Ok JNull, []) | Some vs \<Rightarrow> marshalN_array Q marshal p vs)"

definition marshalO_object :: "('a \<Rightarrow> answer) \<Rightarrow> 'a option \<Rightarrow> answer" where
  "marshalO_object marshal v = (case v of None \<Rightarrow> (Ok JNull, []) | Some x \<Rightarrow> marshal x)"

section \<open>Objects\<close>

text \<open>How an object answers a field it has: at once in the loop over the fields or in
  \<open>out.Dispatch\<close>, and whether null counts as invalid.\<close>

datatype field_case =
    InLoop (fc_required: bool) (fc_answer: answer)
  | Concurrently (fc_required: bool) (fc_answer: answer)

fun in_loop :: "field_case \<Rightarrow> bool" where
  "in_loop (InLoop req a) = True"
| "in_loop (Concurrently req a) = False"

text \<open>The fields with the case of the switch each one takes, \<open>None\<close> when there is none: that panics
  in the loop, after the earlier fields that run there.\<close>

definition exec_cases :: "(selection \<times> field_case option) list \<Rightarrow> answer" where
  "exec_cases cases =
     (case dropWhile (\<lambda>(s, c). c \<noteq> None) cases of
        (s, _) # _ \<Rightarrow>
          let before = takeWhile (\<lambda>(s, c). c \<noteq> None) cases;
              as = map fc_answer (filter in_loop (map (the \<circ> snd) before))
          in ((case first_exit as of
                 Some e \<Rightarrow> Exit e
               | None \<Rightarrow> Panic (''unknown field '' @ [CHR 0x22] @ sel_Name s @ [CHR 0x22])),
              answer_errors as)
      | [] \<Rightarrow>
          let cs = map (the \<circ> snd) cases; as = map fc_answer cs; values = map ok_json as in
          ((case first_exit as of
              Some e \<Rightarrow> Exit e
            | None \<Rightarrow>
                if list_ex (\<lambda>c. fc_required c \<and> ok_json (fc_answer c) = JNull) cs then Ok JNull
                else Ok (JObject (zip (map (sel_Alias \<circ> fst) cases) values))),
           answer_errors as))"

text \<open>An object whose fields do not affect each other.\<close>

definition exec_object :: "(selection \<Rightarrow> field_case option) \<Rightarrow> selection list \<Rightarrow> answer" where
  "exec_object run sels = exec_cases (map (\<lambda>s. (s, run s)) sels)"

lemma exec_object_cong [fundef_cong]:
  "sels = sels' \<Longrightarrow> (\<And>s. s \<in> set sels' \<Longrightarrow> run s = run' s) \<Longrightarrow> exec_object run sels = exec_object run' sels'"
  unfolding exec_object_def by (metis (mono_tags, lifting) map_cong)

text \<open>All cases known.\<close>

lemma exec_cases_known:
  assumes "\<forall>(s, c) \<in> set cases. c \<noteq> None"
  shows "exec_cases cases =
    ((case first_exit (map (fc_answer \<circ> the \<circ> snd) cases) of
        Some e \<Rightarrow> Exit e
      | None \<Rightarrow>
          if list_ex (\<lambda>c. fc_required c \<and> ok_json (fc_answer c) = JNull) (map (the \<circ> snd) cases) then Ok JNull
          else Ok (JObject (map (\<lambda>(s, c). (sel_Alias s, ok_json (fc_answer (the c)))) cases))),
     answer_errors (map (fc_answer \<circ> the \<circ> snd) cases))"
proof -
  have known: "dropWhile (\<lambda>(s, c). c \<noteq> None) cases = []" using assms by (auto simp: dropWhile_eq_Nil_conv)
  have pairs: "zip (map f cases) (map g cases) = map (\<lambda>x. (f x, g x)) cases"
    for f :: "selection \<times> field_case option \<Rightarrow> string" and g :: "selection \<times> field_case option \<Rightarrow> json"
    by (simp add: zip_map_map zip_same_conv_map)
  show ?thesis
    unfolding exec_cases_def known list.case Let_def map_map pairs
    by (simp only: comp_def case_prod_unfold)
qed

lemma exec_object_known:
  assumes "\<And>s. s \<in> set sels \<Longrightarrow> run s \<noteq> None"
  shows "exec_object run sels =
    ((case first_exit (map (\<lambda>s. fc_answer (the (run s))) sels) of
        Some e \<Rightarrow> Exit e
      | None \<Rightarrow>
          if list_ex (\<lambda>c. fc_required c \<and> ok_json (fc_answer c) = JNull) (map (\<lambda>s. the (run s)) sels) then Ok JNull
          else Ok (JObject (map (\<lambda>s. (sel_Alias s, ok_json (fc_answer (the (run s))))) sels))),
     answer_errors (map (\<lambda>s. fc_answer (the (run s))) sels))"
proof -
  have "\<forall>(s, c) \<in> set (map (\<lambda>s. (s, run s)) sels). c \<noteq> None" using assms by auto
  then show ?thesis
    unfolding exec_object_def by (simp only: exec_cases_known map_map comp_def snd_conv prod.case)
qed

section \<open>Schemas\<close>

datatype gtype =
    TInt
  | TString
  | TID
  | TBoolean
  | TEnum "string list"
  | TObject string
  | TList gtype
  | TNonNull gtype

fun nullable :: "gtype \<Rightarrow> bool" where
  "nullable (TNonNull t) = False"
| "nullable t = True"

text \<open>The fields of each object type.\<close>

type_synonym schema = "string \<Rightarrow> string \<Rightarrow> gtype option"

text \<open>The object type at the bottom of a type, if any.\<close>

fun object_type :: "gtype \<Rightarrow> string option" where
  "object_type (TObject t) = Some t"
| "object_type (TList t) = object_type t"
| "object_type (TNonNull t) = object_type t"
| "object_type _ = None"

lemma sel_Selections_smaller: "s \<in> set sels \<Longrightarrow> size_list size (sel_Selections s) < size_list size sels"
proof -
  assume s: "s \<in> set sels"
  have "size_list size (sel_Selections s) < size s" by (cases s) simp
  also have "size s \<le> size_list size sels" using size_list_estimation' [OF s order.refl] .
  finally show ?thesis .
qed

text \<open>A selection set a validator lets through, on the fields: every field exists.\<close>

function valid_selections :: "schema \<Rightarrow> string \<Rightarrow> selection list \<Rightarrow> bool" where
  "valid_selections G T sels \<longleftrightarrow>
     (\<forall>s \<in> set sels. sel_Name s = ''__typename'' \<or>
        (case G T (sel_Name s) of
           None \<Rightarrow> False
         | Some t \<Rightarrow>
             (case object_type t of
                None \<Rightarrow> True
              | Some T' \<Rightarrow> valid_selections G T' (sel_Selections s))))"
  by auto
termination
  by (relation "measure (\<lambda>(G, T, sels). size_list size sels)") (simp_all add: sel_Selections_smaller)

text \<open>An answer that fits a type: null only where it may be, and an object has exactly the fields that
  were asked for, under their aliases and in their order.\<close>

function conforms :: "schema \<Rightarrow> gtype \<Rightarrow> selection list \<Rightarrow> json \<Rightarrow> bool" where
  "conforms G TInt sels j \<longleftrightarrow> (case j of JNull \<Rightarrow> True | JInt i \<Rightarrow> True | _ \<Rightarrow> False)"
| "conforms G TString sels j \<longleftrightarrow> (case j of JNull \<Rightarrow> True | JText t \<Rightarrow> True | _ \<Rightarrow> False)"
| "conforms G TID sels j \<longleftrightarrow> (case j of JNull \<Rightarrow> True | JText t \<Rightarrow> True | _ \<Rightarrow> False)"
| "conforms G TBoolean sels j \<longleftrightarrow> (case j of JNull \<Rightarrow> True | JBool b \<Rightarrow> True | _ \<Rightarrow> False)"
| "conforms G (TEnum vs) sels j \<longleftrightarrow> (case j of JNull \<Rightarrow> True | JText t \<Rightarrow> t \<in> set vs | _ \<Rightarrow> False)"
| "conforms G (TNonNull t) sels j \<longleftrightarrow> j \<noteq> JNull \<and> conforms G t sels j"
| "conforms G (TList t) sels j \<longleftrightarrow>
     (case j of JNull \<Rightarrow> True | JArray js \<Rightarrow> \<forall>x \<in> set js. conforms G t sels x | _ \<Rightarrow> False)"
| "conforms G (TObject T) sels j \<longleftrightarrow>
     (case j of
        JNull \<Rightarrow> True
      | JObject kvs \<Rightarrow> map fst kvs = map sel_Alias sels \<and>
          (\<forall>(s, k, v) \<in> set (zip sels kvs).
             if sel_Name s = ''__typename'' then v = JText T
             else case G T (sel_Name s) of
                None \<Rightarrow> False
              | Some t \<Rightarrow> conforms G t (sel_Selections s) v)
      | _ \<Rightarrow> False)"
  by pat_completeness auto
termination
  by (relation "measures [\<lambda>(G, t, sels, j). size_list size sels, \<lambda>(G, t, sels, j). size t]")
    (auto dest!: set_zip_leftD simp: sel_Selections_smaller)

declare valid_selections.simps [simp del] conforms.simps(8) [simp del]

section \<open>Answers that fit\<close>

text \<open>A path that only goes through fields that were asked for, and may end in the name of an argument
  given to the last one.\<close>

fun asked :: "selection list \<Rightarrow> path \<Rightarrow> bool" where
  "asked sels [] \<longleftrightarrow> True"
| "asked sels (PathIndex i # q) \<longleftrightarrow> asked sels q"
| "asked sels (PathName a # q) \<longleftrightarrow> (\<exists>s \<in> set sels. sel_Alias s = a \<and>
     (asked (sel_Selections s) q \<or> (\<exists>n \<in> fst ` set (sel_Args s). q = [PathName n])))"

definition errors_at :: "path \<Rightarrow> selection list \<Rightarrow> (path \<times> error) list \<Rightarrow> bool" where
  "errors_at p sels errs \<longleftrightarrow> (\<forall>(q, e) \<in> set errs. \<exists>r. q = p @ r \<and> asked sels r)"

text \<open>The process ended, or the answer fits, or it is null and either may be or an error says why; and
  every error is at the path of the answer or at a field asked for below it.\<close>

definition answer_ok :: "schema \<Rightarrow> gtype \<Rightarrow> path \<Rightarrow> selection list \<Rightarrow> answer \<Rightarrow> bool" where
  "answer_ok G t p sels a \<longleftrightarrow> errors_at p sels (snd a) \<and>
     (case fst a of
        Ok j \<Rightarrow> if j = JNull then nullable t \<or> snd a \<noteq> [] else conforms G t sels j
      | Exit e \<Rightarrow> True
      | _ \<Rightarrow> False)"

named_theorems answer_intros

lemma conforms_null: "nullable t \<Longrightarrow> conforms G t sels JNull"
  by (cases t) (simp_all add: conforms.simps(8))

lemma errors_at_simps [simp]:
  "errors_at p sels []"
  "errors_at p sels ((q, e) # errs) \<longleftrightarrow> (\<exists>r. q = p @ r \<and> asked sels r) \<and> errors_at p sels errs"
  "errors_at p sels (errs @ errs') \<longleftrightarrow> errors_at p sels errs \<and> errors_at p sels errs'"
  "errors_at p sels (answer_errors as) \<longleftrightarrow> (\<forall>a \<in> set as. errors_at p sels (snd a))"
  by (auto simp: errors_at_def answer_errors_def)

lemma asked_here [simp]: "\<exists>r. p = p @ r \<and> asked sels r"
  by (rule exI [of _ "[]"]) simp

lemma errors_at_index: "errors_at (p @ [PathIndex i]) sels errs \<Longrightarrow> errors_at p sels errs"
  by (fastforce simp: errors_at_def)

lemma errors_at_field:
  "errors_at (p @ [PathName (sel_Alias s)]) (sel_Selections s) errs \<Longrightarrow> s \<in> set sels \<Longrightarrow> errors_at p sels errs"
  by (fastforce simp: errors_at_def)

lemma answer_ok_null [simp]:
  "answer_ok G t p sels (Ok JNull, errs) \<longleftrightarrow> errors_at p sels errs \<and> (nullable t \<or> errs \<noteq> [])"
  by (simp add: answer_ok_def)

lemma answer_ok_Exit [simp]: "answer_ok G t p sels (Exit e, errs) \<longleftrightarrow> errors_at p sels errs"
  by (simp add: answer_ok_def)

lemma answer_ok_index: "answer_ok G t (p @ [PathIndex i]) sels a \<Longrightarrow> answer_ok G t p sels a"
  using errors_at_index by (auto simp: answer_ok_def)

lemma answer_ok_NonNull: "answer_ok G (TNonNull t) p sels a \<Longrightarrow> answer_ok G t p sels a"
  by (auto simp: answer_ok_def split: res.splits if_splits)

lemma exec_field_ok [answer_intros]:
  assumes "\<And>v. r = Ok v \<Longrightarrow> answer_ok G t p sels (m v)"
  shows "answer_ok G t p sels (exec_field Q p r m)"
proof (cases r)
  case (Ok v)
  with assms have a: "answer_ok G t p sels (m v)" by simp
  then show ?thesis
    by (cases "m v"; cases "fst (m v)") (auto simp: exec_field_def Ok answer_ok_def)
qed (auto simp: exec_field_def)

text \<open>The answer to one field: as above, or null because of an argument given to it.\<close>

definition field_ok :: "schema \<Rightarrow> gtype \<Rightarrow> path \<Rightarrow> selection \<Rightarrow> answer \<Rightarrow> bool" where
  "field_ok G t p s a \<longleftrightarrow> answer_ok G t p (sel_Selections s) a \<or>
     (\<exists>n \<in> fst ` set (sel_Args s). \<exists>e. a = (Ok JNull, [(p @ [PathName n], e)]))"

lemma field_ok_exec_field [answer_intros]:
  "(\<And>v. r = Ok v \<Longrightarrow> answer_ok G t p (sel_Selections s) (m v)) \<Longrightarrow> field_ok G t p s (exec_field Q p r m)"
  unfolding field_ok_def by (rule disjI1) (rule exec_field_ok)

definition args_located :: "path \<Rightarrow> (string \<times> arg_value) list \<Rightarrow> (path \<times> error) + 'a \<Rightarrow> bool" where
  "args_located p rawArgs r \<longleftrightarrow>
     (case r of Inl (q, e) \<Rightarrow> \<exists>n \<in> fst ` set rawArgs. q = p @ [PathName n] | Inr v \<Rightarrow> True)"

lemma args_located_withArg [answer_intros]:
  "args_located p args r \<Longrightarrow> (\<And>v. args_located p args (f v)) \<Longrightarrow> args_located p args (withArg r f)"
  by (cases r) (simp_all add: withArg_def args_located_def)

lemma args_located_Inr [answer_intros]: "args_located p args (Inr v)"
  by (simp add: args_located_def)

lemma args_located_raw_arg [answer_intros]:
  "args_located p args (raw_arg zero (unmarshalNString2string Q) p args name)"
  "args_located p args (raw_arg zero' (unmarshalNInt2int Q) p args name)"
  "args_located p args (raw_arg zero'' (unmarshalOInt2int Q) p args name)"
  by (auto simp: args_located_def unmarshal_defs dest!: map_of_SomeD split: option.split sum.split)
    (metis fst_conv)+

lemma field_ok_exec_args [answer_intros]:
  assumes "args_located p (sel_Args s) r" "\<And>v. r = Inr v \<Longrightarrow> field_ok G t p s (run v)"
  shows "field_ok G t p s (exec_args r run)"
  using assms by (cases r) (auto simp: exec_args_def args_located_def field_ok_def)

lemma field_ok_errors:
  "field_ok G t (p @ [PathName (sel_Alias s)]) s a \<Longrightarrow> s \<in> set sels \<Longrightarrow> errors_at p sels (snd a)"
  unfolding field_ok_def
proof (elim disjE bexE exE)
  fix n e
  assume "s \<in> set sels" "n \<in> fst ` set (sel_Args s)"
    and "a = (Ok JNull, [((p @ [PathName (sel_Alias s)]) @ [PathName n], e)])"
  then show "errors_at p sels (snd a)" by (auto simp: errors_at_def)
qed (auto simp: answer_ok_def intro: errors_at_field)

lemma field_ok_value:
  "field_ok G t p s a \<Longrightarrow>
    (case fst a of
       Ok j \<Rightarrow> if j = JNull then nullable t \<or> snd a \<noteq> [] else conforms G t (sel_Selections s) j
     | Exit e \<Rightarrow> True
     | _ \<Rightarrow> False)"
  unfolding field_ok_def answer_ok_def by (elim disjE conjE bexE exE) simp_all

lemma marshal_scalars_ok [answer_intros]:
  "answer_ok G (TNonNull TInt) p sels (marshalNInt i)"
  "answer_ok G (TNonNull TString) p sels (marshalNString x)"
  "answer_ok G (TNonNull TID) p sels (marshalNID x)"
  "answer_ok G (TNonNull TBoolean) p sels (marshalNBoolean b)"
  "answer_ok G (TNonNull (TList (TNonNull TString))) p sels (marshalNStrings xs)"
  by (auto simp: answer_ok_def marshalNInt_def marshalNString_def marshalNID_def marshalNBoolean_def
      marshalNStrings_def)

lemma marshal_enum_ok:
  "x \<in> set vs \<Longrightarrow> answer_ok G (TNonNull (TEnum vs)) p sels (marshalNString x)"
  by (simp add: answer_ok_def marshalNString_def)

lemma first_exit_Some: "first_exit as = None \<longleftrightarrow> (\<forall>a \<in> set as. \<forall>e. fst a \<noteq> Exit e)"
  by (induction as rule: first_exit.induct) auto

lemma exec_elements_ok:
  assumes "\<And>q v. v \<in> set vs \<Longrightarrow> answer_ok G (TNonNull t) q sels (m q v)"
  shows "\<forall>(failed, a) \<in> set (exec_elements Q m p i vs). \<not> failed \<and> answer_ok G (TNonNull t) p sels a"
  using assms
proof (induction vs arbitrary: i)
  case (Cons v vs)
  have "answer_ok G (TNonNull t) p sels (m (p @ [PathIndex i]) v)"
    by (rule answer_ok_index, rule Cons.prems) simp
  then show ?case
    using Cons by (cases "m (p @ [PathIndex i]) v"; cases "fst (m (p @ [PathIndex i]) v)")
      (auto simp: answer_ok_def)
qed simp

lemma marshalN_array_ok [answer_intros]:
  assumes "\<And>q v. v \<in> set vs \<Longrightarrow> answer_ok G (TNonNull t) q sels (m q v)"
  shows "answer_ok G (TNonNull (TList (TNonNull t))) p sels (marshalN_array Q m p vs)"
proof -
  define es where "es = exec_elements Q m p 0 vs"
  have ok: "\<forall>(failed, a) \<in> set es. \<not> failed \<and> answer_ok G (TNonNull t) p sels a"
    unfolding es_def by (rule exec_elements_ok [OF assms])
  then have calm: "\<not> list_ex fst es" and located: "\<forall>x \<in> set es. errors_at p sels (snd (snd x))"
    by (auto simp: list_ex_iff answer_ok_def)
  show ?thesis
  proof (cases "first_exit (map snd es)")
    case None
    have el: "conforms G (TNonNull t) sels (ok_json a) \<or> ok_json a = JNull \<and> snd a \<noteq> []" if "a \<in> snd ` set es" for a
    proof -
      have "answer_ok G (TNonNull t) p sels a" "\<And>e. fst a \<noteq> Exit e"
        using ok None that by (auto simp: first_exit_Some)
      then show ?thesis by (auto simp: answer_ok_def ok_json_def split: res.splits if_splits)
    qed
    show ?thesis
    proof (cases "JNull \<in> ok_json ` snd ` set es")
      case True
      then have "answer_errors (map snd es) \<noteq> []" using el by (fastforce simp: answer_errors_def)
      with True None calm located show ?thesis
        by (simp add: marshalN_array_def es_def [symmetric] Let_def image_image)
    next
      case False
      then have "\<forall>j \<in> ok_json ` snd ` set es. conforms G (TNonNull t) sels j" using el by force
      with False None calm located show ?thesis
        by (auto simp: marshalN_array_def es_def [symmetric] Let_def image_image answer_ok_def)
    qed
  qed (use located in \<open>simp add: marshalN_array_def es_def [symmetric] Let_def\<close>)
qed

text \<open>The array of elements that all go well.\<close>

lemma exec_elements_all:
  "(\<And>q v. v \<in> set vs \<Longrightarrow> m q v = (Ok (f v), [])) \<Longrightarrow>
    exec_elements Q m p i vs = map (\<lambda>v. (False, (Ok (f v), []))) vs"
  by (induction vs arbitrary: i) auto

lemma marshalN_array_all:
  assumes "\<And>q v. v \<in> set vs \<Longrightarrow> m q v = (Ok (f v), [])" "\<And>v. v \<in> set vs \<Longrightarrow> f v \<noteq> JNull"
  shows "marshalN_array Q m p vs = (Ok (JArray (map f vs)), [])"
proof -
  have "first_exit (map (\<lambda>v. (Ok (f v), [])) vs) = None" by (auto simp: first_exit_Some)
  moreover have "answer_errors (map (\<lambda>v. (Ok (f v), [])) vs) = []" by (simp add: answer_errors_def)
  moreover have "JNull \<notin> f ` set vs" using assms(2) by force
  ultimately show ?thesis
    by (simp add: marshalN_array_def exec_elements_all [OF assms(1)] Let_def comp_def ok_json_def list_ex_iff)
qed

lemma marshalO_array_ok [answer_intros]:
  assumes "\<And>q v vs. x = Some vs \<Longrightarrow> v \<in> set vs \<Longrightarrow> answer_ok G (TNonNull t) q sels (m q v)"
  shows "answer_ok G (TList (TNonNull t)) p sels (marshalO_array Q m p x)"
proof (cases x)
  case (Some vs)
  have "answer_ok G (TNonNull (TList (TNonNull t))) p sels (marshalN_array Q m p vs)"
    by (rule marshalN_array_ok) (rule assms [OF Some])
  then show ?thesis by (simp add: marshalO_array_def Some answer_ok_NonNull)
qed (simp add: marshalO_array_def)

lemma marshalO_object_ok [answer_intros]:
  assumes "\<And>v. x = Some v \<Longrightarrow> answer_ok G (TNonNull (TObject T)) p sels (m v)"
  shows "answer_ok G (TObject T) p sels (marshalO_object m x)"
  using assms by (auto simp: marshalO_object_def split: option.split intro: answer_ok_NonNull)

text \<open>A case of an object's switch that fits the schema.\<close>

definition case_ok :: "schema \<Rightarrow> string \<Rightarrow> path \<Rightarrow> selection \<Rightarrow> field_case \<Rightarrow> bool" where
  "case_ok G T p s c \<longleftrightarrow>
     (if sel_Name s = ''__typename'' then fc_answer c = (Ok (JText T), [])
      else \<exists>t. G T (sel_Name s) = Some t \<and> fc_required c = (\<not> nullable t) \<and>
        field_ok G t (p @ [PathName (sel_Alias s)]) s (fc_answer c))"

lemma case_ok_value:
  assumes "case_ok G T p s c" "\<And>e. fst (fc_answer c) \<noteq> Exit e"
  shows "if fc_required c \<and> ok_json (fc_answer c) = JNull then snd (fc_answer c) \<noteq> []
    else if sel_Name s = ''__typename'' then ok_json (fc_answer c) = JText T
    else \<exists>t. G T (sel_Name s) = Some t \<and> conforms G t (sel_Selections s) (ok_json (fc_answer c))"
  using assms conforms_null
  by (auto simp: case_ok_def ok_json_def dest!: field_ok_value split: if_splits res.splits)

lemma exec_cases_ok:
  assumes fit: "\<And>s c. (s, c) \<in> set cases \<Longrightarrow> \<exists>c'. c = Some c' \<and> case_ok G T p s c'"
  shows "answer_ok G (TNonNull (TObject T)) p (map fst cases) (exec_cases cases)"
proof -
  define given where "given x = fc_answer (the (snd x))" for x :: "selection \<times> field_case option"
  have exec: "exec_cases cases =
      ((case first_exit (map given cases) of
          Some e \<Rightarrow> Exit e
        | None \<Rightarrow>
            if list_ex (\<lambda>c. fc_required c \<and> ok_json (fc_answer c) = JNull) (map (the \<circ> snd) cases) then Ok JNull
            else Ok (JObject (map (\<lambda>x. (sel_Alias (fst x), ok_json (given x))) cases))),
       answer_errors (map given cases))"
  proof -
    have "\<forall>(s, c) \<in> set cases. c \<noteq> None" using fit by fastforce
    from exec_cases_known [OF this] show ?thesis
      unfolding given_def by (simp only: comp_def case_prod_unfold)
  qed
  have located: "errors_at p (map fst cases) (snd (given x))" if "x \<in> set cases" for x
  proof -
    have "case_ok G T p (fst x) (the (snd x))" using fit [of "fst x" "snd x"] that by auto
    with that show ?thesis
      by (auto simp: case_ok_def given_def split: if_splits intro: field_ok_errors)
  qed
  show ?thesis
  proof (cases "first_exit (map given cases)")
    case None
    then have val: "if fc_required (the (snd x)) \<and> ok_json (given x) = JNull then snd (given x) \<noteq> []
        else if sel_Name (fst x) = ''__typename'' then ok_json (given x) = JText T
        else \<exists>t. G T (sel_Name (fst x)) = Some t \<and> conforms G t (sel_Selections (fst x)) (ok_json (given x))"
      if "x \<in> set cases" for x
    proof -
      have "case_ok G T p (fst x) (the (snd x))" using fit [of "fst x" "snd x"] that by auto
      from case_ok_value [OF this] None that show ?thesis by (simp add: first_exit_Some given_def)
    qed
    show ?thesis
    proof (cases "list_ex (\<lambda>c. fc_required c \<and> ok_json (fc_answer c) = JNull) (map (the \<circ> snd) cases)")
      case True
      then obtain x where "x \<in> set cases" "snd (given x) \<noteq> []"
        using val by (fastforce simp: list_ex_iff given_def)
      then have "answer_errors (map given cases) \<noteq> []" by (auto simp: answer_errors_def)
      with True None located show ?thesis by (simp add: exec)
    next
      case False
      have pairs: "zip (map fst cases) (map h cases) = map (\<lambda>x. (fst x, h x)) cases"
        for h :: "selection \<times> field_case option \<Rightarrow> string \<times> json"
        by (simp add: zip_map_map zip_same_conv_map)
      have "if sel_Name (fst x) = ''__typename'' then ok_json (given x) = JText T
          else case G T (sel_Name (fst x)) of None \<Rightarrow> False
            | Some t \<Rightarrow> conforms G t (sel_Selections (fst x)) (ok_json (given x))"
        if "x \<in> set cases" for x
        using val [OF that] False that by (auto simp: list_ex_iff given_def split: if_splits)
      then have "conforms G (TObject T) (map fst cases)
          (JObject (map (\<lambda>x. (sel_Alias (fst x), ok_json (given x))) cases))"
        by (simp add: conforms.simps(8) pairs comp_def)
      with False None located show ?thesis by (simp add: exec answer_ok_def)
    qed
  qed (simp add: exec located)
qed

lemma exec_object_ok:
  assumes "\<And>s. s \<in> set sels \<Longrightarrow> \<exists>c. run s = Some c \<and> case_ok G T p s c"
  shows "answer_ok G (TNonNull (TObject T)) p sels (exec_object run sels)"
  unfolding exec_object_def
  using exec_cases_ok [of "map (\<lambda>s. (s, run s)) sels" G T p] assms by (auto simp: comp_def)

text \<open>A required field without a value leaves its object without one; its errors are kept.\<close>

abbreviation no_data :: "answer \<Rightarrow> bool" where
  "no_data a \<equiv> fst a = Ok JNull \<or> (\<exists>e. fst a = Exit e)"

lemma exec_object_null:
  assumes "\<And>s. s \<in> set sels \<Longrightarrow> run s \<noteq> None" "s \<in> set sels" "run s = Some c"
    and "fc_required c" "no_data (fc_answer c)"
  shows "no_data (exec_object run sels) \<and> set (snd (fc_answer c)) \<subseteq> set (snd (exec_object run sels))"
proof -
  let ?as = "map (\<lambda>s. fc_answer (the (run s))) sels"
  have "first_exit ?as \<noteq> None \<or>
      list_ex (\<lambda>c. fc_required c \<and> ok_json (fc_answer c) = JNull) (map (\<lambda>s. the (run s)) sels)"
    using assms(2-5) by (force simp: list_ex_iff ok_json_def first_exit_Some)
  moreover have "set (snd (fc_answer c)) \<subseteq> set (answer_errors ?as)"
    using assms(2,3) by (force simp: answer_errors_def)
  ultimately show ?thesis
    by (auto simp: exec_object_known [OF assms(1)] split: option.split)
qed

end
