(* ===== verification/FaucetExec.thy ===== *)
theory FaucetExec
  imports Faucet GraphqlExec
begin

text \<open>
  How a document is answered by src/cmd/faucet.superposition/graph/generated.go.  Unlike the fields
  of a query, those of a mutation run one after the other, so the table of requests is handed from
  one to the next; what each field meets besides the table is the \<open>faucet_call\<close> at its path.
  The objects of introspection are left out, its two fields answer with a parameter.
\<close>

section \<open>Fields\<close>

record fec =
  fec_gql :: gqlgen
  fec_IsHexAddress :: "string \<Rightarrow> bool"
  fec_resolvers :: faucet_Resolver
  fec_call :: "path \<Rightarrow> faucet_call"

definition field_Mutation_requestTokens_args ::
    "gqlgen \<Rightarrow> path \<Rightarrow> (string \<times> arg_value) list \<Rightarrow> (path \<times> error) + (string \<times> string)" where
  "field_Mutation_requestTokens_args Q p rawArgs =
     withArg (raw_arg [] (unmarshalNString2string Q) p rawArgs ''wallet'') (\<lambda>arg0.
     withArg (raw_arg [] (unmarshalNString2string Q) p rawArgs ''turnstileToken'') (\<lambda>arg1.
     Inr (arg0, arg1)))"

text \<open>The field leaves the table as the resolver does, which writes last or not at all.\<close>

definition Mutation_requestTokens ::
    "fec \<Rightarrow> path \<Rightarrow> selection \<Rightarrow> FaucetRequest list \<Rightarrow> answer \<times> FaucetRequest list" where
  "Mutation_requestTokens E p field rows =
     (let fcArgs = field_Mutation_requestTokens_args (fec_gql E) p (sel_Args field);
          resTmp = (\<lambda>(arg0, arg1). RequestTokens (fec_IsHexAddress E) (fec_resolvers E) (fec_call E p) arg0 arg1 rows)
      in (exec_args fcArgs (\<lambda>args.
            exec_field (fec_gql E) p (andThen (resTmp args) (\<lambda>(res, _). Ok res)) marshalNString),
          case fcArgs of
            Inl err \<Rightarrow> rows
          | Inr args \<Rightarrow> (case resTmp args of Ok (_, rows') \<Rightarrow> rows' | _ \<Rightarrow> rows)))"

definition Query_healthcheck :: "fec \<Rightarrow> path \<Rightarrow> selection \<Rightarrow> answer" where
  "Query_healthcheck E p field = exec_field (fec_gql E) p Healthcheck marshalNInt"

section \<open>Objects\<close>

text \<open>The loop over the fields of a mutation; an unknown field, and the end of the process, end it.\<close>

fun Mutation_fields ::
    "fec \<Rightarrow> selection list \<Rightarrow> FaucetRequest list \<Rightarrow> (selection \<times> field_case option) list \<times> FaucetRequest list" where
  "Mutation_fields E [] rows = ([], rows)"
| "Mutation_fields E (field # fs) rows =
     (if sel_Name field = ''__typename'' then
        let (cs, rows') = Mutation_fields E fs rows
        in ((field, Some (InLoop False (marshalNString ''Mutation''))) # cs, rows')
      else if sel_Name field = ''requestTokens'' then
        let (a, rows') = Mutation_requestTokens E [PathName (sel_Alias field)] field rows;
            (cs, rows'') = (case fst a of Exit e \<Rightarrow> ([], rows') | _ \<Rightarrow> Mutation_fields E fs rows')
        in ((field, Some (InLoop True a)) # cs, rows'')
      else ([(field, None)], rows))"

definition faucet_Mutation :: "fec \<Rightarrow> selection list \<Rightarrow> FaucetRequest list \<Rightarrow> answer \<times> FaucetRequest list" where
  "faucet_Mutation E sels rows =
     (let (cs, rows') = Mutation_fields E sels rows in (exec_cases cs, rows'))"

definition faucet_Query :: "fec \<Rightarrow> selection list \<Rightarrow> answer" where
  "faucet_Query E = exec_object (\<lambda>field.
     let name = sel_Name field; q = [PathName (sel_Alias field)] in
     if name = ''__typename'' then Some (InLoop False (marshalNString ''Query''))
     else if name = ''healthcheck'' then Some (Concurrently True (Query_healthcheck E q field))
     else if name = ''__type'' \<or> name = ''__schema'' then Some (InLoop False (gql_Introspect (fec_gql E) q field))
     else None)"

definition faucet_Exec ::
    "fec \<Rightarrow> operation \<Rightarrow> selection list \<Rightarrow> FaucetRequest list \<Rightarrow> answer \<times> FaucetRequest list" where
  "faucet_Exec E op sels rows =
     (case op of
        Query \<Rightarrow> (faucet_Query E sels, rows)
      | Mutation \<Rightarrow> faucet_Mutation E sels rows
      | Subscription \<Rightarrow> ((Ok JNull, [([], Errorf ''unsupported GraphQL operation'')]), rows))"

section \<open>The schema\<close>

definition schema_faucet_Mutation :: "(string \<times> gtype) list" where
  "schema_faucet_Mutation = [(''requestTokens'', TNonNull TString)]"

definition schema_faucet_Query :: "(string \<times> gtype) list" where
  "schema_faucet_Query = [(''healthcheck'', TNonNull TInt)]"

definition faucet_schema :: schema where
  "faucet_schema T =
     (if T = ''Mutation'' then map_of schema_faucet_Mutation
      else if T = ''Query'' then map_of schema_faucet_Query
      else Map.empty)"

section \<open>Documents of several requests\<close>

text \<open>A field of a mutation fits the schema and keeps the window, and either answers and writes one row
  or is null and writes none.\<close>

lemma RequestTokens_row:
  "RequestTokens H r call w token rows = Ok (s, rows') \<Longrightarrow> length rows' = length rows + 1"
  by (auto simp: RequestTokens_def Let_def mark_request_def split: option.splits)

lemma Mutation_requestTokens_field:
  assumes "Mutation_requestTokens E p field rows = (a, rows')"
  shows "field_ok G (TNonNull TString) p field a"
    and "length rows' = length rows + (if ok_json a = JNull then 0 else 1)"
    and "spaced rows \<Longrightarrow> call_query_time (fec_call E p) \<le> call_insert_time (fec_call E p) \<Longrightarrow> spaced rows'"
proof -
  define fcArgs where "fcArgs = field_Mutation_requestTokens_args (fec_gql E) p (sel_Args field)"
  define r where "r = (\<lambda>(arg0, arg1). RequestTokens (fec_IsHexAddress E) (fec_resolvers E) (fec_call E p) arg0 arg1 rows)"
  have a: "a = exec_args fcArgs (\<lambda>args. exec_field (fec_gql E) p (andThen (r args) (\<lambda>(res, _). Ok res)) marshalNString)"
    and rows': "rows' = (case fcArgs of Inl err \<Rightarrow> rows
      | Inr args \<Rightarrow> (case r args of Ok (_, rows') \<Rightarrow> rows' | _ \<Rightarrow> rows))"
    using assms unfolding Mutation_requestTokens_def Let_def r_def [symmetric] fcArgs_def [symmetric]
    by (simp_all only: prod.inject)
  have accepted: "\<exists>w token. RequestTokens (fec_IsHexAddress E) (fec_resolvers E) (fec_call E p) w token rows = Ok (s, q)"
    if "r args = Ok (s, q)" for args s q
    using that by (cases args) (auto simp: r_def)
  show "field_ok G (TNonNull TString) p field a"
    unfolding a fcArgs_def field_Mutation_requestTokens_args_def by (intro answer_intros)
  have "length q = length rows + 1" if "r args = Ok (s, q)" for args s q
    using accepted [OF that] RequestTokens_row by blast
  then show "length rows' = length rows + (if ok_json a = JNull then 0 else 1)"
    unfolding a rows'
    by (auto simp: exec_args_def exec_field_def ok_json_def marshalNString_def split: sum.split res.split)
  show "spaced rows'" if "spaced rows" "call_query_time (fec_call E p) \<le> call_insert_time (fec_call E p)"
  proof -
    have "spaced q" if "r args = Ok (s, q)" for args s q
      using accepted [OF that] RequestTokens_spaced \<open>spaced rows\<close>
        \<open>call_query_time (fec_call E p) \<le> call_insert_time (fec_call E p)\<close> by blast
    then show ?thesis unfolding rows' using that(1) by (auto split: sum.split res.split)
  qed
qed

definition requests :: "selection list \<Rightarrow> nat" where
  "requests sels = length (filter (\<lambda>s. sel_Name s = ''requestTokens'') sels)"

text \<open>The loop, by induction on the fields: as long as the process runs it reaches every one of them.\<close>

lemma Mutation_fields_ok:
  assumes "Mutation_fields E sels rows = (cs, rows')" "valid_selections faucet_schema ''Mutation'' sels"
    and "\<And>p. call_query_time (fec_call E p) \<le> call_insert_time (fec_call E p)"
  shows "(\<forall>(s, c) \<in> set cs. \<exists>c'. c = Some c' \<and> case_ok faucet_schema ''Mutation'' [] s c') \<and>
    (spaced rows \<longrightarrow> spaced rows') \<and>
    length rows' = length rows + length (filter (\<lambda>(s, c). fc_required (the c) \<and> ok_json (fc_answer (the c)) \<noteq> JNull) cs) \<and>
    length (filter (\<lambda>(s, c). fc_required (the c)) cs) \<le> requests sels \<and>
    (first_exit (map (fc_answer \<circ> the \<circ> snd) cs) = None \<longrightarrow>
      map fst cs = sels \<and> length (filter (\<lambda>(s, c). fc_required (the c)) cs) = requests sels)"
  using assms
proof (induction sels arbitrary: rows cs rows')
  case Nil
  then show ?case by (simp add: requests_def)
next
  case (Cons s sels)
  have valid: "valid_selections faucet_schema ''Mutation'' sels"
    and name: "sel_Name s = ''__typename'' \<or> sel_Name s = ''requestTokens''"
    using Cons.prems(2)
    by (auto simp: valid_selections.simps [of _ _ "s # sels"] valid_selections.simps [of _ _ sels]
        faucet_schema_def schema_faucet_Mutation_def split: if_splits)
  note IH = Cons.IH [OF _ valid Cons.prems(3)]
  show ?case
  proof (cases "sel_Name s = ''__typename''")
    case True
    obtain ds where d: "Mutation_fields E sels rows = (ds, rows')"
      and cs: "cs = (s, Some (InLoop False (marshalNString ''Mutation''))) # ds"
      using Cons.prems(1) True by (auto split: prod.splits)
    from IH [OF d] True show ?thesis
      by (auto simp: cs case_ok_def marshalNString_def requests_def)
  next
    case False
    with name have req: "sel_Name s = ''requestTokens''" by simp
    obtain a mid where a: "Mutation_requestTokens E [PathName (sel_Alias s)] s rows = (a, mid)"
      by (cases "Mutation_requestTokens E [PathName (sel_Alias s)] s rows")
    note f = Mutation_requestTokens_field [OF a]
    have fit: "case_ok faucet_schema ''Mutation'' [] s (InLoop True a)"
      using f(1) req by (simp add: case_ok_def faucet_schema_def schema_faucet_Mutation_def)
    show ?thesis
    proof (cases "\<exists>e. fst a = Exit e")
      case True
      then obtain e where e: "fst a = Exit e" by blast
      then have "cs = [(s, Some (InLoop True a))]" "rows' = mid"
        using Cons.prems(1) req a by auto
      with f(2,3) Cons.prems(3) fit e req show ?thesis
        by (cases a) (auto simp: requests_def ok_json_def)
    next
      case False
      then obtain ds where d: "Mutation_fields E sels mid = (ds, rows')"
        and cs: "cs = (s, Some (InLoop True a)) # ds"
        using Cons.prems(1) req a by (cases "fst a") (auto split: prod.splits)
      have "first_exit (a # as) = first_exit as" for as
        using False by (cases a; cases "fst a") auto
      with IH [OF d] f(2,3) Cons.prems(3) fit req show ?thesis
        by (auto simp: cs requests_def)
    qed
  qed
qed

lemma filter_counts:
  assumes "\<And>x. A x \<Longrightarrow> R x"
  shows "length (filter A xs) \<le> length (filter R xs) \<and>
    (length (filter A xs) = length (filter R xs) \<longleftrightarrow> (\<forall>x \<in> set xs. R x \<longrightarrow> A x))"
  using assms by (induction xs) auto

text \<open>C12. Several requests in one document cannot get around the window: its fields run one after the
  other, so with a clock that does not run backwards, no two rows of a wallet text or of a client
  address are less than five hours apart afterwards, and at most one row is written for each field.
  The answer fits the schema, and it is all or nothing: there is data exactly when every request
  was accepted, while with null the accepted ones stay accepted.\<close>

theorem faucet_document:
  assumes "faucet_Exec E Mutation sels rows = (a, rows')" "valid_selections faucet_schema ''Mutation'' sels"
    and "\<And>p. call_query_time (fec_call E p) \<le> call_insert_time (fec_call E p)" "spaced rows"
  shows "spaced rows' \<and> length rows \<le> length rows' \<and> length rows' \<le> length rows + requests sels \<and>
    ((\<exists>j errs. a = (Ok j, errs) \<and> conforms faucet_schema (TObject ''Mutation'') sels j \<and>
        (j = JNull \<longrightarrow> errs \<noteq> []) \<and> (j \<noteq> JNull \<longleftrightarrow> length rows' = length rows + requests sels)) \<or>
     (\<exists>e errs. a = (Exit e, errs)))"
proof -
  obtain cs where cs: "Mutation_fields E sels rows = (cs, rows')" "a = exec_cases cs"
    using assms(1) by (auto simp: faucet_Exec_def faucet_Mutation_def split: prod.splits)
  let ?req = "\<lambda>(s, c). fc_required (the c)"
  let ?acc = "\<lambda>(s, c). fc_required (the c) \<and> ok_json (fc_answer (the c)) \<noteq> JNull"
  note loop = Mutation_fields_ok [OF cs(1) assms(2,3)]
  note count = filter_counts [of ?acc ?req cs]
  have known: "\<forall>(s, c) \<in> set cs. c \<noteq> None" using loop by fastforce
  have fits: "answer_ok faucet_schema (TNonNull (TObject ''Mutation'')) [] (map fst cs) a"
    unfolding cs(2) by (rule exec_cases_ok) (use loop in blast)
  show ?thesis
  proof (cases "first_exit (map (fc_answer \<circ> the \<circ> snd) cs)")
    case None
    then have a: "fst a = (if \<exists>x \<in> set cs. ?req x \<and> \<not> ?acc x then Ok JNull
        else Ok (JObject (map (\<lambda>(s, c). (sel_Alias s, ok_json (fc_answer (the c)))) cs)))"
      unfolding cs(2) exec_cases_known [OF known] by (simp add: list_ex_iff case_prod_unfold)
    have whole: "map fst cs = sels" "length (filter ?req cs) = requests sels" using loop None by auto
    have rows': "length rows' = length rows + length (filter ?acc cs)" "spaced rows'"
      using loop assms(4) by auto
    have fits': "answer_ok faucet_schema (TNonNull (TObject ''Mutation'')) [] sels a" using fits whole(1) by simp
    show ?thesis
    proof (cases "\<exists>x \<in> set cs. ?req x \<and> \<not> ?acc x")
      case True
      with a have "fst a = Ok JNull" by simp
      with fits' rows' count whole True show ?thesis
        by (cases a) (auto simp: answer_ok_def conforms_null)
    next
      case False
      with a have "fst a = Ok (JObject (map (\<lambda>(s, c). (sel_Alias s, ok_json (fc_answer (the c)))) cs))"
        by simp
      moreover have "length (filter ?acc cs) = length (filter ?req cs)" using count False by blast
      ultimately show ?thesis using fits' rows' whole by (cases a) (auto simp: answer_ok_def)
    qed
  next
    case (Some e)
    then have "fst a = Exit e" unfolding cs(2) exec_cases_known [OF known] by simp
    with loop count assms(4) show ?thesis by (cases a) auto
  qed
qed

definition demo_fec :: fec where
  "demo_fec = \<lparr>fec_gql = \<lparr>gql_Recover = (\<lambda>m. Errorf ''internal system error''),
       gql_UnmarshalString = (\<lambda>v. case v of VText t \<Rightarrow> Inr t | _ \<Rightarrow> Inl (Errorf ''not a string'')),
       gql_UnmarshalInt = (\<lambda>v. Inl (Errorf ''not an int'')),
       gql_Introspect = (\<lambda>p s. (Ok JNull, []))\<rparr>,
     fec_IsHexAddress = hex_address, fec_resolvers = demo_resolver,
     fec_call = (\<lambda>p. demo_call ''1.2.3.4'' 0)\<rparr>"

definition demo_request_field :: "string \<Rightarrow> selection" where
  "demo_request_field alias = Selection alias ''requestTokens''
     [(''wallet'', VText demo_wallet), (''turnstileToken'', VText [])] []"

text \<open>The same wallet twice: the second request is refused, and the answer is null although a row was
  written for the first.\<close>

theorem faucet_document_witness:
  "let sels = [demo_request_field ''a'', demo_request_field ''b''] in
   \<exists>errs rows. faucet_Exec demo_fec Mutation sels [] = ((Ok JNull, errs), rows) \<and>
     errs = [([PathName ''b''], Errorf ''too many requests'')] \<and> length rows = 1 \<and> spaced rows"
proof -
  let ?sels = "[demo_request_field ''a'', demo_request_field ''b'']"
  let ?row = "demo_row demo_wallet ''1.2.3.4'' 0" and ?call = "demo_call ''1.2.3.4'' 0"
  have first: "RequestTokens hex_address demo_resolver ?call demo_wallet [] [] = Ok ([], [?row])"
    using demo_request [of demo_wallet "''1.2.3.4''" 0 "[]"] demo_wallet_valid
    by (simp add: attempts_def ToLower_demo_wallet)
  have "check_attempts ?call demo_wallet ''1.2.3.4'' [?row] = Err (Errorf ''too many requests'')"
    by (simp add: check_attempts_def demo_call_def attempts_def demo_row_def five_hours_def)
  then have second: "RequestTokens hex_address demo_resolver ?call demo_wallet [] [?row] =
      Err (Errorf ''too many requests'')"
    using demo_ip [of "''1.2.3.4''" 0] demo_admit [OF demo_wallet_valid, of "''1.2.3.4''" 0]
    by (simp add: RequestTokens_def ToLower_demo_wallet)
  have exec: "faucet_Exec demo_fec Mutation ?sels [] =
      ((Ok JNull, [([PathName ''b''], Errorf ''too many requests'')]), [?row])"
    using first second
    by (simp add: faucet_Exec_def faucet_Mutation_def Mutation_requestTokens_def demo_request_field_def
        demo_fec_def field_Mutation_requestTokens_args_def unmarshal_defs exec_args_def
        exec_field_def marshalNString_def exec_cases_def answer_errors_def ok_json_def)
  have valid: "valid_selections faucet_schema ''Mutation'' ?sels"
    by (simp add: valid_selections.simps demo_request_field_def faucet_schema_def schema_faucet_Mutation_def)
  have "spaced []" by (simp add: spaced_def)
  from faucet_document [OF exec valid _ this] exec show ?thesis
    by (simp add: demo_fec_def demo_call_def)
qed

end
