(* ===== verification/GraphFields.thy ===== *)
theory GraphFields
  imports PositionResolvers GraphqlExec
begin

text \<open>
  The fields of src/cmd/graphql.ethereum/graph/generated.go, one definition per method
  \<open>_<Type>_<field>\<close>, named \<open>ec_<Type>_<field>\<close>: which resolver or struct field it reads, and how the
  result is marshalled; \<open>ec_<Type>\<close> is the switch of the method \<open>_<Type>\<close> over the fields of its object.
  The objects of introspection are left out, its two fields answer with a parameter.  Resolvers run
  concurrently and meet in the database, the clock and the random source: \<open>ec_at E p\<close> is the world that the resolver at the path \<open>p\<close> finds when it runs, left
  open so that every interleaving is covered.
\<close>

section \<open>The execution context\<close>

record 's ec =
  ec_gql :: gqlgen
  ec_resolvers :: "'s Resolver"
  ec_at :: "path \<Rightarrow> 's world"

definition resolved :: "'s ec \<Rightarrow> path \<Rightarrow> ('s, 'a) io \<Rightarrow> 'a res" where
  "resolved E p m = fst (m (ec_at E p))"

text \<open>The objects an answer is made of.\<close>

datatype obj =
    OAmount Amount
  | OGetSwaps GetSwaps
  | OGetSwapsForUser GetSwapsForUser
  | OLiquidityCampaign LiquidityCampaign
  | OLiquidityOverTime LiquidityOverTime
  | OPairAmount PairAmount
  | OPriceOverTime PriceOverTime
  | OQuery
  | OSeawaterConfig SeawaterConfig
  | OSeawaterLiquidity SeawaterLiquidity
  | OSeawaterPool Pool
  | OSeawaterPosition Position
  | OSeawaterPositionsGlobal SeawaterPositionsGlobal
  | OSeawaterPositionsUser SeawaterPositionsUser
  | OSeawaterSwap SeawaterSwap
  | OSeawaterSwaps SeawaterSwaps
  | OServed Served
  | OToken Token
  | OTvlOverTime TvlOverTime
  | OVolumeOverTime VolumeOverTime
  | OWallet Wallet
  | OYieldOverTime YieldOverTime

type_synonym sub_answer = "path \<Rightarrow> obj \<Rightarrow> answer"

text \<open>A field at a path, over the answers to the selections below it.\<close>

type_synonym ('s, 'o) field = "'s ec \<Rightarrow> path \<Rightarrow> sub_answer \<Rightarrow> selection \<Rightarrow> 'o \<Rightarrow> answer"
type_synonym 's root_field = "'s ec \<Rightarrow> path \<Rightarrow> sub_answer \<Rightarrow> selection \<Rightarrow> answer"
type_synonym ('s, 'o) cases = "'s ec \<Rightarrow> path \<Rightarrow> sub_answer \<Rightarrow> 'o \<Rightarrow> selection \<Rightarrow> field_case option"
type_synonym 's root_cases = "'s ec \<Rightarrow> path \<Rightarrow> sub_answer \<Rightarrow> selection \<Rightarrow> field_case option"

section \<open>Arguments of fields\<close>

definition field_Query_getPoolPositions_args ::
    "gqlgen \<Rightarrow> path \<Rightarrow> (string \<times> arg_value) list \<Rightarrow> (path \<times> error) + (string \<times> int option \<times> int option)" where
  "field_Query_getPoolPositions_args Q p rawArgs =
     withArg (raw_arg [] (unmarshalNString2string Q) p rawArgs ''pool'') (\<lambda>arg0.
     withArg (raw_arg None (unmarshalOInt2int Q) p rawArgs ''first'') (\<lambda>arg1.
     withArg (raw_arg None (unmarshalOInt2int Q) p rawArgs ''after'') (\<lambda>arg2.
     Inr (arg0, arg1, arg2))))"

definition field_Query_getPool_args ::
    "gqlgen \<Rightarrow> path \<Rightarrow> (string \<times> arg_value) list \<Rightarrow> (path \<times> error) + string" where
  "field_Query_getPool_args Q p rawArgs =
     withArg (raw_arg [] (unmarshalNString2string Q) p rawArgs ''token'') (\<lambda>arg0.
     Inr arg0)"

definition field_Query_getPosition_args ::
    "gqlgen \<Rightarrow> path \<Rightarrow> (string \<times> arg_value) list \<Rightarrow> (path \<times> error) + int" where
  "field_Query_getPosition_args Q p rawArgs =
     withArg (raw_arg 0 (unmarshalNInt2int Q) p rawArgs ''id'') (\<lambda>arg0.
     Inr arg0)"

definition field_Query_getPositions_args ::
    "gqlgen \<Rightarrow> path \<Rightarrow> (string \<times> arg_value) list \<Rightarrow> (path \<times> error) + (string \<times> int option \<times> int option)" where
  "field_Query_getPositions_args Q p rawArgs =
     withArg (raw_arg [] (unmarshalNString2string Q) p rawArgs ''wallet'') (\<lambda>arg0.
     withArg (raw_arg None (unmarshalOInt2int Q) p rawArgs ''first'') (\<lambda>arg1.
     withArg (raw_arg None (unmarshalOInt2int Q) p rawArgs ''after'') (\<lambda>arg2.
     Inr (arg0, arg1, arg2))))"

definition field_Query_getSmartAccount_args ::
    "gqlgen \<Rightarrow> path \<Rightarrow> (string \<times> arg_value) list \<Rightarrow> (path \<times> error) + string" where
  "field_Query_getSmartAccount_args Q p rawArgs =
     withArg (raw_arg [] (unmarshalNString2string Q) p rawArgs ''wallet'') (\<lambda>arg0.
     Inr arg0)"

definition field_Query_getSwapsForUser_args ::
    "gqlgen \<Rightarrow> path \<Rightarrow> (string \<times> arg_value) list \<Rightarrow> (path \<times> error) + (string \<times> int option \<times> int option)" where
  "field_Query_getSwapsForUser_args Q p rawArgs =
     withArg (raw_arg [] (unmarshalNString2string Q) p rawArgs ''wallet'') (\<lambda>arg0.
     withArg (raw_arg None (unmarshalOInt2int Q) p rawArgs ''first'') (\<lambda>arg1.
     withArg (raw_arg None (unmarshalOInt2int Q) p rawArgs ''after'') (\<lambda>arg2.
     Inr (arg0, arg1, arg2))))"

definition field_Query_getSwaps_args ::
    "gqlgen \<Rightarrow> path \<Rightarrow> (string \<times> arg_value) list \<Rightarrow> (path \<times> error) + (string \<times> int option \<times> int option)" where
  "field_Query_getSwaps_args Q p rawArgs =
     withArg (raw_arg [] (unmarshalNString2string Q) p rawArgs ''pool'') (\<lambda>arg0.
     withArg (raw_arg None (unmarshalOInt2int Q) p rawArgs ''first'') (\<lambda>arg1.
     withArg (raw_arg None (unmarshalOInt2int Q) p rawArgs ''after'') (\<lambda>arg2.
     Inr (arg0, arg1, arg2))))"

definition field_Query_getWallet_args ::
    "gqlgen \<Rightarrow> path \<Rightarrow> (string \<times> arg_value) list \<Rightarrow> (path \<times> error) + string" where
  "field_Query_getWallet_args Q p rawArgs =
     withArg (raw_arg [] (unmarshalNString2string Q) p rawArgs ''address'') (\<lambda>arg0.
     Inr arg0)"

definition field_SeawaterPool_positionsForUser_args ::
    "gqlgen \<Rightarrow> path \<Rightarrow> (string \<times> arg_value) list \<Rightarrow> (path \<times> error) + (string \<times> int option \<times> int option)" where
  "field_SeawaterPool_positionsForUser_args Q p rawArgs =
     withArg (raw_arg [] (unmarshalNString2string Q) p rawArgs ''wallet'') (\<lambda>arg0.
     withArg (raw_arg None (unmarshalOInt2int Q) p rawArgs ''first'') (\<lambda>arg1.
     withArg (raw_arg None (unmarshalOInt2int Q) p rawArgs ''after'') (\<lambda>arg2.
     Inr (arg0, arg1, arg2))))"

definition field_SeawaterPool_positions_args ::
    "gqlgen \<Rightarrow> path \<Rightarrow> (string \<times> arg_value) list \<Rightarrow> (path \<times> error) + (int option \<times> int option)" where
  "field_SeawaterPool_positions_args Q p rawArgs =
     withArg (raw_arg None (unmarshalOInt2int Q) p rawArgs ''first'') (\<lambda>arg0.
     withArg (raw_arg None (unmarshalOInt2int Q) p rawArgs ''after'') (\<lambda>arg1.
     Inr (arg0, arg1)))"

definition field_SeawaterPool_swaps_args ::
    "gqlgen \<Rightarrow> path \<Rightarrow> (string \<times> arg_value) list \<Rightarrow> (path \<times> error) + (int option \<times> int option)" where
  "field_SeawaterPool_swaps_args Q p rawArgs =
     withArg (raw_arg None (unmarshalOInt2int Q) p rawArgs ''first'') (\<lambda>arg0.
     withArg (raw_arg None (unmarshalOInt2int Q) p rawArgs ''after'') (\<lambda>arg1.
     Inr (arg0, arg1)))"

definition field_SeawaterPositionsGlobal_next_args ::
    "gqlgen \<Rightarrow> path \<Rightarrow> (string \<times> arg_value) list \<Rightarrow> (path \<times> error) + (int option)" where
  "field_SeawaterPositionsGlobal_next_args Q p rawArgs =
     withArg (raw_arg None (unmarshalOInt2int Q) p rawArgs ''first'') (\<lambda>arg0.
     Inr arg0)"

definition field_SeawaterPositionsUser_next_args ::
    "gqlgen \<Rightarrow> path \<Rightarrow> (string \<times> arg_value) list \<Rightarrow> (path \<times> error) + (int option)" where
  "field_SeawaterPositionsUser_next_args Q p rawArgs =
     withArg (raw_arg None (unmarshalOInt2int Q) p rawArgs ''first'') (\<lambda>arg0.
     Inr arg0)"

definition field_SeawaterSwaps_next_args ::
    "gqlgen \<Rightarrow> path \<Rightarrow> (string \<times> arg_value) list \<Rightarrow> (path \<times> error) + (int option)" where
  "field_SeawaterSwaps_next_args Q p rawArgs =
     withArg (raw_arg None (unmarshalOInt2int Q) p rawArgs ''first'') (\<lambda>arg0.
     Inr arg0)"

definition field_Wallet_positions_args ::
    "gqlgen \<Rightarrow> path \<Rightarrow> (string \<times> arg_value) list \<Rightarrow> (path \<times> error) + (int option \<times> int option)" where
  "field_Wallet_positions_args Q p rawArgs =
     withArg (raw_arg None (unmarshalOInt2int Q) p rawArgs ''first'') (\<lambda>arg0.
     withArg (raw_arg None (unmarshalOInt2int Q) p rawArgs ''after'') (\<lambda>arg1.
     Inr (arg0, arg1)))"

section \<open>Amount\<close>

definition ec_Amount_token :: "('s, Amount) field" where
  "ec_Amount_token E p k field obj =
     exec_field (ec_gql E) p (resolved E p (amountResolver_Token (ec_resolvers E) (Some obj)))
       (\<lambda>v. k p (OToken v))"

definition ec_Amount_decimals :: "('s, Amount) field" where
  "ec_Amount_decimals E p k field obj =
     exec_field (ec_gql E) p (Ok (amt_Decimals obj)) marshalNInt"

definition ec_Amount_timestamp :: "('s, Amount) field" where
  "ec_Amount_timestamp E p k field obj =
     exec_field (ec_gql E) p (Ok (amt_Timestamp obj)) marshalNInt"

definition ec_Amount_valueUnscaled :: "('s, Amount) field" where
  "ec_Amount_valueUnscaled E p k field obj =
     exec_field (ec_gql E) p (amountResolver_ValueUnscaled (Some obj)) marshalNString"

definition ec_Amount_valueScaled :: "('s, Amount) field" where
  "ec_Amount_valueScaled E p k field obj =
     exec_field (ec_gql E) p (amountResolver_ValueScaled (Some obj)) marshalNString"

definition ec_Amount_valueUsd :: "('s, Amount) field" where
  "ec_Amount_valueUsd E p k field obj =
     exec_field (ec_gql E) p (resolved E p (amountResolver_ValueUsd (ec_resolvers E) (Some obj)))
       marshalNString"

definition ec_Amount :: "('s, Amount) cases" where
  "ec_Amount E p k obj field =
     (let name = sel_Name field; q = p @ [PathName (sel_Alias field)] in
      if name = ''__typename'' then Some (InLoop False (marshalNString ''Amount''))
      else if name = ''token'' then Some (Concurrently True (ec_Amount_token E q k field obj))
      else if name = ''decimals'' then Some (InLoop True (ec_Amount_decimals E q k field obj))
      else if name = ''timestamp'' then Some (InLoop True (ec_Amount_timestamp E q k field obj))
      else if name = ''valueUnscaled'' then Some (Concurrently True (ec_Amount_valueUnscaled E q k field obj))
      else if name = ''valueScaled'' then Some (Concurrently True (ec_Amount_valueScaled E q k field obj))
      else if name = ''valueUsd'' then Some (Concurrently True (ec_Amount_valueUsd E q k field obj))
      else None)"

section \<open>GetSwaps\<close>

definition ec_GetSwaps_data :: "('s, GetSwaps) field" where
  "ec_GetSwaps_data E p k field obj =
     exec_field (ec_gql E) p (Ok (gs_Data obj)) (\<lambda>v. k p (OSeawaterSwaps v))"

definition ec_GetSwaps :: "('s, GetSwaps) cases" where
  "ec_GetSwaps E p k obj field =
     (let name = sel_Name field; q = p @ [PathName (sel_Alias field)] in
      if name = ''__typename'' then Some (InLoop False (marshalNString ''GetSwaps''))
      else if name = ''data'' then Some (InLoop True (ec_GetSwaps_data E q k field obj))
      else None)"

section \<open>GetSwapsForUser\<close>

definition ec_GetSwapsForUser_data :: "('s, GetSwapsForUser) field" where
  "ec_GetSwapsForUser_data E p k field obj =
     exec_field (ec_gql E) p (Ok (gsu_Data obj)) (\<lambda>v. k p (OSeawaterSwaps v))"

definition ec_GetSwapsForUser :: "('s, GetSwapsForUser) cases" where
  "ec_GetSwapsForUser E p k obj field =
     (let name = sel_Name field; q = p @ [PathName (sel_Alias field)] in
      if name = ''__typename'' then Some (InLoop False (marshalNString ''GetSwapsForUser''))
      else if name = ''data'' then Some (InLoop True (ec_GetSwapsForUser_data E q k field obj))
      else None)"

section \<open>LiquidityCampaign\<close>

definition ec_LiquidityCampaign_campaignId :: "('s, LiquidityCampaign) field" where
  "ec_LiquidityCampaign_campaignId E p k field obj =
     exec_field (ec_gql E) p (liquidityCampaignResolver_CampaignID (Some obj))
       marshalNString"

definition ec_LiquidityCampaign_owner :: "('s, LiquidityCampaign) field" where
  "ec_LiquidityCampaign_owner E p k field obj =
     exec_field (ec_gql E) p (liquidityCampaignResolver_Owner (Some obj))
       (\<lambda>v. k p (OSeawaterPositionsUser v))"

definition ec_LiquidityCampaign_tickLower :: "('s, LiquidityCampaign) field" where
  "ec_LiquidityCampaign_tickLower E p k field obj =
     exec_field (ec_gql E) p (Ok (lc_TickLower obj)) (marshalNInt \<circ> sint)"

definition ec_LiquidityCampaign_tickUpper :: "('s, LiquidityCampaign) field" where
  "ec_LiquidityCampaign_tickUpper E p k field obj =
     exec_field (ec_gql E) p (Ok (lc_TickUpper obj)) (marshalNInt \<circ> sint)"

definition ec_LiquidityCampaign_perSecond :: "('s, LiquidityCampaign) field" where
  "ec_LiquidityCampaign_perSecond E p k field obj =
     exec_field (ec_gql E) p (liquidityCampaignResolver_PerSecond (Some obj))
       (\<lambda>v. k p (OAmount v))"

definition ec_LiquidityCampaign_maximumAmount :: "('s, LiquidityCampaign) field" where
  "ec_LiquidityCampaign_maximumAmount E p k field obj =
     exec_field (ec_gql E) p (liquidityCampaignResolver_MaximumAmount (Some obj))
       (\<lambda>v. k p (OAmount v))"

definition ec_LiquidityCampaign_fromTimestamp :: "('s, LiquidityCampaign) field" where
  "ec_LiquidityCampaign_fromTimestamp E p k field obj =
     exec_field (ec_gql E) p (liquidityCampaignResolver_FromTimestamp (Some obj))
       marshalNInt"

definition ec_LiquidityCampaign_endTimestamp :: "('s, LiquidityCampaign) field" where
  "ec_LiquidityCampaign_endTimestamp E p k field obj =
     exec_field (ec_gql E) p (liquidityCampaignResolver_EndTimestamp (Some obj))
       marshalNInt"

definition ec_LiquidityCampaign_pool :: "('s, LiquidityCampaign) field" where
  "ec_LiquidityCampaign_pool E p k field obj =
     exec_field (ec_gql E) p (liquidityCampaignResolver_Pool (Some obj))
       (\<lambda>v. k p (OSeawaterPool v))"

definition ec_LiquidityCampaign :: "('s, LiquidityCampaign) cases" where
  "ec_LiquidityCampaign E p k obj field =
     (let name = sel_Name field; q = p @ [PathName (sel_Alias field)] in
      if name = ''__typename'' then Some (InLoop False (marshalNString ''LiquidityCampaign''))
      else if name = ''campaignId'' then Some (Concurrently True (ec_LiquidityCampaign_campaignId E q k field obj))
      else if name = ''owner'' then Some (Concurrently True (ec_LiquidityCampaign_owner E q k field obj))
      else if name = ''tickLower'' then Some (InLoop True (ec_LiquidityCampaign_tickLower E q k field obj))
      else if name = ''tickUpper'' then Some (InLoop True (ec_LiquidityCampaign_tickUpper E q k field obj))
      else if name = ''perSecond'' then Some (Concurrently True (ec_LiquidityCampaign_perSecond E q k field obj))
      else if name = ''maximumAmount'' then Some (Concurrently True (ec_LiquidityCampaign_maximumAmount E q k field obj))
      else if name = ''fromTimestamp'' then Some (Concurrently True (ec_LiquidityCampaign_fromTimestamp E q k field obj))
      else if name = ''endTimestamp'' then Some (Concurrently True (ec_LiquidityCampaign_endTimestamp E q k field obj))
      else if name = ''pool'' then Some (Concurrently True (ec_LiquidityCampaign_pool E q k field obj))
      else None)"

section \<open>LiquidityOverTime\<close>

definition ec_LiquidityOverTime_daily :: "('s, LiquidityOverTime) field" where
  "ec_LiquidityOverTime_daily E p k field obj =
     exec_field (ec_gql E) p (Ok (lot_Daily obj)) (marshalN_array (ec_gql E) (\<lambda>q v. k q (OPairAmount v)) p)"

definition ec_LiquidityOverTime_monthly :: "('s, LiquidityOverTime) field" where
  "ec_LiquidityOverTime_monthly E p k field obj =
     exec_field (ec_gql E) p (Ok (lot_Monthly obj)) (marshalN_array (ec_gql E) (\<lambda>q v. k q (OPairAmount v)) p)"

definition ec_LiquidityOverTime :: "('s, LiquidityOverTime) cases" where
  "ec_LiquidityOverTime E p k obj field =
     (let name = sel_Name field; q = p @ [PathName (sel_Alias field)] in
      if name = ''__typename'' then Some (InLoop False (marshalNString ''LiquidityOverTime''))
      else if name = ''daily'' then Some (InLoop True (ec_LiquidityOverTime_daily E q k field obj))
      else if name = ''monthly'' then Some (InLoop True (ec_LiquidityOverTime_monthly E q k field obj))
      else None)"

section \<open>PairAmount\<close>

definition ec_PairAmount_timestamp :: "('s, PairAmount) field" where
  "ec_PairAmount_timestamp E p k field obj =
     exec_field (ec_gql E) p (Ok (pair_Timestamp obj)) marshalNInt"

definition ec_PairAmount_fusdc :: "('s, PairAmount) field" where
  "ec_PairAmount_fusdc E p k field obj =
     exec_field (ec_gql E) p (Ok (pair_Fusdc obj)) (\<lambda>v. k p (OAmount v))"

definition ec_PairAmount_token1 :: "('s, PairAmount) field" where
  "ec_PairAmount_token1 E p k field obj =
     exec_field (ec_gql E) p (Ok (pair_Token1 obj)) (\<lambda>v. k p (OAmount v))"

definition ec_PairAmount :: "('s, PairAmount) cases" where
  "ec_PairAmount E p k obj field =
     (let name = sel_Name field; q = p @ [PathName (sel_Alias field)] in
      if name = ''__typename'' then Some (InLoop False (marshalNString ''PairAmount''))
      else if name = ''timestamp'' then Some (InLoop True (ec_PairAmount_timestamp E q k field obj))
      else if name = ''fusdc'' then Some (InLoop True (ec_PairAmount_fusdc E q k field obj))
      else if name = ''token1'' then Some (InLoop True (ec_PairAmount_token1 E q k field obj))
      else None)"

section \<open>PriceOverTime\<close>

definition ec_PriceOverTime_daily :: "('s, PriceOverTime) field" where
  "ec_PriceOverTime_daily E p k field obj =
     exec_field (ec_gql E) p (Ok (pot_Daily obj)) marshalNStrings"

definition ec_PriceOverTime_monthly :: "('s, PriceOverTime) field" where
  "ec_PriceOverTime_monthly E p k field obj =
     exec_field (ec_gql E) p (Ok (pot_Monthly obj)) marshalNStrings"

definition ec_PriceOverTime :: "('s, PriceOverTime) cases" where
  "ec_PriceOverTime E p k obj field =
     (let name = sel_Name field; q = p @ [PathName (sel_Alias field)] in
      if name = ''__typename'' then Some (InLoop False (marshalNString ''PriceOverTime''))
      else if name = ''daily'' then Some (InLoop True (ec_PriceOverTime_daily E q k field obj))
      else if name = ''monthly'' then Some (InLoop True (ec_PriceOverTime_monthly E q k field obj))
      else None)"

section \<open>Query\<close>

definition ec_Query_served :: "'s root_field" where
  "ec_Query_served E p k field =
     exec_field (ec_gql E) p (resolved E p (queryResolver_Served)) (\<lambda>v. k p (OServed v))"

definition ec_Query_fusdc :: "'s root_field" where
  "ec_Query_fusdc E p k field =
     exec_field (ec_gql E) p (queryResolver_Fusdc (ec_resolvers E)) (\<lambda>v. k p (OToken v))"

definition ec_Query_pools :: "'s root_field" where
  "ec_Query_pools E p k field =
     exec_field (ec_gql E) p (resolved E p (queryResolver_Pools (ec_resolvers E)))
       (marshalN_array (ec_gql E) (\<lambda>q v. k q (OSeawaterPool v)) p)"

definition ec_Query_activeLiquidityCampaigns :: "'s root_field" where
  "ec_Query_activeLiquidityCampaigns E p k field =
     exec_field (ec_gql E) p (resolved E p (queryResolver_ActiveLiquidityCampaigns (ec_resolvers E)))
       (marshalN_array (ec_gql E) (\<lambda>q v. k q (OLiquidityCampaign v)) p)"

definition ec_Query_upcomingLiquidityCampaigns :: "'s root_field" where
  "ec_Query_upcomingLiquidityCampaigns E p k field =
     exec_field (ec_gql E) p (resolved E p (queryResolver_UpcomingLiquidityCampaigns (ec_resolvers E)))
       (marshalN_array (ec_gql E) (\<lambda>q v. k q (OLiquidityCampaign v)) p)"

definition ec_Query_getPool :: "'s root_field" where
  "ec_Query_getPool E p k field =
     exec_args (field_Query_getPool_args (ec_gql E) p (sel_Args field)) (\<lambda>arg0.
       exec_field (ec_gql E) p (resolved E p (queryResolver_GetPool (ec_resolvers E) arg0))
         (marshalO_object (\<lambda>v. k p (OSeawaterPool v))))"

definition ec_Query_getPoolPositions :: "'s root_field" where
  "ec_Query_getPoolPositions E p k field =
     exec_args (field_Query_getPoolPositions_args (ec_gql E) p (sel_Args field)) (\<lambda>(arg0, arg1, arg2).
       exec_field (ec_gql E) p (resolved E p (queryResolver_GetPoolPositions (ec_resolvers E) arg0 arg1 arg2))
         (\<lambda>v. k p (OSeawaterPositionsGlobal v)))"

definition ec_Query_getPosition :: "'s root_field" where
  "ec_Query_getPosition E p k field =
     exec_args (field_Query_getPosition_args (ec_gql E) p (sel_Args field)) (\<lambda>arg0.
       exec_field (ec_gql E) p (resolved E p (queryResolver_GetPosition (ec_resolvers E) arg0))
         (marshalO_object (\<lambda>v. k p (OSeawaterPosition v))))"

definition ec_Query_getPositions :: "'s root_field" where
  "ec_Query_getPositions E p k field =
     exec_args (field_Query_getPositions_args (ec_gql E) p (sel_Args field)) (\<lambda>(arg0, arg1, arg2).
       exec_field (ec_gql E) p (resolved E p (queryResolver_GetPositions (ec_resolvers E) arg0 arg1 arg2))
         (\<lambda>v. k p (OSeawaterPositionsUser v)))"

definition ec_Query_getWallet :: "'s root_field" where
  "ec_Query_getWallet E p k field =
     exec_args (field_Query_getWallet_args (ec_gql E) p (sel_Args field)) (\<lambda>arg0.
       exec_field (ec_gql E) p (resolved E p (queryResolver_GetWallet (ec_resolvers E) arg0))
         (marshalO_object (\<lambda>v. k p (OWallet v))))"

definition ec_Query_getSwaps :: "'s root_field" where
  "ec_Query_getSwaps E p k field =
     exec_args (field_Query_getSwaps_args (ec_gql E) p (sel_Args field)) (\<lambda>(arg0, arg1, arg2).
       exec_field (ec_gql E) p (resolved E p (queryResolver_GetSwaps (ec_resolvers E) arg0 arg1 arg2))
         (\<lambda>v. k p (OGetSwaps v)))"

definition ec_Query_getSwapsForUser :: "'s root_field" where
  "ec_Query_getSwapsForUser E p k field =
     exec_args (field_Query_getSwapsForUser_args (ec_gql E) p (sel_Args field)) (\<lambda>(arg0, arg1, arg2).
       exec_field (ec_gql E) p (resolved E p (queryResolver_GetSwapsForUser (ec_resolvers E) arg0 arg1 arg2))
         (\<lambda>v. k p (OGetSwapsForUser v)))"

definition ec_Query_getSmartAccount :: "'s root_field" where
  "ec_Query_getSmartAccount E p k field =
     exec_args (field_Query_getSmartAccount_args (ec_gql E) p (sel_Args field)) (\<lambda>arg0.
       exec_field (ec_gql E) p (resolved E p (queryResolver_GetSmartAccount (ec_resolvers E) arg0))
         (marshalN_array (ec_gql E) (\<lambda>q v. k q (OWallet v)) p))"

definition ec_Query :: "'s root_cases" where
  "ec_Query E p k field =
     (let name = sel_Name field; q = p @ [PathName (sel_Alias field)] in
      if name = ''__typename'' then Some (InLoop False (marshalNString ''Query''))
      else if name = ''served'' then Some (Concurrently True (ec_Query_served E q k field))
      else if name = ''fusdc'' then Some (Concurrently True (ec_Query_fusdc E q k field))
      else if name = ''pools'' then Some (Concurrently True (ec_Query_pools E q k field))
      else if name = ''activeLiquidityCampaigns'' then Some (Concurrently True (ec_Query_activeLiquidityCampaigns E q k field))
      else if name = ''upcomingLiquidityCampaigns'' then Some (Concurrently True (ec_Query_upcomingLiquidityCampaigns E q k field))
      else if name = ''getPool'' then Some (Concurrently False (ec_Query_getPool E q k field))
      else if name = ''getPoolPositions'' then Some (Concurrently True (ec_Query_getPoolPositions E q k field))
      else if name = ''getPosition'' then Some (Concurrently False (ec_Query_getPosition E q k field))
      else if name = ''getPositions'' then Some (Concurrently True (ec_Query_getPositions E q k field))
      else if name = ''getWallet'' then Some (Concurrently False (ec_Query_getWallet E q k field))
      else if name = ''getSwaps'' then Some (Concurrently True (ec_Query_getSwaps E q k field))
      else if name = ''getSwapsForUser'' then Some (Concurrently True (ec_Query_getSwapsForUser E q k field))
      else if name = ''getSmartAccount'' then Some (Concurrently True (ec_Query_getSmartAccount E q k field))
      else if name = ''__type'' \<or> name = ''__schema'' then Some (InLoop False (gql_Introspect (ec_gql E) q field))
      else None)"

section \<open>SeawaterConfig\<close>

definition ec_SeawaterConfig_id :: "('s, SeawaterConfig) field" where
  "ec_SeawaterConfig_id E p k field obj =
     exec_field (ec_gql E) p (seawaterConfigResolver_ID (Some obj)) marshalNID"

definition ec_SeawaterConfig_pool :: "('s, SeawaterConfig) field" where
  "ec_SeawaterConfig_pool E p k field obj =
     exec_field (ec_gql E) p (resolved E p (seawaterConfigResolver_Pool (ec_resolvers E) (Some obj)))
       (\<lambda>v. k p (OSeawaterPool v))"

definition ec_SeawaterConfig_displayed :: "('s, SeawaterConfig) field" where
  "ec_SeawaterConfig_displayed E p k field obj =
     exec_field (ec_gql E) p (Ok (pc_Displayed (sc_Pool obj))) marshalNBoolean"

definition ec_SeawaterConfig_classification :: "('s, SeawaterConfig) field" where
  "ec_SeawaterConfig_classification E p k field obj =
     exec_field (ec_gql E) p (Ok (pc_Classification (sc_Pool obj))) marshalNString"

definition ec_SeawaterConfig :: "('s, SeawaterConfig) cases" where
  "ec_SeawaterConfig E p k obj field =
     (let name = sel_Name field; q = p @ [PathName (sel_Alias field)] in
      if name = ''__typename'' then Some (InLoop False (marshalNString ''SeawaterConfig''))
      else if name = ''id'' then Some (Concurrently True (ec_SeawaterConfig_id E q k field obj))
      else if name = ''pool'' then Some (Concurrently True (ec_SeawaterConfig_pool E q k field obj))
      else if name = ''displayed'' then Some (InLoop True (ec_SeawaterConfig_displayed E q k field obj))
      else if name = ''classification'' then Some (InLoop True (ec_SeawaterConfig_classification E q k field obj))
      else None)"

section \<open>SeawaterLiquidity\<close>

definition ec_SeawaterLiquidity_id :: "('s, SeawaterLiquidity) field" where
  "ec_SeawaterLiquidity_id E p k field obj =
     exec_field (ec_gql E) p (Ok (sl_ID obj)) marshalNID"

definition ec_SeawaterLiquidity_tickLower :: "('s, SeawaterLiquidity) field" where
  "ec_SeawaterLiquidity_tickLower E p k field obj =
     exec_field (ec_gql E) p (seawaterLiquidityResolver_TickLower (Some obj))
       marshalNInt"

definition ec_SeawaterLiquidity_tickUpper :: "('s, SeawaterLiquidity) field" where
  "ec_SeawaterLiquidity_tickUpper E p k field obj =
     exec_field (ec_gql E) p (seawaterLiquidityResolver_TickUpper (Some obj))
       marshalNInt"

definition ec_SeawaterLiquidity_price :: "('s, SeawaterLiquidity) field" where
  "ec_SeawaterLiquidity_price E p k field obj =
     exec_field (ec_gql E) p (Ok (sl_Price obj)) marshalNString"

definition ec_SeawaterLiquidity_liquidity :: "('s, SeawaterLiquidity) field" where
  "ec_SeawaterLiquidity_liquidity E p k field obj =
     exec_field (ec_gql E) p (Ok (sl_Liquidity obj)) marshalNString"

definition ec_SeawaterLiquidity :: "('s, SeawaterLiquidity) cases" where
  "ec_SeawaterLiquidity E p k obj field =
     (let name = sel_Name field; q = p @ [PathName (sel_Alias field)] in
      if name = ''__typename'' then Some (InLoop False (marshalNString ''SeawaterLiquidity''))
      else if name = ''id'' then Some (InLoop True (ec_SeawaterLiquidity_id E q k field obj))
      else if name = ''tickLower'' then Some (Concurrently True (ec_SeawaterLiquidity_tickLower E q k field obj))
      else if name = ''tickUpper'' then Some (Concurrently True (ec_SeawaterLiquidity_tickUpper E q k field obj))
      else if name = ''price'' then Some (InLoop True (ec_SeawaterLiquidity_price E q k field obj))
      else if name = ''liquidity'' then Some (InLoop True (ec_SeawaterLiquidity_liquidity E q k field obj))
      else None)"

section \<open>SeawaterPool\<close>

definition ec_SeawaterPool_served :: "('s, Pool) field" where
  "ec_SeawaterPool_served E p k field obj =
     exec_field (ec_gql E) p (resolved E p (seawaterPoolResolver_Served (Some obj)))
       (\<lambda>v. k p (OServed v))"

definition ec_SeawaterPool_id :: "('s, Pool) field" where
  "ec_SeawaterPool_id E p k field obj =
     exec_field (ec_gql E) p (seawaterPoolResolver_ID (Some obj)) marshalNID"

definition ec_SeawaterPool_fee :: "('s, Pool) field" where
  "ec_SeawaterPool_fee E p k field obj =
     exec_field (ec_gql E) p (seawaterPoolResolver_Fee (Some obj)) marshalNInt"

definition ec_SeawaterPool_address :: "('s, Pool) field" where
  "ec_SeawaterPool_address E p k field obj =
     exec_field (ec_gql E) p (seawaterPoolResolver_Address (Some obj)) marshalNString"

definition ec_SeawaterPool_tickSpacing :: "('s, Pool) field" where
  "ec_SeawaterPool_tickSpacing E p k field obj =
     exec_field (ec_gql E) p (seawaterPoolResolver_TickSpacing (Some obj))
       marshalNString"

definition ec_SeawaterPool_token :: "('s, Pool) field" where
  "ec_SeawaterPool_token E p k field obj =
     exec_field (ec_gql E) p (resolved E p (seawaterPoolResolver_Token (ec_resolvers E) (Some obj)))
       (\<lambda>v. k p (OToken v))"

definition ec_SeawaterPool_price :: "('s, Pool) field" where
  "ec_SeawaterPool_price E p k field obj =
     exec_field (ec_gql E) p (resolved E p (seawaterPoolResolver_Price (ec_resolvers E) (Some obj)))
       marshalNString"

definition ec_SeawaterPool_priceOverTime :: "('s, Pool) field" where
  "ec_SeawaterPool_priceOverTime E p k field obj =
     exec_field (ec_gql E) p (resolved E p (seawaterPoolResolver_PriceOverTime (ec_resolvers E) (Some obj)))
       (\<lambda>v. k p (OPriceOverTime v))"

definition ec_SeawaterPool_volumeOverTime :: "('s, Pool) field" where
  "ec_SeawaterPool_volumeOverTime E p k field obj =
     exec_field (ec_gql E) p (resolved E p (seawaterPoolResolver_VolumeOverTime (ec_resolvers E) (Some obj)))
       (\<lambda>v. k p (OVolumeOverTime v))"

definition ec_SeawaterPool_liquidityOverTime :: "('s, Pool) field" where
  "ec_SeawaterPool_liquidityOverTime E p k field obj =
     exec_field (ec_gql E) p (resolved E p (seawaterPoolResolver_LiquidityOverTime (ec_resolvers E) (Some obj)))
       (\<lambda>v. k p (OLiquidityOverTime v))"

definition ec_SeawaterPool_tvlOverTime :: "('s, Pool) field" where
  "ec_SeawaterPool_tvlOverTime E p k field obj =
     exec_field (ec_gql E) p (resolved E p (seawaterPoolResolver_TvlOverTime (ec_resolvers E) (Some obj)))
       (\<lambda>v. k p (OTvlOverTime v))"

definition ec_SeawaterPool_yieldOverTime :: "('s, Pool) field" where
  "ec_SeawaterPool_yieldOverTime E p k field obj =
     exec_field (ec_gql E) p (resolved E p (seawaterPoolResolver_YieldOverTime (ec_resolvers E) (Some obj)))
       (\<lambda>v. k p (OYieldOverTime v))"

definition ec_SeawaterPool_earnedFeesAPRFUSDC :: "('s, Pool) field" where
  "ec_SeawaterPool_earnedFeesAPRFUSDC E p k field obj =
     exec_field (ec_gql E) p (seawaterPoolResolver_EarnedFeesAprfusdc (ec_resolvers E) (Some obj))
       marshalNStrings"

definition ec_SeawaterPool_earnedFeesAPRToken1 :: "('s, Pool) field" where
  "ec_SeawaterPool_earnedFeesAPRToken1 E p k field obj =
     exec_field (ec_gql E) p (seawaterPoolResolver_EarnedFeesAPRToken1 (ec_resolvers E) (Some obj))
       marshalNStrings"

definition ec_SeawaterPool_liquidityCampaigns :: "('s, Pool) field" where
  "ec_SeawaterPool_liquidityCampaigns E p k field obj =
     exec_field (ec_gql E) p (seawaterPoolResolver_LiquidityCampaigns (Some obj))
       (marshalN_array (ec_gql E) (\<lambda>q v. k q (OLiquidityCampaign v)) p)"

definition ec_SeawaterPool_positions :: "('s, Pool) field" where
  "ec_SeawaterPool_positions E p k field obj =
     exec_args (field_SeawaterPool_positions_args (ec_gql E) p (sel_Args field)) (\<lambda>(arg0, arg1).
       exec_field (ec_gql E) p (resolved E p (seawaterPoolResolver_Positions (ec_resolvers E) (Some obj) arg0 arg1))
         (\<lambda>v. k p (OSeawaterPositionsGlobal v)))"

definition ec_SeawaterPool_positionsForUser :: "('s, Pool) field" where
  "ec_SeawaterPool_positionsForUser E p k field obj =
     exec_args (field_SeawaterPool_positionsForUser_args (ec_gql E) p (sel_Args field)) (\<lambda>(arg0, arg1, arg2).
       exec_field (ec_gql E) p (resolved E p (seawaterPoolResolver_PositionsForUser (ec_resolvers E) (Some obj) arg0 arg1 arg2))
         (\<lambda>v. k p (OSeawaterPositionsUser v)))"

definition ec_SeawaterPool_liquidity :: "('s, Pool) field" where
  "ec_SeawaterPool_liquidity E p k field obj =
     exec_field (ec_gql E) p (resolved E p (seawaterPoolResolver_Liquidity (ec_resolvers E) (Some obj)))
       (marshalN_array (ec_gql E) (\<lambda>q v. k q (OSeawaterLiquidity v)) p)"

definition ec_SeawaterPool_swaps :: "('s, Pool) field" where
  "ec_SeawaterPool_swaps E p k field obj =
     exec_args (field_SeawaterPool_swaps_args (ec_gql E) p (sel_Args field)) (\<lambda>(arg0, arg1).
       exec_field (ec_gql E) p (resolved E p (seawaterPoolResolver_Swaps (ec_resolvers E) (Some obj) arg0 arg1))
         (\<lambda>v. k p (OSeawaterSwaps v)))"

definition ec_SeawaterPool_amounts :: "('s, Pool) field" where
  "ec_SeawaterPool_amounts E p k field obj =
     exec_field (ec_gql E) p (resolved E p (seawaterPoolResolver_Amounts (ec_resolvers E) (Some obj)))
       (\<lambda>v. k p (OPairAmount v))"

definition ec_SeawaterPool_config :: "('s, Pool) field" where
  "ec_SeawaterPool_config E p k field obj =
     exec_field (ec_gql E) p (seawaterPoolResolver_Config (ec_resolvers E) (Some obj))
       (\<lambda>v. k p (OSeawaterConfig v))"

definition ec_SeawaterPool :: "('s, Pool) cases" where
  "ec_SeawaterPool E p k obj field =
     (let name = sel_Name field; q = p @ [PathName (sel_Alias field)] in
      if name = ''__typename'' then Some (InLoop False (marshalNString ''SeawaterPool''))
      else if name = ''served'' then Some (Concurrently True (ec_SeawaterPool_served E q k field obj))
      else if name = ''id'' then Some (Concurrently True (ec_SeawaterPool_id E q k field obj))
      else if name = ''fee'' then Some (Concurrently True (ec_SeawaterPool_fee E q k field obj))
      else if name = ''address'' then Some (Concurrently True (ec_SeawaterPool_address E q k field obj))
      else if name = ''tickSpacing'' then Some (Concurrently True (ec_SeawaterPool_tickSpacing E q k field obj))
      else if name = ''token'' then Some (Concurrently True (ec_SeawaterPool_token E q k field obj))
      else if name = ''price'' then Some (Concurrently True (ec_SeawaterPool_price E q k field obj))
      else if name = ''priceOverTime'' then Some (Concurrently True (ec_SeawaterPool_priceOverTime E q k field obj))
      else if name = ''volumeOverTime'' then Some (Concurrently True (ec_SeawaterPool_volumeOverTime E q k field obj))
      else if name = ''liquidityOverTime'' then Some (Concurrently True (ec_SeawaterPool_liquidityOverTime E q k field obj))
      else if name = ''tvlOverTime'' then Some (Concurrently True (ec_SeawaterPool_tvlOverTime E q k field obj))
      else if name = ''yieldOverTime'' then Some (Concurrently True (ec_SeawaterPool_yieldOverTime E q k field obj))
      else if name = ''earnedFeesAPRFUSDC'' then Some (Concurrently True (ec_SeawaterPool_earnedFeesAPRFUSDC E q k field obj))
      else if name = ''earnedFeesAPRToken1'' then Some (Concurrently True (ec_SeawaterPool_earnedFeesAPRToken1 E q k field obj))
      else if name = ''liquidityCampaigns'' then Some (Concurrently True (ec_SeawaterPool_liquidityCampaigns E q k field obj))
      else if name = ''positions'' then Some (Concurrently True (ec_SeawaterPool_positions E q k field obj))
      else if name = ''positionsForUser'' then Some (Concurrently True (ec_SeawaterPool_positionsForUser E q k field obj))
      else if name = ''liquidity'' then Some (Concurrently True (ec_SeawaterPool_liquidity E q k field obj))
      else if name = ''swaps'' then Some (Concurrently True (ec_SeawaterPool_swaps E q k field obj))
      else if name = ''amounts'' then Some (Concurrently True (ec_SeawaterPool_amounts E q k field obj))
      else if name = ''config'' then Some (Concurrently True (ec_SeawaterPool_config E q k field obj))
      else None)"

section \<open>SeawaterPosition\<close>

definition ec_SeawaterPosition_served :: "('s, Position) field" where
  "ec_SeawaterPosition_served E p k field obj =
     exec_field (ec_gql E) p (resolved E p (seawaterPositionResolver_Served (Some obj)))
       (\<lambda>v. k p (OServed v))"

definition ec_SeawaterPosition_id :: "('s, Position) field" where
  "ec_SeawaterPosition_id E p k field obj =
     exec_field (ec_gql E) p (seawaterPositionResolver_ID (Some obj)) marshalNID"

definition ec_SeawaterPosition_created :: "('s, Position) field" where
  "ec_SeawaterPosition_created E p k field obj =
     exec_field (ec_gql E) p (resolved E p (seawaterPositionResolver_Created (ec_resolvers E) (Some obj)))
       marshalNInt"

definition ec_SeawaterPosition_positionId :: "('s, Position) field" where
  "ec_SeawaterPosition_positionId E p k field obj =
     exec_field (ec_gql E) p (seawaterPositionResolver_PositionID (Some obj))
       marshalNInt"

definition ec_SeawaterPosition_owner :: "('s, Position) field" where
  "ec_SeawaterPosition_owner E p k field obj =
     exec_field (ec_gql E) p (resolved E p (seawaterPositionResolver_Owner (ec_resolvers E) (Some obj)))
       (\<lambda>v. k p (OWallet v))"

definition ec_SeawaterPosition_pool :: "('s, Position) field" where
  "ec_SeawaterPosition_pool E p k field obj =
     exec_field (ec_gql E) p (resolved E p (seawaterPositionResolver_Pool (ec_resolvers E) (Some obj)))
       (\<lambda>v. k p (OSeawaterPool v))"

definition ec_SeawaterPosition_lower :: "('s, Position) field" where
  "ec_SeawaterPosition_lower E p k field obj =
     exec_field (ec_gql E) p (seawaterPositionResolver_Lower (Some obj))
       marshalNInt"

definition ec_SeawaterPosition_upper :: "('s, Position) field" where
  "ec_SeawaterPosition_upper E p k field obj =
     exec_field (ec_gql E) p (seawaterPositionResolver_Upper (Some obj))
       marshalNInt"

definition ec_SeawaterPosition_liquidity :: "('s, Position) field" where
  "ec_SeawaterPosition_liquidity E p k field obj =
     exec_field (ec_gql E) p (resolved E p (seawaterPositionResolver_Liquidity (ec_resolvers E) (Some obj)))
       (\<lambda>v. k p (OPairAmount v))"

definition ec_SeawaterPosition :: "('s, Position) cases" where
  "ec_SeawaterPosition E p k obj field =
     (let name = sel_Name field; q = p @ [PathName (sel_Alias field)] in
      if name = ''__typename'' then Some (InLoop False (marshalNString ''SeawaterPosition''))
      else if name = ''served'' then Some (Concurrently True (ec_SeawaterPosition_served E q k field obj))
      else if name = ''id'' then Some (Concurrently True (ec_SeawaterPosition_id E q k field obj))
      else if name = ''created'' then Some (Concurrently True (ec_SeawaterPosition_created E q k field obj))
      else if name = ''positionId'' then Some (Concurrently True (ec_SeawaterPosition_positionId E q k field obj))
      else if name = ''owner'' then Some (Concurrently True (ec_SeawaterPosition_owner E q k field obj))
      else if name = ''pool'' then Some (Concurrently True (ec_SeawaterPosition_pool E q k field obj))
      else if name = ''lower'' then Some (Concurrently True (ec_SeawaterPosition_lower E q k field obj))
      else if name = ''upper'' then Some (Concurrently True (ec_SeawaterPosition_upper E q k field obj))
      else if name = ''liquidity'' then Some (Concurrently True (ec_SeawaterPosition_liquidity E q k field obj))
      else None)"

section \<open>SeawaterPositionsGlobal\<close>

definition ec_SeawaterPositionsGlobal_id :: "('s, SeawaterPositionsGlobal) field" where
  "ec_SeawaterPositionsGlobal_id E p k field obj =
     exec_field (ec_gql E) p (seawaterPositionsGlobalResolver_ID (Some obj))
       marshalNID"

definition ec_SeawaterPositionsGlobal_positions :: "('s, SeawaterPositionsGlobal) field" where
  "ec_SeawaterPositionsGlobal_positions E p k field obj =
     exec_field (ec_gql E) p (Ok (sp_Positions obj)) (marshalN_array (ec_gql E) (\<lambda>q v. k q (OSeawaterPosition v)) p)"

definition ec_SeawaterPositionsGlobal_sum :: "('s, SeawaterPositionsGlobal) field" where
  "ec_SeawaterPositionsGlobal_sum E p k field obj =
     exec_field (ec_gql E) p (resolved E p (seawaterPositionsGlobalResolver_Sum (ec_resolvers E) (Some obj)))
       (marshalO_array (ec_gql E) (\<lambda>q v. k q (OPairAmount v)) p)"

definition ec_SeawaterPositionsGlobal_next :: "('s, SeawaterPositionsGlobal) field" where
  "ec_SeawaterPositionsGlobal_next E p k field obj =
     exec_args (field_SeawaterPositionsGlobal_next_args (ec_gql E) p (sel_Args field)) (\<lambda>arg0.
       exec_field (ec_gql E) p (resolved E p (seawaterPositionsGlobalResolver_Next (ec_resolvers E) (Some obj) arg0))
         (\<lambda>v. k p (OSeawaterPositionsGlobal v)))"

definition ec_SeawaterPositionsGlobal :: "('s, SeawaterPositionsGlobal) cases" where
  "ec_SeawaterPositionsGlobal E p k obj field =
     (let name = sel_Name field; q = p @ [PathName (sel_Alias field)] in
      if name = ''__typename'' then Some (InLoop False (marshalNString ''SeawaterPositionsGlobal''))
      else if name = ''id'' then Some (Concurrently True (ec_SeawaterPositionsGlobal_id E q k field obj))
      else if name = ''positions'' then Some (InLoop True (ec_SeawaterPositionsGlobal_positions E q k field obj))
      else if name = ''sum'' then Some (Concurrently False (ec_SeawaterPositionsGlobal_sum E q k field obj))
      else if name = ''next'' then Some (Concurrently True (ec_SeawaterPositionsGlobal_next E q k field obj))
      else None)"

section \<open>SeawaterPositionsUser\<close>

definition ec_SeawaterPositionsUser_id :: "('s, SeawaterPositionsUser) field" where
  "ec_SeawaterPositionsUser_id E p k field obj =
     exec_field (ec_gql E) p (seawaterPositionsUserResolver_ID (Some obj))
       marshalNID"

definition ec_SeawaterPositionsUser_positions :: "('s, SeawaterPositionsUser) field" where
  "ec_SeawaterPositionsUser_positions E p k field obj =
     exec_field (ec_gql E) p (Ok (sp_Positions obj)) (marshalN_array (ec_gql E) (\<lambda>q v. k q (OSeawaterPosition v)) p)"

definition ec_SeawaterPositionsUser_sum :: "('s, SeawaterPositionsUser) field" where
  "ec_SeawaterPositionsUser_sum E p k field obj =
     exec_field (ec_gql E) p (resolved E p (seawaterPositionsUserResolver_Sum (ec_resolvers E) (Some obj)))
       (marshalO_array (ec_gql E) (\<lambda>q v. k q (OPairAmount v)) p)"

definition ec_SeawaterPositionsUser_next :: "('s, SeawaterPositionsUser) field" where
  "ec_SeawaterPositionsUser_next E p k field obj =
     exec_args (field_SeawaterPositionsUser_next_args (ec_gql E) p (sel_Args field)) (\<lambda>arg0.
       exec_field (ec_gql E) p (resolved E p (seawaterPositionsUserResolver_Next (ec_resolvers E) (Some obj) arg0))
         (\<lambda>v. k p (OSeawaterPositionsUser v)))"

definition ec_SeawaterPositionsUser :: "('s, SeawaterPositionsUser) cases" where
  "ec_SeawaterPositionsUser E p k obj field =
     (let name = sel_Name field; q = p @ [PathName (sel_Alias field)] in
      if name = ''__typename'' then Some (InLoop False (marshalNString ''SeawaterPositionsUser''))
      else if name = ''id'' then Some (Concurrently True (ec_SeawaterPositionsUser_id E q k field obj))
      else if name = ''positions'' then Some (InLoop True (ec_SeawaterPositionsUser_positions E q k field obj))
      else if name = ''sum'' then Some (Concurrently False (ec_SeawaterPositionsUser_sum E q k field obj))
      else if name = ''next'' then Some (Concurrently True (ec_SeawaterPositionsUser_next E q k field obj))
      else None)"

section \<open>SeawaterSwap\<close>

definition ec_SeawaterSwap_served :: "('s, SeawaterSwap) field" where
  "ec_SeawaterSwap_served E p k field obj =
     exec_field (ec_gql E) p (resolved E p (seawaterSwapResolver_Served (Some obj)))
       (\<lambda>v. k p (OServed v))"

definition ec_SeawaterSwap_timestamp :: "('s, SeawaterSwap) field" where
  "ec_SeawaterSwap_timestamp E p k field obj =
     exec_field (ec_gql E) p (seawaterSwapResolver_Timestamp (Some obj))
       marshalNInt"

definition ec_SeawaterSwap_pool :: "('s, SeawaterSwap) field" where
  "ec_SeawaterSwap_pool E p k field obj =
     exec_field (ec_gql E) p (resolved E p (seawaterSwapResolver_Pool (ec_resolvers E) (Some obj)))
       (\<lambda>v. k p (OSeawaterPool v))"

definition ec_SeawaterSwap_transactionHash :: "('s, SeawaterSwap) field" where
  "ec_SeawaterSwap_transactionHash E p k field obj =
     exec_field (ec_gql E) p (seawaterSwapResolver_TransactionHash (Some obj))
       marshalNString"

definition ec_SeawaterSwap_sender :: "('s, SeawaterSwap) field" where
  "ec_SeawaterSwap_sender E p k field obj =
     exec_field (ec_gql E) p (resolved E p (seawaterSwapResolver_Sender (ec_resolvers E) (Some obj)))
       (\<lambda>v. k p (OWallet v))"

definition ec_SeawaterSwap_amountIn :: "('s, SeawaterSwap) field" where
  "ec_SeawaterSwap_amountIn E p k field obj =
     exec_field (ec_gql E) p (seawaterSwapResolver_AmountIn (Some obj)) (\<lambda>v. k p (OAmount v))"

definition ec_SeawaterSwap_amountOut :: "('s, SeawaterSwap) field" where
  "ec_SeawaterSwap_amountOut E p k field obj =
     exec_field (ec_gql E) p (seawaterSwapResolver_AmountOut (Some obj))
       (\<lambda>v. k p (OAmount v))"

definition ec_SeawaterSwap :: "('s, SeawaterSwap) cases" where
  "ec_SeawaterSwap E p k obj field =
     (let name = sel_Name field; q = p @ [PathName (sel_Alias field)] in
      if name = ''__typename'' then Some (InLoop False (marshalNString ''SeawaterSwap''))
      else if name = ''served'' then Some (Concurrently True (ec_SeawaterSwap_served E q k field obj))
      else if name = ''timestamp'' then Some (Concurrently True (ec_SeawaterSwap_timestamp E q k field obj))
      else if name = ''pool'' then Some (Concurrently True (ec_SeawaterSwap_pool E q k field obj))
      else if name = ''transactionHash'' then Some (Concurrently True (ec_SeawaterSwap_transactionHash E q k field obj))
      else if name = ''sender'' then Some (Concurrently True (ec_SeawaterSwap_sender E q k field obj))
      else if name = ''amountIn'' then Some (Concurrently True (ec_SeawaterSwap_amountIn E q k field obj))
      else if name = ''amountOut'' then Some (Concurrently True (ec_SeawaterSwap_amountOut E q k field obj))
      else None)"

section \<open>SeawaterSwaps\<close>

definition ec_SeawaterSwaps_sum :: "('s, SeawaterSwaps) field" where
  "ec_SeawaterSwaps_sum E p k field obj =
     exec_field (ec_gql E) p (resolved E p (seawaterSwapsResolver_Sum (ec_resolvers E) (Some obj)))
       (marshalO_array (ec_gql E) (\<lambda>q v. k q (OPairAmount v)) p)"

definition ec_SeawaterSwaps_swaps :: "('s, SeawaterSwaps) field" where
  "ec_SeawaterSwaps_swaps E p k field obj =
     exec_field (ec_gql E) p (Ok (ss_Swaps obj)) (marshalN_array (ec_gql E) (\<lambda>q v. k q (OSeawaterSwap v)) p)"

definition ec_SeawaterSwaps_next :: "('s, SeawaterSwaps) field" where
  "ec_SeawaterSwaps_next E p k field obj =
     exec_args (field_SeawaterSwaps_next_args (ec_gql E) p (sel_Args field)) (\<lambda>arg0.
       exec_field (ec_gql E) p (seawaterSwapsResolver_Next (Some obj) arg0)
         (\<lambda>v. k p (OSeawaterSwaps v)))"

definition ec_SeawaterSwaps :: "('s, SeawaterSwaps) cases" where
  "ec_SeawaterSwaps E p k obj field =
     (let name = sel_Name field; q = p @ [PathName (sel_Alias field)] in
      if name = ''__typename'' then Some (InLoop False (marshalNString ''SeawaterSwaps''))
      else if name = ''sum'' then Some (Concurrently False (ec_SeawaterSwaps_sum E q k field obj))
      else if name = ''swaps'' then Some (InLoop True (ec_SeawaterSwaps_swaps E q k field obj))
      else if name = ''next'' then Some (Concurrently True (ec_SeawaterSwaps_next E q k field obj))
      else None)"

section \<open>Served\<close>

definition ec_Served_timestamp :: "('s, Served) field" where
  "ec_Served_timestamp E p k field obj =
     exec_field (ec_gql E) p (Ok (served_Timestamp obj)) marshalNInt"

definition ec_Served :: "('s, Served) cases" where
  "ec_Served E p k obj field =
     (let name = sel_Name field; q = p @ [PathName (sel_Alias field)] in
      if name = ''__typename'' then Some (InLoop False (marshalNString ''Served''))
      else if name = ''timestamp'' then Some (InLoop True (ec_Served_timestamp E q k field obj))
      else None)"

section \<open>Token\<close>

definition ec_Token_id :: "('s, Token) field" where
  "ec_Token_id E p k field obj =
     exec_field (ec_gql E) p (tokenResolver_ID (Some obj)) marshalNID"

definition ec_Token_address :: "('s, Token) field" where
  "ec_Token_address E p k field obj =
     exec_field (ec_gql E) p (tokenResolver_Address (Some obj)) marshalNString"

definition ec_Token_name :: "('s, Token) field" where
  "ec_Token_name E p k field obj =
     exec_field (ec_gql E) p (Ok (erc_Name (tok_Erc20 obj))) marshalNString"

definition ec_Token_image :: "('s, Token) field" where
  "ec_Token_image E p k field obj =
     exec_field (ec_gql E) p (tokenResolver_Image (Some obj)) marshalNString"

definition ec_Token_totalSupply :: "('s, Token) field" where
  "ec_Token_totalSupply E p k field obj =
     exec_field (ec_gql E) p (tokenResolver_TotalSupply (Some obj)) marshalNString"

definition ec_Token_decimals :: "('s, Token) field" where
  "ec_Token_decimals E p k field obj =
     exec_field (ec_gql E) p (Ok (erc_Decimals (tok_Erc20 obj))) marshalNInt"

definition ec_Token_symbol :: "('s, Token) field" where
  "ec_Token_symbol E p k field obj =
     exec_field (ec_gql E) p (Ok (erc_Symbol (tok_Erc20 obj))) marshalNString"

definition ec_Token :: "('s, Token) cases" where
  "ec_Token E p k obj field =
     (let name = sel_Name field; q = p @ [PathName (sel_Alias field)] in
      if name = ''__typename'' then Some (InLoop False (marshalNString ''Token''))
      else if name = ''id'' then Some (Concurrently True (ec_Token_id E q k field obj))
      else if name = ''address'' then Some (Concurrently True (ec_Token_address E q k field obj))
      else if name = ''name'' then Some (InLoop True (ec_Token_name E q k field obj))
      else if name = ''image'' then Some (Concurrently True (ec_Token_image E q k field obj))
      else if name = ''totalSupply'' then Some (Concurrently True (ec_Token_totalSupply E q k field obj))
      else if name = ''decimals'' then Some (InLoop True (ec_Token_decimals E q k field obj))
      else if name = ''symbol'' then Some (InLoop True (ec_Token_symbol E q k field obj))
      else None)"

section \<open>TvlOverTime\<close>

definition ec_TvlOverTime_daily :: "('s, TvlOverTime) field" where
  "ec_TvlOverTime_daily E p k field obj =
     exec_field (ec_gql E) p (Ok (tvl_Daily obj)) marshalNStrings"

definition ec_TvlOverTime_monthly :: "('s, TvlOverTime) field" where
  "ec_TvlOverTime_monthly E p k field obj =
     exec_field (ec_gql E) p (Ok (tvl_Monthly obj)) marshalNStrings"

definition ec_TvlOverTime :: "('s, TvlOverTime) cases" where
  "ec_TvlOverTime E p k obj field =
     (let name = sel_Name field; q = p @ [PathName (sel_Alias field)] in
      if name = ''__typename'' then Some (InLoop False (marshalNString ''TvlOverTime''))
      else if name = ''daily'' then Some (InLoop True (ec_TvlOverTime_daily E q k field obj))
      else if name = ''monthly'' then Some (InLoop True (ec_TvlOverTime_monthly E q k field obj))
      else None)"

section \<open>VolumeOverTime\<close>

definition ec_VolumeOverTime_daily :: "('s, VolumeOverTime) field" where
  "ec_VolumeOverTime_daily E p k field obj =
     exec_field (ec_gql E) p (Ok (vol_Daily obj)) (marshalN_array (ec_gql E) (\<lambda>q v. k q (OPairAmount v)) p)"

definition ec_VolumeOverTime_monthly :: "('s, VolumeOverTime) field" where
  "ec_VolumeOverTime_monthly E p k field obj =
     exec_field (ec_gql E) p (Ok (vol_Monthly obj)) (marshalN_array (ec_gql E) (\<lambda>q v. k q (OPairAmount v)) p)"

definition ec_VolumeOverTime :: "('s, VolumeOverTime) cases" where
  "ec_VolumeOverTime E p k obj field =
     (let name = sel_Name field; q = p @ [PathName (sel_Alias field)] in
      if name = ''__typename'' then Some (InLoop False (marshalNString ''VolumeOverTime''))
      else if name = ''daily'' then Some (InLoop True (ec_VolumeOverTime_daily E q k field obj))
      else if name = ''monthly'' then Some (InLoop True (ec_VolumeOverTime_monthly E q k field obj))
      else None)"

section \<open>Wallet\<close>

definition ec_Wallet_id :: "('s, Wallet) field" where
  "ec_Wallet_id E p k field obj =
     exec_field (ec_gql E) p (walletResolver_ID (Some obj)) marshalNID"

definition ec_Wallet_address :: "('s, Wallet) field" where
  "ec_Wallet_address E p k field obj =
     exec_field (ec_gql E) p (walletResolver_Address (Some obj)) marshalNString"

definition ec_Wallet_balances :: "('s, Wallet) field" where
  "ec_Wallet_balances E p k field obj =
     exec_field (ec_gql E) p (walletResolver_Balances (Some obj)) (marshalN_array (ec_gql E) (\<lambda>q v. k q (OAmount v)) p)"

definition ec_Wallet_positions :: "('s, Wallet) field" where
  "ec_Wallet_positions E p k field obj =
     exec_args (field_Wallet_positions_args (ec_gql E) p (sel_Args field)) (\<lambda>(arg0, arg1).
       exec_field (ec_gql E) p (resolved E p (walletResolver_Positions (ec_resolvers E) (Some obj) arg0 arg1))
         (\<lambda>v. k p (OSeawaterPositionsUser v)))"

definition ec_Wallet :: "('s, Wallet) cases" where
  "ec_Wallet E p k obj field =
     (let name = sel_Name field; q = p @ [PathName (sel_Alias field)] in
      if name = ''__typename'' then Some (InLoop False (marshalNString ''Wallet''))
      else if name = ''id'' then Some (Concurrently True (ec_Wallet_id E q k field obj))
      else if name = ''address'' then Some (Concurrently True (ec_Wallet_address E q k field obj))
      else if name = ''balances'' then Some (Concurrently True (ec_Wallet_balances E q k field obj))
      else if name = ''positions'' then Some (Concurrently True (ec_Wallet_positions E q k field obj))
      else None)"

section \<open>YieldOverTime\<close>

definition ec_YieldOverTime_daily :: "('s, YieldOverTime) field" where
  "ec_YieldOverTime_daily E p k field obj =
     exec_field (ec_gql E) p (Ok (yot_Daily obj)) (marshalN_array (ec_gql E) (\<lambda>q v. k q (OPairAmount v)) p)"

definition ec_YieldOverTime_monthly :: "('s, YieldOverTime) field" where
  "ec_YieldOverTime_monthly E p k field obj =
     exec_field (ec_gql E) p (Ok (yot_Monthly obj)) (marshalN_array (ec_gql E) (\<lambda>q v. k q (OPairAmount v)) p)"

definition ec_YieldOverTime :: "('s, YieldOverTime) cases" where
  "ec_YieldOverTime E p k obj field =
     (let name = sel_Name field; q = p @ [PathName (sel_Alias field)] in
      if name = ''__typename'' then Some (InLoop False (marshalNString ''YieldOverTime''))
      else if name = ''daily'' then Some (InLoop True (ec_YieldOverTime_daily E q k field obj))
      else if name = ''monthly'' then Some (InLoop True (ec_YieldOverTime_monthly E q k field obj))
      else None)"

section \<open>Answers\<close>

text \<open>The method an object is marshalled with.\<close>

fun ec_case :: "'s ec \<Rightarrow> path \<Rightarrow> sub_answer \<Rightarrow> obj \<Rightarrow> selection \<Rightarrow> field_case option" where
  "ec_case E p k (OAmount v) s = ec_Amount E p k v s"
| "ec_case E p k (OGetSwaps v) s = ec_GetSwaps E p k v s"
| "ec_case E p k (OGetSwapsForUser v) s = ec_GetSwapsForUser E p k v s"
| "ec_case E p k (OLiquidityCampaign v) s = ec_LiquidityCampaign E p k v s"
| "ec_case E p k (OLiquidityOverTime v) s = ec_LiquidityOverTime E p k v s"
| "ec_case E p k (OPairAmount v) s = ec_PairAmount E p k v s"
| "ec_case E p k (OPriceOverTime v) s = ec_PriceOverTime E p k v s"
| "ec_case E p k OQuery s = ec_Query E p k s"
| "ec_case E p k (OSeawaterConfig v) s = ec_SeawaterConfig E p k v s"
| "ec_case E p k (OSeawaterLiquidity v) s = ec_SeawaterLiquidity E p k v s"
| "ec_case E p k (OSeawaterPool v) s = ec_SeawaterPool E p k v s"
| "ec_case E p k (OSeawaterPosition v) s = ec_SeawaterPosition E p k v s"
| "ec_case E p k (OSeawaterPositionsGlobal v) s = ec_SeawaterPositionsGlobal E p k v s"
| "ec_case E p k (OSeawaterPositionsUser v) s = ec_SeawaterPositionsUser E p k v s"
| "ec_case E p k (OSeawaterSwap v) s = ec_SeawaterSwap E p k v s"
| "ec_case E p k (OSeawaterSwaps v) s = ec_SeawaterSwaps E p k v s"
| "ec_case E p k (OServed v) s = ec_Served E p k v s"
| "ec_case E p k (OToken v) s = ec_Token E p k v s"
| "ec_case E p k (OTvlOverTime v) s = ec_TvlOverTime E p k v s"
| "ec_case E p k (OVolumeOverTime v) s = ec_VolumeOverTime E p k v s"
| "ec_case E p k (OWallet v) s = ec_Wallet E p k v s"
| "ec_case E p k (OYieldOverTime v) s = ec_YieldOverTime E p k v s"

function ec_object :: "'s ec \<Rightarrow> path \<Rightarrow> obj \<Rightarrow> selection list \<Rightarrow> answer" where
  "ec_object E p ob sels =
     exec_object (\<lambda>s. ec_case E p (\<lambda>q child. ec_object E q child (sel_Selections s)) ob s) sels"
  by auto
termination
  by (relation "measure (\<lambda>(E, p, ob, sels). size_list size sels)") (simp_all add: sel_Selections_smaller)

declare ec_object.simps [simp del]

text \<open>\<open>Exec\<close>: only queries are served.\<close>

definition graphql_Exec :: "'s ec \<Rightarrow> operation \<Rightarrow> selection list \<Rightarrow> answer" where
  "graphql_Exec E op sels =
     (if op = Query then ec_object E [] OQuery sels
      else (Ok JNull, [([], Errorf ''unsupported GraphQL operation'')]))"

end
