(* ===== verification/GraphSafety.thy ===== *)
theory GraphSafety
  imports GraphValues PageBounds
begin

text \<open>
  Which requests to src/cmd/graphql.ethereum can panic.  A triple \<open>safe m P\<close> says that \<open>m\<close> never panics
  and that what it returns without an error satisfies \<open>P\<close>; its rules compute backwards through the
  combinators of \<open>GraphModel\<close>, so that a resolver is checked by unfolding it.  The database and the
  node are asked to report failures as errors and to hand out ticks of the protocol's range and
  amounts that are not nil; then the resolvers listed by \<open>graph_no_panic\<close> answer or report an error,
  on live and on made-up data.  \<open>graph_panics\<close> says when the others do panic.
\<close>

section \<open>Triples\<close>

fun res_safe :: "'a res \<Rightarrow> ('a \<Rightarrow> bool) \<Rightarrow> bool" where
  "res_safe (Ok v) P = P v"
| "res_safe (Err e) P = True"
| "res_safe (Panic m) P = False"
| "res_safe (Exit e) P = True"

definition safe :: "('s, 'a) io \<Rightarrow> ('a \<Rightarrow> bool) \<Rightarrow> bool" where
  "safe m P \<longleftrightarrow> (\<forall>w. res_safe (fst (m w)) P)"

named_theorems safe_rules

lemma res_safe_True: "res_safe r (\<lambda>_. True) \<longleftrightarrow> \<not> is_panic r"
  by (cases r) auto

lemma safe_no_panic: "safe m (\<lambda>_. True) \<Longrightarrow> \<not> is_panic (fst (m w))"
  by (simp add: safe_def res_safe_True)

lemma res_safe_mono: "res_safe r P \<Longrightarrow> (\<And>v. P v \<Longrightarrow> Q v) \<Longrightarrow> res_safe r Q"
  by (cases r) auto

lemma safe_mono: "safe m P \<Longrightarrow> (\<And>v. P v \<Longrightarrow> Q v) \<Longrightarrow> safe m Q"
  unfolding safe_def by (blast intro: res_safe_mono)

lemma res_safe_andThen: "res_safe r (\<lambda>v. res_safe (f v) P) \<Longrightarrow> res_safe (andThen r f) P"
  by (cases r) auto

lemma res_safe_mapRes:
  "(\<And>x. x \<in> set xs \<Longrightarrow> res_safe (f x) P) \<Longrightarrow> res_safe (mapRes f xs) (\<lambda>ys. \<forall>y \<in> set ys. P y)"
proof (induction xs)
  case (Cons x xs)
  then have "res_safe (f x) P" "res_safe (mapRes f xs) (\<lambda>ys. \<forall>y \<in> set ys. P y)" by simp_all
  then show ?case by (cases "f x"; cases "mapRes f xs") auto
qed simp

lemma safe_pure [safe_rules]: "res_safe r P \<Longrightarrow> safe (pure r) P"
  by (simp add: safe_def pure_def)

lemma safe_time_Now [safe_rules]: "(\<And>t. P t) \<Longrightarrow> safe time_Now P"
  by (simp add: safe_def time_Now_def)

lemma safe_rand_Int [safe_rules]: "0 < m \<Longrightarrow> (\<And>i. P i) \<Longrightarrow> safe (rand_Int m) P"
  by (simp add: safe_def rand_Int_def)

lemma safe_delays [safe_rules]: "P () \<Longrightarrow> safe (MockDelay f) P" "P () \<Longrightarrow> safe (on_delay f) P"
  by (simp_all add: safe_def MockDelay_def on_delay_def)

lemma safe_handle [safe_rules]:
  assumes "safe m (\<lambda>v. safe (h (Ok v)) P)" "\<And>e. safe (h (Err e)) P" "\<And>e. safe (h (Exit e)) P"
  shows "safe (handle m h) P"
  unfolding safe_def
proof
  fix w
  have "res_safe (fst (m w)) (\<lambda>v. safe (h (Ok v)) P)" using assms(1) by (simp add: safe_def)
  then show "res_safe (fst (handle m h w)) P"
    using assms(2,3) unfolding safe_def by (cases "fst (m w)") (simp_all add: handle_apply)
qed

lemma safe_andDo [safe_rules]: "safe m (\<lambda>v. safe (f v) P) \<Longrightarrow> safe (andDo m f) P"
  unfolding andDo_def by (intro safe_rules) (simp_all add: safe_pure)

section \<open>What is asked of the database and of the node\<close>

definition answers :: "(stmt \<Rightarrow> 's \<Rightarrow> 'a res) \<Rightarrow> ('a \<Rightarrow> bool) \<Rightarrow> bool" where
  "answers q P \<longleftrightarrow> (\<forall>st s. res_safe (q st s) P)"

definition tick_sane :: "Number \<Rightarrow> bool" where
  "tick_sane n \<longleftrightarrow> MinTick \<le> Number_Big n \<and> Number_Big n \<le> MaxTick"

definition amount_sane :: "UnscaledNumber \<Rightarrow> bool" where
  "amount_sane u \<longleftrightarrow> un_Int u \<noteq> None"

definition group_sane :: "LiquidityGroup \<Rightarrow> bool" where
  "group_sane g \<longleftrightarrow> tick_sane (lg_Tick g) \<and> amount_sane (lg_CumulativeAmount0 g) \<and>
     amount_sane (lg_CumulativeAmount1 g)"

text \<open>Failures are reported as errors; ticks are those of the protocol and sums are not nil.\<close>

definition gorm_sane :: "'s gorm \<Rightarrow> bool" where
  "gorm_sane D \<longleftrightarrow>
     answers (Scan_Pools D) (\<lambda>_. True) \<and> answers (Scan_Positions D) (\<lambda>_. True) \<and>
     answers (Scan_Swaps D) (\<lambda>_. True) \<and> answers (Scan_AccountCreated D) (\<lambda>_. True) \<and>
     answers (Scan_Prices D) (\<lambda>ps. \<forall>p \<in> set (elems ps). tick_sane (pr_FinalTick p)) \<and>
     answers (Scan_Volumes D) (\<lambda>vs. \<forall>v \<in> set (elems vs). amount_sane (vr_Token1ValueUnscaled v)) \<and>
     answers (Scan_LiquidityGroups D) (\<lambda>gs. \<forall>g \<in> set (elems gs). group_sane g) \<and>
     answers (Scan_DecimalsGroups D) (\<lambda>_. True) \<and> answers (Scan_Pool D) (\<lambda>_. True) \<and>
     answers (Scan_Position D) (\<lambda>_. True) \<and> answers (Scan_Page D) (\<lambda>_. True) \<and>
     answers (ScanPtr_Pool D) (\<lambda>_. True) \<and> answers (ScanPtr_Position D) (\<lambda>_. True) \<and>
     answers (First_Erc20 D) (\<lambda>_. True) \<and> answers (First_Price D) (\<lambda>p. tick_sane (pr_FinalTick p)) \<and>
     answers (First_Pool D) (\<lambda>_. True) \<and> answers (First_Snapshot D) (\<lambda>_. True) \<and>
     answers (First_DecimalsGroup D) (\<lambda>_. True) \<and>
     (\<forall>q args s. \<not> is_panic (fst (Exec D q args s)))"

text \<open>The node answers a multicall with a block number and one result per call, and the decoder hands
  back one value per declared output.\<close>

definition aggregate_sane :: "nat \<Rightarrow> call_value list \<Rightarrow> bool" where
  "aggregate_sane n vs \<longleftrightarrow> length vs = 2 \<and> (\<forall>bs. vs ! 1 = CallBytesList bs \<longrightarrow> length bs = n)"

definition geth_sane :: "geth \<Rightarrow> bool" where
  "geth_sane G \<longleftrightarrow> (\<forall>m. \<not> is_panic (erc20Abi_Pack G m)) \<and>
     (\<forall>m b. res_safe (erc20Abi_Unpack G m b) (\<lambda>vs. length vs = 1)) \<and>
     (\<forall>a m calls. res_safe (bound_Call G a m calls) (aggregate_sane (length calls)))"

lemma safe_ask:
  assumes "answers q Q" "\<And>v. Q v \<Longrightarrow> P v"
  shows "safe (ask q st) P"
  using assms unfolding safe_def answers_def ask_def by (auto intro: res_safe_mono)

lemma gorm_saneD:
  assumes "gorm_sane D"
  shows "answers (Scan_Pools D) (\<lambda>_. True)"
    "answers (Scan_Positions D) (\<lambda>_. True)"
    "answers (Scan_Swaps D) (\<lambda>_. True)"
    "answers (Scan_AccountCreated D) (\<lambda>_. True)"
    "answers (Scan_Prices D) (\<lambda>ps. \<forall>p \<in> set (elems ps). tick_sane (pr_FinalTick p))"
    "answers (Scan_Volumes D) (\<lambda>vs. \<forall>v \<in> set (elems vs). amount_sane (vr_Token1ValueUnscaled v))"
    "answers (Scan_LiquidityGroups D) (\<lambda>gs. \<forall>g \<in> set (elems gs). group_sane g)"
    "answers (Scan_DecimalsGroups D) (\<lambda>_. True)"
    "answers (Scan_Pool D) (\<lambda>_. True)"
    "answers (Scan_Position D) (\<lambda>_. True)"
    "answers (Scan_Page D) (\<lambda>_. True)"
    "answers (ScanPtr_Pool D) (\<lambda>_. True)"
    "answers (ScanPtr_Position D) (\<lambda>_. True)"
    "answers (First_Erc20 D) (\<lambda>_. True)"
    "answers (First_Price D) (\<lambda>p. tick_sane (pr_FinalTick p))"
    "answers (First_Pool D) (\<lambda>_. True)"
    "answers (First_Snapshot D) (\<lambda>_. True)"
    "answers (First_DecimalsGroup D) (\<lambda>_. True)"
  using assms by (simp_all add: gorm_sane_def)

lemmas ask_safe [safe_rules] = gorm_saneD [THEN safe_ask]

lemma run_Exec_safe [safe_rules]:
  assumes "gorm_sane (r_DB r)" "P ()"
  shows "safe (run_Exec r q args) P"
  unfolding safe_def
proof
  fix w :: "'a world"
  have "\<not> is_panic (fst (Exec (r_DB r) q args (w_db w)))" using assms(1) by (simp add: gorm_sane_def)
  with assms(2) show "res_safe (fst (run_Exec r q args w)) P"
    by (cases "fst (Exec (r_DB r) q args (w_db w))") (auto simp: run_Exec_def split: prod.split)
qed

section \<open>Values\<close>

lemma Exp_Ten_nonzero: "Exp 10 d \<noteq> 0" "Exp Ten d \<noteq> 0"
  by (simp_all add: Exp_def Ten_def)

lemma sqrt_ratio_abs_pos_20: "n < 2 ^ 20 \<Longrightarrow> 0 < sqrt_ratio_abs n"
  using sqrt_ratio_abs_block [of 20 0 n] by (simp add: sqrt_ratio_eval)

lemma GetSqrtRatioAtTick_safe: "\<bar>t\<bar> < 2 ^ 20 \<Longrightarrow> \<not> is_panic (GetSqrtRatioAtTick t)"
  using sqrt_ratio_abs_pos_20 [of "nat \<bar>t\<bar>"] nat_less_iff [of "\<bar>t\<bar>" "2 ^ 20"]
  by (auto simp: GetSqrtRatioAtTick_def Quo_def is_panic_andThen Let_def)

lemma GetSqrtRatioAtTick_tick_sane:
  assumes "tick_sane n"
  shows "\<exists>x. GetSqrtRatioAtTick (Number_Big n) = Ok x"
  using GetSqrtRatioAtTick_Ok [of "Number_Big n"] assms by (auto simp: tick_sane_def)

lemma tick_price_safe [safe_rules]:
  "tick_sane n \<Longrightarrow> (\<And>x. P x) \<Longrightarrow> res_safe (GetSqrtRatioAtTick (Number_Big n)) P"
  using GetSqrtRatioAtTick_tick_sane by fastforce

lemma PriceResult_Price_safe:
  "tick_sane (pr_FinalTick p) \<Longrightarrow> res_safe (PriceResult_Price p fd pd) (\<lambda>s. decimal_val s \<noteq> None)"
  using GetSqrtRatioAtTick_tick_sane [of "pr_FinalTick p"] PriceResult_Price_parses [of p fd pd]
  by (cases "PriceResult_Price p fd pd") (auto simp: PriceResult_Price_def Let_def)

lemma prices_safe:
  "\<forall>p \<in> set ps. tick_sane (pr_FinalTick p) \<Longrightarrow>
    res_safe (mapRes (\<lambda>p. PriceResult_Price p fd pd) ps) (\<lambda>ss. \<forall>s \<in> set ss. decimal_val s \<noteq> None)"
  by (intro res_safe_mapRes PriceResult_Price_safe) blast

lemma liquidity_row_safe:
  assumes "group_sane g" "d \<noteq> 0"
  shows "res_safe (liquidity_row d g) (\<lambda>_. True)"
proof -
  have "\<bar>Number_Big (lg_Tick g) + FiveThousand\<bar> < 2 ^ 20"
    using assms(1) by (auto simp: group_sane_def tick_sane_def MinTick_def MaxTick_def FiveThousand_def)
  with assms show ?thesis
    using GetSqrtRatioAtTick_safe [of "Number_Big (lg_Tick g) + FiveThousand"]
    by (auto simp: liquidity_row_def res_safe_True is_panic_andThen Let_def UnscaledNumber_Big_def
        RatQuo_def Exp_Ten_nonzero group_sane_def amount_sane_def)
qed

lemma tvl_loop_safe:
  assumes "\<forall>v \<in> set vs. amount_sane (amt_ValueUnscaled (pair_Token1 v))"
    and "\<forall>price \<in> set prices. decimal_val price \<noteq> None"
  shows "res_safe (tvl_loop fusdc prices 0 vs) (\<lambda>_. True)"
  using tvl_loop_Ok [of vs prices fusdc] assms by (metis amount_sane_def res_safe.simps(1))

lemma last_created_safe [safe_rules]:
  "(\<And>v. P v) \<Longrightarrow> res_safe (last_created pos) P" "(\<And>v. Q v) \<Longrightarrow> res_safe (last_swap_created d) Q"
  by (auto simp: last_created_def last_swap_created_def idx_def Let_def)

lemma nil_deref_safe [safe_rules]: "p \<noteq> None \<Longrightarrow> (\<And>v. P v) \<Longrightarrow> res_safe (nil_deref p) P"
  by (auto simp: nil_deref_def)

lemma Unpack_safe:
  "geth_sane G \<Longrightarrow> (\<And>v. P [v]) \<Longrightarrow> res_safe (erc20Abi_Unpack G m b) P"
  unfolding geth_sane_def
  by (rule res_safe_mono [of _ "\<lambda>vs. length vs = 1"]) (auto simp: length_Suc_conv)

lemma decodeErc20Details_safe:
  assumes "geth_sane G" "\<And>bs. v = CallBytesList bs \<Longrightarrow> length bs = 3"
  shows "res_safe (decodeErc20Details G v) (\<lambda>_. True)"
proof (cases v)
  case (CallBytesList bs)
  with assms(2) obtain x y z where "bs = [x, y, z]"
    by (metis (no_types, opaque_lifting) length_0_conv length_Suc_conv numeral_3_eq_3)
  with CallBytesList show ?thesis
    unfolding decodeErc20Details_def
    by (auto intro!: res_safe_andThen Unpack_safe [OF assms(1)] split: call_value.split)
qed (auto simp: decodeErc20Details_def)

lemma GetErc20Details_safe:
  assumes "geth_sane G"
  shows "\<not> is_panic (GetErc20Details G a)"
proof -
  have call: "res_safe (bound_Call G m f [x, y, z]) (\<lambda>i. res_safe (andThen (idx i 1)
      (decodeErc20Details G)) (\<lambda>_. True))" for m f x y z
  proof (rule res_safe_mono)
    show "res_safe (bound_Call G m f [x, y, z]) (aggregate_sane 3)"
      using assms unfolding geth_sane_def by (metis length_Cons list.size(3) numeral_3_eq_3)
  next
    fix i assume "aggregate_sane 3 i"
    then show "res_safe (andThen (idx i 1) (decodeErc20Details G)) (\<lambda>_. True)"
      by (auto simp: aggregate_sane_def idx_def intro: decodeErc20Details_safe [OF assms])
  qed
  have pack: "res_safe (erc20Abi_Pack G m) P" if "\<And>b. P b" for m P
    using assms that by (auto simp: geth_sane_def res_safe_True [symmetric] intro: res_safe_mono)
  show ?thesis
    unfolding GetErc20Details_def res_safe_True [symmetric] Let_def
    by (simp del: One_nat_def) (intro impI res_safe_andThen pack call)
qed

section \<open>Made-up data\<close>

lemma mock_volume_loop_safe:
  "(\<And>b. P b) \<Longrightarrow> safe (mock_volume_loop fusdc token t i n a) P"
  by (induction n arbitrary: i a)
    (auto simp: MaxMockedVolume_def Let_def intro!: safe_rules)

lemma MockVolumeOverTime_safe [safe_rules]:
  "0 < n \<Longrightarrow> (\<And>b. P b) \<Longrightarrow> safe (MockVolumeOverTime n fusdc token) P"
  by (auto simp: MockVolumeOverTime_def Quo_def Let_def intro!: safe_rules mock_volume_loop_safe)

lemma mock_price_loop_safe:
  "(\<And>b. length (pa_history b) = n + length (pa_history a) \<Longrightarrow> P b) \<Longrightarrow> safe (mock_price_loop e n a) P"
  by (induction n arbitrary: a)
    (auto simp: MaxMockedPrice_def Let_def intro!: safe_rules)

lemma MockPriceOverTime_safe [safe_rules]:
  "(\<And>b c d. length b = n \<Longrightarrow> P (b, c, d)) \<Longrightarrow> safe (MockPriceOverTime n fusdc token) P"
  by (auto simp: MockPriceOverTime_def Let_def intro!: safe_rules mock_price_loop_safe)

lemma mock_swap_safe [safe_rules]: "(\<And>b. P b) \<Longrightarrow> safe (mock_swap fusdc now) P"
  by (auto simp: mock_swap_def randomBoolean_def MaxMockedVolume_def Let_def
      intro!: safe_rules)

lemma mock_swaps_loop_safe:
  "(\<And>b. P b) \<Longrightarrow> safe (mock_swaps_loop fusdc now n :: ('s, SeawaterSwap list) io) P"
proof (induction n arbitrary: P)
  case (Suc n)
  have "safe (mock_swaps_loop fusdc now n :: ('s, SeawaterSwap list) io)
      (\<lambda>ss. safe (pure (Ok (s # ss)) :: ('s, SeawaterSwap list) io) P)" for s
    by (rule Suc.IH) (simp add: safe_pure Suc.prems)
  then show ?case by (auto intro!: safe_rules)
qed (simp add: safe_pure)

lemma MockSwaps_safe [safe_rules]: "(\<And>b. P b) \<Longrightarrow> safe (MockSwaps fusdc n pool) P"
  by (auto simp: MockSwaps_def Let_def intro!: safe_rules mock_swaps_loop_safe)

lemma MockLiquidity_safe [safe_rules]: "(\<And>b. P b) \<Longrightarrow> safe (MockLiquidity fusdc token) P"
  unfolding safe_def
proof
  fix w :: "'a world" assume P: "\<And>b. P b"
  obtain bs where "mock_liquidity_loop (-887272) w = (Ok bs, w\<lparr>w_used := w_used w + 2 * 355\<rparr>)"
    using mock_liquidity_buckets [of "-887272" 355 w] by (auto simp: mock_MaxTick_def mock_MinTick_def)
  with P show "res_safe (fst (MockLiquidity fusdc token w)) P"
    by (simp add: MockLiquidity_def mock_MinTick_def)
qed

lemma MockCampaigns_safe [safe_rules]: "(\<And>b. P b) \<Longrightarrow> safe MockCampaigns P"
  by (auto simp: MockCampaigns_def intro!: safe_rules)

section \<open>Resolvers\<close>

lemma token_safe:
  assumes "gorm_sane (r_DB r)" "geth_sane (r_Geth r)"
  shows "safe (amountResolver_Token r a) (\<lambda>_. True)" "safe (seawaterPoolResolver_Token r p) (\<lambda>_. True)"
  using assms GetErc20Details_safe [OF assms(2)]
  by (auto simp: amountResolver_Token_def seawaterPoolResolver_Token_def MockToken_def
      intro!: safe_rules split: option.split res.split error.split)
    (metis is_panic.simps(1))+

lemma price_safe:
  assumes "gorm_sane (r_DB r)"
  shows "safe (seawaterPoolResolver_Price r p) (\<lambda>_. True)"
  using assms
  by (auto simp: seawaterPoolResolver_Price_def
      intro!: safe_rules res_safe_mono [OF PriceResult_Price_safe] split: option.split error.split)

lemma price_history_safe:
  assumes "gorm_sane (r_DB r)"
  shows "safe (seawaterPoolResolver_PriceOverTime r p)
    (\<lambda>q. \<not> mocking r \<longrightarrow> (\<forall>s \<in> set (pot_Daily q) \<union> set (pot_Monthly q). decimal_val s \<noteq> None))"
  using assms
  by (auto simp: seawaterPoolResolver_PriceOverTime_def
      intro!: safe_rules res_safe_mono [OF prices_safe] split: option.split error.split)

lemma volume_history_safe:
  assumes "gorm_sane (r_DB r)"
  shows "safe (seawaterPoolResolver_VolumeOverTime r p)
    (\<lambda>v. \<not> mocking r \<longrightarrow> (\<forall>x \<in> set (vol_Daily v) \<union> set (vol_Monthly v).
      amount_sane (amt_ValueUnscaled (pair_Token1 x))))"
  using assms
  by (auto simp: seawaterPoolResolver_VolumeOverTime_def volume_pair_def
      intro!: safe_rules split: option.split)

lemma tvl_safe:
  assumes "gorm_sane (r_DB r)"
  shows "safe (seawaterPoolResolver_TvlOverTime r p) (\<lambda>_. True)"
proof (cases "mocking r \<or> p = None")
  case True
  then show ?thesis
    by (auto simp: seawaterPoolResolver_TvlOverTime_def intro!: safe_rules split: option.split)
next
  case False
  then show ?thesis
    by (auto simp: seawaterPoolResolver_TvlOverTime_def
        intro!: safe_rules safe_mono [OF volume_history_safe [OF assms]]
          safe_mono [OF price_history_safe [OF assms]] res_safe_mono [OF tvl_loop_safe])
qed

lemma value_safe:
  assumes "gorm_sane (r_DB r)" "\<And>x. a = Some x \<Longrightarrow> amount_sane (amt_ValueUnscaled x)"
  shows "safe (amountResolver_ValueUsd r a) (\<lambda>_. True)"
proof (cases a)
  case (Some x)
  with assms(2) obtain v where "un_Int (amt_ValueUnscaled x) = Some v" by (auto simp: amount_sane_def)
  with Some assms(1) show ?thesis
    by (auto simp: amountResolver_ValueUsd_def Scale_def ScaleStr_def RatQuo_def ExponentiateDecimals_def
        Exp_Ten_nonzero Let_def intro!: safe_rules)
qed (auto simp: amountResolver_ValueUsd_def intro!: safe_rules)

lemma liquidity_safe:
  assumes "gorm_sane (r_DB r)"
  shows "safe (seawaterPoolResolver_Liquidity r p) (\<lambda>_. True)"
  using assms
  by (auto simp: seawaterPoolResolver_Liquidity_def Exp_Ten_nonzero
      intro!: safe_rules res_safe_mono [OF res_safe_mapRes [OF liquidity_row_safe]] split: option.split)

lemma query_safe:
  assumes "gorm_sane (r_DB r)"
  shows "safe (queryResolver_Pools r) (\<lambda>_. True)"
    "safe (queryResolver_ActiveLiquidityCampaigns r) (\<lambda>_. True)"
    "safe (queryResolver_UpcomingLiquidityCampaigns r) (\<lambda>_. True)"
    "safe (queryResolver_GetPool r token) (\<lambda>_. True)"
    "safe (queryResolver_GetPoolPositions r token first after) (\<lambda>_. True)"
    "safe (queryResolver_GetPosition r i) (\<lambda>_. True)"
    "safe (queryResolver_GetWallet r wallet) (\<lambda>a. a \<noteq> None)"
    "safe (queryResolver_GetSwaps r token first after) (\<lambda>_. True)"
    "safe (queryResolver_GetSwapsForUser r wallet first after) (\<lambda>_. True)"
    "safe (queryResolver_GetSmartAccount r wallet) (\<lambda>_. True)"
  using assms
  by (auto simp: queryResolver_Pools_def queryResolver_ActiveLiquidityCampaigns_def
      queryResolver_UpcomingLiquidityCampaigns_def queryResolver_GetPool_def
      queryResolver_GetPoolPositions_def queryResolver_GetPosition_def queryResolver_GetWallet_def
      queryResolver_GetSwaps_def queryResolver_GetSwapsForUser_def queryResolver_GetSmartAccount_def
      Let_def intro!: safe_rules split: option.split)

lemma pool_safe:
  assumes "gorm_sane (r_DB r)"
  shows "safe (seawaterPoolResolver_LiquidityOverTime r p) (\<lambda>_. True)"
    "safe (seawaterPoolResolver_YieldOverTime r p) (\<lambda>_. True)"
    "safe (seawaterPoolResolver_PositionsForUser r p wallet first after) (\<lambda>_. True)"
    "safe (seawaterPoolResolver_Swaps r p first after) (\<lambda>_. True)"
    "safe (seawaterPoolResolver_Amounts r p) (\<lambda>_. True)"
    "safe (seawaterConfigResolver_Pool r c) (\<lambda>_. True)"
  using assms
  by (auto simp: seawaterPoolResolver_LiquidityOverTime_def seawaterPoolResolver_YieldOverTime_def
      seawaterPoolResolver_PositionsForUser_def seawaterPoolResolver_Swaps_def
      seawaterPoolResolver_Amounts_def seawaterConfigResolver_Pool_def
      Let_def intro!: safe_rules split: option.split)

lemma position_safe:
  assumes "gorm_sane (r_DB r)"
  shows "safe (seawaterPositionResolver_Created r p) (\<lambda>_. True)"
    "safe (seawaterPositionResolver_Owner r p) (\<lambda>_. True)"
    "safe (seawaterPositionResolver_Pool r p) (\<lambda>_. True)"
    "safe (seawaterPositionResolver_Liquidity r p) (\<lambda>_. True)"
    "safe (seawaterSwapResolver_Sender r sw) (\<lambda>_. True)"
  using assms
  by (auto simp: seawaterPositionResolver_Created_def seawaterPositionResolver_Owner_def
      seawaterPositionResolver_Pool_def seawaterPositionResolver_Liquidity_def
      seawaterSwapResolver_Sender_def Let_def
      intro!: safe_rules safe_mono [OF query_safe(7) [OF assms]] split: option.split error.split)

lemma page_safe:
  assumes "gorm_sane (r_DB r)"
  shows "safe (seawaterPositionsGlobalResolver_Sum r page) (\<lambda>_. True)"
    "safe (seawaterPositionsGlobalResolver_Next r page first) (\<lambda>_. True)"
    "safe (seawaterPositionsUserResolver_Sum r page) (\<lambda>_. True)"
    "safe (seawaterPositionsUserResolver_Next r page first) (\<lambda>_. True)"
    "safe (seawaterSwapsResolver_Sum r sws) (\<lambda>_. True)"
    "safe (walletResolver_Positions r wallet first after) (\<lambda>_. True)"
  using assms
  by (auto simp: seawaterPositionsGlobalResolver_Sum_def seawaterPositionsGlobalResolver_Next_def
      seawaterPositionsUserResolver_Sum_def seawaterPositionsUserResolver_Next_def
      seawaterSwapsResolver_Sum_def walletResolver_Positions_def
      Let_def intro!: safe_rules split: option.split)

section \<open>No resolver panics, but for a few\<close>

definition never_panics :: "('s, 'a) io \<Rightarrow> bool" where
  "never_panics m \<longleftrightarrow> (\<forall>w. \<not> is_panic (fst (m w)))"

lemma safe_never_panics: "safe m P \<Longrightarrow> never_panics m"
  using safe_no_panic [OF safe_mono [of m P]] by (auto simp: never_panics_def)

lemmas resolvers_safe =
  token_safe [THEN safe_never_panics] price_safe [THEN safe_never_panics]
  price_history_safe [THEN safe_never_panics] volume_history_safe [THEN safe_never_panics]
  tvl_safe [THEN safe_never_panics] value_safe [THEN safe_never_panics]
  liquidity_safe [THEN safe_never_panics] query_safe [THEN safe_never_panics]
  pool_safe [THEN safe_never_panics] position_safe [THEN safe_never_panics]
  page_safe [THEN safe_never_panics]

text \<open>C10. On live and on made-up data, whatever the arguments and whichever objects are nil: as long as
  the database and the node report their failures as errors, no stored sum is nil and ticks are those
  of the protocol's range, these resolvers never panic.  The bounds checks, nil checks and divisions
  of token lookup, prices, histories, liquidity, pages and sums are all passed; the value of an
  amount only needs the amount not to be nil.\<close>

theorem graph_no_panic:
  assumes "gorm_sane (r_DB r)" "geth_sane (r_Geth r)"
  shows "(never_panics (queryResolver_Pools r) \<and>
      never_panics (queryResolver_ActiveLiquidityCampaigns r) \<and>
      never_panics (queryResolver_UpcomingLiquidityCampaigns r) \<and>
      never_panics (queryResolver_GetPool r token) \<and>
      never_panics (queryResolver_GetPoolPositions r token first after) \<and>
      never_panics (queryResolver_GetPosition r i) \<and>
      never_panics (queryResolver_GetWallet r wallet) \<and>
      never_panics (queryResolver_GetSwaps r token first after) \<and>
      never_panics (queryResolver_GetSwapsForUser r wallet first after) \<and>
      never_panics (queryResolver_GetSmartAccount r wallet)) \<and>
    (never_panics (amountResolver_Token r amount) \<and>
      ((\<forall>a. amount = Some a \<longrightarrow> amount_sane (amt_ValueUnscaled a)) \<longrightarrow>
        never_panics (amountResolver_ValueUsd r amount))) \<and>
    (never_panics (seawaterPoolResolver_Token r pool) \<and>
      never_panics (seawaterPoolResolver_Price r pool) \<and>
      never_panics (seawaterPoolResolver_PriceOverTime r pool) \<and>
      never_panics (seawaterPoolResolver_VolumeOverTime r pool) \<and>
      never_panics (seawaterPoolResolver_LiquidityOverTime r pool) \<and>
      never_panics (seawaterPoolResolver_TvlOverTime r pool) \<and>
      never_panics (seawaterPoolResolver_YieldOverTime r pool) \<and>
      never_panics (seawaterPoolResolver_PositionsForUser r pool wallet first after) \<and>
      never_panics (seawaterPoolResolver_Liquidity r pool) \<and>
      never_panics (seawaterPoolResolver_Swaps r pool first after) \<and>
      never_panics (seawaterPoolResolver_Amounts r pool) \<and>
      never_panics (seawaterConfigResolver_Pool r config)) \<and>
    (never_panics (seawaterPositionResolver_Created r position) \<and>
      never_panics (seawaterPositionResolver_Owner r position) \<and>
      never_panics (seawaterPositionResolver_Pool r position) \<and>
      never_panics (seawaterPositionResolver_Liquidity r position)) \<and>
    (never_panics (seawaterPositionsGlobalResolver_Sum r page) \<and>
      never_panics (seawaterPositionsGlobalResolver_Next r page first) \<and>
      never_panics (seawaterPositionsUserResolver_Sum r page) \<and>
      never_panics (seawaterPositionsUserResolver_Next r page first) \<and>
      never_panics (seawaterSwapResolver_Sender r swap) \<and>
      never_panics (seawaterSwapsResolver_Sum r swaps) \<and>
      never_panics (walletResolver_Positions r owner first after))"
  by (intro conjI impI resolvers_safe assms) blast

lemma store_gorm_sane: "gorm_sane store_gorm"
proof -
  have "\<not> is_panic (store_first_erc20 c s)" "\<not> is_panic (store_accounts_of c s)" for c s
    by (cases "(c, s)" rule: store_first_erc20.cases; auto split: option.split)
      (cases "(c, s)" rule: store_accounts_of.cases; auto)
  moreover have "\<not> is_panic (fst (store_exec q args s))" for q args s
    by (cases "(q, args, s)" rule: store_exec.cases) (auto split: res.split)
  ultimately show ?thesis
    by (auto simp: gorm_sane_def answers_def store_gorm_def store_scan_positions_def res_safe_True)
qed

text \<open>A node that answers every call with an empty result.\<close>

definition calm_geth :: geth where
  "calm_geth = demo_geth\<lparr>bound_Call := (\<lambda>a m calls. Ok [CallBigInt 1, CallBytesList (map (\<lambda>_. []) calls)])\<rparr>"

lemma calm_geth_sane: "geth_sane calm_geth"
  by (auto simp: geth_sane_def calm_geth_def demo_geth_def aggregate_sane_def)

lemma tick_gorm_sane: "MinTick \<le> t \<Longrightarrow> t \<le> MaxTick \<Longrightarrow> gorm_sane (tick_gorm t)"
  using store_gorm_sane
  by (auto simp: gorm_sane_def tick_gorm_def answers_def tick_sane_def Number_Big_def)

theorem graph_no_panic_witness:
  "let r = (demo_graph (tick_gorm 887272))\<lparr>r_Geth := calm_geth\<rparr> in
     gorm_sane (r_DB r) \<and> geth_sane (r_Geth r) \<and>
     never_panics (seawaterPoolResolver_Price r (Some zero_Pool)) \<and>
     never_panics (amountResolver_ValueUsd r (Some (demo_amount (Some 5)))) \<and>
     never_panics (amountResolver_Token r (Some (demo_amount None)))"
proof -
  let ?r = "(demo_graph (tick_gorm 887272))\<lparr>r_Geth := calm_geth\<rparr>"
  have sane: "gorm_sane (r_DB ?r)" "geth_sane (r_Geth ?r)"
    by (simp_all add: demo_graph_def tick_gorm_sane calm_geth_sane MinTick_def MaxTick_def)
  have "\<forall>a. Some (demo_amount (Some 5)) = Some a \<longrightarrow> amount_sane (amt_ValueUnscaled a)"
    by (simp add: demo_amount_def amount_sane_def)
  then show ?thesis
    using graph_no_panic [OF sane, where pool = "Some zero_Pool" and amount = "Some (demo_amount (Some 5))"]
      graph_no_panic [OF sane, where amount = "Some (demo_amount None)"] sane
    by (simp add: Let_def)
qed

section \<open>The resolvers that do panic\<close>

text \<open>A page is either missing, when no row matches, or has a first row.\<close>

lemma page_no_panic:
  assumes law: "positions_lawful D rows" and st: "position_query st"
    and f: "\<And>pos. pos \<noteq> Some [] \<Longrightarrow> \<not> is_panic (fst (f pos w))"
  shows "\<not> is_panic (fst (andDo (ask (Scan_Positions D) st) f w))"
proof (cases "list_all cond_ok (st_where st)")
  case True
  then obtain ps where "Scan_Positions D st (w_db w) = Ok (scanned ps)"
    by (rule positions_lawful_page [OF law st])
  then show ?thesis using f [of "scanned ps"] by (auto simp: andDo_ask)
next
  case False
  then obtain e where "Scan_Positions D st (w_db w) = Err e"
    by (rule positions_lawful_error [OF law st])
  then show ?thesis by (simp add: andDo_ask)
qed

lemma andDo_pure: "andDo (pure v) f w = (case v of Ok x \<Rightarrow> f x w | Err e \<Rightarrow> (Err e, w)
    | Panic m \<Rightarrow> (Panic m, w) | Exit e \<Rightarrow> (Exit e, w))"
  by (simp add: andDo_def handle_def pure_def split: res.split)

lemma GetPositions_no_panic:
  assumes "positions_lawful (r_DB r) rows" "\<not> mocking r"
  shows "\<not> is_panic (fst (queryResolver_GetPositions r wallet first after w))"
  unfolding queryResolver_GetPositions_def Let_def if_not_P [OF assms(2)]
  by (rule page_no_panic [OF assms(1)])
    (auto simp: page_stmts idx_def andDo_pure pure_def split: option.split)

lemma pool_Positions_no_panic:
  assumes "positions_lawful (r_DB r) rows" "\<not> mocking r"
  shows "\<not> is_panic (fst (seawaterPoolResolver_Positions r (Some pool) first after w))"
  unfolding seawaterPoolResolver_Positions_def Let_def if_not_P [OF assms(2)] nil_deref_def
  by (simp only: andDo_pure option.case res.case, rule page_no_panic [OF assms(1)])
    (auto simp: page_stmts idx_def andDo_pure pure_def last_created_cursor split: option.split)

lemma swap_Pool_panics:
  assumes "gorm_sane (r_DB r)"
  shows "is_panic (fst (seawaterSwapResolver_Pool r (Some s) w)) \<longleftrightarrow> fst (queryResolver_GetPool r
      (if sw_TokenIn s = FusdcAddr (r_C r) then Address_String (sw_TokenOut s)
       else Address_String (sw_TokenIn s)) w) = Ok None"
    (is "_ \<longleftrightarrow> fst (queryResolver_GetPool r ?token w) = Ok None")
proof -
  have "\<not> is_panic (fst (queryResolver_GetPool r ?token w))"
    using query_safe(4) [OF assms] by (rule safe_no_panic)
  then show ?thesis
    by (cases "queryResolver_GetPool r ?token w"; cases "fst (queryResolver_GetPool r ?token w)")
      (auto simp: seawaterSwapResolver_Pool_def nil_deref_def andDo_pure andDo_Ok andDo_def
        handle_def pure_def Let_def split: option.split)
qed

text \<open>The fields of the schema whose resolver was never written.\<close>

lemmas unimplemented_defs = liquidityCampaignResolver_CampaignID_def liquidityCampaignResolver_Owner_def
  liquidityCampaignResolver_PerSecond_def liquidityCampaignResolver_MaximumAmount_def
  liquidityCampaignResolver_FromTimestamp_def liquidityCampaignResolver_EndTimestamp_def
  liquidityCampaignResolver_Pool_def seawaterPoolResolver_LiquidityCampaigns_def
  seawaterSwapsResolver_Next_def tokenResolver_Image_def walletResolver_Balances_def

text \<open>C17. Resolvers that list leaves out, on live data.  A wallet's positions never panic, and a pool's
  panic exactly when the pool is nil, whatever the page size and the cursor: an empty answer of the
  database is a nil slice, which both check for before they take its first row.  A swap's pool panics
  exactly when the swap is nil or its pool is not stored; and the eleven fields that are not
  implemented always panic.\<close>

theorem graph_panics:
  assumes law: "positions_lawful (r_DB r) rows" and sane: "gorm_sane (r_DB r)" and live: "\<not> mocking r"
  shows "never_panics (queryResolver_GetPositions r wallet first after) \<and>
    (is_panic (fst (seawaterPoolResolver_Positions r pool first after w)) \<longleftrightarrow> pool = None) \<and>
    (is_panic (fst (seawaterSwapResolver_Pool r swap w)) \<longleftrightarrow>
      (case swap of None \<Rightarrow> True | Some s \<Rightarrow> fst (queryResolver_GetPool r
        (if sw_TokenIn s = FusdcAddr (r_C r) then Address_String (sw_TokenOut s)
         else Address_String (sw_TokenIn s)) w) = Ok None)) \<and>
    is_panic (liquidityCampaignResolver_CampaignID campaign) \<and>
    is_panic (liquidityCampaignResolver_Owner campaign) \<and>
    is_panic (liquidityCampaignResolver_PerSecond campaign) \<and>
    is_panic (liquidityCampaignResolver_MaximumAmount campaign) \<and>
    is_panic (liquidityCampaignResolver_FromTimestamp campaign) \<and>
    is_panic (liquidityCampaignResolver_EndTimestamp campaign) \<and>
    is_panic (liquidityCampaignResolver_Pool campaign) \<and>
    is_panic (seawaterPoolResolver_LiquidityCampaigns pool) \<and>
    is_panic (seawaterSwapsResolver_Next swaps first) \<and>
    is_panic (tokenResolver_Image token) \<and>
    is_panic (walletResolver_Balances user)"
proof -
  have "never_panics (queryResolver_GetPositions r wallet first after)"
    using GetPositions_no_panic [OF law live] by (simp add: never_panics_def)
  moreover have "is_panic (fst (seawaterPoolResolver_Positions r pool first after w)) \<longleftrightarrow> pool = None"
    using pool_Positions_no_panic [OF law live]
    by (cases pool) (simp_all add: seawaterPoolResolver_Positions_def live nil_deref_def andDo_pure)
  moreover have "is_panic (fst (seawaterSwapResolver_Pool r None w))"
    by (simp add: seawaterSwapResolver_Pool_def nil_deref_def andDo_pure)
  ultimately show ?thesis
    using swap_Pool_panics [OF sane] by (simp add: unimplemented_defs split: option.split)
qed

theorem graph_panics_witness:
  "let r = demo_graph store_gorm; w = demo_state [] in
     positions_lawful (r_DB r) store_positions \<and> gorm_sane (r_DB r) \<and> \<not> mocking r \<and>
     never_panics (queryResolver_GetPositions r ''0xB'' None None) \<and>
     \<not> is_panic (fst (seawaterPoolResolver_Positions r (Some zero_Pool) None None w)) \<and>
     is_panic (fst (seawaterPoolResolver_Positions r None (Some 3) (Some 5) w))"
proof -
  have law: "positions_lawful (r_DB (demo_graph store_gorm)) store_positions"
    "gorm_sane (r_DB (demo_graph store_gorm))" "\<not> mocking (demo_graph store_gorm)"
    by (simp_all add: store_positions_lawful store_gorm_sane)
  then show ?thesis
    using graph_panics [OF law, of "''0xB''" None None "Some zero_Pool" "demo_state []"]
      graph_panics [OF law, of "''0xB''" "Some 3" "Some 5" None "demo_state []"]
    by (simp add: Let_def)
qed

end
