(* ===== verification/GraphAnswer.thy ===== *)
theory GraphAnswer
  imports GraphFields GraphSafety
begin

text \<open>
  What a whole query is answered with.  The schema is translated from
  src/cmd/graphql.ethereum/schema.graphqls, independently of the generated code; the answer of the
  generated code over the resolvers fits it, whatever the database, the node and the schedule do.
\<close>

section \<open>The schema\<close>

definition schema_Query :: "(string \<times> gtype) list" where
  "schema_Query =
    [(''served'', TNonNull (TObject ''Served'')),
     (''fusdc'', TNonNull (TObject ''Token'')),
     (''pools'', TNonNull (TList (TNonNull (TObject ''SeawaterPool'')))),
     (''activeLiquidityCampaigns'', TNonNull (TList (TNonNull (TObject ''LiquidityCampaign'')))),
     (''upcomingLiquidityCampaigns'', TNonNull (TList (TNonNull (TObject ''LiquidityCampaign'')))),
     (''getPool'', TObject ''SeawaterPool''),
     (''getPoolPositions'', TNonNull (TObject ''SeawaterPositionsGlobal'')),
     (''getPosition'', TObject ''SeawaterPosition''),
     (''getPositions'', TNonNull (TObject ''SeawaterPositionsUser'')),
     (''getWallet'', TObject ''Wallet''),
     (''getSwaps'', TNonNull (TObject ''GetSwaps'')),
     (''getSwapsForUser'', TNonNull (TObject ''GetSwapsForUser'')),
     (''getSmartAccount'', TNonNull (TList (TNonNull (TObject ''Wallet''))))]"

definition schema_SeawaterPool :: "(string \<times> gtype) list" where
  "schema_SeawaterPool =
    [(''served'', TNonNull (TObject ''Served'')),
     (''id'', TNonNull TID),
     (''fee'', TNonNull TInt),
     (''address'', TNonNull TString),
     (''tickSpacing'', TNonNull TString),
     (''token'', TNonNull (TObject ''Token'')),
     (''price'', TNonNull TString),
     (''priceOverTime'', TNonNull (TObject ''PriceOverTime'')),
     (''volumeOverTime'', TNonNull (TObject ''VolumeOverTime'')),
     (''liquidityOverTime'', TNonNull (TObject ''LiquidityOverTime'')),
     (''tvlOverTime'', TNonNull (TObject ''TvlOverTime'')),
     (''yieldOverTime'', TNonNull (TObject ''YieldOverTime'')),
     (''earnedFeesAPRFUSDC'', TNonNull (TList (TNonNull TString))),
     (''earnedFeesAPRToken1'', TNonNull (TList (TNonNull TString))),
     (''liquidityCampaigns'', TNonNull (TList (TNonNull (TObject ''LiquidityCampaign'')))),
     (''positions'', TNonNull (TObject ''SeawaterPositionsGlobal'')),
     (''positionsForUser'', TNonNull (TObject ''SeawaterPositionsUser'')),
     (''liquidity'', TNonNull (TList (TNonNull (TObject ''SeawaterLiquidity'')))),
     (''swaps'', TNonNull (TObject ''SeawaterSwaps'')),
     (''amounts'', TNonNull (TObject ''PairAmount'')),
     (''config'', TNonNull (TObject ''SeawaterConfig''))]"

definition schema_Served :: "(string \<times> gtype) list" where
  "schema_Served =
    [(''timestamp'', TNonNull TInt)]"

definition schema_GetSwapsForUser :: "(string \<times> gtype) list" where
  "schema_GetSwapsForUser =
    [(''data'', TNonNull (TObject ''SeawaterSwaps''))]"

definition schema_GetSwaps :: "(string \<times> gtype) list" where
  "schema_GetSwaps =
    [(''data'', TNonNull (TObject ''SeawaterSwaps''))]"

definition schema_SeawaterSwaps :: "(string \<times> gtype) list" where
  "schema_SeawaterSwaps =
    [(''sum'', TList (TNonNull (TObject ''PairAmount''))),
     (''swaps'', TNonNull (TList (TNonNull (TObject ''SeawaterSwap'')))),
     (''next'', TNonNull (TObject ''SeawaterSwaps''))]"

definition schema_SeawaterPositionsGlobal :: "(string \<times> gtype) list" where
  "schema_SeawaterPositionsGlobal =
    [(''id'', TNonNull TID),
     (''positions'', TNonNull (TList (TNonNull (TObject ''SeawaterPosition'')))),
     (''sum'', TList (TNonNull (TObject ''PairAmount''))),
     (''next'', TNonNull (TObject ''SeawaterPositionsGlobal''))]"

definition schema_SeawaterPositionsUser :: "(string \<times> gtype) list" where
  "schema_SeawaterPositionsUser =
    [(''id'', TNonNull TID),
     (''positions'', TNonNull (TList (TNonNull (TObject ''SeawaterPosition'')))),
     (''sum'', TList (TNonNull (TObject ''PairAmount''))),
     (''next'', TNonNull (TObject ''SeawaterPositionsUser''))]"

definition schema_VolumeOverTime :: "(string \<times> gtype) list" where
  "schema_VolumeOverTime =
    [(''daily'', TNonNull (TList (TNonNull (TObject ''PairAmount'')))),
     (''monthly'', TNonNull (TList (TNonNull (TObject ''PairAmount''))))]"

definition schema_TvlOverTime :: "(string \<times> gtype) list" where
  "schema_TvlOverTime =
    [(''daily'', TNonNull (TList (TNonNull TString))),
     (''monthly'', TNonNull (TList (TNonNull TString)))]"

definition schema_LiquidityOverTime :: "(string \<times> gtype) list" where
  "schema_LiquidityOverTime =
    [(''daily'', TNonNull (TList (TNonNull (TObject ''PairAmount'')))),
     (''monthly'', TNonNull (TList (TNonNull (TObject ''PairAmount''))))]"

definition schema_YieldOverTime :: "(string \<times> gtype) list" where
  "schema_YieldOverTime =
    [(''daily'', TNonNull (TList (TNonNull (TObject ''PairAmount'')))),
     (''monthly'', TNonNull (TList (TNonNull (TObject ''PairAmount''))))]"

definition schema_PriceOverTime :: "(string \<times> gtype) list" where
  "schema_PriceOverTime =
    [(''daily'', TNonNull (TList (TNonNull TString))),
     (''monthly'', TNonNull (TList (TNonNull TString)))]"

definition schema_SeawaterLiquidity :: "(string \<times> gtype) list" where
  "schema_SeawaterLiquidity =
    [(''id'', TNonNull TID),
     (''tickLower'', TNonNull TInt),
     (''tickUpper'', TNonNull TInt),
     (''price'', TNonNull TString),
     (''liquidity'', TNonNull TString)]"

definition schema_SeawaterPosition :: "(string \<times> gtype) list" where
  "schema_SeawaterPosition =
    [(''served'', TNonNull (TObject ''Served'')),
     (''id'', TNonNull TID),
     (''created'', TNonNull TInt),
     (''positionId'', TNonNull TInt),
     (''owner'', TNonNull (TObject ''Wallet'')),
     (''pool'', TNonNull (TObject ''SeawaterPool'')),
     (''lower'', TNonNull TInt),
     (''upper'', TNonNull TInt),
     (''liquidity'', TNonNull (TObject ''PairAmount''))]"

definition schema_SeawaterSwap :: "(string \<times> gtype) list" where
  "schema_SeawaterSwap =
    [(''served'', TNonNull (TObject ''Served'')),
     (''timestamp'', TNonNull TInt),
     (''pool'', TNonNull (TObject ''SeawaterPool'')),
     (''transactionHash'', TNonNull TString),
     (''sender'', TNonNull (TObject ''Wallet'')),
     (''amountIn'', TNonNull (TObject ''Amount'')),
     (''amountOut'', TNonNull (TObject ''Amount''))]"

definition schema_SeawaterConfig :: "(string \<times> gtype) list" where
  "schema_SeawaterConfig =
    [(''id'', TNonNull TID),
     (''pool'', TNonNull (TObject ''SeawaterPool'')),
     (''displayed'', TNonNull TBoolean),
     (''classification'', TNonNull (TEnum [''STABLECOIN'', ''VOLATILE'', ''UNKNOWN'']))]"

definition schema_PairAmount :: "(string \<times> gtype) list" where
  "schema_PairAmount =
    [(''timestamp'', TNonNull TInt),
     (''fusdc'', TNonNull (TObject ''Amount'')),
     (''token1'', TNonNull (TObject ''Amount''))]"

definition schema_Amount :: "(string \<times> gtype) list" where
  "schema_Amount =
    [(''token'', TNonNull (TObject ''Token'')),
     (''decimals'', TNonNull TInt),
     (''timestamp'', TNonNull TInt),
     (''valueUnscaled'', TNonNull TString),
     (''valueScaled'', TNonNull TString),
     (''valueUsd'', TNonNull TString)]"

definition schema_Wallet :: "(string \<times> gtype) list" where
  "schema_Wallet =
    [(''id'', TNonNull TID),
     (''address'', TNonNull TString),
     (''balances'', TNonNull (TList (TNonNull (TObject ''Amount'')))),
     (''positions'', TNonNull (TObject ''SeawaterPositionsUser''))]"

definition schema_Token :: "(string \<times> gtype) list" where
  "schema_Token =
    [(''id'', TNonNull TID),
     (''address'', TNonNull TString),
     (''name'', TNonNull TString),
     (''image'', TNonNull TString),
     (''totalSupply'', TNonNull TString),
     (''decimals'', TNonNull TInt),
     (''symbol'', TNonNull TString)]"

definition schema_LiquidityCampaign :: "(string \<times> gtype) list" where
  "schema_LiquidityCampaign =
    [(''campaignId'', TNonNull TString),
     (''owner'', TNonNull (TObject ''SeawaterPositionsUser'')),
     (''tickLower'', TNonNull TInt),
     (''tickUpper'', TNonNull TInt),
     (''perSecond'', TNonNull (TObject ''Amount'')),
     (''maximumAmount'', TNonNull (TObject ''Amount'')),
     (''fromTimestamp'', TNonNull TInt),
     (''endTimestamp'', TNonNull TInt),
     (''pool'', TNonNull (TObject ''SeawaterPool''))]"

definition graph_types :: "(string \<times> (string \<times> gtype) list) list" where
  "graph_types =
    [(''Query'', schema_Query),
     (''SeawaterPool'', schema_SeawaterPool),
     (''Served'', schema_Served),
     (''GetSwapsForUser'', schema_GetSwapsForUser),
     (''GetSwaps'', schema_GetSwaps),
     (''SeawaterSwaps'', schema_SeawaterSwaps),
     (''SeawaterPositionsGlobal'', schema_SeawaterPositionsGlobal),
     (''SeawaterPositionsUser'', schema_SeawaterPositionsUser),
     (''VolumeOverTime'', schema_VolumeOverTime),
     (''TvlOverTime'', schema_TvlOverTime),
     (''LiquidityOverTime'', schema_LiquidityOverTime),
     (''YieldOverTime'', schema_YieldOverTime),
     (''PriceOverTime'', schema_PriceOverTime),
     (''SeawaterLiquidity'', schema_SeawaterLiquidity),
     (''SeawaterPosition'', schema_SeawaterPosition),
     (''SeawaterSwap'', schema_SeawaterSwap),
     (''SeawaterConfig'', schema_SeawaterConfig),
     (''PairAmount'', schema_PairAmount),
     (''Amount'', schema_Amount),
     (''Wallet'', schema_Wallet),
     (''Token'', schema_Token),
     (''LiquidityCampaign'', schema_LiquidityCampaign)]"

definition graph_schema :: schema where
  "graph_schema T f = (case map_of graph_types T of None \<Rightarrow> None | Some fs \<Rightarrow> map_of fs f)"

text \<open>The type an object is shown as.\<close>

fun obj_type :: "obj \<Rightarrow> string" where
  "obj_type (OAmount v) = ''Amount''"
| "obj_type (OGetSwaps v) = ''GetSwaps''"
| "obj_type (OGetSwapsForUser v) = ''GetSwapsForUser''"
| "obj_type (OLiquidityCampaign v) = ''LiquidityCampaign''"
| "obj_type (OLiquidityOverTime v) = ''LiquidityOverTime''"
| "obj_type (OPairAmount v) = ''PairAmount''"
| "obj_type (OPriceOverTime v) = ''PriceOverTime''"
| "obj_type OQuery = ''Query''"
| "obj_type (OSeawaterConfig v) = ''SeawaterConfig''"
| "obj_type (OSeawaterLiquidity v) = ''SeawaterLiquidity''"
| "obj_type (OSeawaterPool v) = ''SeawaterPool''"
| "obj_type (OSeawaterPosition v) = ''SeawaterPosition''"
| "obj_type (OSeawaterPositionsGlobal v) = ''SeawaterPositionsGlobal''"
| "obj_type (OSeawaterPositionsUser v) = ''SeawaterPositionsUser''"
| "obj_type (OSeawaterSwap v) = ''SeawaterSwap''"
| "obj_type (OSeawaterSwaps v) = ''SeawaterSwaps''"
| "obj_type (OServed v) = ''Served''"
| "obj_type (OToken v) = ''Token''"
| "obj_type (OTvlOverTime v) = ''TvlOverTime''"
| "obj_type (OVolumeOverTime v) = ''VolumeOverTime''"
| "obj_type (OWallet v) = ''Wallet''"
| "obj_type (OYieldOverTime v) = ''YieldOverTime''"

lemmas schema_defs =
  schema_Query_def schema_SeawaterPool_def schema_Served_def schema_GetSwapsForUser_def
  schema_GetSwaps_def schema_SeawaterSwaps_def schema_SeawaterPositionsGlobal_def
  schema_SeawaterPositionsUser_def schema_VolumeOverTime_def schema_TvlOverTime_def
  schema_LiquidityOverTime_def schema_YieldOverTime_def schema_PriceOverTime_def
  schema_SeawaterLiquidity_def schema_SeawaterPosition_def schema_SeawaterSwap_def
  schema_SeawaterConfig_def schema_PairAmount_def schema_Amount_def schema_Wallet_def
  schema_Token_def schema_LiquidityCampaign_def

lemmas field_defs =
  ec_Amount_token_def ec_Amount_decimals_def ec_Amount_timestamp_def ec_Amount_valueUnscaled_def
  ec_Amount_valueScaled_def ec_Amount_valueUsd_def ec_GetSwaps_data_def ec_GetSwapsForUser_data_def
  ec_LiquidityCampaign_campaignId_def ec_LiquidityCampaign_owner_def
  ec_LiquidityCampaign_tickLower_def ec_LiquidityCampaign_tickUpper_def
  ec_LiquidityCampaign_perSecond_def ec_LiquidityCampaign_maximumAmount_def
  ec_LiquidityCampaign_fromTimestamp_def ec_LiquidityCampaign_endTimestamp_def
  ec_LiquidityCampaign_pool_def ec_LiquidityOverTime_daily_def ec_LiquidityOverTime_monthly_def
  ec_PairAmount_timestamp_def ec_PairAmount_fusdc_def ec_PairAmount_token1_def
  ec_PriceOverTime_daily_def ec_PriceOverTime_monthly_def ec_Query_served_def ec_Query_fusdc_def
  ec_Query_pools_def ec_Query_activeLiquidityCampaigns_def ec_Query_upcomingLiquidityCampaigns_def
  ec_Query_getPool_def ec_Query_getPoolPositions_def ec_Query_getPosition_def
  ec_Query_getPositions_def ec_Query_getWallet_def ec_Query_getSwaps_def
  ec_Query_getSwapsForUser_def ec_Query_getSmartAccount_def ec_SeawaterConfig_id_def
  ec_SeawaterConfig_pool_def ec_SeawaterConfig_displayed_def ec_SeawaterConfig_classification_def
  ec_SeawaterLiquidity_id_def ec_SeawaterLiquidity_tickLower_def ec_SeawaterLiquidity_tickUpper_def
  ec_SeawaterLiquidity_price_def ec_SeawaterLiquidity_liquidity_def ec_SeawaterPool_served_def
  ec_SeawaterPool_id_def ec_SeawaterPool_fee_def ec_SeawaterPool_address_def
  ec_SeawaterPool_tickSpacing_def ec_SeawaterPool_token_def ec_SeawaterPool_price_def
  ec_SeawaterPool_priceOverTime_def ec_SeawaterPool_volumeOverTime_def
  ec_SeawaterPool_liquidityOverTime_def ec_SeawaterPool_tvlOverTime_def
  ec_SeawaterPool_yieldOverTime_def ec_SeawaterPool_earnedFeesAPRFUSDC_def
  ec_SeawaterPool_earnedFeesAPRToken1_def ec_SeawaterPool_liquidityCampaigns_def
  ec_SeawaterPool_positions_def ec_SeawaterPool_positionsForUser_def ec_SeawaterPool_liquidity_def
  ec_SeawaterPool_swaps_def ec_SeawaterPool_amounts_def ec_SeawaterPool_config_def
  ec_SeawaterPosition_served_def ec_SeawaterPosition_id_def ec_SeawaterPosition_created_def
  ec_SeawaterPosition_positionId_def ec_SeawaterPosition_owner_def ec_SeawaterPosition_pool_def
  ec_SeawaterPosition_lower_def ec_SeawaterPosition_upper_def ec_SeawaterPosition_liquidity_def
  ec_SeawaterPositionsGlobal_id_def ec_SeawaterPositionsGlobal_positions_def
  ec_SeawaterPositionsGlobal_sum_def ec_SeawaterPositionsGlobal_next_def
  ec_SeawaterPositionsUser_id_def ec_SeawaterPositionsUser_positions_def
  ec_SeawaterPositionsUser_sum_def ec_SeawaterPositionsUser_next_def ec_SeawaterSwap_served_def
  ec_SeawaterSwap_timestamp_def ec_SeawaterSwap_pool_def ec_SeawaterSwap_transactionHash_def
  ec_SeawaterSwap_sender_def ec_SeawaterSwap_amountIn_def ec_SeawaterSwap_amountOut_def
  ec_SeawaterSwaps_sum_def ec_SeawaterSwaps_swaps_def ec_SeawaterSwaps_next_def
  ec_Served_timestamp_def ec_Token_id_def ec_Token_address_def ec_Token_name_def ec_Token_image_def
  ec_Token_totalSupply_def ec_Token_decimals_def ec_Token_symbol_def ec_TvlOverTime_daily_def
  ec_TvlOverTime_monthly_def ec_VolumeOverTime_daily_def ec_VolumeOverTime_monthly_def
  ec_Wallet_id_def ec_Wallet_address_def ec_Wallet_balances_def ec_Wallet_positions_def
  ec_YieldOverTime_daily_def ec_YieldOverTime_monthly_def

lemmas args_defs =
  field_Query_getPoolPositions_args_def field_Query_getPool_args_def field_Query_getPosition_args_def
  field_Query_getPositions_args_def field_Query_getSmartAccount_args_def
  field_Query_getSwapsForUser_args_def field_Query_getSwaps_args_def field_Query_getWallet_args_def
  field_SeawaterPool_positionsForUser_args_def field_SeawaterPool_positions_args_def
  field_SeawaterPool_swaps_args_def field_SeawaterPositionsGlobal_next_args_def
  field_SeawaterPositionsUser_next_args_def field_SeawaterSwaps_next_args_def
  field_Wallet_positions_args_def

lemmas switch_defs =
  ec_Amount_def ec_GetSwaps_def ec_GetSwapsForUser_def ec_LiquidityCampaign_def
  ec_LiquidityOverTime_def ec_PairAmount_def ec_PriceOverTime_def ec_Query_def
  ec_SeawaterConfig_def ec_SeawaterLiquidity_def ec_SeawaterPool_def ec_SeawaterPosition_def
  ec_SeawaterPositionsGlobal_def ec_SeawaterPositionsUser_def ec_SeawaterSwap_def
  ec_SeawaterSwaps_def ec_Served_def ec_Token_def ec_TvlOverTime_def ec_VolumeOverTime_def
  ec_Wallet_def ec_YieldOverTime_def

lemma graph_schema_eqs:
  "graph_schema ''Query'' = map_of schema_Query"
  "graph_schema ''SeawaterPool'' = map_of schema_SeawaterPool"
  "graph_schema ''Served'' = map_of schema_Served"
  "graph_schema ''GetSwapsForUser'' = map_of schema_GetSwapsForUser"
  "graph_schema ''GetSwaps'' = map_of schema_GetSwaps"
  "graph_schema ''SeawaterSwaps'' = map_of schema_SeawaterSwaps"
  "graph_schema ''SeawaterPositionsGlobal'' = map_of schema_SeawaterPositionsGlobal"
  "graph_schema ''SeawaterPositionsUser'' = map_of schema_SeawaterPositionsUser"
  "graph_schema ''VolumeOverTime'' = map_of schema_VolumeOverTime"
  "graph_schema ''TvlOverTime'' = map_of schema_TvlOverTime"
  "graph_schema ''LiquidityOverTime'' = map_of schema_LiquidityOverTime"
  "graph_schema ''YieldOverTime'' = map_of schema_YieldOverTime"
  "graph_schema ''PriceOverTime'' = map_of schema_PriceOverTime"
  "graph_schema ''SeawaterLiquidity'' = map_of schema_SeawaterLiquidity"
  "graph_schema ''SeawaterPosition'' = map_of schema_SeawaterPosition"
  "graph_schema ''SeawaterSwap'' = map_of schema_SeawaterSwap"
  "graph_schema ''SeawaterConfig'' = map_of schema_SeawaterConfig"
  "graph_schema ''PairAmount'' = map_of schema_PairAmount"
  "graph_schema ''Amount'' = map_of schema_Amount"
  "graph_schema ''Wallet'' = map_of schema_Wallet"
  "graph_schema ''Token'' = map_of schema_Token"
  "graph_schema ''LiquidityCampaign'' = map_of schema_LiquidityCampaign"
  by (simp_all add: graph_schema_def graph_types_def fun_eq_iff)

section \<open>Every field fits the schema\<close>

text \<open>The one place where an answer could leave its type: the classification is any text of the
  configuration.\<close>

definition classification_ok :: "PoolConfig \<Rightarrow> bool" where
  "classification_ok c \<longleftrightarrow> pc_Classification c \<in> {''STABLECOIN'', ''VOLATILE'', ''UNKNOWN''}"

fun obj_ok :: "obj \<Rightarrow> bool" where
  "obj_ok (OSeawaterConfig c) = classification_ok (sc_Pool c)"
| "obj_ok _ = True"

lemma Config_ok:
  assumes "\<And>a c. r_PoolsConfig r a = Some c \<Longrightarrow> classification_ok c"
    and "seawaterPoolResolver_Config r p = Ok v"
  shows "classification_ok (sc_Pool v)"
proof -
  have "classification_ok DefaultPoolConfiguration"
    by (simp add: classification_ok_def DefaultPoolConfiguration_def ClassificationUnknown_def)
  with assms show ?thesis by (auto simp: seawaterPoolResolver_Config_def split: option.splits)
qed

lemma classification_answer [answer_intros]:
  "classification_ok c \<Longrightarrow> answer_ok G (TNonNull (TEnum [''STABLECOIN'', ''VOLATILE'', ''UNKNOWN''])) p sels
    (marshalNString (pc_Classification c))"
  by (rule marshal_enum_ok) (auto simp: classification_ok_def)

text \<open>It is not checked on the way out: any other text breaks the type of the field.\<close>

lemma classification_unchecked:
  "answer_ok G (TNonNull (TEnum [''STABLECOIN'', ''VOLATILE'', ''UNKNOWN''])) p (sel_Selections s)
     (ec_SeawaterConfig_classification E p k s v) \<longleftrightarrow> classification_ok (sc_Pool v)"
  by (auto simp: ec_SeawaterConfig_classification_def exec_field_def marshalNString_def answer_ok_def
      classification_ok_def)

lemma map_of_pairs:
  "map_of ((a, b) # xs) f = Some t \<Longrightarrow> (f = a \<Longrightarrow> t = b \<Longrightarrow> P) \<Longrightarrow> (map_of xs f = Some t \<Longrightarrow> P) \<Longrightarrow> P"
  by (cases "f = a") simp_all

lemma map_of_Nil_Some: "map_of [] f = Some t \<Longrightarrow> P"
  by simp

lemma ec_case_ok:
  assumes conf: "\<And>a c. r_PoolsConfig (ec_resolvers E) a = Some c \<Longrightarrow> classification_ok c"
    and "obj_ok ob" "graph_schema (obj_type ob) (sel_Name s) = Some t"
    and sub: "\<And>T q child. T = obj_type child \<Longrightarrow> object_type t = Some T \<Longrightarrow> obj_ok child \<Longrightarrow>
      answer_ok graph_schema (TNonNull (TObject T)) q (sel_Selections s) (k q child)"
  shows "\<exists>c. ec_case E p k ob s = Some c \<and> fc_required c = (\<not> nullable t) \<and>
    field_ok graph_schema t (p @ [PathName (sel_Alias s)]) s (fc_answer c)"
  using assms(2,3)
  by (cases ob) (simp_all only: obj_type.simps graph_schema_eqs ec_case.simps obj_ok.simps schema_defs,
    (elim map_of_pairs map_of_Nil_Some; auto simp: switch_defs field_defs args_defs Let_def
      split: prod.split intro!: answer_intros sub Config_ok [OF conf])+)

lemma ec_case_typename:
  "sel_Name s = ''__typename'' \<Longrightarrow> ec_case E p k ob s = Some (InLoop False (marshalNString (obj_type ob)))"
  by (cases ob) (simp_all add: switch_defs)

lemma ec_case_fits:
  assumes conf: "\<And>a c. r_PoolsConfig (ec_resolvers E) a = Some c \<Longrightarrow> classification_ok c"
    and "obj_ok ob" "valid_selections graph_schema (obj_type ob) sels" "s \<in> set sels"
    and sub: "\<And>q child. obj_ok child \<Longrightarrow> valid_selections graph_schema (obj_type child) (sel_Selections s) \<Longrightarrow>
      answer_ok graph_schema (TNonNull (TObject (obj_type child))) q (sel_Selections s) (k q child)"
  shows "\<exists>c. ec_case E p k ob s = Some c \<and> case_ok graph_schema (obj_type ob) p s c"
proof (cases "sel_Name s = ''__typename''")
  case True
  then show ?thesis by (simp add: ec_case_typename case_ok_def marshalNString_def)
next
  case False
  with assms(3,4) obtain t where t: "graph_schema (obj_type ob) (sel_Name s) = Some t"
    and below: "\<And>T. object_type t = Some T \<Longrightarrow> valid_selections graph_schema T (sel_Selections s)"
    by (subst (asm) valid_selections.simps) (fastforce split: option.splits)
  have "\<exists>c. ec_case E p k ob s = Some c \<and> fc_required c = (\<not> nullable t) \<and>
      field_ok graph_schema t (p @ [PathName (sel_Alias s)]) s (fc_answer c)"
    by (rule ec_case_ok [OF conf assms(2) t]) (auto intro: sub below)
  with False t show ?thesis by (auto simp: case_ok_def)
qed

lemma ec_object_ok:
  assumes "\<And>a c. r_PoolsConfig (ec_resolvers E) a = Some c \<Longrightarrow> classification_ok c"
    and "obj_ok ob" "valid_selections graph_schema (obj_type ob) sels"
  shows "answer_ok graph_schema (TNonNull (TObject (obj_type ob))) p sels (ec_object E p ob sels)"
  using assms
proof (induction E p ob sels rule: ec_object.induct)
  case (1 E p ob sels)
  show ?case
    unfolding ec_object.simps [of E p ob sels]
    by (intro exec_object_ok ec_case_fits [OF "1.prems"]) (auto intro: "1.IH" "1.prems"(1))
qed

section \<open>Whole queries\<close>

text \<open>C6. Whatever the database and the node answer, whatever they fail with, and whichever resolver
  panics: a query that passed validation is answered with data that fits the schema, every field
  that was asked for, under its alias and in order, of its type and null only where the schema
  allows it, or with null and at least one error; unless a parameter ends the process there always
  is an answer.  Every error carries the path of a field that was asked for, or of an argument given
  to one.  This rests on the configuration only naming classifications of the schema.\<close>

theorem graph_answer_typed:
  assumes "\<And>a c. r_PoolsConfig (ec_resolvers E) a = Some c \<Longrightarrow> classification_ok c"
    and "valid_selections graph_schema ''Query'' sels"
  shows "((\<exists>j errs. graphql_Exec E Query sels = (Ok j, errs) \<and>
        conforms graph_schema (TObject ''Query'') sels j \<and> (j = JNull \<longrightarrow> errs \<noteq> [])) \<or>
      (\<exists>e errs. graphql_Exec E Query sels = (Exit e, errs))) \<and>
    (\<forall>(q, e) \<in> set (snd (graphql_Exec E Query sels)). asked sels q)"
proof -
  have "answer_ok graph_schema (TNonNull (TObject ''Query'')) [] sels (graphql_Exec E Query sels)"
    using ec_object_ok [of E OQuery sels "[]"] assms by (simp add: graphql_Exec_def)
  then show ?thesis
    by (cases "graphql_Exec E Query sels"; cases "fst (graphql_Exec E Query sels)")
      (auto simp: answer_ok_def errors_at_def conforms_null split: if_splits)
qed

lemma ec_object_eval:
  "ec_object E p ob [] = (Ok (JObject []), [])"
  "ec_object E p ob (s # sels) =
     exec_cases (map (\<lambda>s. (s, ec_case E p (\<lambda>q child. ec_object E q child (sel_Selections s)) ob s)) (s # sels))"
  unfolding ec_object.simps [of E p ob] exec_object_def
  by (simp_all add: exec_cases_def answer_errors_def)

text \<open>The addresses of a wallet's smart accounts, as a query asks for them.\<close>

lemma smart_accounts_answer:
  assumes "field_Query_getSmartAccount_args (ec_gql E) [PathName name] args = Inr wallet"
    and "resolved E [PathName name] (queryResolver_GetSmartAccount (ec_resolvers E) wallet) = Ok ws"
  shows "graphql_Exec E Query [Selection name ''getSmartAccount'' args [Selection key ''address'' as []]] =
    (Ok (JObject [(name, JArray (map (\<lambda>w. JObject [(key, JText (Address_String (wal_Address w)))]) ws))]), [])"
proof -
  have wal: "ec_object E q (OWallet w) [Selection key ''address'' as []] =
      (Ok (JObject [(key, JText (Address_String (wal_Address w)))]), [])" for q w
    by (simp add: ec_object_eval exec_cases_def ec_Wallet_def ec_Wallet_address_def Let_def
        walletResolver_Address_def exec_field_def marshalNString_def answer_errors_def ok_json_def)
  have "marshalN_array (ec_gql E) (\<lambda>q v. ec_object E q (OWallet v) [Selection key ''address'' as []]) [PathName name] ws =
      (Ok (JArray (map (\<lambda>w. JObject [(key, JText (Address_String (wal_Address w)))]) ws)), [])"
    by (rule marshalN_array_all) (simp_all add: wal)
  moreover have "graphql_Exec E Query [s] =
      exec_cases [(s, ec_Query E [] (\<lambda>q child. ec_object E q child (sel_Selections s)) s)]" for s
    by (simp add: graphql_Exec_def ec_object_eval(2))
  ultimately show ?thesis
    using assms by (simp add: exec_cases_def ec_Query_def ec_Query_getSmartAccount_def
        Let_def exec_args_def exec_field_def answer_errors_def ok_json_def)
qed

definition demo_gqlgen :: gqlgen where
  "demo_gqlgen = \<lparr>gql_Recover = (\<lambda>m. Errorf ''internal system error''),
     gql_UnmarshalString = (\<lambda>v. case v of VText t \<Rightarrow> Inr t | _ \<Rightarrow> Inl (Errorf ''not a string'')),
     gql_UnmarshalInt = (\<lambda>v. case v of VInt i \<Rightarrow> Inr i | _ \<Rightarrow> Inl (Errorf ''not an int'')),
     gql_Introspect = (\<lambda>p s. (Ok JNull, []))\<rparr>"

definition demo_ec :: "Position list \<Rightarrow> store ec" where
  "demo_ec ps = \<lparr>ec_gql = demo_gqlgen, ec_resolvers = demo_graph store_gorm,
     ec_at = (\<lambda>p. demo_state ps)\<rparr>"

definition leaf :: "string \<Rightarrow> selection" where
  "leaf name = Selection name name [] []"

definition demo_query :: "selection list" where
  "demo_query =
    [leaf ''__typename'',
     Selection ''usd'' ''fusdc'' [] [leaf ''address'', leaf ''decimals''],
     Selection ''none'' ''getPool'' [(''token'', VText ''0xa'')] [leaf ''id''],
     Selection ''open'' ''getPool'' [(''token'', VInt 1)] [leaf ''id'']]"

theorem graph_answer_typed_witness:
  "valid_selections graph_schema ''Query'' demo_query \<and>
   r_PoolsConfig (ec_resolvers (demo_ec [])) = Map.empty \<and>
   conforms graph_schema (TObject ''Query'') demo_query (JObject
     [(''__typename'', JText ''Query''),
      (''usd'', JObject [(''address'', JText ''0xf''), (''decimals'', JInt 6)]),
      (''none'', JNull),
      (''open'', JNull)]) \<and>
   asked demo_query [PathName ''open'', PathName ''token'']"
proof -
  have valid: "valid_selections graph_schema ''Query'' demo_query" by code_simp
  have none: "r_PoolsConfig (ec_resolvers (demo_ec [])) = Map.empty"
    by (simp add: demo_ec_def demo_graph_def)
  then have conf: "r_PoolsConfig (ec_resolvers (demo_ec [])) a = Some c \<Longrightarrow> classification_ok c" for a c
    by simp
  have "Address_String ''0xf'' = ''0xf''" by code_simp
  then have "graphql_Exec (demo_ec []) Query demo_query =
      (Ok (JObject
        [(''__typename'', JText ''Query''),
         (''usd'', JObject [(''address'', JText ''0xf''), (''decimals'', JInt 6)]),
         (''none'', JNull),
         (''open'', JNull)]),
       [([PathName ''open'', PathName ''token''], Errorf ''not a string'')])"
    by (simp add: graphql_Exec_def demo_query_def leaf_def demo_ec_def demo_gqlgen_def ec_object_eval
        exec_cases_def answer_errors_def ok_json_def ec_Query_def ec_Token_def field_defs exec_field_def
        field_Query_getPool_args_def unmarshal_defs exec_args_def marshalNString_def
        marshalNInt_def Let_def resolved_def queryResolver_GetPool_def queryResolver_Fusdc_def demo_C_def
        tokenResolver_Address_def nil_deref_def andDo_pure andDo_ask
        andDo_def handle_def pure_def marshalO_object_def ask_def store_gorm_def)
  moreover note graph_answer_typed [of "demo_ec []", OF conf valid]
  ultimately show ?thesis using valid none by auto
qed

section \<open>The positions of a wallet\<close>

definition wallet_rows :: "string \<Rightarrow> int option \<Rightarrow> Position list \<Rightarrow> Position list" where
  "wallet_rows wallet after rows = filter (\<lambda>p. pos_Owner p = AddressFromString wallet \<and>
     (case after of None \<Rightarrow> True | Some i \<Rightarrow> pos_Id p < i)) rows"

lemma GetPositions_rows:
  assumes "positions_lawful (r_DB r) rows" "\<not> mocking r"
  obtains qs page where "mset qs = mset (wallet_rows wallet after (rows (w_db w)))" "newest_first qs"
    "queryResolver_GetPositions r wallet first after w = (Ok page, w)"
    "sp_Positions page = limited (Some (page_size PoolPositionsPageSize first)) qs"
proof -
  let ?n = "page_size PoolPositionsPageSize first"
  let ?st = "GetPositions_stmt (AddressFromString wallet) ?n after"
  have ok: "list_all cond_ok (st_where ?st)"
    by (simp add: page_stmt_defs arg_Address_def Address_Value_def Let_def split: option.split)
  obtain ps where ps: "Scan_Positions (r_DB r) ?st (w_db w) = Ok (scanned ps)" "is_page ?st (rows (w_db w)) ps"
    by (rule positions_lawful_page [OF assms(1) page_stmts(3) ok])
  have "selected ?st (rows (w_db w)) = wallet_rows wallet after (rows (w_db w))"
    by (auto simp: selected_def wallet_rows_def page_stmt_defs arg_Address_def Address_Value_def Let_def
        split: option.split intro!: filter_cong)
  then obtain qs where qs: "mset qs = mset (wallet_rows wallet after (rows (w_db w)))" "newest_first qs"
      "ps = limited (Some ?n) qs"
    using ps(2) unfolding is_page_def page_stmts(4) by metis
  have "\<exists>page. queryResolver_GetPositions r wallet first after w = (Ok page, w) \<and> sp_Positions page = ps"
    using assms(2) by (cases ps) (simp_all add: queryResolver_GetPositions_def Let_def andDo_ask ps(1)
        idx_def andDo_pure pure_def zero_positions_def scanned_def)
  with qs show thesis using that by blast
qed

lemma Position_ids:
  "ec_object E q (OSeawaterPosition v) [Selection k ''positionId'' as []] = (Ok (JObject [(k, JInt (pos_Id v))]), [])"
  by (simp add: ec_object_eval exec_cases_def ec_SeawaterPosition_def ec_SeawaterPosition_positionId_def Let_def
      seawaterPositionResolver_PositionID_def exec_field_def marshalNInt_def answer_errors_def ok_json_def)

text \<open>C18. A query for the positions of a wallet is answered in full: data and no error, with the
  identifiers of the wallet's active positions, newest first and at most a page of them, below the
  cursor if one is given.  A wallet without positions gets an empty list.\<close>

theorem wallet_positions_answered:
  assumes law: "positions_lawful (r_DB (ec_resolvers E)) rows" and live: "\<not> mocking (ec_resolvers E)"
    and args: "field_Query_getPositions_args (ec_gql E) [PathName name] args = Inr (wallet, first, after)"
  shows "\<exists>qs. mset qs = mset (wallet_rows wallet after (rows (w_db (ec_at E [PathName name])))) \<and>
    newest_first qs \<and>
    graphql_Exec E Query [Selection name ''getPositions'' args
      [Selection key ''positions'' [] [Selection k ''positionId'' [] []]]] =
    (Ok (JObject [(name, JObject [(key, JArray (map (\<lambda>p. JObject [(k, JInt (pos_Id p))])
       (limited (Some (page_size PoolPositionsPageSize first)) qs)))])]), [])"
proof -
  let ?ids = "[Selection k ''positionId'' [] []]" and ?p = "[PathName name]"
  obtain qs page where qs: "mset qs = mset (wallet_rows wallet after (rows (w_db (ec_at E ?p))))" "newest_first qs"
    and page: "queryResolver_GetPositions (ec_resolvers E) wallet first after (ec_at E ?p) = (Ok page, ec_at E ?p)"
      "sp_Positions page = limited (Some (page_size PoolPositionsPageSize first)) qs"
    by (rule GetPositions_rows [OF law live])
  have "marshalN_array (ec_gql E) (\<lambda>q v. ec_object E q (OSeawaterPosition v) ?ids) q ps =
      (Ok (JArray (map (\<lambda>p. JObject [(k, JInt (pos_Id p))]) ps)), [])" for q ps
    by (rule marshalN_array_all) (simp_all add: Position_ids)
  then have "ec_object E q (OSeawaterPositionsUser v) [Selection key ''positions'' [] ?ids] =
      (Ok (JObject [(key, JArray (map (\<lambda>p. JObject [(k, JInt (pos_Id p))]) (sp_Positions v)))]), [])" for q v
    by (simp add: ec_object_eval(2) [of E _ "OSeawaterPositionsUser _"] exec_cases_def ec_SeawaterPositionsUser_def
        ec_SeawaterPositionsUser_positions_def Let_def exec_field_def answer_errors_def ok_json_def)
  then have "graphql_Exec E Query [Selection name ''getPositions'' args [Selection key ''positions'' [] ?ids]] =
      (Ok (JObject [(name, JObject [(key, JArray (map (\<lambda>p. JObject [(k, JInt (pos_Id p))]) (sp_Positions page)))])]), [])"
    using args page(1)
    by (simp add: graphql_Exec_def ec_object_eval(2) [of E _ OQuery] exec_cases_def ec_Query_def
        ec_Query_getPositions_def resolved_def Let_def exec_args_def exec_field_def answer_errors_def ok_json_def)
  with qs page(2) show ?thesis by auto
qed

theorem wallet_positions_answered_witness:
  "graphql_Exec (demo_ec [demo_position 1 0]) Query
     [Selection ''mine'' ''getPositions'' [(''wallet'', VText ''0xB'')]
       [Selection ''positions'' ''positions'' [] [Selection ''i'' ''positionId'' [] []]]] =
     (Ok (JObject [(''mine'', JObject [(''positions'', JArray [JObject [(''i'', JInt 1)]])])]), []) \<and>
   graphql_Exec (demo_ec [demo_position 1 0]) Query
     [Selection ''mine'' ''getPositions'' [(''wallet'', VText ''0xC'')]
       [Selection ''positions'' ''positions'' [] [Selection ''i'' ''positionId'' [] []]]] =
     (Ok (JObject [(''mine'', JObject [(''positions'', JArray [])])]), [])"
proof -
  let ?E = "demo_ec [demo_position 1 0]" and ?p = "[PathName ''mine'']"
  have live: "positions_lawful (r_DB (ec_resolvers ?E)) store_positions" "\<not> mocking (ec_resolvers ?E)"
    by (simp_all add: demo_ec_def store_positions_lawful)
  have args: "field_Query_getPositions_args (ec_gql ?E) ?p [(''wallet'', VText t)] = Inr (t, None, None)" for t
    by (simp add: demo_ec_def demo_gqlgen_def field_Query_getPositions_args_def unmarshal_defs)
  have "AddressFromString ''0xB'' = ''0xb''" "AddressFromString ''0xC'' = ''0xc''" by code_simp+
  then have "wallet_rows ''0xB'' None (store_positions (w_db (ec_at ?E ?p))) = [demo_position 1 0]"
    "wallet_rows ''0xC'' None (store_positions (w_db (ec_at ?E ?p))) = []"
    by (simp_all add: wallet_rows_def demo_ec_def demo_world_def demo_store_def demo_position_def)
  moreover have "page_size PoolPositionsPageSize None = 50"
    by (simp add: page_size_def PoolPositionsPageSize_def)
  moreover have "pos_Id (demo_position 1 0) = 1" by (simp add: demo_position_def)
  ultimately show ?thesis
    using wallet_positions_answered [OF live args, of "''0xB''" "''positions''" "''i''"]
      wallet_positions_answered [OF live args, of "''0xC''" "''positions''" "''i''"]
    by auto
qed

section \<open>Unimplemented fields\<close>

lemma ec_case_known:
  assumes "valid_selections graph_schema (obj_type ob) sels" "s \<in> set sels"
  shows "ec_case E p k ob s \<noteq> None"
proof (cases "sel_Name s = ''__typename''")
  case False
  with assms obtain t where "graph_schema (obj_type ob) (sel_Name s) = Some t"
    by (subst (asm) valid_selections.simps) (fastforce split: option.splits)
  then show ?thesis
    by (cases ob) (simp_all only: obj_type.simps graph_schema_eqs ec_case.simps schema_defs,
      (elim map_of_pairs map_of_Nil_Some; simp add: switch_defs Let_def)+)
qed (simp add: ec_case_typename)

text \<open>An object whose required field is null.\<close>

lemma ec_object_null:
  assumes "valid_selections graph_schema (obj_type ob) sels" "s \<in> set sels"
    and "ec_case E p (\<lambda>q child. ec_object E q child (sel_Selections s)) ob s = Some c"
    and "fc_required c" "no_data (fc_answer c)"
  shows "no_data (ec_object E p ob sels) \<and>
    set (snd (fc_answer c)) \<subseteq> set (snd (ec_object E p ob sels))"
  unfolding ec_object.simps [of E p ob sels]
  by (rule exec_object_null [where run = "\<lambda>s. ec_case E p (\<lambda>q child. ec_object E q child (sel_Selections s)) ob s",
        OF _ assms(2,3,4,5)]) (rule ec_case_known [OF assms(1)])

text \<open>C29. A field that is not implemented costs the client its whole answer: a valid query that asks for
  the image of fUSDC, among whatever else, gets no data, since neither the image nor the token may
  be null, and the recovered panic is reported at the path of the image.\<close>

theorem unimplemented_field_null:
  assumes valid: "valid_selections graph_schema ''Query'' sels"
    and s: "s \<in> set sels" "sel_Name s = ''fusdc''"
    and i: "i \<in> set (sel_Selections s)" "sel_Name i = ''image''"
  shows "(fst (graphql_Exec E Query sels) = Ok JNull \<or> (\<exists>e. fst (graphql_Exec E Query sels) = Exit e)) \<and>
    ([PathName (sel_Alias s), PathName (sel_Alias i)], gql_Recover (ec_gql E) ''not implemented: Image - image'')
      \<in> set (snd (graphql_Exec E Query sels))"
proof -
  let ?k = "\<lambda>s q child. ec_object E q child (sel_Selections s)" and ?p = "[PathName (sel_Alias s)]"
  let ?err = "([PathName (sel_Alias s), PathName (sel_Alias i)],
    gql_Recover (ec_gql E) ''not implemented: Image - image'')"
  obtain t where t: "queryResolver_Fusdc (ec_resolvers E) = Ok t" by (simp add: queryResolver_Fusdc_def)
  have below: "valid_selections graph_schema (obj_type (OToken t)) (sel_Selections s)"
    using valid s by (subst (asm) valid_selections.simps)
      (auto simp: graph_schema_eqs schema_Query_def split: if_splits)
  have "ec_case E ?p (?k i) (OToken t) i = Some (Concurrently True (Ok JNull, [?err]))"
    using i(2) by (simp add: ec_Token_def ec_Token_image_def tokenResolver_Image_def exec_field_def Let_def)
  from ec_object_null [OF below i(1) this]
  have lost: "no_data (ec_object E ?p (OToken t) (sel_Selections s))"
    and err: "?err \<in> set (snd (ec_object E ?p (OToken t) (sel_Selections s)))" by simp_all
  let ?a = "ec_object E ?p (OToken t) (sel_Selections s)"
  have "exec_field (ec_gql E) ?p (Ok t) (\<lambda>v. ?k s ?p (OToken v)) = ?a"
    using lost by (cases ?a; cases "fst ?a") (auto simp: exec_field_def)
  then have "ec_case E [] (?k s) OQuery s = Some (Concurrently True ?a)"
    using s(2) by (simp add: ec_Query_def ec_Query_fusdc_def t Let_def)
  from ec_object_null [OF _ s(1) this] lost err valid show ?thesis
    by (auto simp: graphql_Exec_def)
qed

theorem unimplemented_field_null_witness:
  "let s = Selection ''token'' ''fusdc'' [] [leaf ''name'', leaf ''image'']; sels = demo_query @ [s];
       a = graphql_Exec (demo_ec []) Query sels
   in valid_selections graph_schema ''Query'' sels \<and> (fst a = Ok JNull \<or> (\<exists>e. fst a = Exit e)) \<and>
      ([PathName ''token'', PathName ''image''], Errorf ''internal system error'') \<in> set (snd a)"
proof -
  let ?s = "Selection ''token'' ''fusdc'' [] [leaf ''name'', leaf ''image'']"
  have valid: "valid_selections graph_schema ''Query'' (demo_query @ [?s])" by code_simp
  from unimplemented_field_null [OF this, of ?s "leaf ''image''" "demo_ec []"] valid show ?thesis
    by (simp add: Let_def leaf_def demo_ec_def demo_gqlgen_def)
qed

end
