(* ===== verification/SelectorMine.thy ===== *)
theory SelectorMine
  imports GoText
begin

text \<open>
  src/tools/ethereum-selector-mine.go: the tool that searches for a spelling of a function whose
  selector starts with two zero bytes and a wanted third one.  Each processor runs a goroutine that
  draws four random bytes, writes them into the signature and hashes it; the first match offered on
  the unbuffered channel is printed (\<open>mine_main\<close>).  Keccak-256 is the parameter \<open>keccak\<close>; the draws of the random
  generators, which never fail, are left open.
\<close>

section \<open>Text and slices\<close>

definition upper_char :: "char \<Rightarrow> char" where
  "upper_char c =
     (let n = (of_char c :: nat) in if 97 \<le> n \<and> n \<le> 122 then char_of (n - 32) else c)"

definition ToUpper :: "string \<Rightarrow> string" where
  "ToUpper s = map upper_char s"

text \<open>\<open>strings.Index\<close> of a single character: -1 when there is none.\<close>

fun Index :: "char \<Rightarrow> string \<Rightarrow> int" where
  "Index c [] = - 1"
| "Index c (x # xs) = (if x = c then 0 else let i = Index c xs in if i < 0 then - 1 else i + 1)"

definition slice_to :: "'a list \<Rightarrow> int \<Rightarrow> 'a list res" where
  "slice_to xs i =
     (if 0 \<le> i \<and> i \<le> int (length xs) then Ok (take (nat i) xs) else Panic ''slice bounds out of range'')"

definition slice_from :: "'a list \<Rightarrow> int \<Rightarrow> 'a list res" where
  "slice_from xs i =
     (if 0 \<le> i \<and> i \<le> int (length xs) then Ok (drop (nat i) xs) else Panic ''slice bounds out of range'')"

section \<open>The tool\<close>

text \<open>The arguments: nothing to do for an empty signature; the wanted byte is cut to eight bits.\<close>

definition mine_args :: "string list \<Rightarrow> (string \<times> byte) option res" where
  "mine_args args =
     andThen (idx args 1) (\<lambda>sig.
     if sig = [] then Ok None
     else andThen (idx args 2) (\<lambda>a.
       case Atoi a of
         None \<Rightarrow> Panic (''strconv.Atoi: parsing '' @ [CHR 0x22] @ a @ [CHR 0x22] @
           (if SetString 10 a = None then '': invalid syntax'' else '': value out of range''))
       | Some desired' \<Rightarrow> Ok (Some (sig, word_of_int desired'))))"

text \<open>The spelling tried for the drawn bytes \<open>b\<close>, and whether its hash is wanted.\<close>

definition mine_spelling :: "string \<Rightarrow> byte list \<Rightarrow> string res" where
  "mine_spelling sig b =
     (let p = Index (CHR ''('') sig; s = ToUpper (EncodeToString b) in
      andThen (slice_to sig p) (\<lambda>pre. andThen (slice_from sig p) (\<lambda>post. Ok (pre @ s @ post))))"

definition mine_try :: "(string \<Rightarrow> byte list) \<Rightarrow> string \<Rightarrow> byte \<Rightarrow> byte list \<Rightarrow> string option res" where
  "mine_try keccak sig desired b =
     andThen (mine_spelling sig b) (\<lambda>f.
     let k = keccak f in
     andThen (slice_to k 2) (\<lambda>k2.
     if k2 = [0, 0] then andThen (idx k 2) (\<lambda>x. Ok (if x = desired then Some f else None))
     else Ok None))"

text \<open>A goroutine searches or waits to hand over what it found; the process runs until it prints or
  panics, or ends at once without printing.\<close>

datatype miner = Searching | Offering string

datatype mine_out = Running | Printed string | Crashed string | Silent

inductive mine_step ::
    "(string \<Rightarrow> byte list) \<Rightarrow> string \<Rightarrow> byte \<Rightarrow> miner list \<times> mine_out \<Rightarrow> miner list \<times> mine_out \<Rightarrow> bool"
  for keccak sig desired where
  draw: "i < length ws \<Longrightarrow> ws ! i = Searching \<Longrightarrow> length b = 4 \<Longrightarrow>
    mine_try keccak sig desired b = Ok found \<Longrightarrow>
    mine_step keccak sig desired (ws, Running)
      (ws[i := (case found of None \<Rightarrow> Searching | Some f \<Rightarrow> Offering f)], Running)"
| crash: "i < length ws \<Longrightarrow> ws ! i = Searching \<Longrightarrow> length b = 4 \<Longrightarrow>
    mine_try keccak sig desired b = Panic m \<Longrightarrow>
    mine_step keccak sig desired (ws, Running) (ws, Crashed m)"
| receive: "i < length ws \<Longrightarrow> ws ! i = Offering f \<Longrightarrow>
    mine_step keccak sig desired (ws, Running) (ws[i := Searching], Printed f)"

definition mine_init :: "nat \<Rightarrow> miner list \<times> mine_out \<Rightarrow> bool" where
  "mine_init cpus s \<longleftrightarrow> s = (replicate cpus Searching, Running)"

text \<open>The process from its arguments on.\<close>

inductive mine_main ::
    "(string \<Rightarrow> byte list) \<Rightarrow> nat \<Rightarrow> string list \<Rightarrow> miner list \<times> mine_out \<Rightarrow> bool"
  for keccak cpus args where
  bad_args: "mine_args args = Panic m \<Longrightarrow> mine_main keccak cpus args ([], Crashed m)"
| no_signature: "mine_args args = Ok None \<Longrightarrow> mine_main keccak cpus args ([], Silent)"
| search: "mine_args args = Ok (Some (sig, desired)) \<Longrightarrow>
    reach (mine_init cpus) (mine_step keccak sig desired) s \<Longrightarrow> mine_main keccak cpus args s"

inductive_simps mine_step_simps: "mine_step keccak sig desired (ws, Running) t"
inductive_cases mine_stepE: "mine_step keccak sig desired s t"

section \<open>What is printed\<close>

text \<open>The arguments that make \<open>main\<close> panic: a missing one, or a second one that is no integer.\<close>

definition unusable :: "string list \<Rightarrow> bool" where
  "unusable args \<longleftrightarrow> length args < 2 \<or> args ! 1 \<noteq> [] \<and> (length args < 3 \<or> Atoi (args ! 2) = None)"

lemma mine_args_cases:
  "\<not> unusable args \<Longrightarrow> mine_args args =
     (if args ! 1 = [] then Ok None else Ok (Some (args ! 1, word_of_int (the (Atoi (args ! 2))))))"
  "unusable args \<longleftrightarrow> (\<exists>m. mine_args args = Panic m)"
  by (auto simp: mine_args_def unusable_def idx_def not_less split: option.split)

lemma Index_first:
  "Index c (pre @ c # post) = int (length pre)" if "c \<notin> set pre" for pre
  using that by (induction pre) (auto simp: Let_def)

lemma Index_none: "c \<notin> set s \<Longrightarrow> Index c s = - 1"
  by (induction s) (auto simp: Let_def)

lemma mine_spelling_first:
  assumes "CHR ''('' \<notin> set pre"
  shows "mine_spelling (pre @ CHR ''('' # post) b =
    Ok (pre @ ToUpper (EncodeToString b) @ CHR ''('' # post)"
  using assms by (simp add: mine_spelling_def Index_first slice_to_def slice_from_def Let_def)

lemma mine_spelling_none:
  "CHR ''('' \<notin> set sig \<Longrightarrow> mine_spelling sig b = Panic ''slice bounds out of range''"
  by (simp add: mine_spelling_def Index_none slice_to_def)

text \<open>The result that is wanted.\<close>

definition mined :: "(string \<Rightarrow> byte list) \<Rightarrow> string \<Rightarrow> byte \<Rightarrow> string \<Rightarrow> bool" where
  "mined keccak sig desired f \<longleftrightarrow>
     (\<exists>pre post b. sig = pre @ CHR ''('' # post \<and> CHR ''('' \<notin> set pre \<and> length b = 4 \<and>
        f = pre @ ToUpper (EncodeToString b) @ CHR ''('' # post \<and>
        take 3 (keccak f) = [0, 0, desired])"

lemma take_3_eq:
  "length k = 32 \<Longrightarrow> take 3 k = [x, y, z] \<longleftrightarrow> take 2 k = [x, y] \<and> k ! 2 = z"
  by (cases k; cases "tl k"; cases "tl (tl k)") (auto simp: numeral_3_eq_3 numeral_2_eq_2)

lemma mine_try_first:
  assumes "\<forall>f. length (keccak f) = 32" "CHR ''('' \<notin> set pre"
    and f: "f = pre @ ToUpper (EncodeToString b) @ CHR ''('' # post"
  shows "mine_try keccak (pre @ CHR ''('' # post) desired b =
    Ok (if take 3 (keccak f) = [0, 0, desired] then Some f else None)"
proof -
  have k: "length (keccak f) = 32" using assms(1) by blast
  show ?thesis
    unfolding mine_try_def mine_spelling_first [OF assms(2)] f [symmetric] andThen.simps Let_def
      slice_to_def k take_3_eq [OF k]
    by (simp add: k)
qed

lemma mine_try_found:
  assumes "\<forall>f. length (keccak f) = 32" "length b = 4" "mine_try keccak sig desired b = Ok (Some f)"
  shows "mined keccak sig desired f"
proof (cases "CHR ''('' \<in> set sig")
  case True
  then obtain pre post where sig: "sig = pre @ CHR ''('' # post" "CHR ''('' \<notin> set pre"
    by (meson split_list_first)
  with mine_try_first [OF assms(1) sig(2) refl] assms(2,3) show ?thesis
    unfolding mined_def by (auto split: if_splits)
next
  case False
  then show ?thesis using assms(3) by (simp add: mine_try_def mine_spelling_none)
qed

lemma mine_try_no_panic:
  assumes "\<forall>f. length (keccak f) = 32" "mine_try keccak sig desired b = Panic m"
  shows "CHR ''('' \<notin> set sig"
proof
  assume "CHR ''('' \<in> set sig"
  then obtain pre post where "sig = pre @ CHR ''('' # post" "CHR ''('' \<notin> set pre"
    by (meson split_list_first)
  with mine_try_first [OF assms(1) this(2) refl] assms(2) show False by simp
qed

definition mine_inv ::
    "(string \<Rightarrow> byte list) \<Rightarrow> string \<Rightarrow> byte \<Rightarrow> nat \<Rightarrow> miner list \<times> mine_out \<Rightarrow> bool" where
  "mine_inv keccak sig desired cpus s \<longleftrightarrow>
     (\<forall>f. length (keccak f) = 32) \<longrightarrow>
     length (fst s) = cpus \<and> (\<forall>f. Offering f \<in> set (fst s) \<longrightarrow> mined keccak sig desired f) \<and>
     (case snd s of
        Running \<Rightarrow> True
      | Printed f \<Rightarrow> mined keccak sig desired f
      | Crashed m \<Rightarrow> CHR ''('' \<notin> set sig
      | Silent \<Rightarrow> False)"

interpretation miner: invariant_system "mine_init cpus" "mine_step keccak sig desired"
    "mine_inv keccak sig desired cpus"
  for cpus keccak sig desired
proof
  fix s assume "mine_init cpus s"
  then show "mine_inv keccak sig desired cpus s" by (auto simp: mine_init_def mine_inv_def)
next
  fix s t assume inv: "mine_inv keccak sig desired cpus s" and "mine_step keccak sig desired s t"
  from this(2) show "mine_inv keccak sig desired cpus t"
  proof (cases rule: mine_step.cases)
    case (draw i ws b found)
    then show ?thesis
      using inv mine_try_found [of keccak b sig desired]
      by (auto simp: mine_inv_def dest!: set_mp [OF set_update_subset_insert] split: option.splits)
  next
    case (crash i ws b m)
    then show ?thesis using inv mine_try_no_panic [of keccak sig desired b m] by (auto simp: mine_inv_def)
  next
    case (receive i ws f)
    then have "Offering f \<in> set ws" by (metis nth_mem)
    then show ?thesis
      using receive inv by (auto simp: mine_inv_def dest!: set_mp [OF set_update_subset_insert])
  qed
qed

lemma mine_can_print:
  assumes "ws \<noteq> []" "length b = 4" "mine_try keccak sig desired b = Ok (Some f)"
  shows "\<exists>ws' f'. (mine_step keccak sig desired)\<^sup>*\<^sup>* (ws, Running) (ws', Printed f')"
proof (cases "ws ! 0")
  case Searching
  with assms have "mine_step keccak sig desired (ws, Running) (ws[0 := Offering f], Running)"
    using mine_step.draw [of 0 ws b keccak sig desired "Some f"] by simp
  moreover have "mine_step keccak sig desired (ws[0 := Offering f], Running)
      ((ws[0 := Offering f])[0 := Searching], Printed f)"
    using assms(1) by (intro mine_step.receive) simp_all
  ultimately show ?thesis by (meson converse_rtranclp_into_rtranclp rtranclp.rtrancl_refl)
next
  case (Offering g)
  with assms(1) show ?thesis using mine_step.receive [of 0 ws g keccak sig desired] by blast
qed

text \<open>C25. The tool only prints what it was asked for, from its arguments to its output: in every
  reachable state a printed text is the signature with eight upper-case hexadecimal digits written
  before its first parenthesis, and its hash starts with two zero bytes and the wanted one, the
  second argument cut to eight bits; it ends without printing only for an empty signature; it crashes
  only when an argument is missing, when the second is no integer or when the signature has no
  parenthesis; and while it runs, whenever some four bytes give a match, it can still go on to print
  one.  (The comment at the head of the tool describes other spellings and another byte.)\<close>

theorem selector_mine_sound:
  assumes "mine_main keccak cpus args (ws, out)" and "\<forall>f. length (keccak f) = 32"
  shows "let sig = args ! 1; desired = word_of_int (the (Atoi (args ! 2))) :: byte in
    (case out of
       Printed f \<Rightarrow> \<not> unusable args \<and>
         (\<exists>pre post b. sig = pre @ CHR ''('' # post \<and> CHR ''('' \<notin> set pre \<and>
           length b = 4 \<and> f = pre @ ToUpper (EncodeToString b) @ CHR ''('' # post \<and>
           take 3 (keccak f) = [0, 0, desired])
     | Silent \<Rightarrow> \<not> unusable args \<and> sig = []
     | Crashed m \<Rightarrow> unusable args \<or> CHR ''('' \<notin> set sig
     | Running \<Rightarrow> \<not> unusable args \<and>
         (0 < cpus \<and> (\<exists>b f. length b = 4 \<and> mine_try keccak sig desired b = Ok (Some f)) \<longrightarrow>
          (\<exists>ws' f. (mine_step keccak sig desired)\<^sup>*\<^sup>* (ws, Running) (ws', Printed f))))"
  using assms(1)
proof (cases rule: mine_main.cases)
  case (bad_args m)
  then show ?thesis using mine_args_cases(2) [of args] by (simp add: Let_def)
next
  case no_signature
  then have "\<not> unusable args" using mine_args_cases(2) [of args] by simp
  with no_signature show ?thesis using mine_args_cases(1) [of args] by (simp add: Let_def split: if_splits)
next
  case (search sig desired)
  then have usable: "\<not> unusable args" using mine_args_cases(2) [of args] by simp
  with search(1) have sig: "args ! 1 = sig" "word_of_int (the (Atoi (args ! 2))) = desired"
    using mine_args_cases(1) [of args] by (simp_all split: if_splits)
  have inv: "mine_inv keccak sig desired cpus (ws, out)" by (rule miner.reach_inv [OF search(2)])
  show ?thesis
  proof (cases out)
    case Running
    have "length ws = cpus" using inv assms(2) by (simp add: mine_inv_def)
    then show ?thesis using mine_can_print [of ws] usable by (fastforce simp: Running sig Let_def simp del: One_nat_def)
  qed (use inv assms(2) usable in \<open>simp_all add: mine_inv_def mined_def sig Let_def del: One_nat_def\<close>)
qed

text \<open>A hash under which the bytes 0, 0, 0, 255 match, to see the tool at work.\<close>

definition demo_keccak :: "string \<Rightarrow> byte list" where
  "demo_keccak f = (if f = ''swap000000FF(int)'' then [0, 0, 7] else [1, 1, 1]) @ replicate 29 0"

theorem selector_mine_sound_witness:
  "mine_main demo_keccak 1 [''mine'', ''swap(int)'', ''7''] ([Searching], Printed ''swap000000FF(int)'') \<and>
   take 3 (demo_keccak ''swap000000FF(int)'') = [0, 0, 7]"
proof -
  let ?step = "mine_step demo_keccak ''swap(int)'' 7"
  have "mine_try demo_keccak ''swap(int)'' 7 [0, 0, 0, 255] = Ok (Some ''swap000000FF(int)'')"
    by code_simp
  then have "?step ([Searching], Running) ([Offering ''swap000000FF(int)''], Running)"
    using mine_step.draw [of 0 "[Searching]" "[0, 0, 0, 255]" demo_keccak "''swap(int)''" 7
        "Some ''swap000000FF(int)''"] by simp
  moreover have "?step ([Offering ''swap000000FF(int)''], Running) ([Searching], Printed ''swap000000FF(int)'')"
    using mine_step.receive [of 0 "[Offering ''swap000000FF(int)'']" "''swap000000FF(int)''"] by simp
  moreover have "mine_init 1 ([Searching], Running)" by (simp add: mine_init_def)
  ultimately have r: "reach (mine_init 1) ?step ([Searching], Printed ''swap000000FF(int)'')"
    by (blast intro: reach.intros)
  have args: "mine_args [''mine'', ''swap(int)'', ''7''] = Ok (Some (''swap(int)'', 7))" by code_simp
  have seven: "the (Atoi ''7'') = 7" by code_simp
  note main = mine_main.search [OF args r]
  have "\<forall>f. length (demo_keccak f) = 32" by (simp add: demo_keccak_def)
  from selector_mine_sound [OF main this] main seven show ?thesis by (auto simp: Let_def)
qed

end
