(* ===== verification/Spec2Isabelle.thy ===== *)
theory Spec2Isabelle
  imports CatchUp SnapshotServed FaucetExec GraphAnswer SelectorMine
begin

text \<open>
  \<^bold>\<open>The program.\<close>  Longtail is an exchange on the Superposition chain.  Its contracts (pkg/) emit
  events; the Go services under src/cmd follow them through a shared database and answer the web
  application.  This development models those services and the libraries under src/lib they are
  built from:

  \<^item> the \<^emph>\<open>ingestor\<close> (src/cmd/ingestor.logs.ethereum) polls a node for logs, decodes them with
    src/lib/events and writes one row per log and a checkpoint, in one transaction per poll;
  \<^item> the \<^emph>\<open>snapshot\<close> (src/cmd/snapshot.ethereum) reads pools and positions, asks the node for the
    liquidity of every position in concurrent batches, turns liquidity into amounts with src/lib/math
    and stores them with one SQL call;
  \<^item> the \<^emph>\<open>graph\<close> (src/cmd/graphql.ethereum) answers GraphQL queries from the rows of the other two,
    from the node (token details) and, when a feature is on, from made-up data;
  \<^item> the \<^emph>\<open>faucet\<close> (src/cmd/faucet.superposition) admits requests for test tokens, records them in a
    table, and has a library function that sends to a list of recipients in one transaction.

  Beside them stands a tool, src/tools/ethereum-selector-mine.go, that searches for function names.

  The services only meet in the database.  Two compositions are proved: from the chain through the
  ingestor to the reply that lists the smart accounts of a wallet (this theory), and from the node's
  answers through the snapshot to the liquidity of a position in the graph (\<open>SnapshotServed\<close>).

  \<^bold>\<open>How code is modelled.\<close>  \<open>Prelude\<close>: a Go call hands back a value \<open>Ok\<close>, an error \<open>Err\<close>, a panic, or
  the end of the process (\<open>setup.Exitf\<close>, \<open>log.Fatal\<close>); \<open>andThen\<close>, \<open>foldRes\<close> and \<open>mapRes\<close> are sequencing
  and loops with early return; \<open>idx\<close> is slice indexing with its bounds check; \<open>reach\<close> and the locale
  \<open>invariant_system\<close> give invariants of transition systems.  \<open>GoText\<close> and \<open>GoBig\<close> model what the source
  uses of \<open>strings\<close>, \<open>strconv\<close>, \<open>encoding/hex\<close> and \<open>math/big\<close> (a \<open>big.Float\<close> has a precision and is
  rounded after every operation).  Block numbers and loop counters that can wrap are 64-bit words,
  identifiers are \<open>int\<close> with their \<open>int64\<close> check written out, times are nanoseconds, a nil pointer is
  \<open>None\<close>.

  \<^bold>\<open>Theories and what they correspond to.\<close>

  \<^item> \<open>Types\<close> - src/lib/types (numbers, hashes, addresses, data, SQL conversions; seawater and erc20
    rows).  Shown: numbers survive the database, hexadecimal round trips, the accuracy of scaled
    display; and that an \<open>UnscaledNumber\<close> without a value cannot be read back.
  \<^item> \<open>ConcLiq\<close>, \<open>TickBounds\<close>, \<open>TickAccuracy\<close>, \<open>Amounts\<close> - src/lib/math/concentrated-liq.go and
    decimals.go.  Shown: the square-root price of every tick of the protocol range is defined and
    within the protocol bounds, it is the real number \<open>sqrt (1.0001 ^ tick)\<close> up to a stated error
    and strictly increasing, and from \<open>2 ^ 21\<close> on the code divides by zero; the three branches of
    \<open>GetAmountsForLiq\<close> are one formula over the clamped price, monotone in the price, with the
    rounding error bounded.
  \<^item> \<open>Ethereum\<close> - the parameter \<open>eth\<close> for go-ethereum's \<open>common\<close> and \<open>accounts/abi\<close>, its documented laws
    (\<open>common_lawful\<close>, \<open>abi_lawful\<close>) and an instance \<open>ref_eth\<close> that satisfies them.
  \<^item> \<open>Events\<close> - src/lib/events: the structs and the fourteen unpackers of ERC20, Thirdweb, Leo and
    Seawater.  Shown: decoding inverts what the contracts emit (with the bit packing of Leo written
    out from pkg/leo), no unpacker panics, identifiers from \<open>2 ^ 63\<close> on are errors, a genuine
    \<open>CampaignUpdated\<close> is always rejected and campaign identifiers lose three bytes.
  \<^item> \<open>Runtime\<close> - src/lib/config, features, heartbeat and setup.  Shown: a configuration is complete or
    the process ends, flags are exactly the comma-separated names, attributes bound to a logger are
    lost.
  \<^item> \<open>Ingestor\<close>, \<open>Ingestion\<close>, \<open>CatchUp\<close> - the ingestor, operation by operation, and as a transition
    system with the chain.  Shown: exactly-once and in-order ingestion under every interleaving of
    blocks, polls and restarts (each of which draws a new page size), only the configured contracts
    reach their tables, and polling reaches the end of a chain without empty pages in a bounded number
    of polls; a gap as long as the largest page stops the service for good, as does a log it cannot
    decode.
  \<^item> \<open>Snapshot\<close>, \<open>Requests\<close>, \<open>Snapshots\<close> - the snapshot.  \<open>reqPositions\<close> is a step relation over the
    batch workers and their three channels.  Shown: with a node that answers every request each
    schedule ends with every answer once (a measure decreases at each step and no state before the
    end is stuck), and with a reply that leaves one out it never returns; the stored arrays
    are exactly one entry per response with a nonzero amount; keys of positions round trip.
    \<open>SnapshotServed\<close> - a reader for the SQL text, which finds the stored columns again, and the
    composition with the graph.
  \<^item> \<open>Faucet\<close> - the resolver, its filters, the middleware, start-up and sending.  Shown: served one
    after the other, no two accepted requests of a wallet text or client fall into one window, tokens
    are only promised after every check; two concurrent requests can both be accepted, and so can two
    spellings of one address.
  \<^item> \<open>GraphModel\<close> - the records of graph/model, constants, lib/erc20, \<open>main.go\<close>, and the world the
    resolvers run in (database, clock, random source).  \<open>GraphMocks\<close> - graph/mocked.go.
    \<open>QueryResolvers\<close>, \<open>PoolResolvers\<close>, \<open>PositionResolvers\<close> - graph/schema.resolvers.go, one definition
    per resolver method, named \<open><receiver>_<method>\<close>, with the statements they build as data.
  \<^item> \<open>Store\<close> - what the resolvers rely on of the database, as predicates on the \<open>gorm\<close> parameter, with an
    in-memory store that satisfies them: \<open>Scan\<close> leaves a slice nil when there is no row, and rows come
    in no particular order unless one is asked for.  \<open>Pages\<close>, \<open>PageBounds\<close> - walking through the positions ends,
    shows no row twice, newest first, and all of them when no two share a second (rows that share the
    second of a page's last row are skipped, also proved); pages are bounded unless a negative size
    is asked for; one of the six statements does not type check in the database once it has a cursor.
    \<open>GraphValues\<close> - the token cache, prices against \<open>1.0001 ^ tick\<close>, the traded volume valued over time,
    the tenfold value of fUSDC, the made-up liquidity, and the swapped sides of pairs.
    \<open>GraphSafety\<close> - triples over the effects of a resolver; with a database and a node that report
    their failures thirty-five resolvers never panic, and others do so exactly when stated, the
    eleven unimplemented ones always.
  \<^item> \<open>GraphqlExec\<close>, \<open>GraphFields\<close>, \<open>GraphAnswer\<close> - graph/generated.go: how a field, an array and an object
    are answered; one definition per field, per object and per list of arguments; the schema
    (schema.graphqls), translated on its own, with a predicate that says when data fits it.  Shown:
    every valid query is answered with data that fits, or with null and an error, every error carries
    the path of a field that was asked for or of an argument given to one, the positions of a wallet
    are listed in full, and a field that is not implemented costs the client the whole reply.
    \<open>FaucetExec\<close> - the same for the faucet, whose mutations run field by field.  Shown: several requests in one document keep the window, and
    there is data exactly when all were accepted.
  \<^item> \<open>SelectorMine\<close> - the tool, with its goroutines as a step relation.  Shown: what it prints has the
    wanted hash, and it only crashes on arguments it cannot use or a signature without a parenthesis.
  \<^item> this theory - the smart accounts a reply lists are those announced on the chain, in any order.

  \<^bold>\<open>Locales.\<close>  \<open>normaliser\<close> (lower-casing; interpreted on text, addresses, hashes, data), \<open>text_codec\<close> and
  \<open>radix\<close> (printing and parsing; decimal, hexadecimal, position keys), \<open>invariant_system\<close> (the ingestor,
  its stall, the concurrent requests, their hanging, the selector tool), \<open>position_pager\<close> (the two
  \<open>Next\<close> resolvers).

  \<^bold>\<open>Bounds and fuel.\<close>  Loops over data are structural recursion.  The loop of \<open>GetSqrtRatioAtTick\<close> runs
  once per bit of the tick; the loop of \<open>MockLiquidity\<close> ends by a measure, after 355 buckets.  The walk
  through pages takes fuel; as many pages as there are rows, and one, are proved to be enough.  The
  service loops \<open>for { ... }\<close> (polling, heartbeats) are modelled by their bodies and, for the ingestor,
  by the step relation and by a number of polls, which is proved to be enough to catch up.  Answering
  a query ends by the size of its selections.

  \<^bold>\<open>Assumptions.\<close>  The laws of \<open>eth\<close> and of the database are hypotheses of the theorems that need them.
  The chain is not reorganised: blocks are only appended.  Rows do not change between two queries of
  one resolver call, the clock only moves through the sleeps of the code and the random source does
  not fail.  Between the resolvers of one query nothing is assumed: each finds the world it finds
  (\<open>ec_at\<close>), so every interleaving is covered.

  \<^bold>\<open>Not modelled.\<close>  Of the output of gqlgen: \<open>@defer\<close>, the table of complexities and the child contexts,
  which only its library reads, the objects of introspection, whose two fields answer with a
  parameter, the one-line constructors of the resolver objects, and the library itself (parsing,
  validation and merging of selections), so that a query is a list of collected fields.  Further: the
  delivery of log records to Sentry; the range of \<open>time.Unix\<close>, whose seconds are unbounded here; SQL
  migrations and views, the Rust and Solidity contracts and the web application, which are not Go.  Of pkg/leo only
  the packing of event words is modelled, for the round trips.  Every other function of the Go
  services and of the tool has a definition here.

  \<^bold>\<open>Next.\<close>  Pages of swaps along the same lines as pages of positions, the random data as ranges, and
  introspection.
\<close>

section \<open>From the chain to an answer\<close>

text \<open>The ingestor and the GraphQL service only meet in the database.  The account events among the
  rows the ingestor has written are what the service finds in
  \<open>events_thirdweb_accountcreated\<close>.\<close>

fun account_row :: "string \<times> row \<Rightarrow> AccountCreated list" where
  "account_row (table, RAccountCreated a) =
     (if table = ''events_thirdweb_accountcreated'' then [a] else [])"
| "account_row _ = []"

definition account_rows :: "(string \<times> row) list \<Rightarrow> AccountCreated list" where
  "account_rows rows = concat (map account_row rows)"

lemma account_rows_simps [simp]:
  "account_rows [] = []" "account_rows (r # rs) = account_row r @ account_rows rs"
  "account_rows (rs @ rs') = account_rows rs @ account_rows rs'"
  by (simp_all add: account_rows_def)

text \<open>A log that announces an account of a wallet, and the account it announces.\<close>

definition announces :: "eth \<Rightarrow> addrs \<Rightarrow> Address \<Rightarrow> Log \<Rightarrow> bool" where
  "announces E A wallet l \<longleftrightarrow>
     log_Address l = thirdwebAddr A \<and> idx (log_Topics l) 0 = Ok (TopicAccountCreated E) \<and>
     thirdweb_hashToAddr E (topic_or_zero (log_Topics l) 2) = wallet"

definition announced :: "eth \<Rightarrow> Log \<Rightarrow> Wallet" where
  "announced E l = \<lparr>wal_Address = thirdweb_hashToAddr E (topic_or_zero (log_Topics l) 1)\<rparr>"

text \<open>Any other topic is unpacked into another kind of row.\<close>

lemma unpackLog_account:
  assumes "topics_distinct E" "unpackLog E t0 t1 t2 t3 d = Ok (a, table, who)"
  shows "if t0 = TopicAccountCreated E
    then table = ''events_thirdweb_accountcreated'' \<and> who = FromThirdweb \<and>
      a = RAccountCreated (zero_event (AccountCreated.fields (thirdweb_hashToAddr E t1)
        (thirdweb_hashToAddr E t2)))
    else \<forall>v. a \<noteq> RAccountCreated v"
proof -
  have "TopicTransfer E \<noteq> TopicAccountCreated E"
    using assms(1) by (auto simp: topics_distinct_def FilterTopics_def)
  with assms(2) show ?thesis unfolding unpackLog_def
    by (auto simp: as_row_eq_Ok UnpackAccountCreated_def Let_def split: if_splits)
qed

lemma account_row_other:
  "\<forall>v. a \<noteq> RAccountCreated v \<Longrightarrow> account_row (table, setEventFields a h t n e) = []"
  by (cases a) auto

text \<open>What one log contributes to the answer.\<close>

lemma log_rows_announced:
  assumes "topics_distinct E" "log_rows E A l = Ok rs"
  shows "map (\<lambda>a. \<lparr>wal_Address = ac_Account a\<rparr>)
      (filter (\<lambda>a. ac_AccountAdmin a = wallet) (account_rows rs)) =
    (if announces E A wallet l then [announced E l] else [])"
proof -
  obtain t0 a table who where t0: "idx (log_Topics l) 0 = Ok t0"
    and u: "unpackLog E t0 (topic_or_zero (log_Topics l) 1) (topic_or_zero (log_Topics l) 2)
      (topic_or_zero (log_Topics l) 3) (log_Data l) = Ok (a, table, who)"
    using assms(2) by (auto simp: log_rows_def handleLogCallback_def Let_def)
  note src = unpackLog_source [OF u] and acc = unpackLog_account [OF assms(1) u]
  show ?thesis
  proof (cases "t0 = TopicAccountCreated E")
    case True
    with acc assms(2) t0 u show ?thesis
      by (auto simp: log_rows_def handleLogCallback_def Let_def announces_def announced_def
          set_fields_def zero_event_def AccountCreated.defs Event.defs split: if_splits)
  next
    case False
    with acc have "\<forall>v. a \<noteq> RAccountCreated v" by simp
    with assms(2) t0 u have "account_rows rs = []"
      by (auto simp: log_rows_def handleLogCallback_def Let_def account_row_other split: if_splits)
    with t0 False show ?thesis by (simp add: announces_def)
  qed
qed

lemma rows_announced:
  assumes "topics_distinct E" "mapRes (log_rows E A) logs = Ok rss"
  shows "map (\<lambda>a. \<lparr>wal_Address = ac_Account a\<rparr>)
      (filter (\<lambda>a. ac_AccountAdmin a = wallet) (account_rows (concat rss))) =
    map (announced E) (filter (announces E A wallet) logs)"
  using assms(2)
proof (induction logs arbitrary: rss)
  case (Cons l logs)
  then obtain rs rss' where "log_rows E A l = Ok rs" "mapRes (log_rows E A) logs = Ok rss'"
    "rss = rs # rss'" by auto
  with Cons.IH log_rows_announced [OF assms(1)] show ?case by simp
qed simp

text \<open>A rearrangement of an image is the image of a rearrangement.\<close>

lemma mset_map_lift: "mset xs = mset (map g ls) \<Longrightarrow> \<exists>ms. mset ms = mset ls \<and> xs = map g ms"
proof (induction xs arbitrary: ls)
  case (Cons x xs)
  then obtain l where l: "l \<in> set ls" "x = g l"
    by (metis image_iff list.set_intros(1) list.set_map mset_eq_setD)
  have "mset xs = mset (map g ls) - {#x#}" using Cons.prems by (metis add_mset_remove_trivial mset.simps(2))
  then have "mset xs = mset (map g (remove1 l ls))" using l by (simp add: image_mset_Diff)
  then obtain ms where "mset ms = mset (remove1 l ls)" "xs = map g ms" using Cons.IH by blast
  then show ?case using l by (intro exI [of _ "l # ms"]) simp
qed simp

text \<open>Whatever blocks, polls and restarts came before, the resolver lists the announced accounts.\<close>

lemma smart_accounts_listed:
  assumes reach: "reach (ingest_init G rows ckpt [] c0) (ingest_step E A G P) iw"
    and topics: "topics_distinct E"
    and law: "accounts_lawful (r_DB r) accounts"
    and shared: "mset (accounts (w_db w)) = mset (account_rows (rows (sys_db iw)))"
    and "wallet \<noteq> []"
  obtains ls where
    "mset ls = mset (filter (announces E A wallet) (window E c0 (ckpt (sys_db iw)) (sys_chain iw)))"
    "queryResolver_GetSmartAccount r wallet w = (Ok (map (announced E) ls), w)"
proof -
  let ?shown = "\<lambda>a. \<lparr>wal_Address = ac_Account a\<rparr>" and ?mine = "\<lambda>a. ac_AccountAdmin a = wallet"
  let ?logs = "filter (announces E A wallet) (window E c0 (ckpt (sys_db iw)) (sys_chain iw))"
  obtain rss where "mapRes (log_rows E A) (window E c0 (ckpt (sys_db iw)) (sys_chain iw)) = Ok rss"
    "rows (sys_db iw) = concat rss"
    using ingestor.reach_inv [OF reach] by (auto simp: ingest_inv_def ingested_def)
  then have written: "map ?shown (filter ?mine (account_rows (rows (sys_db iw)))) = map (announced E) ?logs"
    using rows_announced [OF topics] by simp
  obtain found where found: "queryResolver_GetSmartAccount r wallet w = (Ok (map ?shown found), w)"
    "mset found = mset (filter ?mine (accounts (w_db w)))"
    by (rule GetSmartAccount_exact [OF law \<open>wallet \<noteq> []\<close>])
  from found(2) shared have "mset found = mset (filter ?mine (account_rows (rows (sys_db iw))))" by simp
  then have "mset (map ?shown found) = mset (map (announced E) ?logs)"
    unfolding written [symmetric] by simp
  then obtain ls where "mset ls = mset ?logs" "map ?shown found = map (announced E) ls"
    using mset_map_lift by blast
  with found(1) show thesis by (intro that) simp_all
qed

lemma announces_lower: "AddressFromString wallet \<noteq> wallet \<Longrightarrow> filter (announces E A wallet) logs = []"
  by (auto simp: filter_empty_conv announces_def thirdweb_hashToAddr_def AddressFromString_def Let_def)

lemma announced_lower: "Address_String (wal_Address (announced E l)) = wal_Address (announced E l)"
  by (simp add: announced_def thirdweb_hashToAddr_def Let_def)

text \<open>C5. From the chain to the reply: whatever blocks, polls and restarts came before, when the
  GraphQL service reads the rows the ingestor wrote, the reply to a query for the smart accounts of
  a wallet lists those announced for that wallet by the configured factory in the blocks ingested so
  far, once for each announcement, in the order the database chooses, and no errors.  Since both components of an
  announcement are stored in lower case, the list is empty for a wallet that is not written in lower
  case, as the checksummed form of an address is not.\<close>

theorem smart_accounts_of_chain:
  assumes reach: "reach (ingest_init G rows ckpt [] c0) (ingest_step E A G P) iw"
    and topics: "topics_distinct E"
    and law: "accounts_lawful (r_DB (ec_resolvers X)) accounts"
    and shared: "mset (accounts (w_db (ec_at X [PathName name]))) = mset (account_rows (rows (sys_db iw)))"
    and args: "field_Query_getSmartAccount_args (ec_gql X) [PathName name] args = Inr wallet"
    and "wallet \<noteq> []"
  shows "\<exists>ls. mset ls = mset (filter (announces E A wallet) (window E c0 (ckpt (sys_db iw)) (sys_chain iw))) \<and>
    graphql_Exec X Query [Selection name ''getSmartAccount'' args [Selection key ''address'' as []]] =
      (Ok (JObject [(name, JArray (map (\<lambda>l. JObject [(key, JText (wal_Address (announced E l)))]) ls))]), []) \<and>
    (AddressFromString wallet \<noteq> wallet \<longrightarrow> ls = [])"
proof -
  obtain ls where ls:
    "mset ls = mset (filter (announces E A wallet) (window E c0 (ckpt (sys_db iw)) (sys_chain iw)))"
    and listed: "queryResolver_GetSmartAccount (ec_resolvers X) wallet (ec_at X [PathName name]) =
      (Ok (map (announced E) ls), ec_at X [PathName name])"
    by (rule smart_accounts_listed [OF reach topics law shared \<open>wallet \<noteq> []\<close>])
  have "AddressFromString wallet \<noteq> wallet \<longrightarrow> ls = []"
    using ls announces_lower [of wallet E A] by (metis mset_zero_iff mset.simps(1))
  moreover have "graphql_Exec X Query [Selection name ''getSmartAccount'' args [Selection key ''address'' as []]] =
      (Ok (JObject [(name, JArray (map (\<lambda>l. JObject [(key, JText (wal_Address (announced E l)))]) ls))]), [])"
    using smart_accounts_answer [where as = as and key = key, OF args] listed
    by (simp add: resolved_def comp_def announced_lower)
  ultimately show ?thesis using ls by blast
qed

definition account_log :: Log where
  "account_log = \<lparr>log_Address = 4, log_Topics = [TopicAccountCreated ref_eth, 8, 10],
     log_Data = [], log_BlockNumber = 5, log_TxHash = 1, log_BlockHash = 2\<rparr>"

definition account_created :: AccountCreated where
  "account_created = set_fields (hash_text 2) (hash_text 1) 5 (addr_text 4)
     (zero_event (AccountCreated.fields (addr_text 8) (addr_text 10)))"

lemma account_log_rows:
  "log_rows ref_eth demo_addrs account_log =
     Ok [(''events_thirdweb_accountcreated'', RAccountCreated account_created)]"
  by (simp add: log_rows_def handleLogCallback_def account_log_def unpackLog_def topic_defs
      ref_topics_def topic_or_zero_def as_row_def demo_addrs_def account_created_def Let_def
      UnpackAccountCreated_def hashToAddr_topic [OF ref_eth_common])
    (simp add: ref_eth_def)

lemma account_poll:
  "poll_once ref_eth demo_addrs mem_gorm 1000 0 (chain_client [account_log]) ([], 0) =
     Ok ([(''events_thirdweb_accountcreated'', RAccountCreated account_created)], 5)"
proof -
  have "chain_client [account_log] 1 1000 (FilterTopics ref_eth) = Ok [account_log]"
    by (simp add: chain_client_def account_log_def wanted_def FilterTopics_def)
  moreover have "json_Encode (RAccountCreated account_created) = Ok ()"
    by (simp add: json_Encode_def account_created_def set_fields_def zero_event_def
        json_time_ok_def zero_time_def Unix_def Event.defs AccountCreated.defs)
  ultimately show ?thesis
    by (simp add: poll_once_def getLastBlockCheckpointed_def IngestBlockRange_def
        ingest_transaction_def ingest_log_def handleLog_def handleLogCallback_rows account_log_rows
        databaseInsertLog_def updateCheckpoint_def mem_gorm_def Let_def)
       (simp add: account_log_def)
qed

definition account_query :: "string \<Rightarrow> selection list" where
  "account_query wallet =
    [Selection ''accounts'' ''getSmartAccount'' [(''wallet'', VText wallet)] [leaf ''address'']]"

theorem smart_accounts_of_chain_witness:
  "\<exists>iw (X :: store ec). reach (ingest_init mem_gorm fst snd [] 0) (ingest_step ref_eth demo_addrs mem_gorm ingestor_pages) iw \<and>
     store_accounts (w_db (ec_at X [PathName ''accounts''])) = account_rows (fst (sys_db iw)) \<and>
     graphql_Exec X Query (account_query (addr_text 10)) =
       (Ok (JObject [(''accounts'', JArray [JObject [(''address'', JText (addr_text 8))]])]), []) \<and>
     graphql_Exec X Query (account_query ''0xA'') = (Ok (JObject [(''accounts'', JArray [])]), [])"
proof -
  let ?iw = "\<lparr>sys_head = 6, sys_chain = [account_log], sys_db = ([], 0), sys_page = 1000\<rparr> :: mem_db system"
  let ?iw' = "?iw\<lparr>sys_db := ([(''events_thirdweb_accountcreated'', RAccountCreated account_created)], 5)\<rparr>"
  let ?X = "(demo_ec [])\<lparr>ec_at := (\<lambda>p. demo_world \<lparr>store_positions = [], store_cache = Map.empty,
      store_accounts = account_rows (fst (sys_db ?iw'))\<rparr>)\<rparr>"
  have "ingest_init mem_gorm fst snd [] 0 ?iw"
    by (simp add: ingest_init_def mem_gorm_lawful account_log_def)
  moreover have "ingest_step ref_eth demo_addrs mem_gorm ingestor_pages ?iw ?iw'"
    using ingest_step.poll [of "chain_client [account_log]" ?iw] account_poll chain_client_serves
    by simp
  ultimately have r: "reach (ingest_init mem_gorm fst snd [] 0)
      (ingest_step ref_eth demo_addrs mem_gorm ingestor_pages) ?iw'"
    by (blast intro: reach.intros)
  have law: "accounts_lawful (r_DB (ec_resolvers ?X)) store_accounts"
    by (simp add: demo_ec_def store_accounts_lawful)
  have shared: "store_accounts (w_db (ec_at ?X [PathName ''accounts''])) = account_rows (fst (sys_db ?iw'))"
    by (simp add: demo_world_def)
  have args: "field_Query_getSmartAccount_args (ec_gql ?X) [PathName ''accounts''] [(''wallet'', VText t)] = Inr t" for t
    by (simp add: demo_ec_def demo_gqlgen_def field_Query_getSmartAccount_args_def unmarshal_defs)
  note reply = smart_accounts_of_chain [OF r ref_topics_distinct law arg_cong [OF shared] args]
  have log: "filter (announces ref_eth demo_addrs (addr_text 10)) (window ref_eth 0 5 [account_log]) =
      [account_log]"
    by (simp add: window_def wanted_def FilterTopics_def announces_def account_log_def
        demo_addrs_def topic_or_zero_def hashToAddr_topic [OF ref_eth_common] idx_def)
  have account: "wal_Address (announced ref_eth account_log) = addr_text 8"
    by (simp add: announced_def account_log_def topic_or_zero_def
        hashToAddr_topic [OF ref_eth_common])
  have "addr_text 10 \<noteq> []" by (simp add: addr_text_def)
  from reply [OF this, of "''address''" "[]"]
  have "graphql_Exec ?X Query (account_query (addr_text 10)) =
      (Ok (JObject [(''accounts'', JArray [JObject [(''address'', JText (addr_text 8))]])]), [])"
    by (auto simp: log account account_query_def leaf_def)
  moreover have "AddressFromString ''0xA'' \<noteq> ''0xA''" by code_simp
  with reply [of "''0xA''" "''address''" "[]"]
  have "graphql_Exec ?X Query (account_query ''0xA'') = (Ok (JObject [(''accounts'', JArray [])]), [])"
    unfolding account_query_def leaf_def by auto
  ultimately show ?thesis using r shared by (intro exI [of _ ?iw'] exI [of _ ?X] conjI)
qed

end
